(* ===== verification/Prelude.thy ===== *)
theory Prelude
  imports Main
begin

text \<open>
  Generic material shared by every component of the development: the collections of
  rewrite rules the component proofs use, and lemmas on lists, association lists, maps and
  digits that do not mention the program.
\<close>

named_theorems go_simps \<open>evaluation of the outcome monad\<close>
named_theorems go_defs \<open>definitions of the program's operations, unfolded by symbolic execution\<close>
named_theorems sql_simps \<open>evaluation of the SQL statements on encoded tables\<close>

section \<open>Lists\<close>

lemma length_eq_Suc_conv [simp]: "length xs = Suc n \<longleftrightarrow> (\<exists>y ys. xs = y # ys \<and> length ys = n)"
  by (cases xs) auto

lemma filter_map_distinct_unique:
  assumes "distinct (map f xs)" and "x \<in> set xs"
  shows "filter (\<lambda>y. f y = f x) xs = [x]"
  using assms
proof (induction xs)
  case Nil
  then show ?case by simp
next
  case (Cons y ys)
  show ?case
  proof (cases "x = y")
    case True
    with Cons.prems(1) have "\<forall>z \<in> set ys. f z \<noteq> f y" by (auto simp: image_iff)
    with True show ?thesis by (simp add: filter_empty_conv)
  next
    case False
    with Cons.prems have "x \<in> set ys" "f y \<noteq> f x" "distinct (map f ys)"
      by (auto simp: image_iff)
    with Cons.IH show ?thesis by simp
  qed
qed

lemma filter_by_key_distinct:
  assumes "distinct (map f xs)"
  shows "filter (\<lambda>y. f y = k) xs = [] \<or> (\<exists>x \<in> set xs. f x = k \<and> filter (\<lambda>y. f y = k) xs = [x])"
proof (cases "\<exists>x \<in> set xs. f x = k")
  case True
  then obtain x where "x \<in> set xs" "f x = k" by blast
  with assms show ?thesis using filter_map_distinct_unique [of f xs x] by auto
next
  case False
  then show ?thesis by (simp add: filter_empty_conv)
qed

lemma distinct_map_filter_imp: "distinct (map f xs) \<Longrightarrow> distinct (map f (filter p xs))"
  by (induction xs) auto

lemma map_filter_ConsD: "map f (filter p xs) = y # ys \<Longrightarrow> \<exists>x \<in> set xs. p x \<and> y = f x"
  by (auto simp: map_eq_Cons_conv dest: filter_eq_ConsD)

lemma image_mem_iff: "a \<in> f ` set xs \<longleftrightarrow> (\<exists>x \<in> set xs. f x = a)"
  by auto

lemma map_idI_cond: "(\<And>x. x \<in> set xs \<Longrightarrow> f x = x) \<Longrightarrow> map f xs = xs"
  by (induction xs) auto

section \<open>Association lists as finite maps\<close>

lemma map_of_map_key:
  assumes "\<And>x y. x \<in> set xs \<Longrightarrow> y \<in> set xs \<Longrightarrow> k x = k y \<Longrightarrow> x = y"
  shows "map_of (map (\<lambda>x. (k x, v x)) xs) a = Some b \<longleftrightarrow> (\<exists>x \<in> set xs. k x = a \<and> v x = b)"
proof
  assume "map_of (map (\<lambda>x. (k x, v x)) xs) a = Some b"
  then show "\<exists>x \<in> set xs. k x = a \<and> v x = b"
    by (auto dest!: map_of_SomeD)
next
  assume "\<exists>x \<in> set xs. k x = a \<and> v x = b"
  with assms show "map_of (map (\<lambda>x. (k x, v x)) xs) a = Some b"
    by (induction xs) auto
qed

lemma map_of_map_key_None:
  "map_of (map (\<lambda>x. (k x, v x)) xs) a = None \<longleftrightarrow> (\<forall>x \<in> set xs. k x \<noteq> a)"
  by (induction xs) auto

lemma map_of_append_key:
  "k x \<notin> k ` set xs \<Longrightarrow>
   map_of (map (\<lambda>x. (k x, v x)) (xs @ [x])) = (map_of (map (\<lambda>x. (k x, v x)) xs))(k x \<mapsto> v x)"
  by (induction xs) (auto simp: fun_upd_twist)

lemma distinct_map_inj:
  "distinct (map k xs) \<Longrightarrow> x \<in> set xs \<Longrightarrow> y \<in> set xs \<Longrightarrow> k x = k y \<Longrightarrow> x = y"
  by (auto simp: distinct_map dest: inj_onD)

lemma map_of_filter_key:
  assumes "distinct (map k xs)"
  shows "map_of (map (\<lambda>x. (k x, v x)) (filter p xs)) a =
    (case filter (\<lambda>x. k x = a) xs of [] \<Rightarrow> None | x # _ \<Rightarrow> if p x then Some (v x) else None)"
  using assms
proof (induction xs)
  case Nil
  then show ?case by simp
next
  case (Cons x xs)
  show ?case
  proof (cases "k x = a")
    case True
    with Cons.prems have "\<forall>y \<in> set xs. k y \<noteq> a" by (auto simp: image_iff)
    then have "map_of (map (\<lambda>x. (k x, v x)) (filter p xs)) a = None"
      by (simp add: map_of_map_key_None)
    with True show ?thesis by simp
  next
    case False
    with Cons show ?thesis by simp
  qed
qed

end
