(* ===== verification/Go_Errors.thy ===== *)
theory Go_Errors
  imports Prelude
begin

text \<open>
  Go's error values and the control flow of functions that return \<open>(T, error)\<close>.

  An error is a chain: \<open>errors.New\<close> makes an anonymous error, a package-level \<open>var ErrX\<close>
  is a sentinel that \<open>errors.Is\<close> recognises, \<open>fmt.Errorf("p: %w", err)\<close> wraps. An error
  value made by a library, a driver or a service is \<open>ExtError\<close> with its text.
  A call that touches state is a function from the state to an outcome and the new state;
  \<open>go_try m h k\<close> is Go's
  \<^verbatim>\<open>v, err := m(); if err != nil { return h(err) }; k(v)\<close>.
  A panic is an outcome of its own: no error branch catches it.
\<close>

section \<open>Error values\<close>

datatype sentinel =
    ErrTokenExpired | ErrTokenInvalid | ErrTokenMalformed | ErrTokenRevoked
  | ErrInvalidUserID | ErrInvalidSigningMethod
  | ErrSessionNotFound | ErrUserNotFound
  | SqlErrNoRows | SqlErrTxDone | RedisNil | HttpErrNoCookie | HttpErrServerClosed
  | ContextCanceled

text \<open>The message of an \<open>*echo.HTTPError\<close> has type \<open>interface{}\<close>: a string or not.\<close>

datatype http_message = StringMessage string | OtherMessage

datatype gerror =
    ErrorsNew string
  | Sentinel sentinel
  | Errorf string gerror
  | Errorf2 gerror string gerror
  | HTTPError int http_message
  | ExtError string

text \<open>\<open>errors.Is(err, target)\<close> for a sentinel target: some error of the chain is the target.\<close>

fun errors_Is :: "gerror \<Rightarrow> sentinel \<Rightarrow> bool" where
  "errors_Is (Sentinel s) t = (s = t)"
| "errors_Is (Errorf _ e) t = errors_Is e t"
| "errors_Is (Errorf2 e _ e') t = (errors_Is e t \<or> errors_Is e' t)"
| "errors_Is _ t = False"

text \<open>\<open>errors.As(err, &he)\<close> for \<open>he *echo.HTTPError\<close>: the first one in the chain.\<close>

fun errors_As_HTTPError :: "gerror \<Rightarrow> (int \<times> http_message) option" where
  "errors_As_HTTPError (HTTPError c m) = Some (c, m)"
| "errors_As_HTTPError (Errorf _ e) = errors_As_HTTPError e"
| "errors_As_HTTPError (Errorf2 e _ e') =
     (case errors_As_HTTPError e of Some h \<Rightarrow> Some h | None \<Rightarrow> errors_As_HTTPError e')"
| "errors_As_HTTPError _ = None"

section \<open>Outcomes and the control flow of a call\<close>

datatype 'a outcome = Ok 'a | Err gerror | Panic string

type_synonym ('s, 'a) go = "'s \<Rightarrow> 'a outcome \<times> 's"

definition go_ret :: "'a \<Rightarrow> ('s, 'a) go" where
  "go_ret v s = (Ok v, s)"

definition go_fail :: "gerror \<Rightarrow> ('s, 'a) go" where
  "go_fail e s = (Err e, s)"

definition go_panic :: "string \<Rightarrow> ('s, 'a) go" where
  "go_panic p s = (Panic p, s)"

definition go_pure :: "'a outcome \<Rightarrow> ('s, 'a) go" where
  "go_pure r s = (r, s)"

definition go_try ::
  "('s, 'a) go \<Rightarrow> (gerror \<Rightarrow> ('s, 'b) go) \<Rightarrow> ('a \<Rightarrow> ('s, 'b) go) \<Rightarrow> ('s, 'b) go" where
  "go_try m h k s =
     (case m s of
        (Ok v, s') \<Rightarrow> k v s'
      | (Err e, s') \<Rightarrow> h e s'
      | (Panic p, s') \<Rightarrow> (Panic p, s'))"

text \<open>The most common error branch: \<open>return ..., fmt.Errorf("p: %w", err)\<close>.\<close>

definition go_wrap :: "string \<Rightarrow> gerror \<Rightarrow> ('s, 'a) go" where
  "go_wrap p e = go_fail (Errorf p e)"

text \<open>\<open>defer cleanup()\<close>: runs after the body on every path; its own result is dropped.\<close>

definition go_defer :: "('s, unit) go \<Rightarrow> ('s, 'a) go \<Rightarrow> ('s, 'a) go" where
  "go_defer cleanup m s = (case m s of (r, s') \<Rightarrow> (r, snd (cleanup s')))"

text \<open>The same flow without state.\<close>

definition try_pure :: "'a outcome \<Rightarrow> (gerror \<Rightarrow> 'b outcome) \<Rightarrow> ('a \<Rightarrow> 'b outcome) \<Rightarrow> 'b outcome" where
  "try_pure m h k = (case m of Ok v \<Rightarrow> k v | Err e \<Rightarrow> h e | Panic p \<Rightarrow> Panic p)"

text \<open>
  What happens to a call of a remote provider: it succeeds, fails before it has an effect, or
  takes effect and its answer is lost. The string is the text of the error.
\<close>

datatype fault = NoFault | FailBefore string | FailAfter string

section \<open>Evaluation rules\<close>

lemma go_ret_eq [go_simps, simp]: "go_ret v s = (Ok v, s)"
  by (simp add: go_ret_def)

lemma go_fail_eq [go_simps, simp]: "go_fail e s = (Err e, s)"
  by (simp add: go_fail_def)

lemma go_panic_eq [go_simps, simp]: "go_panic p s = (Panic p, s)"
  by (simp add: go_panic_def)

lemma go_pure_eq [go_simps, simp]: "go_pure r s = (r, s)"
  by (simp add: go_pure_def)

lemma go_wrap_eq [go_simps, simp]: "go_wrap p e s = (Err (Errorf p e), s)"
  by (simp add: go_wrap_def)

lemma go_try_Ok [go_simps]: "m s = (Ok v, s') \<Longrightarrow> go_try m h k s = k v s'"
  by (simp add: go_try_def)

lemma go_try_Err [go_simps]: "m s = (Err e, s') \<Longrightarrow> go_try m h k s = h e s'"
  by (simp add: go_try_def)

lemma go_try_Panic [go_simps]: "m s = (Panic p, s') \<Longrightarrow> go_try m h k s = (Panic p, s')"
  by (simp add: go_try_def)

lemma go_try_ret [simp]: "go_try (go_ret v) h k = k v"
  by (rule ext) (simp add: go_try_def)

lemma go_try_pure_Ok [simp]: "go_try (go_pure (Ok v)) h k = k v"
  by (rule ext) (simp add: go_try_def)

lemma go_try_pure_Err [simp]: "go_try (go_pure (Err e)) h k = h e"
  by (rule ext) (simp add: go_try_def)

lemma go_defer_eq [go_simps]: "m s = (r, s') \<Longrightarrow> go_defer c m s = (r, snd (c s'))"
  by (simp add: go_defer_def)

lemma try_pure_simps [simp]:
  "try_pure (Ok v) h k = k v"
  "try_pure (Err e) h k = h e"
  "try_pure (Panic p) h k = Panic p"
  by (simp_all add: try_pure_def)

text \<open>Inversion: where a result of \<open>go_try\<close> came from.\<close>

lemma go_try_cases:
  assumes "go_try m h k s = (r, t)"
  obtains (Ok) v s' where "m s = (Ok v, s')" and "k v s' = (r, t)"
  | (Err) e s' where "m s = (Err e, s')" and "h e s' = (r, t)"
  | (Panic) p where "m s = (Panic p, t)" and "r = Panic p"
  using assms unfolding go_try_def by (auto split: outcome.splits prod.splits)

lemma go_try_fail_Ok_iff:
  assumes "\<And>e s. \<exists>e'. fst (h e s) = Err e'"
  shows "go_try m h k s = (Ok b, t) \<longleftrightarrow> (\<exists>v s'. m s = (Ok v, s') \<and> k v s' = (Ok b, t))"
proof
  assume run: "go_try m h k s = (Ok b, t)"
  then show "\<exists>v s'. m s = (Ok v, s') \<and> k v s' = (Ok b, t)"
  proof (cases rule: go_try_cases)
    case (Err e s')
    with assms [of e s'] show ?thesis by auto
  qed auto
qed (auto simp: go_try_def)

lemma go_try_wrap_Ok [simp]:
  "go_try m (go_wrap p) k s = (Ok b, t) \<longleftrightarrow> (\<exists>v s'. m s = (Ok v, s') \<and> k v s' = (Ok b, t))"
  by (rule go_try_fail_Ok_iff) simp

lemma go_try_go_fail_Ok [simp]:
  "go_try m go_fail k s = (Ok b, t) \<longleftrightarrow> (\<exists>v s'. m s = (Ok v, s') \<and> k v s' = (Ok b, t))"
  by (rule go_try_fail_Ok_iff) simp

lemma go_try_const_fail_Ok [simp]:
  "go_try m (\<lambda>e. go_fail (f e)) k s = (Ok b, t) \<longleftrightarrow>
     (\<exists>v s'. m s = (Ok v, s') \<and> k v s' = (Ok b, t))"
  by (rule go_try_fail_Ok_iff) simp

lemma errors_Is_HTTPError [simp]: "errors_Is (HTTPError c m) t = False"
  by simp

end
