(* ===== verification/Go_Strings.thy ===== *)
theory Go_Strings
  imports Go_Errors
begin

text \<open>
  The functions of Go's \<open>strings\<close> and \<open>strconv\<close> packages the program calls. A Go string
  is a sequence of bytes and so is a HOL \<open>string\<close>: a \<open>char\<close> is a byte.
\<close>

section \<open>Package strings\<close>

fun strings_Split :: "char \<Rightarrow> string \<Rightarrow> string list" where
  "strings_Split c [] = [[]]"
| "strings_Split c (x # xs) =
     (if x = c then [] # strings_Split c xs
      else (case strings_Split c xs of [] \<Rightarrow> [[x]] | p # ps \<Rightarrow> (x # p) # ps))"

definition strings_HasPrefix :: "string \<Rightarrow> string \<Rightarrow> bool" where
  "strings_HasPrefix s p \<longleftrightarrow> length p \<le> length s \<and> take (length p) s = p"

definition strings_HasSuffix :: "string \<Rightarrow> string \<Rightarrow> bool" where
  "strings_HasSuffix s p \<longleftrightarrow> length p \<le> length s \<and> drop (length s - length p) s = p"

definition strings_TrimPrefix :: "string \<Rightarrow> string \<Rightarrow> string" where
  "strings_TrimPrefix s p = (if strings_HasPrefix s p then drop (length p) s else s)"

lemma strings_Split_not_Nil [simp]: "strings_Split c s \<noteq> []"
  by (induction s) (auto split: list.splits)

lemma strings_Split_no_sep: "c \<notin> set s \<Longrightarrow> strings_Split c s = [s]"
  by (induction s) auto

lemma strings_Split_append:
  "c \<notin> set a \<Longrightarrow> strings_Split c (a @ c # b) = a # strings_Split c b"
  by (induction a) auto

lemma strings_Split_parts: "p \<in> set (strings_Split c s) \<Longrightarrow> c \<notin> set p"
proof (induction s arbitrary: p)
  case Nil
  then show ?case by simp
next
  case (Cons x xs)
  then show ?case by (cases "strings_Split c xs") (auto split: if_splits)
qed

fun strings_join :: "char \<Rightarrow> string list \<Rightarrow> string" where
  "strings_join c [] = []"
| "strings_join c [p] = p"
| "strings_join c (p # ps) = p @ c # strings_join c ps"

lemma strings_join_Cons: "ps \<noteq> [] \<Longrightarrow> strings_join c (p # ps) = p @ c # strings_join c ps"
  by (cases ps) auto

lemma strings_join_Split: "strings_join c (strings_Split c s) = s"
proof (induction s)
  case Nil
  then show ?case by simp
next
  case (Cons x xs)
  show ?case
  proof (cases "x = c")
    case True
    with Cons.IH show ?thesis by (simp add: strings_join_Cons)
  next
    case False
    obtain p ps where ps: "strings_Split c xs = p # ps"
      by (cases "strings_Split c xs") auto
    with Cons.IH False show ?thesis by (cases ps) auto
  qed
qed

lemma strings_Split_join:
  "ps \<noteq> [] \<Longrightarrow> \<forall>p \<in> set ps. c \<notin> set p \<Longrightarrow> strings_Split c (strings_join c ps) = ps"
proof (induction ps)
  case Nil
  then show ?case by simp
next
  case (Cons p ps)
  then show ?case
    by (cases ps) (auto simp: strings_Split_no_sep strings_Split_append strings_join_Cons)
qed

lemma strings_Split_two:
  "strings_Split c s = [a, b] \<longleftrightarrow> s = a @ c # b \<and> c \<notin> set a \<and> c \<notin> set b"
proof
  assume split: "strings_Split c s = [a, b]"
  then have "s = strings_join c [a, b]" by (metis strings_join_Split)
  moreover have "c \<notin> set a" "c \<notin> set b"
    using split strings_Split_parts [of _ c s] by auto
  ultimately show "s = a @ c # b \<and> c \<notin> set a \<and> c \<notin> set b" by simp
next
  assume "s = a @ c # b \<and> c \<notin> set a \<and> c \<notin> set b"
  then show "strings_Split c s = [a, b]"
    by (simp add: strings_Split_append strings_Split_no_sep)
qed

lemma strings_HasPrefix_iff: "strings_HasPrefix s p \<longleftrightarrow> (\<exists>t. s = p @ t)"
  unfolding strings_HasPrefix_def by (metis append_eq_conv_conj append_take_drop_id length_append
      le_add1)

lemma strings_TrimPrefix_append [simp]: "strings_TrimPrefix (p @ t) p = t"
  by (simp add: strings_TrimPrefix_def strings_HasPrefix_def)

section \<open>Package strconv\<close>

definition digit_char :: "nat \<Rightarrow> char" where
  "digit_char d = char_of (48 + d)"

fun decimal :: "nat \<Rightarrow> string" where
  "decimal n = (if n < 10 then [digit_char n] else decimal (n div 10) @ [digit_char (n mod 10)])"

declare decimal.simps [simp del]

definition strconv_FormatInt :: "int \<Rightarrow> string" where
  "strconv_FormatInt i = (if i < 0 then CHR ''-'' # decimal (nat (- i)) else decimal (nat i))"

definition is_digit :: "char \<Rightarrow> bool" where
  "is_digit c \<longleftrightarrow> 48 \<le> (of_char c :: nat) \<and> (of_char c :: nat) \<le> 57"

fun parse_digits :: "nat \<Rightarrow> string \<Rightarrow> nat option" where
  "parse_digits acc [] = Some acc"
| "parse_digits acc (c # cs) =
     (if is_digit c then parse_digits (10 * acc + (of_char c - 48)) cs else None)"

text \<open>\<open>ParseUint(s, 10, 64)\<close>; \<open>None\<close> is a non-nil error (syntax or range).\<close>

definition parse_uint64 :: "string \<Rightarrow> nat option" where
  "parse_uint64 s =
     (if s = [] then None
      else case parse_digits 0 s of
             None \<Rightarrow> None
           | Some n \<Rightarrow> if n < 2 ^ 64 then Some n else None)"

text \<open>\<open>ParseInt(s, 10, 64)\<close>, and \<open>Atoi\<close>, which agrees with it on a 64-bit platform.\<close>

definition strconv_ParseInt :: "string \<Rightarrow> int option" where
  "strconv_ParseInt s =
     (case s of
        [] \<Rightarrow> None
      | c # cs \<Rightarrow>
          (case parse_uint64 (if c = CHR ''+'' \<or> c = CHR ''-'' then cs else s) of
             None \<Rightarrow> None
           | Some un \<Rightarrow>
               if c = CHR ''-''
               then (if un > 2 ^ 63 then None else Some (- int un))
               else (if un \<ge> 2 ^ 63 then None else Some (int un))))"

definition strconv_Atoi :: "string \<Rightarrow> int option" where
  "strconv_Atoi s = strconv_ParseInt s"

definition int64_range :: "int \<Rightarrow> bool" where
  "int64_range i \<longleftrightarrow> - (2 ^ 63) \<le> i \<and> i < 2 ^ 63"

lemma of_char_digit_char: "d < 10 \<Longrightarrow> (of_char (digit_char d) :: nat) = 48 + d"
  by (simp add: digit_char_def)

lemma is_digit_digit_char: "d < 10 \<Longrightarrow> is_digit (digit_char d)"
  by (simp add: is_digit_def of_char_digit_char)

lemma parse_digits_append:
  "parse_digits acc (a @ b) =
     (case parse_digits acc a of None \<Rightarrow> None | Some n \<Rightarrow> parse_digits n b)"
  by (induction acc a rule: parse_digits.induct) auto

lemma parse_digits_decimal: "parse_digits 0 (decimal n) = Some n"
proof (induction n rule: decimal.induct)
  case (1 n)
  show ?case
  proof (cases "n < 10")
    case True
    then show ?thesis
      by (simp add: decimal.simps [of n] is_digit_digit_char of_char_digit_char)
  next
    case False
    with 1 have "parse_digits 0 (decimal (n div 10)) = Some (n div 10)" by simp
    with False show ?thesis
      by (simp add: decimal.simps [of n] parse_digits_append is_digit_digit_char
          of_char_digit_char)
  qed
qed

lemma decimal_not_Nil [simp]: "decimal n \<noteq> []"
  by (subst decimal.simps) simp

lemma decimal_digits: "c \<in> set (decimal n) \<Longrightarrow> is_digit c"
proof (induction n arbitrary: c rule: decimal.induct)
  case (1 n)
  show ?case
  proof (cases "n < 10")
    case True
    with "1.prems" show ?thesis by (simp add: decimal.simps [of n] is_digit_digit_char)
  next
    case False
    with "1.prems" have "c \<in> set (decimal (n div 10)) \<or> c = digit_char (n mod 10)"
      by (auto simp: decimal.simps [of n])
    with "1.IH" False show ?thesis by (auto simp: is_digit_digit_char)
  qed
qed

lemma decimal_Cons: obtains c cs where "decimal n = c # cs" and "is_digit c"
  using decimal_digits [of _ n] decimal_not_Nil [of n] by (cases "decimal n") auto

lemma not_digit_sign: "\<not> is_digit (CHR ''-'')" "\<not> is_digit (CHR ''+'')"
    "\<not> is_digit (CHR ''.'')"
  by (simp_all add: is_digit_def)

lemma ParseInt_FormatInt:
  assumes "int64_range i"
  shows "strconv_ParseInt (strconv_FormatInt i) = Some i"
proof (cases "i < 0")
  case True
  with assms have "nat (- i) \<le> 2 ^ 63" by (simp add: int64_range_def)
  with True show ?thesis
    by (simp add: strconv_FormatInt_def strconv_ParseInt_def parse_uint64_def
        parse_digits_decimal)
next
  case False
  with assms have "nat i < 2 ^ 63" by (simp add: int64_range_def)
  moreover obtain c cs where cs: "decimal (nat i) = c # cs" "is_digit c"
    by (rule decimal_Cons)
  moreover have "c \<noteq> CHR ''-''" "c \<noteq> CHR ''+''"
    using cs(2) not_digit_sign by auto
  moreover have "parse_digits 0 (c # cs) = Some (nat i)"
    using parse_digits_decimal [of "nat i"] cs(1) by simp
  ultimately show ?thesis
    using False
    by (simp add: strconv_FormatInt_def strconv_ParseInt_def parse_uint64_def)
qed

lemma ParseInt_range: "strconv_ParseInt s = Some i \<Longrightarrow> int64_range i"
  by (auto simp: strconv_ParseInt_def int64_range_def split: list.splits option.splits if_splits)

lemma FormatInt_not_Nil [simp]: "strconv_FormatInt i \<noteq> []"
  by (simp add: strconv_FormatInt_def)

lemma FormatInt_no_dot: "CHR ''.'' \<notin> set (strconv_FormatInt i)"
  using decimal_digits not_digit_sign by (auto simp: strconv_FormatInt_def)

section \<open>The text of an error\<close>

fun sentinel_text :: "sentinel \<Rightarrow> string" where
  "sentinel_text ErrTokenExpired = ''token expired''"
| "sentinel_text ErrTokenInvalid = ''token invalid''"
| "sentinel_text ErrTokenMalformed = ''token is malformed''"
| "sentinel_text ErrTokenRevoked = ''token revoked''"
| "sentinel_text ErrInvalidUserID = ''invalid userID''"
| "sentinel_text ErrInvalidSigningMethod = ''invalid signing method''"
| "sentinel_text ErrSessionNotFound = ''session not found''"
| "sentinel_text ErrUserNotFound = ''user not found''"
| "sentinel_text SqlErrNoRows = ''sql: no rows in result set''"
| "sentinel_text SqlErrTxDone = ''sql: transaction has already been committed or rolled back''"
| "sentinel_text RedisNil = ''redis: nil''"
| "sentinel_text HttpErrNoCookie = ''http: named cookie not present''"
| "sentinel_text HttpErrServerClosed = ''http: Server closed''"
| "sentinel_text ContextCanceled = ''context canceled''"

text \<open>
  \<open>err.Error()\<close>. The text of an error made outside the program is the name it carries here.
\<close>

fun error_text :: "gerror \<Rightarrow> string" where
  "error_text (ErrorsNew s) = s"
| "error_text (Sentinel s) = sentinel_text s"
| "error_text (Errorf p e) = p @ error_text e"
| "error_text (Errorf2 e p e') = error_text e @ p @ error_text e'"
| "error_text (HTTPError c m) =
     ''code='' @ strconv_FormatInt c @ '', message='' @
     (case m of StringMessage s \<Rightarrow> s | OtherMessage \<Rightarrow> ''?'')"
| "error_text (ExtError s) = s"

end
