(* ===== verification/Go_Time.thy ===== *)
theory Go_Time
  imports Go_Strings
begin

text \<open>
  Package \<open>time\<close> as the program uses it. An instant is its number of nanoseconds since the
  Unix epoch; a \<open>time.Duration\<close> is a 64-bit count of nanoseconds. \<open>time.Until\<close> and
  \<open>time.Since\<close> are differences saturated to that range; the clock reading they take is an
  argument.
\<close>

type_synonym gotime = int
type_synonym duration = int

text \<open>The readings an operation takes of the clock, numbered in the order they are taken.\<close>

type_synonym clock = "nat \<Rightarrow> gotime"

definition time_Nanosecond :: duration where "time_Nanosecond = 1"
definition time_Millisecond :: duration where "time_Millisecond = 1000000"
definition time_Second :: duration where "time_Second = 1000000000"
definition time_Minute :: duration where "time_Minute = 60000000000"
definition time_Hour :: duration where "time_Hour = 3600000000000"

lemmas time_units =
  time_Nanosecond_def time_Millisecond_def time_Second_def time_Minute_def time_Hour_def

definition duration_clamp :: "int \<Rightarrow> duration" where
  "duration_clamp d = max (- (2 ^ 63)) (min (2 ^ 63 - 1) d)"

definition time_Add :: "gotime \<Rightarrow> duration \<Rightarrow> gotime" where
  "time_Add t d = t + d"

definition time_Until :: "gotime \<Rightarrow> gotime \<Rightarrow> duration" where
  "time_Until now t = duration_clamp (t - now)"

definition time_Since :: "gotime \<Rightarrow> gotime \<Rightarrow> duration" where
  "time_Since now t = duration_clamp (now - t)"

text \<open>\<open>int(d.Seconds())\<close>: whole seconds, truncated towards zero.\<close>

definition int_Seconds :: "duration \<Rightarrow> int" where
  "int_Seconds d = (if d < 0 then - ((- d) div time_Second) else d div time_Second)"

lemma duration_clamp_id: "int64_range d \<Longrightarrow> duration_clamp d = d"
  by (simp add: duration_clamp_def int64_range_def)

lemma duration_clamp_le_0 [simp]: "duration_clamp d \<le> 0 \<longleftrightarrow> d \<le> 0"
  by (auto simp: duration_clamp_def min_def)

lemma duration_clamp_le:
  "- (2 ^ 63) \<le> c \<Longrightarrow> c < 2 ^ 63 - 1 \<Longrightarrow> duration_clamp d \<le> c \<longleftrightarrow> d \<le> c"
  by (auto simp: duration_clamp_def)

end
