(* ===== verification/Sql.thy ===== *)
theory Sql
  imports Go_Time
begin

text \<open>
  The SQL the program is written in: the column types and constraints of its
  \<open>CREATE TABLE\<close> statements and the four kinds of statement its repositories issue, with
  their meaning on tables of rows. What PostgreSQL itself decides (which texts a \<open>UUID\<close> or
  \<open>TEXT\<close> column accepts, how it stores a \<open>UUID\<close>, the precision of \<open>TIMESTAMPTZ\<close>) is the
  argument \<open>pg_server\<close>.
\<close>

section \<open>Values, schemas, statements\<close>

datatype sqlval = SNull | SInt int | SText string | STime gotime

datatype coltype = BIGSERIAL | BIGINT | UUID | TEXT | TIMESTAMPTZ

datatype coldefault = NoDefault | DefaultValue sqlval | DefaultNow

record coldef =
  cname :: string
  ctype :: coltype
  cnotnull :: bool
  cunique :: bool
  cdefault :: coldefault
  creferences :: "(string \<times> string) option"

record tabledef =
  tname :: string
  tcols :: "coldef list"

text \<open>Conditions of a \<open>WHERE\<close> clause, joined by \<open>AND\<close>: \<open>col = $n\<close> or \<open>col = literal\<close>.\<close>

datatype sqlcond = EqParam string nat | EqLiteral string sqlval

datatype sqlstmt =
    Insert string "(string \<times> nat) list" "string list"
  | Select "string list" string "sqlcond list"
  | Update string "(string \<times> sqlval) list" "sqlcond list"
  | Delete string "sqlcond list"

type_synonym row = "(string \<times> sqlval) list"

record db =
  db_tables :: "string \<Rightarrow> row list"
  db_seqs :: "string \<Rightarrow> int"

record pg_server =
  pg_uuid_in :: "string \<Rightarrow> string option"
  pg_text_ok :: "string \<Rightarrow> bool"
  pg_ts_in :: "gotime \<Rightarrow> gotime"
  pg_now :: gotime

section \<open>Evaluation\<close>

definition sql_error :: "string \<Rightarrow> 'a outcome" where
  "sql_error s = Err (ExtError s)"

definition find_table :: "tabledef list \<Rightarrow> string \<Rightarrow> tabledef option" where
  "find_table sch t = find (\<lambda>td. tname td = t) sch"

definition find_col :: "tabledef \<Rightarrow> string \<Rightarrow> coldef option" where
  "find_col td c = find (\<lambda>cd. cname cd = c) (tcols td)"

text \<open>A parameter or literal as a value of the column's type; \<open>None\<close> is an input error.\<close>

fun coerce :: "pg_server \<Rightarrow> coltype \<Rightarrow> sqlval \<Rightarrow> sqlval option" where
  "coerce srv _ SNull = Some SNull"
| "coerce srv UUID (SText s) = map_option SText (pg_uuid_in srv s)"
| "coerce srv TEXT (SText s) = (if pg_text_ok srv s then Some (SText s) else None)"
| "coerce srv BIGINT (SInt i) = (if int64_range i then Some (SInt i) else None)"
| "coerce srv BIGSERIAL (SInt i) = (if int64_range i then Some (SInt i) else None)"
| "coerce srv TIMESTAMPTZ (STime t) = Some (STime (pg_ts_in srv t))"
| "coerce srv _ _ = None"

definition coerce_col :: "pg_server \<Rightarrow> tabledef \<Rightarrow> string \<Rightarrow> sqlval \<Rightarrow> sqlval option" where
  "coerce_col srv td c v =
     (case find_col td c of None \<Rightarrow> None | Some cd \<Rightarrow> coerce srv (ctype cd) v)"

fun bind_pairs ::
  "pg_server \<Rightarrow> tabledef \<Rightarrow> (string \<times> sqlval) list \<Rightarrow> (string \<times> sqlval) list option" where
  "bind_pairs srv td [] = Some []"
| "bind_pairs srv td ((c, v) # cvs) =
     (case coerce_col srv td c v of
        None \<Rightarrow> None
      | Some v' \<Rightarrow> map_option (Cons (c, v')) (bind_pairs srv td cvs))"

fun cond_pair :: "sqlval list \<Rightarrow> sqlcond \<Rightarrow> string \<times> sqlval" where
  "cond_pair args (EqParam c n) = (c, args ! (n - 1))"
| "cond_pair args (EqLiteral c v) = (c, v)"

definition row_matches :: "(string \<times> sqlval) list \<Rightarrow> row \<Rightarrow> bool" where
  "row_matches cvs r \<longleftrightarrow> list_all (\<lambda>(c, v). v \<noteq> SNull \<and> map_of r c = Some v) cvs"

definition project :: "string list \<Rightarrow> row \<Rightarrow> sqlval list" where
  "project cs r = map (\<lambda>c. case map_of r c of None \<Rightarrow> SNull | Some v \<Rightarrow> v) cs"

text \<open>Parameters are numbered from 1 and a statement must get exactly the ones it names.\<close>

fun cond_params :: "sqlcond \<Rightarrow> nat list" where
  "cond_params (EqParam c n) = [n]"
| "cond_params (EqLiteral c v) = []"

fun stmt_params :: "sqlstmt \<Rightarrow> nat list" where
  "stmt_params (Insert t cps ret) = map snd cps"
| "stmt_params (Select cs t conds) = concat (map cond_params conds)"
| "stmt_params (Update t sets conds) = concat (map cond_params conds)"
| "stmt_params (Delete t conds) = concat (map cond_params conds)"

definition args_ok :: "sqlstmt \<Rightarrow> sqlval list \<Rightarrow> bool" where
  "args_ok st args \<longleftrightarrow>
     list_all (\<lambda>n. 1 \<le> n \<and> n \<le> length args) (stmt_params st) \<and>
     length args = fold max (stmt_params st) 0"

subsection \<open>INSERT\<close>

definition insert_value ::
  "pg_server \<Rightarrow> (string \<times> sqlval) list \<Rightarrow> int \<Rightarrow> coldef \<Rightarrow> string \<times> sqlval" where
  "insert_value srv cvs next cd =
     (cname cd,
      case map_of cvs (cname cd) of
        Some v \<Rightarrow> v
      | None \<Rightarrow>
          if ctype cd = BIGSERIAL then SInt next
          else (case cdefault cd of
                  NoDefault \<Rightarrow> SNull
                | DefaultValue v \<Rightarrow> v
                | DefaultNow \<Rightarrow> STime (pg_ts_in srv (pg_now srv))))"

definition not_null_ok :: "coldef list \<Rightarrow> row \<Rightarrow> bool" where
  "not_null_ok cds r \<longleftrightarrow> list_all (\<lambda>cd. cnotnull cd \<longrightarrow> map_of r (cname cd) \<noteq> Some SNull) cds"

definition unique_ok :: "coldef list \<Rightarrow> row list \<Rightarrow> row \<Rightarrow> bool" where
  "unique_ok cds rows r \<longleftrightarrow>
     list_all (\<lambda>cd. cunique cd \<longrightarrow>
       list_all (\<lambda>r'. map_of r' (cname cd) \<noteq> map_of r (cname cd) \<or>
                      map_of r (cname cd) = Some SNull) rows) cds"

definition references_ok :: "db \<Rightarrow> coldef list \<Rightarrow> row \<Rightarrow> bool" where
  "references_ok d cds r \<longleftrightarrow>
     list_all (\<lambda>cd. case creferences cd of
         None \<Rightarrow> True
       | Some (t, c) \<Rightarrow>
           map_of r (cname cd) = Some SNull \<or>
           list_ex (\<lambda>r'. map_of r' c = map_of r (cname cd)) (db_tables d t)) cds"

definition eval_insert ::
  "pg_server \<Rightarrow> tabledef \<Rightarrow> (string \<times> sqlval) list \<Rightarrow> string list \<Rightarrow> db \<Rightarrow>
   sqlval list list outcome \<times> db" where
  "eval_insert srv td cvs ret d =
     (let t = tname td; next = db_seqs d t;
          r = map (insert_value srv cvs next) (tcols td);
          d1 = d\<lparr>db_seqs := (db_seqs d)(t := next + 1)\<rparr>
      in if \<not> int64_range next then (sql_error ''nextval: reached maximum value of sequence'', d)
         else if \<not> not_null_ok (tcols td) r then (sql_error ''not-null violation'', d1)
         else if \<not> unique_ok (tcols td) (db_tables d t) r then (sql_error ''unique violation'', d1)
         else if \<not> references_ok d (tcols td) r then (sql_error ''foreign-key violation'', d1)
         else (Ok [project ret r],
               d1\<lparr>db_tables := (db_tables d)(t := db_tables d t @ [r])\<rparr>))"

subsection \<open>UPDATE and DELETE\<close>

definition set_columns :: "(string \<times> sqlval) list \<Rightarrow> row \<Rightarrow> row" where
  "set_columns sets r = map (\<lambda>(c, v). (c, case map_of sets c of Some w \<Rightarrow> w | None \<Rightarrow> v)) r"

text \<open>
  The constraints an \<open>UPDATE\<close> can break are those of the columns it sets; every one of the
  program sets a plain column to a literal.
\<close>

definition set_constrained :: "tabledef \<Rightarrow> string \<times> sqlval \<Rightarrow> bool" where
  "set_constrained td cv =
     (case find_col td (fst cv) of
        None \<Rightarrow> True
      | Some cd \<Rightarrow> cunique cd \<or> creferences cd \<noteq> None \<or> cnotnull cd \<and> snd cv = SNull)"

definition cascade_from :: "string \<Rightarrow> row list \<Rightarrow> tabledef \<Rightarrow> row list \<Rightarrow> row list" where
  "cascade_from t gone td rows =
     filter (\<lambda>r. \<not> list_ex (\<lambda>cd. case creferences cd of
                 None \<Rightarrow> False
               | Some (t', c) \<Rightarrow>
                   t' = t \<and> list_ex (\<lambda>g. map_of g c = map_of r (cname cd)) gone) (tcols td)) rows"

definition eval_delete ::
  "tabledef list \<Rightarrow> string \<Rightarrow> (string \<times> sqlval) list \<Rightarrow> db \<Rightarrow> db" where
  "eval_delete sch t cvs d =
     (let gone = filter (row_matches cvs) (db_tables d t);
          keep = filter (\<lambda>r. \<not> row_matches cvs r) (db_tables d t)
      in d\<lparr>db_tables := (\<lambda>u.
           case find_table sch u of
             None \<Rightarrow> db_tables d u
           | Some td \<Rightarrow> cascade_from t gone td (if u = t then keep else db_tables d u))\<rparr>)"

subsection \<open>A statement\<close>

definition sql_eval ::
  "pg_server \<Rightarrow> tabledef list \<Rightarrow> sqlstmt \<Rightarrow> sqlval list \<Rightarrow> db \<Rightarrow>
   sqlval list list outcome \<times> db" where
  "sql_eval srv sch st args d =
     (if \<not> args_ok st args then (sql_error ''wrong number of parameters'', d)
      else case st of
        Insert t cps ret \<Rightarrow>
          (case find_table sch t of
             None \<Rightarrow> (sql_error ''no such table'', d)
           | Some td \<Rightarrow>
               (case bind_pairs srv td (map (\<lambda>(c, n). (c, args ! (n - 1))) cps) of
                  None \<Rightarrow> (sql_error ''invalid input'', d)
                | Some cvs \<Rightarrow> eval_insert srv td cvs ret d))
      | Select cs t conds \<Rightarrow>
          (case find_table sch t of
             None \<Rightarrow> (sql_error ''no such table'', d)
           | Some td \<Rightarrow>
               (case bind_pairs srv td (map (cond_pair args) conds) of
                  None \<Rightarrow> (sql_error ''invalid input'', d)
                | Some cvs \<Rightarrow>
                    (Ok (map (project cs) (filter (row_matches cvs) (db_tables d t))), d)))
      | Update t sets conds \<Rightarrow>
          (case find_table sch t of
             None \<Rightarrow> (sql_error ''no such table'', d)
           | Some td \<Rightarrow>
               (case (bind_pairs srv td sets, bind_pairs srv td (map (cond_pair args) conds)) of
                  (Some svs, Some cvs) \<Rightarrow>
                    if list_ex (set_constrained td) svs
                    then (sql_error ''constraint on an updated column'', d)
                    else (Ok [], d\<lparr>db_tables := (db_tables d)(t :=
                           map (\<lambda>r. if row_matches cvs r then set_columns svs r else r)
                             (db_tables d t))\<rparr>)
                | _ \<Rightarrow> (sql_error ''invalid input'', d)))
      | Delete t conds \<Rightarrow>
          (case find_table sch t of
             None \<Rightarrow> (sql_error ''no such table'', d)
           | Some td \<Rightarrow>
               (case bind_pairs srv td (map (cond_pair args) conds) of
                  None \<Rightarrow> (sql_error ''invalid input'', d)
                | Some cvs \<Rightarrow> (Ok [], eval_delete sch t cvs d))))"

lemma sql_eval_Err_tables:
  assumes "sql_eval srv sch st args d = (Err e, d')"
  shows "db_tables d' = db_tables d"
  using assms
  by (auto simp: sql_eval_def eval_insert_def sql_error_def Let_def
      split: if_splits sqlstmt.splits option.splits)

lemma sql_eval_not_Panic: "fst (sql_eval srv sch st args d) \<noteq> Panic p"
  by (auto simp: sql_eval_def eval_insert_def sql_error_def Let_def
      split: if_splits sqlstmt.splits option.splits)

lemma sql_eval_Err_ExtError:
  "sql_eval srv sch st args d = (Err e, d') \<Longrightarrow> \<exists>s. e = ExtError s"
  by (auto simp: sql_eval_def eval_insert_def sql_error_def Let_def
      split: if_splits sqlstmt.splits option.splits)

end
