(* ===== verification/Models.thy ===== *)
theory Models
  imports Sql
begin

text \<open>
  The data the layers exchange (\<open>internal/models/common.go\<close>) and the interfaces between them
  (\<open>internal/storage/storage.go\<close>). A Go interface is a record of its methods; the value of the
  record is the method set of the type behind the interface. Methods act on the state of the
  provider (\<open>'d\<close> for the database, \<open>'r\<close> for Redis). The \<open>ctx\<close> argument is not passed: what
  a cancelled context does is an error the provider returns.
\<close>

section \<open>internal/models/common.go\<close>

definition MwSchemeAPIKeyAuth :: string where "MwSchemeAPIKeyAuth = ''ApiKeyAuth''"
definition MwSchemeBearerAuth :: string where "MwSchemeBearerAuth = ''BearerAuth''"
definition MwAPIKeyHeader :: string where "MwAPIKeyHeader = ''X-API-Key''"
definition MwUserIDKey :: string where "MwUserIDKey = ''userID''"
definition MwTokenKey :: string where "MwTokenKey = ''token''"

record RefreshSession =
  rsID :: int
  rsUserID :: int
  rsSelector :: string
  rsVerifierHash :: string
  rsUserAgent :: string
  rsIPAddress :: string
  rsAccessTokenJTI :: string
  rsCreatedAt :: gotime
  rsExpiresAt :: gotime

record RefreshToken =
  rtToken :: string
  rtHash :: string
  rtExpiresAt :: gotime
  rtCreatedAt :: gotime

record UserMetadata =
  umUserAgent :: string
  umIPAddress :: string

record User =
  uID :: int
  uGUID :: string

section \<open>internal/storage/storage.go\<close>

text \<open>\<open>DBTX\<close>, what \<open>*sql.DB\<close> and \<open>*sql.Tx\<close> share; \<open>QueryRowContext\<close> gives the first row.\<close>

record 'd DBTX =
  ExecContext :: "sqlstmt \<Rightarrow> sqlval list \<Rightarrow> ('d, unit) go"
  QueryContext :: "sqlstmt \<Rightarrow> sqlval list \<Rightarrow> ('d, sqlval list list) go"
  QueryRowContext :: "sqlstmt \<Rightarrow> sqlval list \<Rightarrow> ('d, sqlval list) go"

record 'd UserRepository =
  CreateUser :: "string \<Rightarrow> ('d, User) go"
  GetUserByGUID :: "string \<Rightarrow> ('d, User) go"
  GetUserByID :: "int \<Rightarrow> ('d, User) go"

record 'd SessionRepository =
  CreateSession :: "RefreshSession \<Rightarrow> ('d, int) go"
  GetActiveSessionBySelector :: "string \<Rightarrow> ('d, RefreshSession) go"
  FindSessionBySelector :: "string \<Rightarrow> ('d, RefreshSession) go"
  MarkSessionAsUsed :: "string \<Rightarrow> ('d, unit) go"
  DeleteSession :: "string \<Rightarrow> ('d, unit) go"
  DeleteAllUserSessions :: "int \<Rightarrow> ('d, unit) go"

text \<open>\<open>Storage\<close> embeds both repositories and adds the two transactions.\<close>

record 'd Storage =
  Sessions :: "'d SessionRepository"
  Users :: "'d UserRepository"
  IssueTokensTx :: "string \<Rightarrow> RefreshSession \<Rightarrow> ('d, User) go"
  RotateTokensTx :: "string \<Rightarrow> RefreshSession \<Rightarrow> int \<Rightarrow> ('d, User) go"

text \<open>
  \<open>TokenStorage\<close>. Redis reads its own clock, so its operations take the instant at which the
  server executes them.
\<close>

record 'r TokenStorage =
  InvalidateToken :: "gotime \<Rightarrow> string \<Rightarrow> duration \<Rightarrow> ('r, unit) go"
  IsTokenInvalidated :: "gotime \<Rightarrow> string \<Rightarrow> ('r, bool) go"

end
