(* ===== verification/Redis_Client.thy ===== *)
theory Redis_Client
  imports Models "HOL-Library.Sublist"
begin

text \<open>
  The go-redis client the services hold (\<open>*redis.Client\<close>), as the record of the calls the
  program makes, and the language of the one Lua script it sends: the script is a tree of
  \<open>redis.call\<close> commands whose continuation may look at a reply.

  The server is seen through a \<open>view\<close>: what \<open>GET key\<close> answers at an instant. The locale
  \<open>redis_client\<close> states the documented effect of each call on the view. Deadlines are kept in
  milliseconds by the server and go-redis truncates a duration to milliseconds, so the instant at
  which a key disappears is fixed up to one millisecond on each side.
\<close>

section \<open>The client\<close>

datatype lua =
    Lua_Return int
  | Lua_GET string "string option \<Rightarrow> lua"
  | Lua_SETEX string int string lua
  | Lua_INCR string lua
  | Lua_EXPIRE string int lua

type_synonym set_cmd = "string \<times> string \<times> duration"

record 'r RedisClient =
  Redis_Get :: "gotime \<Rightarrow> string \<Rightarrow> ('r, string) go"
  Redis_Set :: "gotime \<Rightarrow> string \<Rightarrow> string \<Rightarrow> duration \<Rightarrow> ('r, unit) go"
  Redis_PipelineExec :: "gotime \<Rightarrow> set_cmd list \<Rightarrow> ('r, unit) go"
  Redis_ScriptRun :: "gotime \<Rightarrow> lua \<Rightarrow> ('r, int) go"

text \<open>Lua's \<open>tonumber\<close> on decimal integers, the only numerals the script meets.\<close>

definition lua_tonumber :: "string \<Rightarrow> int option" where
  "lua_tonumber s = strconv_ParseInt s"

section \<open>Effects on the view\<close>

type_synonym view = "gotime \<Rightarrow> string \<Rightarrow> string option"

definition KeepTTL :: duration where "KeepTTL = -1"

definition no_expiry :: "duration \<Rightarrow> bool" where
  "no_expiry d \<longleftrightarrow> d \<le> 0 \<and> d \<noteq> KeepTTL"

definition same_view :: "gotime \<Rightarrow> view \<Rightarrow> view \<Rightarrow> bool" where
  "same_view now m m' \<longleftrightarrow> (\<forall>t \<ge> now. m' t = m t)"

definition same_but :: "gotime \<Rightarrow> string \<Rightarrow> view \<Rightarrow> view \<Rightarrow> bool" where
  "same_but now k m m' \<longleftrightarrow> (\<forall>t \<ge> now. \<forall>j. j \<noteq> k \<longrightarrow> m' t j = m t j)"

definition holds_for :: "gotime \<Rightarrow> string \<Rightarrow> string \<Rightarrow> duration \<Rightarrow> view \<Rightarrow> bool" where
  "holds_for now k v d m \<longleftrightarrow>
     (\<forall>t \<ge> now. m t k = Some v \<or> m t k = None) \<and>
     (\<forall>t \<ge> now. no_expiry d \<or> 0 < d \<and> t < now + d - time_Millisecond \<longrightarrow> m t k = Some v) \<and>
     (\<forall>t. 0 < d \<and> now + max d time_Millisecond + time_Millisecond \<le> t \<longrightarrow> m t k = None)"

definition set_effect :: "gotime \<Rightarrow> set_cmd \<Rightarrow> view \<Rightarrow> view \<Rightarrow> bool" where
  "set_effect now cmd m m' \<longleftrightarrow>
     (case cmd of (k, v, d) \<Rightarrow>
        same_but now k m m' \<and> (d \<noteq> KeepTTL \<longrightarrow> holds_for now k v d m'))"

fun sets_effect :: "gotime \<Rightarrow> set_cmd list \<Rightarrow> view \<Rightarrow> view \<Rightarrow> bool" where
  "sets_effect now [] m m' \<longleftrightarrow> same_view now m m'"
| "sets_effect now (c # cs) m m' \<longleftrightarrow> (\<exists>m1. set_effect now c m m1 \<and> sets_effect now cs m1 m')"

definition counter_of :: "string option \<Rightarrow> int option" where
  "counter_of x = (case x of None \<Rightarrow> Some 0 | Some v \<Rightarrow> strconv_ParseInt v)"

definition incr_effect :: "gotime \<Rightarrow> string \<Rightarrow> int \<Rightarrow> view \<Rightarrow> view \<Rightarrow> bool" where
  "incr_effect now k n m m' \<longleftrightarrow> same_but now k m m' \<and>
     (\<forall>t \<ge> now. m' t k =
        (if m now k = None \<or> m t k \<noteq> None then Some (strconv_FormatInt n) else None))"

definition expire_effect :: "gotime \<Rightarrow> string \<Rightarrow> int \<Rightarrow> view \<Rightarrow> view \<Rightarrow> bool" where
  "expire_effect now k secs m m' \<longleftrightarrow> same_but now k m m' \<and>
     (case m now k of
        None \<Rightarrow> same_view now m m'
      | Some v \<Rightarrow> if secs \<le> 0 then \<forall>t \<ge> now. m' t k = None
                  else holds_for now k v (secs * time_Second) m')"

text \<open>
  A script runs at one instant of the server: \<open>Some n\<close> is its return value, \<open>None\<close> an error
  raised by a command, which leaves the effects of the commands before it.
\<close>

inductive script_effect :: "gotime \<Rightarrow> lua \<Rightarrow> view \<Rightarrow> int option \<Rightarrow> view \<Rightarrow> bool" for now where
  Return: "same_view now m m' \<Longrightarrow> script_effect now (Lua_Return n) m (Some n) m'"
| Get: "script_effect now (c (m now k)) m r m' \<Longrightarrow> script_effect now (Lua_GET k c) m r m'"
| Setex: "0 < secs \<Longrightarrow> set_effect now (k, v, secs * time_Second) m m1 \<Longrightarrow>
    script_effect now c m1 r m' \<Longrightarrow> script_effect now (Lua_SETEX k secs v c) m r m'"
| SetexError: "secs \<le> 0 \<Longrightarrow> same_view now m m' \<Longrightarrow>
    script_effect now (Lua_SETEX k secs v c) m None m'"
| Incr: "counter_of (m now k) = Some n \<Longrightarrow> int64_range (n + 1) \<Longrightarrow> incr_effect now k (n + 1) m m1 \<Longrightarrow>
    script_effect now c m1 r m' \<Longrightarrow> script_effect now (Lua_INCR k c) m r m'"
| IncrError: "(case counter_of (m now k) of None \<Rightarrow> True | Some n \<Rightarrow> \<not> int64_range (n + 1)) \<Longrightarrow>
    same_view now m m' \<Longrightarrow> script_effect now (Lua_INCR k c) m None m'"
| Expire: "expire_effect now k secs m m1 \<Longrightarrow>
    script_effect now c m1 r m' \<Longrightarrow> script_effect now (Lua_EXPIRE k secs c) m r m'"

inductive_cases script_ReturnE: "script_effect now (Lua_Return n) m r m'"
inductive_cases script_GetE: "script_effect now (Lua_GET k c) m r m'"
inductive_cases script_SetexE: "script_effect now (Lua_SETEX k secs v c) m r m'"
inductive_cases script_IncrE: "script_effect now (Lua_INCR k c) m r m'"
inductive_cases script_ExpireE: "script_effect now (Lua_EXPIRE k secs c) m r m'"

lemma same_view_refl [simp]: "same_view now m m"
  by (simp add: same_view_def)

lemma same_view_at: "same_view now m m' \<Longrightarrow> now \<le> t \<Longrightarrow> m' t = m t"
  by (simp add: same_view_def)

lemma set_effect_same: "set_effect now (k, v, d) m m' \<Longrightarrow> no_expiry d \<Longrightarrow> now \<le> t \<Longrightarrow> m' t k = Some v"
  by (simp add: set_effect_def holds_for_def no_expiry_def)

lemma set_effect_live:
  "set_effect now (k, v, d) m m' \<Longrightarrow> 0 < d \<Longrightarrow> now \<le> t \<Longrightarrow> t < now + d - time_Millisecond \<Longrightarrow>
   m' t k = Some v"
  by (simp add: set_effect_def holds_for_def KeepTTL_def)

lemma set_effect_gone:
  "set_effect now (k, v, d) m m' \<Longrightarrow> 0 < d \<Longrightarrow>
   now + max d time_Millisecond + time_Millisecond \<le> t \<Longrightarrow> m' t k = None"
  by (simp add: set_effect_def holds_for_def KeepTTL_def)

lemma set_effect_other: "set_effect now (k, v, d) m m' \<Longrightarrow> j \<noteq> k \<Longrightarrow> now \<le> t \<Longrightarrow> m' t j = m t j"
  by (simp add: set_effect_def same_but_def)

section \<open>The laws of the client\<close>

text \<open>
  An error of the client is \<open>redis.Nil\<close> (only for a missing key) or an error of the network or
  the server, which no sentinel of the program matches.
\<close>

definition redis_error :: "gerror \<Rightarrow> bool" where
  "redis_error e \<longleftrightarrow> (\<forall>s. \<not> errors_Is e s)"

locale redis_client =
  fixes R :: "'r RedisClient" and view :: "'r \<Rightarrow> view"
  assumes get: "Redis_Get R now k s = (r, s') \<Longrightarrow>
      same_view now (view s) (view s') \<and>
      (case r of
         Ok v \<Rightarrow> view s now k = Some v
       | Err e \<Rightarrow> e = Sentinel RedisNil \<and> view s now k = None \<or> redis_error e
       | Panic _ \<Rightarrow> False)"
    and set: "Redis_Set R now k v d s = (ru, s') \<Longrightarrow>
      (case ru of
         Ok _ \<Rightarrow> set_effect now (k, v, d) (view s) (view s')
       | Err e \<Rightarrow> redis_error e \<and>
           (same_view now (view s) (view s') \<or> set_effect now (k, v, d) (view s) (view s'))
       | Panic _ \<Rightarrow> False)"
    and pipeline: "Redis_PipelineExec R now cmds s = (ru, s') \<Longrightarrow>
      (case ru of
         Ok _ \<Rightarrow> sets_effect now cmds (view s) (view s')
       | Err e \<Rightarrow> redis_error e \<and> (\<exists>sent. subseq sent cmds \<and> sets_effect now sent (view s) (view s'))
       | Panic _ \<Rightarrow> False)"
    and script: "Redis_ScriptRun R now l s = (ri, s') \<Longrightarrow>
      (case ri of
         Ok n \<Rightarrow> script_effect now l (view s) (Some n) (view s')
       | Err e \<Rightarrow> redis_error e \<and>
           (same_view now (view s) (view s') \<or> (\<exists>x. script_effect now l (view s) x (view s')))
       | Panic _ \<Rightarrow> False)"

end
