(* ===== verification/Redis_Engine.thy ===== *)
theory Redis_Engine
  imports Redis_Client
begin

text \<open>
  A Redis server behind go-redis: a keyspace of string values with deadlines in milliseconds,
  the documented commands on it, atomic scripts, and a fault plan for the connection as in
  \<open>Postgres_Engine\<close>. The interpretation at the end shows that it keeps the laws of
  \<open>redis_client\<close>; with it the services run on concrete data.
\<close>

section \<open>The keyspace\<close>

type_synonym keyspace = "string \<Rightarrow> (string \<times> int option) option"

record redisconn =
  rc_keys :: keyspace
  rc_faults :: "fault list"

definition server_ms :: "gotime \<Rightarrow> int" where
  "server_ms t = t div time_Millisecond"

definition server_GET :: "keyspace \<Rightarrow> view" where
  "server_GET ks t k =
     (case ks k of
        None \<Rightarrow> None
      | Some (v, None) \<Rightarrow> Some v
      | Some (v, Some dl) \<Rightarrow> if server_ms t \<le> dl then Some v else None)"

definition key_deadline :: "keyspace \<Rightarrow> gotime \<Rightarrow> string \<Rightarrow> int option" where
  "key_deadline ks t k =
     (case server_GET ks t k of
        None \<Rightarrow> None
      | Some _ \<Rightarrow> (case ks k of Some (_, dl) \<Rightarrow> dl | None \<Rightarrow> None))"

text \<open>\<open>SET\<close> as go-redis sends it: \<open>EX\<close>/\<open>PX\<close> with at least a millisecond, \<open>KEEPTTL\<close>, or bare.\<close>

definition server_SET :: "gotime \<Rightarrow> set_cmd \<Rightarrow> keyspace \<Rightarrow> keyspace" where
  "server_SET now cmd ks =
     (case cmd of (k, v, d) \<Rightarrow>
        ks(k \<mapsto> (v, if 0 < d then Some (server_ms now + max 1 (d div time_Millisecond))
                    else if d = KeepTTL then key_deadline ks now k else None)))"

definition server_EXPIRE :: "gotime \<Rightarrow> string \<Rightarrow> int \<Rightarrow> keyspace \<Rightarrow> keyspace" where
  "server_EXPIRE now k secs ks =
     (case server_GET ks now k of
        None \<Rightarrow> ks
      | Some v \<Rightarrow> if secs \<le> 0 then ks(k := None)
                  else ks(k \<mapsto> (v, Some (server_ms now + secs * 1000))))"

primrec server_EVAL :: "lua \<Rightarrow> gotime \<Rightarrow> keyspace \<Rightarrow> int outcome \<times> keyspace" where
  "server_EVAL (Lua_Return n) now ks = (Ok n, ks)"
| "server_EVAL (Lua_GET k c) now ks = server_EVAL (c (server_GET ks now k)) now ks"
| "server_EVAL (Lua_SETEX k secs v c) now ks =
     (if secs \<le> 0 then (Err (ExtError ''ERR invalid expire time in SETEX''), ks)
      else server_EVAL c now (server_SET now (k, v, secs * time_Second) ks))"
| "server_EVAL (Lua_INCR k c) now ks =
     (case counter_of (server_GET ks now k) of
        None \<Rightarrow> (Err (ExtError ''ERR value is not an integer or out of range''), ks)
      | Some n \<Rightarrow>
          if int64_range (n + 1)
          then server_EVAL c now (ks(k \<mapsto> (strconv_FormatInt (n + 1), key_deadline ks now k)))
          else (Err (ExtError ''ERR increment or decrement would overflow''), ks))"
| "server_EVAL (Lua_EXPIRE k secs c) now ks = server_EVAL c now (server_EXPIRE now k secs ks)"

section \<open>The connection\<close>

definition redis_call :: "(keyspace \<Rightarrow> 'a outcome \<times> keyspace) \<Rightarrow> (redisconn, 'a) go" where
  "redis_call f c =
     (let c1 = c\<lparr>rc_faults := tl (rc_faults c)\<rparr> in
      case rc_faults c of
        FailBefore e # _ \<Rightarrow> (Err (ExtError e), c1)
      | FailAfter e # _ \<Rightarrow>
          (case f (rc_keys c) of (r, ks) \<Rightarrow> (Err (ExtError e), c1\<lparr>rc_keys := ks\<rparr>))
      | _ \<Rightarrow> (case f (rc_keys c) of (r, ks) \<Rightarrow> (r, c1\<lparr>rc_keys := ks\<rparr>)))"

definition redis_Client :: "redisconn RedisClient" where
  "redis_Client =
     \<lparr>Redis_Get = (\<lambda>now k. redis_call (\<lambda>ks.
        (case server_GET ks now k of None \<Rightarrow> Err (Sentinel RedisNil) | Some v \<Rightarrow> Ok v, ks))),
      Redis_Set = (\<lambda>now k v d. redis_call (\<lambda>ks. (Ok (), server_SET now (k, v, d) ks))),
      Redis_PipelineExec = (\<lambda>now cmds. redis_call (\<lambda>ks. (Ok (), fold (server_SET now) cmds ks))),
      Redis_ScriptRun = (\<lambda>now l. redis_call (server_EVAL l now))\<rparr>"

definition redis_view :: "redisconn \<Rightarrow> view" where
  "redis_view c = server_GET (rc_keys c)"

lemma redis_call_cases:
  assumes "redis_call f c = (r, c')"
  obtains (Lost) e where "r = Err (ExtError e)" and "rc_keys c' = rc_keys c"
  | (Ran) r' where "f (rc_keys c) = (r', rc_keys c')" and "r = r' \<or> (\<exists>e. r = Err (ExtError e))"
  using assms unfolding redis_call_def Let_def
  by (auto split: list.splits fault.splits prod.splits)

text \<open>Without faults every call answers.\<close>

lemma redis_calm:
  "rc_faults c = [] \<Longrightarrow> Redis_Get redis_Client now k c =
     (case redis_view c now k of None \<Rightarrow> Err (Sentinel RedisNil) | Some v \<Rightarrow> Ok v, c)"
  "rc_faults c = [] \<Longrightarrow> Redis_Set redis_Client now k v d c =
     (Ok (), c\<lparr>rc_keys := server_SET now (k, v, d) (rc_keys c)\<rparr>)"
  "rc_faults c = [] \<Longrightarrow> Redis_PipelineExec redis_Client now cmds c =
     (Ok (), c\<lparr>rc_keys := fold (server_SET now) cmds (rc_keys c)\<rparr>)"
  "rc_faults c = [] \<Longrightarrow> Redis_ScriptRun redis_Client now l c =
     (case server_EVAL l now (rc_keys c) of (r, ks) \<Rightarrow> (r, c\<lparr>rc_keys := ks\<rparr>))"
  by (cases c, simp add: redis_Client_def redis_call_def redis_view_def Let_def)+

section \<open>Its commands have the documented effects\<close>

lemma server_ms_mono: "t \<le> u \<Longrightarrow> server_ms t \<le> server_ms u"
  by (simp add: server_ms_def time_units zdiv_mono1)

lemma server_ms_live:
  "t < now + d - time_Millisecond \<Longrightarrow> server_ms t \<le> server_ms now + max 1 (d div time_Millisecond)"
  unfolding server_ms_def time_units by linarith

lemma server_ms_gone:
  "now + max d time_Millisecond + time_Millisecond \<le> t \<Longrightarrow>
   \<not> server_ms t \<le> server_ms now + max 1 (d div time_Millisecond)"
  unfolding server_ms_def time_units by linarith

lemma holds_for_deadline:
  assumes "0 < d"
  shows "holds_for now k v d
    (server_GET (ks(k \<mapsto> (v, Some (server_ms now + max 1 (d div time_Millisecond))))))"
  using server_ms_live [of _ now d] server_ms_gone [of now d] assms
  by (auto simp: holds_for_def server_GET_def no_expiry_def)

lemma same_but_upd: "same_but now k (server_GET ks) (server_GET (ks(k := x)))"
  by (simp add: same_but_def server_GET_def)

lemma server_SET_effect: "set_effect now cmd (server_GET ks) (server_GET (server_SET now cmd ks))"
proof -
  obtain k v d where cmd: "cmd = (k, v, d)" by (cases cmd)
  show ?thesis
  proof (cases "0 < d")
    case True
    then show ?thesis
      by (simp add: cmd set_effect_def server_SET_def same_but_upd holds_for_deadline)
  next
    case False
    then show ?thesis
      by (auto simp: cmd set_effect_def server_SET_def same_but_upd holds_for_def server_GET_def
          KeepTTL_def)
  qed
qed

lemma server_SETs_effect:
  "sets_effect now cmds (server_GET ks) (server_GET (fold (server_SET now) cmds ks))"
  by (induction cmds arbitrary: ks) (auto intro: server_SET_effect)

lemma server_EXPIRE_effect:
  "expire_effect now k secs (server_GET ks) (server_GET (server_EXPIRE now k secs ks))"
proof (cases "server_GET ks now k")
  case None
  then show ?thesis by (simp add: expire_effect_def server_EXPIRE_def same_but_def)
next
  case (Some v)
  show ?thesis
  proof (cases "secs \<le> 0")
    case True
    with Some show ?thesis
      by (simp add: expire_effect_def server_EXPIRE_def same_but_upd) (simp add: server_GET_def)
  next
    case False
    then have "max 1 (secs * time_Second div time_Millisecond) = secs * 1000"
      by (simp add: time_units)
    with Some False show ?thesis
      using holds_for_deadline [of "secs * time_Second" now k v ks]
      by (simp add: expire_effect_def server_EXPIRE_def same_but_upd time_units mult.commute)
  qed
qed

lemma server_INCR_effect:
  "incr_effect now k n (server_GET ks)
    (server_GET (ks(k \<mapsto> (strconv_FormatInt n, key_deadline ks now k))))"
proof -
  have "server_GET (ks(k \<mapsto> (w, key_deadline ks now k))) t k =
      (if server_GET ks now k = None \<or> server_GET ks t k \<noteq> None then Some w else None)"
    if "now \<le> t" for t w
    using server_ms_mono [OF that]
    by (auto simp: key_deadline_def server_GET_def split: option.splits if_splits)
  then show ?thesis by (simp add: incr_effect_def same_but_upd)
qed

lemma server_EVAL_effect:
  "server_EVAL l now ks = (r, ks') \<Longrightarrow>
   (case r of
      Ok n \<Rightarrow> script_effect now l (server_GET ks) (Some n) (server_GET ks')
    | Err e \<Rightarrow> redis_error e \<and> script_effect now l (server_GET ks) None (server_GET ks')
    | Panic _ \<Rightarrow> False)"
proof (induction l arbitrary: ks)
  case (Lua_Return n)
  then show ?case by (auto intro!: script_effect.Return)
next
  case (Lua_GET k c)
  then have "server_EVAL (c (server_GET ks now k)) now ks = (r, ks')" by simp
  from Lua_GET.IH [OF rangeI this] show ?case
    by (auto intro: script_effect.Get split: outcome.splits)
next
  case (Lua_SETEX k secs v c)
  show ?case
  proof (cases "secs \<le> 0")
    case True
    with Lua_SETEX.prems show ?thesis
      by (auto simp: redis_error_def intro!: script_effect.SetexError)
  next
    case False
    with Lua_SETEX show ?thesis
      using script_effect.Setex [OF _ server_SET_effect]
      by (fastforce split: outcome.splits)
  qed
next
  case (Lua_INCR k c)
  show ?case
  proof (cases "counter_of (server_GET ks now k)")
    case None
    with Lua_INCR.prems show ?thesis
      by (auto simp: redis_error_def intro!: script_effect.IncrError)
  next
    case (Some n)
    show ?thesis
    proof (cases "int64_range (n + 1)")
      case True
      with Some Lua_INCR show ?thesis
        using script_effect.Incr [OF Some True server_INCR_effect]
        by (fastforce split: outcome.splits)
    next
      case False
      with Some Lua_INCR.prems show ?thesis
        by (auto simp: redis_error_def intro!: script_effect.IncrError)
    qed
  qed
next
  case (Lua_EXPIRE k secs c)
  then show ?case
    using script_effect.Expire [OF server_EXPIRE_effect]
    by (fastforce split: outcome.splits)
qed

section \<open>The engine keeps the laws of the client\<close>

lemma redis_error_Ext [simp]: "redis_error (ExtError e)"
  by (simp add: redis_error_def)

interpretation redis: redis_client redis_Client redis_view
proof (unfold_locales, goal_cases)
  case (1 now k s r s')
  then have "redis_call (\<lambda>ks. (case server_GET ks now k of None \<Rightarrow> Err (Sentinel RedisNil)
      | Some v \<Rightarrow> Ok v, ks)) s = (r, s')" by (simp add: redis_Client_def)
  then show ?case
    by (cases rule: redis_call_cases) (auto simp: redis_view_def split: option.splits)
next
  case (2 now k v d s ru s')
  then have "redis_call (\<lambda>ks. (Ok (), server_SET now (k, v, d) ks)) s = (ru, s')"
    by (simp add: redis_Client_def)
  then show ?case
    using server_SET_effect [of now "(k, v, d)" "rc_keys s"]
    by (cases rule: redis_call_cases) (auto simp: redis_view_def)
next
  case (3 now cmds s ru s')
  then have "redis_call (\<lambda>ks. (Ok (), fold (server_SET now) cmds ks)) s = (ru, s')"
    by (simp add: redis_Client_def)
  then show ?case
    using server_SETs_effect [of now cmds "rc_keys s"]
    by (cases rule: redis_call_cases) (auto simp: redis_view_def intro: exI [of _ "[]"])
next
  case (4 now l s ri s')
  then have "redis_call (server_EVAL l now) s = (ri, s')" by (simp add: redis_Client_def)
  then show ?case
  proof (cases rule: redis_call_cases)
    case (Lost e)
    then show ?thesis by (simp add: redis_view_def)
  next
    case (Ran r')
    with server_EVAL_effect [OF Ran(1)] show ?thesis
      by (auto simp: redis_view_def split: outcome.splits)
  qed
qed

end
