(* ===== verification/Token_Storage.thy ===== *)
theory Token_Storage
  imports Redis_Engine
begin

text \<open>
  The denylist of access tokens, \<open>internal/storage/redis/token.go\<close>, and what the services rely
  on when they hold a \<open>storage.TokenStorage\<close> (locale \<open>token_storage\<close>): an abstract set of
  denied tokens over time, in a keyspace that also holds other data. Every go-redis client that
  keeps its laws gives such a storage (the \<open>sublocale\<close>), the engine in particular.
\<close>

section \<open>The implementation\<close>

definition TokenStorage_InvalidateToken ::
  "'r RedisClient \<Rightarrow> gotime \<Rightarrow> string \<Rightarrow> duration \<Rightarrow> ('r, unit) go" where
  "TokenStorage_InvalidateToken client now token expiration =
     go_try (Redis_Set client now token ''invalidated'' expiration)
       (go_wrap ''redis set: '') (\<lambda>_. go_ret ())"

definition TokenStorage_IsTokenInvalidated ::
  "'r RedisClient \<Rightarrow> gotime \<Rightarrow> string \<Rightarrow> ('r, bool) go" where
  "TokenStorage_IsTokenInvalidated client now token =
     go_try (Redis_Get client now token)
       (\<lambda>e. if errors_Is e RedisNil then go_ret False else go_wrap ''redis get result: '' e)
       (\<lambda>result. go_ret (result = ''invalidated''))"

definition NewTokenStorage :: "'r RedisClient \<Rightarrow> 'r TokenStorage" where
  "NewTokenStorage client =
     \<lparr>InvalidateToken = TokenStorage_InvalidateToken client,
      IsTokenInvalidated = TokenStorage_IsTokenInvalidated client\<rparr>"

section \<open>The contract\<close>

type_synonym denylist = "gotime \<Rightarrow> string \<Rightarrow> bool"

definition deny_effect :: "gotime \<Rightarrow> string \<Rightarrow> duration \<Rightarrow> denylist \<Rightarrow> denylist \<Rightarrow> bool" where
  "deny_effect now tok d D D' \<longleftrightarrow>
     (\<forall>t \<ge> now. \<forall>k. k \<noteq> tok \<longrightarrow> D' t k = D t k) \<and>
     (\<forall>t \<ge> now. no_expiry d \<or> 0 < d \<and> t < now + d - time_Millisecond \<longrightarrow> D' t tok) \<and>
     (\<forall>t. 0 < d \<and> now + max d time_Millisecond + time_Millisecond \<le> t \<longrightarrow> \<not> D' t tok)"

definition same_denied :: "gotime \<Rightarrow> denylist \<Rightarrow> denylist \<Rightarrow> bool" where
  "same_denied now D D' \<longleftrightarrow> (\<forall>t \<ge> now. D' t = D t)"

locale token_storage =
  fixes T :: "'r TokenStorage"
    and denied :: "'r \<Rightarrow> denylist"
    and store :: "'r \<Rightarrow> view"
  assumes check: "IsTokenInvalidated T now tok s = (rb, s') \<Longrightarrow>
      same_denied now (denied s) (denied s') \<and> same_view now (store s) (store s') \<and>
      (case rb of
         Ok b \<Rightarrow> b = denied s now tok
       | Err e \<Rightarrow> redis_error e
       | Panic _ \<Rightarrow> False)"
    and invalidate: "InvalidateToken T now tok d s = (ru, s') \<Longrightarrow>
      same_but now tok (store s) (store s') \<and>
      (case ru of
         Ok _ \<Rightarrow> d \<noteq> KeepTTL \<longrightarrow> deny_effect now tok d (denied s) (denied s')
       | Err e \<Rightarrow> redis_error e \<and> (\<forall>t \<ge> now. \<forall>k. k \<noteq> tok \<longrightarrow> denied s' t k = denied s t k)
       | Panic _ \<Rightarrow> False)"
begin

lemma check_Ok: "IsTokenInvalidated T now tok s = (Ok b, s') \<Longrightarrow> b = denied s now tok"
  using check by fastforce

lemma check_denied:
  "denied s now tok \<Longrightarrow> IsTokenInvalidated T now tok s = (rb, s') \<Longrightarrow> rb \<noteq> Ok False"
  using check by fastforce

lemma check_stable:
  "IsTokenInvalidated T now tok s = (rb, s') \<Longrightarrow> now \<le> t \<Longrightarrow> denied s' t = denied s t"
  using check by (fastforce simp: same_denied_def)

lemma invalidate_denies:
  assumes "InvalidateToken T now tok d s = (Ok x, s')" and "now \<le> t"
    and "no_expiry d \<or> 0 < d \<and> t < now + d - time_Millisecond"
  shows "denied s' t tok"
proof -
  have "d \<noteq> KeepTTL" using assms(3) by (auto simp: no_expiry_def KeepTTL_def)
  with invalidate [OF assms(1)] have "deny_effect now tok d (denied s) (denied s')" by simp
  with assms(2,3) show ?thesis by (auto simp: deny_effect_def)
qed

end

section \<open>Every client that keeps its laws gives a token storage\<close>

lemma redis_error_wrap [simp]: "redis_error (Errorf p e) = redis_error e"
  by (simp add: redis_error_def)

lemma set_deny_effect:
  "set_effect now (tok, ''invalidated'', d) m m' \<Longrightarrow> d \<noteq> KeepTTL \<Longrightarrow>
   deny_effect now tok d (\<lambda>t k. m t k = Some ''invalidated'') (\<lambda>t k. m' t k = Some ''invalidated'')"
  by (auto simp: set_effect_def same_but_def holds_for_def deny_effect_def)

sublocale redis_client \<subseteq> ts: token_storage "NewTokenStorage R"
  "\<lambda>s t k. view s t k = Some ''invalidated''" view
proof (unfold_locales, goal_cases)
  case (1 now tok s rb s')
  then have "TokenStorage_IsTokenInvalidated R now tok s = (rb, s')"
    by (simp add: NewTokenStorage_def)
  then show ?case
    unfolding TokenStorage_IsTokenInvalidated_def
  proof (cases rule: go_try_cases)
    case (Ok v s1)
    with get [OF Ok(1)] show ?thesis by (auto simp: same_denied_def same_view_def)
  next
    case (Err e s1)
    with get [OF Err(1)] show ?thesis
      by (auto simp: same_denied_def same_view_def redis_error_def split: if_splits)
  next
    case (Panic p)
    with get [OF Panic(1)] show ?thesis by simp
  qed
next
  case (2 now tok d s ru s')
  then have "TokenStorage_InvalidateToken R now tok d s = (ru, s')"
    by (simp add: NewTokenStorage_def)
  then show ?case
    unfolding TokenStorage_InvalidateToken_def
  proof (cases rule: go_try_cases)
    case (Ok v s1)
    with set [OF Ok(1)] show ?thesis
      using set_deny_effect [of now tok d "view s" "view s'"] by (auto simp: set_effect_def)
  next
    case (Err e s1)
    with set [OF Err(1)] show ?thesis
      by (auto simp: set_effect_def same_but_def same_view_def)
  next
    case (Panic p)
    with set [OF Panic(1)] show ?thesis by simp
  qed
qed

interpretation redis_ts: token_storage "NewTokenStorage redis_Client"
  "\<lambda>s t k. redis_view s t k = Some ''invalidated''" redis_view
  by (rule redis.ts.token_storage_axioms)

end
