(* ===== verification/Go_Encoding.thy ===== *)
theory Go_Encoding
  imports Go_Strings
begin

text \<open>
  \<open>encoding/hex\<close>, \<open>encoding/base64\<close> (\<open>RawURLEncoding\<close>) and \<open>crypto/subtle\<close>, with the
  round trips the token format rests on. Byte slices are strings of bytes.
\<close>

section \<open>encoding/hex\<close>

definition hex_digit :: "nat \<Rightarrow> char" where
  "hex_digit d = (if d < 10 then char_of (48 + d) else char_of (87 + d))"

fun hex_EncodeToString :: "string \<Rightarrow> string" where
  "hex_EncodeToString [] = []"
| "hex_EncodeToString (b # bs) =
     hex_digit (of_char b div 16) # hex_digit (of_char b mod 16) # hex_EncodeToString bs"

definition from_hex :: "char \<Rightarrow> nat option" where
  "from_hex c =
     (let n = of_char c in
      if 48 \<le> n \<and> n \<le> 57 then Some (n - 48)
      else if 97 \<le> n \<and> n \<le> 102 then Some (n - 87)
      else if 65 \<le> n \<and> n \<le> 70 then Some (n - 55)
      else None)"

text \<open>\<open>DecodeString\<close>; \<open>None\<close> is a non-nil error (an invalid byte or an odd length).\<close>

fun hex_DecodeString :: "string \<Rightarrow> string option" where
  "hex_DecodeString [] = Some []"
| "hex_DecodeString [c] = None"
| "hex_DecodeString (c # d # cs) =
     (case (from_hex c, from_hex d) of
        (Some a, Some b) \<Rightarrow>
          (case hex_DecodeString cs of
             None \<Rightarrow> None
           | Some bs \<Rightarrow> Some (char_of (16 * a + b) # bs))
      | _ \<Rightarrow> None)"

lemma of_char_less_256: "(of_char c :: nat) < 256"
  using of_char_mod_256 [of c, where ?'a = nat] by (metis mod_less_divisor zero_less_numeral)

lemma from_hex_hex_digit: "d < 16 \<Longrightarrow> from_hex (hex_digit d) = Some d"
  by (simp add: from_hex_def hex_digit_def Let_def)

lemma hex_Decode_Encode [simp]: "hex_DecodeString (hex_EncodeToString bs) = Some bs"
proof (induction bs)
  case Nil
  then show ?case by simp
next
  case (Cons b bs)
  have "(of_char b :: nat) div 16 < 16"
    using of_char_less_256 [of b] by (simp add: less_mult_imp_div_less)
  moreover have "(of_char b :: nat) mod 16 < 16" by simp
  moreover have "16 * ((of_char b :: nat) div 16) + of_char b mod 16 = of_char b"
    by (rule mult_div_mod_eq)
  ultimately show ?case using Cons.IH by (simp add: from_hex_hex_digit)
qed

lemma hex_Encode_inject: "hex_EncodeToString a = hex_EncodeToString b \<longleftrightarrow> a = b"
  by (metis hex_Decode_Encode option.inject)

lemma length_hex_Encode [simp]: "length (hex_EncodeToString bs) = 2 * length bs"
  by (induction bs) auto

lemma hex_digit_range: "d < 16 \<Longrightarrow> 48 \<le> (of_char (hex_digit d) :: nat) \<and> (of_char (hex_digit d) :: nat) < 103"
  by (simp add: hex_digit_def)

lemma hex_Encode_range: "\<forall>c \<in> set (hex_EncodeToString bs). 48 \<le> (of_char c :: nat) \<and> (of_char c :: nat) < 103"
proof (induction bs)
  case (Cons b bs)
  have "(of_char b :: nat) div 16 < 16" using of_char_less_256 [of b] by (simp add: less_mult_imp_div_less)
  with Cons hex_digit_range show ?case by simp
qed simp

lemma hex_digit_not_dot: "d < 16 \<Longrightarrow> CHR ''.'' \<noteq> hex_digit d"
proof (rule notI)
  assume d: "d < 16" and "CHR ''.'' = hex_digit d"
  then have "from_hex (CHR ''.'') = Some d" by (simp add: from_hex_hex_digit)
  then show False by (simp add: from_hex_def Let_def)
qed

lemma hex_Encode_no_dot: "CHR ''.'' \<notin> set (hex_EncodeToString bs)"
proof (induction bs)
  case Nil
  then show ?case by simp
next
  case (Cons b bs)
  have "(of_char b :: nat) div 16 < 16" using of_char_less_256 [of b] by (simp add: less_mult_imp_div_less)
  moreover have "(of_char b :: nat) mod 16 < 16" by simp
  ultimately show ?case using Cons.IH by (simp add: hex_digit_not_dot)
qed

section \<open>encoding/base64, RawURLEncoding\<close>

definition b64_alphabet :: string where
  "b64_alphabet = ''ABCDEFGHIJKLMNOPQRSTUVWXYZabcdefghijklmnopqrstuvwxyz0123456789-_''"

definition b64_char :: "nat \<Rightarrow> char" where
  "b64_char i = b64_alphabet ! i"

fun b64_EncodeToString :: "string \<Rightarrow> string" where
  "b64_EncodeToString [] = []"
| "b64_EncodeToString [a] =
     (let x = of_char a in [b64_char (x div 4), b64_char (x mod 4 * 16)])"
| "b64_EncodeToString [a, b] =
     (let x = of_char a; y = of_char b in
      [b64_char (x div 4), b64_char (x mod 4 * 16 + y div 16), b64_char (y mod 16 * 4)])"
| "b64_EncodeToString (a # b # c # cs) =
     (let x = of_char a; y = of_char b; z = of_char c in
      [b64_char (x div 4), b64_char (x mod 4 * 16 + y div 16),
       b64_char (y mod 16 * 4 + z div 64), b64_char (z mod 64)] @ b64_EncodeToString cs)"

text \<open>The inverse on encoded strings; the program itself never decodes base64.\<close>

definition b64_index :: "char \<Rightarrow> nat" where
  "b64_index c = length (takeWhile (\<lambda>d. d \<noteq> c) b64_alphabet)"

fun b64_decode :: "string \<Rightarrow> string" where
  "b64_decode (p # q # r # s # cs) =
     (let i = b64_index p; j = b64_index q; k = b64_index r; l = b64_index s in
      char_of (i * 4 + j div 16) # char_of (j mod 16 * 16 + k div 4) #
      char_of (k mod 4 * 64 + l) # b64_decode cs)"
| "b64_decode [p, q, r] =
     (let i = b64_index p; j = b64_index q; k = b64_index r in
      [char_of (i * 4 + j div 16), char_of (j mod 16 * 16 + k div 4)])"
| "b64_decode [p, q] = [char_of (b64_index p * 4 + b64_index q div 16)]"
| "b64_decode _ = []"

lemma length_b64_alphabet [simp]: "length b64_alphabet = 64"
  by (simp add: b64_alphabet_def)

lemma distinct_b64_alphabet: "distinct b64_alphabet"
  by (simp add: b64_alphabet_def)

lemma b64_index_char: "i < 64 \<Longrightarrow> b64_index (b64_char i) = i"
proof -
  assume i: "i < 64"
  have "takeWhile (\<lambda>d. d \<noteq> b64_alphabet ! i) b64_alphabet = take i b64_alphabet"
    by (rule takeWhile_eq_take_P_nth)
      (use i distinct_b64_alphabet in \<open>auto simp: nth_eq_iff_index_eq\<close>)
  with i show ?thesis by (simp add: b64_index_def b64_char_def)
qed

lemma b64_char_not_dot: "i < 64 \<Longrightarrow> CHR ''.'' \<noteq> b64_char i"
proof -
  assume "i < 64"
  then have "b64_char i \<in> set b64_alphabet" by (simp add: b64_char_def)
  moreover have "CHR ''.'' \<notin> set b64_alphabet" by (simp add: b64_alphabet_def)
  ultimately show ?thesis by metis
qed

lemma b64_bounds:
  fixes x y z :: nat
  assumes "x < 256" "y < 256" "z < 256"
  shows "x div 4 < 64" "x mod 4 * 16 < 64" "x mod 4 * 16 + y div 16 < 64"
    "y mod 16 * 4 < 64" "y mod 16 * 4 + z div 64 < 64" "z mod 64 < 64"
proof -
  have "x mod 4 < 4" "y div 16 < 16" "y mod 16 < 16" "z div 64 < 4"
    using assms by (simp_all add: less_mult_imp_div_less)
  then show "x mod 4 * 16 < 64" "x mod 4 * 16 + y div 16 < 64"
    "y mod 16 * 4 < 64" "y mod 16 * 4 + z div 64 < 64" by linarith+
  show "x div 4 < 64" "z mod 64 < 64"
    using assms by (simp_all add: less_mult_imp_div_less)
qed

lemma digit_split:
  fixes a b m :: nat
  assumes "b < m"
  shows "(a * m + b) div m = a" "(a * m + b) mod m = b"
  using assms by simp_all

lemma b64_regroup:
  fixes x y z :: nat
  assumes "x < 256" "y < 256" "z < 256"
  shows "x div 4 * 4 + (x mod 4 * 16 + y div 16) div 16 = x"
    "x div 4 * 4 + x mod 4 * 16 div 16 = x"
    "(x mod 4 * 16 + y div 16) mod 16 * 16 + (y mod 16 * 4 + z div 64) div 4 = y"
    "(x mod 4 * 16 + y div 16) mod 16 * 16 + y mod 16 * 4 div 4 = y"
    "(y mod 16 * 4 + z div 64) mod 4 * 64 + z mod 64 = z"
proof -
  have y: "y div 16 < 16" and z: "z div 64 < 4"
    using assms by (simp_all add: less_mult_imp_div_less)
  show "x div 4 * 4 + (x mod 4 * 16 + y div 16) div 16 = x"
    by (simp only: digit_split [OF y] div_mult_mod_eq)
  show "x div 4 * 4 + x mod 4 * 16 div 16 = x"
    by (simp add: div_mult_mod_eq)
  show "(x mod 4 * 16 + y div 16) mod 16 * 16 + (y mod 16 * 4 + z div 64) div 4 = y"
    by (simp only: digit_split [OF y] digit_split [OF z] div_mult_mod_eq)
  show "(x mod 4 * 16 + y div 16) mod 16 * 16 + y mod 16 * 4 div 4 = y"
    by (simp only: digit_split [OF y]) (simp add: div_mult_mod_eq)
  show "(y mod 16 * 4 + z div 64) mod 4 * 64 + z mod 64 = z"
    by (simp only: digit_split [OF z] div_mult_mod_eq)
qed

lemma b64_decode_Encode: "b64_decode (b64_EncodeToString bs) = bs"
proof (induction bs rule: b64_EncodeToString.induct)
  case (2 a)
  show ?case
    using b64_bounds [of "of_char a" "of_char a" "of_char a", OF of_char_less_256 of_char_less_256 of_char_less_256]
      b64_regroup [of "of_char a" "of_char a" "of_char a", OF of_char_less_256 of_char_less_256 of_char_less_256]
    by (simp add: Let_def b64_index_char)
next
  case (3 a b)
  show ?case
    using b64_bounds [of "of_char a" "of_char b" "of_char b", OF of_char_less_256 of_char_less_256 of_char_less_256]
      b64_regroup [of "of_char a" "of_char b" "of_char b", OF of_char_less_256 of_char_less_256 of_char_less_256]
    by (simp add: Let_def b64_index_char)
next
  case (4 a b c cs)
  then show ?case
    using b64_bounds [of "of_char a" "of_char b" "of_char c", OF of_char_less_256 of_char_less_256 of_char_less_256]
      b64_regroup [of "of_char a" "of_char b" "of_char c", OF of_char_less_256 of_char_less_256 of_char_less_256]
    by (simp add: Let_def b64_index_char)
qed simp

lemma b64_Encode_inject: "b64_EncodeToString a = b64_EncodeToString b \<longleftrightarrow> a = b"
  by (metis b64_decode_Encode)

lemma b64_Encode_no_dot: "CHR ''.'' \<notin> set (b64_EncodeToString bs)"
proof (induction bs rule: b64_EncodeToString.induct)
  case (2 a)
  show ?case
    using b64_bounds [of "of_char a" "of_char a" "of_char a", OF of_char_less_256 of_char_less_256 of_char_less_256]
    by (simp add: Let_def b64_char_not_dot)
next
  case (3 a b)
  show ?case
    using b64_bounds [of "of_char a" "of_char b" "of_char b", OF of_char_less_256 of_char_less_256 of_char_less_256]
    by (simp add: Let_def b64_char_not_dot)
next
  case (4 a b c cs)
  then show ?case
    using b64_bounds [of "of_char a" "of_char b" "of_char c", OF of_char_less_256 of_char_less_256 of_char_less_256]
    by (simp add: Let_def b64_char_not_dot)
qed simp

lemma b64_char_alphabet [simp]: "i < 64 \<Longrightarrow> b64_char i \<in> set b64_alphabet"
  by (simp add: b64_char_def)

lemma b64_Encode_alphabet: "set (b64_EncodeToString bs) \<subseteq> set b64_alphabet"
proof (induction bs rule: b64_EncodeToString.induct)
  case (2 a)
  show ?case
    using b64_bounds [of "of_char a" "of_char a" "of_char a", OF of_char_less_256 of_char_less_256 of_char_less_256]
    by (simp add: Let_def)
next
  case (3 a b)
  show ?case
    using b64_bounds [of "of_char a" "of_char b" "of_char b", OF of_char_less_256 of_char_less_256 of_char_less_256]
    by (simp add: Let_def)
next
  case (4 a b c cs)
  then show ?case
    using b64_bounds [of "of_char a" "of_char b" "of_char c", OF of_char_less_256 of_char_less_256 of_char_less_256]
    by (simp add: Let_def)
qed simp

lemma length_b64_Encode: "length (b64_EncodeToString bs) = (4 * length bs + 2) div 3"
  by (induction bs rule: b64_EncodeToString.induct) (simp_all add: Let_def)

section \<open>crypto/subtle\<close>

definition subtle_ConstantTimeCompare :: "string \<Rightarrow> string \<Rightarrow> int" where
  "subtle_ConstantTimeCompare x y = (if length x \<noteq> length y then 0 else if x = y then 1 else 0)"

lemma ConstantTimeCompare_1 [simp]: "subtle_ConstantTimeCompare x y = 1 \<longleftrightarrow> x = y"
  by (auto simp: subtle_ConstantTimeCompare_def)

end
