(* ===== verification/Jwt_Lib.thy ===== *)
theory Jwt_Lib
  imports Go_Encoding Go_Time
begin

text \<open>
  The part of \<open>github.com/golang-jwt/jwt/v5\<close> the token service calls, as a record of functions,
  with its documented behaviour as the locale \<open>jwt_laws\<close>. The claims are the fields the program
  sets and reads. At the end, an instance that keeps the laws, on which the services run on
  concrete data; its keyed checksum is not a signature scheme.
\<close>

section \<open>The library\<close>

text \<open>\<open>jwtClaims\<close> of \<open>token.go\<close>: \<open>uid\<close> and the registered claims.\<close>

record jwtClaims =
  jcUserID :: string
  jcID :: string
  jcSubject :: string
  jcIssuedAt :: "gotime option"
  jcExpiresAt :: "gotime option"

datatype claims_value = JwtClaims jwtClaims | OtherClaims

record jwt_token =
  jtValid :: bool
  jtClaims :: claims_value

record jwt_options =
  joValidMethods :: "string list"
  joLeeway :: duration
  joExpirationRequired :: bool

record jwt_lib =
  jwt_SignedString :: "string \<Rightarrow> jwtClaims \<Rightarrow> string \<Rightarrow> string outcome"
  jwt_ParseWithClaims ::
    "gotime \<Rightarrow> jwt_options \<Rightarrow> (string \<Rightarrow> string outcome) \<Rightarrow> string \<Rightarrow> jwt_token option outcome"
  jwt_ParseUnverified :: "string \<Rightarrow> jwt_token outcome"

definition SigningMethodHS512_Alg :: string where
  "SigningMethodHS512_Alg = ''HS512''"

text \<open>\<open>jwt.NewNumericDate(t)\<close> truncates to whole seconds.\<close>

definition jwt_NewNumericDate :: "gotime \<Rightarrow> gotime" where
  "jwt_NewNumericDate t = (t div time_Second) * time_Second"

text \<open>Claims that survive their JSON form: printable ASCII and dates in the library's range.\<close>

definition plain_text :: "string \<Rightarrow> bool" where
  "plain_text s \<longleftrightarrow> (\<forall>c \<in> set s. 32 \<le> (of_char c :: nat) \<and> (of_char c :: nat) < 127)"

definition plain_date :: "gotime option \<Rightarrow> bool" where
  "plain_date d \<longleftrightarrow>
     (case d of None \<Rightarrow> True
      | Some t \<Rightarrow> 0 \<le> t \<and> t < 2 ^ 40 * time_Second \<and> t mod time_Second = 0)"

definition plain_claims :: "jwtClaims \<Rightarrow> bool" where
  "plain_claims c \<longleftrightarrow> plain_text (jcUserID c) \<and> plain_text (jcID c) \<and> plain_text (jcSubject c) \<and>
     plain_date (jcIssuedAt c) \<and> plain_date (jcExpiresAt c)"

text \<open>
  \<open>decode t\<close> is the algorithm and the claims a well-formed token carries; \<open>genuine alg key t\<close>
  is the outcome of the signature check. Parsing validates \<open>exp\<close> against the clock with the
  leeway; an error of the key function is the only error that can match a sentinel.
\<close>

locale jwt_laws =
  fixes J :: jwt_lib
    and decode :: "string \<Rightarrow> (string \<times> jwtClaims) option"
    and genuine :: "string \<Rightarrow> string \<Rightarrow> string \<Rightarrow> bool"
  assumes sign: "plain_claims c \<Longrightarrow>
      \<exists>t. jwt_SignedString J SigningMethodHS512_Alg c key = Ok t \<and>
          decode t = Some (SigningMethodHS512_Alg, c) \<and> genuine SigningMethodHS512_Alg key t"
    and sign_no_panic: "jwt_SignedString J alg c key \<noteq> Panic p"
    and sign_error: "jwt_SignedString J alg c key = Err e \<Longrightarrow> \<not> errors_Is e st"
    and unverified: "jwt_ParseUnverified J t =
      (case decode t of
         Some (alg, c) \<Rightarrow> Ok \<lparr>jtValid = False, jtClaims = JwtClaims c\<rparr>
       | None \<Rightarrow> jwt_ParseUnverified J t)"
    and unverified_error: "decode t = None \<Longrightarrow>
      \<exists>e. jwt_ParseUnverified J t = Err e \<and> (\<forall>st. \<not> errors_Is e st)"
    and parse_Ok: "jwt_ParseWithClaims J now opts kf t = Ok r \<Longrightarrow>
      \<exists>alg c key. decode t = Some (alg, c) \<and> alg \<in> set (joValidMethods opts) \<and>
        kf alg = Ok key \<and> genuine alg key t \<and>
        r = Some \<lparr>jtValid = True, jtClaims = JwtClaims c\<rparr> \<and>
        (joExpirationRequired opts \<longrightarrow> jcExpiresAt c \<noteq> None) \<and>
        (\<forall>ex. jcExpiresAt c = Some ex \<longrightarrow> now < ex + joLeeway opts)"
    and parse_Err: "jwt_ParseWithClaims J now opts kf t = Err e \<Longrightarrow> errors_Is e st \<Longrightarrow>
      \<exists>alg e'. kf alg = Err e' \<and> errors_Is e' st"
    and parse_no_panic: "(\<And>alg q. kf alg \<noteq> Panic q) \<Longrightarrow>
      jwt_ParseWithClaims J now opts kf t \<noteq> Panic p"
    and parse_signed: "plain_claims c \<Longrightarrow> jwt_SignedString J alg c key = Ok t \<Longrightarrow>
      alg \<in> set (joValidMethods opts) \<Longrightarrow> kf alg = Ok key \<Longrightarrow>
      jcExpiresAt c = Some ex \<Longrightarrow> now < ex + joLeeway opts \<Longrightarrow>
      jwt_ParseWithClaims J now opts kf t = Ok (Some \<lparr>jtValid = True, jtClaims = JwtClaims c\<rparr>)"
    and three_parts: "decode t \<noteq> None \<Longrightarrow> length (strings_Split (CHR ''.'') t) = 3"
begin

lemma unverified_Ok:
  "jwt_ParseUnverified J t = Ok tok \<longleftrightarrow>
   (\<exists>alg c. decode t = Some (alg, c) \<and> tok = \<lparr>jtValid = False, jtClaims = JwtClaims c\<rparr>)"
  using unverified [of t] unverified_error [of t] by (cases "decode t") auto

lemma unverified_decode:
  "decode t = Some (alg, c) \<Longrightarrow>
   jwt_ParseUnverified J t = Ok \<lparr>jtValid = False, jtClaims = JwtClaims c\<rparr>"
  using unverified [of t] by simp

lemma sign_decode:
  assumes "plain_claims c" and "jwt_SignedString J SigningMethodHS512_Alg c key = Ok t"
  shows "decode t = Some (SigningMethodHS512_Alg, c)"
  using sign [OF assms(1), of key] assms(2) by auto

end

section \<open>An instance\<close>

definition date_text :: "gotime option \<Rightarrow> string" where
  "date_text d = (case d of None \<Rightarrow> '''' | Some t \<Rightarrow> strconv_FormatInt (t div time_Second))"

definition text_date :: "string \<Rightarrow> gotime option option" where
  "text_date s =
     (if s = '''' then Some None
      else map_option (\<lambda>n. Some (n * time_Second)) (strconv_ParseInt s))"

definition claims_fields :: "jwtClaims \<Rightarrow> string list" where
  "claims_fields c =
     [jcUserID c, jcID c, jcSubject c, date_text (jcIssuedAt c), date_text (jcExpiresAt c)]"

definition hex_fields :: "string list \<Rightarrow> string" where
  "hex_fields fs = strings_join (CHR '','') (map hex_EncodeToString fs)"

definition fields_claims :: "string list \<Rightarrow> jwtClaims option" where
  "fields_claims fs =
     (case fs of
        [uid, jti, sub, iat, ex] \<Rightarrow>
          (case (text_date iat, text_date ex) of
             (Some i, Some e) \<Rightarrow>
               Some \<lparr>jcUserID = uid, jcID = jti, jcSubject = sub, jcIssuedAt = i, jcExpiresAt = e\<rparr>
           | _ \<Rightarrow> None)
      | _ \<Rightarrow> None)"

fun all_some :: "'a option list \<Rightarrow> 'a list option" where
  "all_some [] = Some []"
| "all_some (x # xs) =
     (case (x, all_some xs) of (Some y, Some ys) \<Rightarrow> Some (y # ys) | _ \<Rightarrow> None)"

definition fields_hex :: "string \<Rightarrow> string list option" where
  "fields_hex s = all_some (map hex_DecodeString (strings_Split (CHR '','') s))"

definition plain_mac :: "string \<Rightarrow> string \<Rightarrow> string \<Rightarrow> string" where
  "plain_mac alg key payload = hex_fields [alg, key, payload]"

definition jwt_decode :: "string \<Rightarrow> (string \<times> jwtClaims) option" where
  "jwt_decode t =
     (case strings_Split (CHR ''.'') t of
        [h, p, s] \<Rightarrow>
          (case (hex_DecodeString h, map_option fields_claims (fields_hex p)) of
             (Some alg, Some (Some c)) \<Rightarrow> Some (alg, c)
           | _ \<Rightarrow> None)
      | _ \<Rightarrow> None)"

definition jwt_genuine :: "string \<Rightarrow> string \<Rightarrow> string \<Rightarrow> bool" where
  "jwt_genuine alg key t =
     (case strings_Split (CHR ''.'') t of
        [h, p, s] \<Rightarrow> h = hex_EncodeToString alg \<and> s = plain_mac alg key p
      | _ \<Rightarrow> False)"

definition plain_jwt :: jwt_lib where
  "plain_jwt =
     \<lparr>jwt_SignedString = (\<lambda>alg c key.
        let p = hex_fields (claims_fields c)
        in Ok (strings_join (CHR ''.'') [hex_EncodeToString alg, p, plain_mac alg key p])),
      jwt_ParseWithClaims = (\<lambda>now opts kf t.
        case jwt_decode t of
          None \<Rightarrow> Err (ExtError ''token is malformed'')
        | Some (alg, c) \<Rightarrow>
            if alg \<notin> set (joValidMethods opts)
            then Err (ExtError ''token signature is invalid: signing method is invalid'')
            else case kf alg of
              Err e \<Rightarrow> Err (Errorf ''token is unverifiable: error while executing keyfunc: '' e)
            | Panic p \<Rightarrow> Panic p
            | Ok key \<Rightarrow>
                if \<not> jwt_genuine alg key t then Err (ExtError ''token signature is invalid'')
                else case jcExpiresAt c of
                  None \<Rightarrow>
                    if joExpirationRequired opts
                    then Err (ExtError ''token has invalid claims: exp claim is required'')
                    else Ok (Some \<lparr>jtValid = True, jtClaims = JwtClaims c\<rparr>)
                | Some e \<Rightarrow>
                    if now < e + joLeeway opts
                    then Ok (Some \<lparr>jtValid = True, jtClaims = JwtClaims c\<rparr>)
                    else Err (ExtError ''token has invalid claims: token is expired'')),
      jwt_ParseUnverified = (\<lambda>t.
        case jwt_decode t of
          None \<Rightarrow> Err (ExtError ''token is malformed'')
        | Some (alg, c) \<Rightarrow> Ok \<lparr>jtValid = False, jtClaims = JwtClaims c\<rparr>)\<rparr>"

lemma hex_digit_not_comma: "d < 16 \<Longrightarrow> CHR '','' \<noteq> hex_digit d"
proof (rule notI)
  assume d: "d < 16" and "CHR '','' = hex_digit d"
  then have "from_hex (CHR '','') = Some d" by (simp add: from_hex_hex_digit)
  then show False by (simp add: from_hex_def Let_def)
qed

lemma hex_Encode_no_comma: "CHR '','' \<notin> set (hex_EncodeToString bs)"
proof (induction bs)
  case (Cons b bs)
  have "(of_char b :: nat) div 16 < 16"
    using of_char_less_256 [of b] by (simp add: less_mult_imp_div_less)
  with Cons show ?case by (simp add: hex_digit_not_comma)
qed simp

lemma set_strings_join: "set (strings_join c ps) \<subseteq> insert c (\<Union> (set ` set ps))"
  by (induction c ps rule: strings_join.induct) auto

lemma hex_fields_no_dot: "CHR ''.'' \<notin> set (hex_fields fs)"
  using set_strings_join [of "CHR '',''" "map hex_EncodeToString fs"] hex_Encode_no_dot
  by (auto simp: hex_fields_def)

lemma all_some_map_Some: "all_some (map (\<lambda>x. Some (f x)) xs) = Some (map f xs)"
  by (induction xs) auto

lemma fields_hex_fields: "fs \<noteq> [] \<Longrightarrow> fields_hex (hex_fields fs) = Some fs"
  using all_some_map_Some [of id fs]
  by (simp add: fields_hex_def hex_fields_def strings_Split_join hex_Encode_no_comma comp_def)

lemma text_date_text: "plain_date d \<Longrightarrow> text_date (date_text d) = Some d"
proof (cases d)
  case (Some t)
  assume "plain_date d"
  with Some have t: "0 \<le> t" "t < 2 ^ 40 * time_Second" "t mod time_Second = 0"
    by (simp_all add: plain_date_def)
  then have "t div time_Second * time_Second = t" by (metis div_mult_mod_eq add.right_neutral)
  moreover have "int64_range (t div time_Second)"
    using t by (auto simp: int64_range_def time_units)
  ultimately show ?thesis
    using Some by (simp add: text_date_def date_text_def ParseInt_FormatInt)
qed (simp add: text_date_def date_text_def)

lemma fields_claims_fields: "plain_claims c \<Longrightarrow> fields_claims (claims_fields c) = Some c"
  by (simp add: fields_claims_def claims_fields_def plain_claims_def text_date_text)

lemma plain_signed_split:
  "strings_Split (CHR ''.'')
     (strings_join (CHR ''.'') [hex_EncodeToString alg, hex_fields fs, plain_mac alg key p]) =
   [hex_EncodeToString alg, hex_fields fs, plain_mac alg key p]"
  by (rule strings_Split_join)
    (simp_all add: hex_Encode_no_dot hex_fields_no_dot plain_mac_def)

lemma plain_signed_decode:
  assumes "plain_claims c" and "jwt_SignedString plain_jwt alg c key = Ok t"
  shows "jwt_decode t = Some (alg, c) \<and> jwt_genuine alg key t"
proof -
  let ?p = "hex_fields (claims_fields c)"
  have t: "t = strings_join (CHR ''.'') [hex_EncodeToString alg, ?p, plain_mac alg key ?p]"
    using assms(2) by (simp add: plain_jwt_def Let_def)
  have "fields_hex ?p = Some (claims_fields c)"
    by (rule fields_hex_fields) (simp add: claims_fields_def)
  then show ?thesis
    using plain_signed_split [of alg "claims_fields c" key ?p] assms(1)
    unfolding t jwt_decode_def jwt_genuine_def by (simp add: fields_claims_fields del: strings_join.simps)
qed

interpretation jwt: jwt_laws plain_jwt jwt_decode jwt_genuine
proof (unfold_locales, goal_cases)
  case (1 c key)
  then show ?case
    using plain_signed_decode [of c SigningMethodHS512_Alg key]
    by (simp add: plain_jwt_def Let_def)
next
  case (6 now opts kf t r)
  then show ?case
    by (auto simp: plain_jwt_def split: option.splits prod.splits if_splits outcome.splits)
next
  case (7 now opts kf t e st)
  then show ?case
    by (auto simp: plain_jwt_def split: option.splits prod.splits if_splits outcome.splits) blast+
next
  case (8 kf now opts t p)
  then show ?case
    by (auto simp: plain_jwt_def split: option.splits prod.splits if_splits outcome.splits)
next
  case (9 c alg key t opts kf e now)
  have "jwt_decode t = Some (alg, c)" "jwt_genuine alg key t"
    using plain_signed_decode [OF 9(1,2)] by simp_all
  with 9 show ?case by (simp add: plain_jwt_def)
next
  case (10 t)
  then show ?case by (auto simp: jwt_decode_def split: list.splits)
qed (auto simp: plain_jwt_def Let_def split: option.splits)

end
