(* ===== verification/Go_Duration.thy ===== *)
theory Go_Duration
  imports Go_Time
begin

text \<open>
  \<open>time.ParseDuration\<close>, which reads the durations of the environment. The value is
  accumulated in an unsigned 64-bit integer, with the range checks of the library. The only
  floating-point step, the fraction \<open>uint64(float64(f) * (float64(unit) / scale))\<close>, is the
  argument \<open>fl f unit scale\<close>. \<open>None\<close> is a non-nil error.
\<close>

fun span_chars :: "(char \<Rightarrow> bool) \<Rightarrow> string \<Rightarrow> string \<times> string" where
  "span_chars p [] = ([], [])"
| "span_chars p (c # cs) =
     (if p c then (case span_chars p cs of (a, b) \<Rightarrow> (c # a, b)) else ([], c # cs))"

fun leadingInt :: "nat \<Rightarrow> string \<Rightarrow> (nat \<times> string) option" where
  "leadingInt x [] = Some (x, [])"
| "leadingInt x (c # cs) =
     (if \<not> is_digit c then Some (x, c # cs)
      else if x > 2 ^ 63 div 10 then None
      else let y = x * 10 + (of_char c - 48) in if y > 2 ^ 63 then None else leadingInt y cs)"

fun leadingFraction :: "nat \<Rightarrow> nat \<Rightarrow> bool \<Rightarrow> string \<Rightarrow> nat \<times> nat \<times> string" where
  "leadingFraction x scale overflow [] = (x, scale, [])"
| "leadingFraction x scale overflow (c # cs) =
     (if \<not> is_digit c then (x, scale, c # cs)
      else if overflow \<or> x > (2 ^ 63 - 1) div 10 then leadingFraction x scale True cs
      else let y = x * 10 + (of_char c - 48) in
           if y > 2 ^ 63 then leadingFraction x scale True cs
           else leadingFraction y (scale * 10) False cs)"

definition unitMap :: "string \<Rightarrow> nat option" where
  "unitMap u =
     (if u = ''ns'' then Some 1
      else if u = ''us'' \<or> u = [char_of (194::nat), char_of (181::nat), CHR ''s'']
              \<or> u = [char_of (206::nat), char_of (188::nat), CHR ''s''] then Some 1000
      else if u = ''ms'' then Some 1000000
      else if u = ''s'' then Some 1000000000
      else if u = ''m'' then Some 60000000000
      else if u = ''h'' then Some 3600000000000
      else None)"

lemma span_chars_length: "span_chars p cs = (a, b) \<Longrightarrow> length cs = length a + length b"
  by (induction cs arbitrary: a b) (auto split: prod.splits if_splits)

text \<open>
  One round of the loop: the digits around the period (\<open>[0-9]*(\.[0-9]*)?\<close>, at least one digit),
  then the unit, then the value in nanoseconds with its range checks.
\<close>

definition duration_fraction :: "string \<Rightarrow> nat \<times> nat \<times> string" where
  "duration_fraction s =
     (if s \<noteq> [] \<and> hd s = CHR ''.'' then leadingFraction 0 1 False (tl s) else (0, 1, s))"

definition duration_number :: "string \<Rightarrow> (nat \<times> nat \<times> nat \<times> string) option" where
  "duration_number s =
     (case leadingInt 0 s of
        None \<Rightarrow> None
      | Some (v, s1) \<Rightarrow>
          (case duration_fraction s1 of
             (f, scale, s2) \<Rightarrow>
               if length s = length s1 \<and>
                  \<not> (s1 \<noteq> [] \<and> hd s1 = CHR ''.'' \<and> length (tl s1) \<noteq> length s2)
               then None else Some (v, f, scale, s2)))"

definition duration_value :: "(nat \<Rightarrow> nat \<Rightarrow> nat \<Rightarrow> nat) \<Rightarrow> nat \<Rightarrow> nat \<Rightarrow> nat \<Rightarrow> nat \<Rightarrow> nat option" where
  "duration_value fl v f scale unit_ns =
     (if v > 2 ^ 63 div unit_ns then None
      else let w = v * unit_ns + (if f > 0 then fl f unit_ns scale else 0) in
           if f > 0 \<and> w > 2 ^ 63 then None else Some w)"

definition number_char :: "char \<Rightarrow> bool" where
  "number_char c \<longleftrightarrow> c = CHR ''.'' \<or> is_digit c"

definition duration_item :: "(nat \<Rightarrow> nat \<Rightarrow> nat \<Rightarrow> nat) \<Rightarrow> string \<Rightarrow> (nat \<times> string) option" where
  "duration_item fl s =
     (if s = [] \<or> \<not> number_char (hd s) then None
      else case duration_number s of
        None \<Rightarrow> None
      | Some (v, f, scale, s2) \<Rightarrow>
          (case span_chars (\<lambda>c. \<not> number_char c) s2 of
             (u, s3) \<Rightarrow>
               if u = [] then None
               else case unitMap u of
                 None \<Rightarrow> None
               | Some unit_ns \<Rightarrow> map_option (\<lambda>w. (w, s3)) (duration_value fl v f scale unit_ns)))"

text \<open>
  The loop over the items. Every item consumes its unit, so the length of the text bounds the
  number of rounds (\<open>duration_items_fuel\<close> below).
\<close>

fun duration_items ::
  "(nat \<Rightarrow> nat \<Rightarrow> nat \<Rightarrow> nat) \<Rightarrow> nat \<Rightarrow> nat \<Rightarrow> string \<Rightarrow> nat option" where
  "duration_items fl n d [] = Some d"
| "duration_items fl 0 d s = None"
| "duration_items fl (Suc n) d s =
     (case duration_item fl s of
        None \<Rightarrow> None
      | Some (v, rest) \<Rightarrow> if d + v > 2 ^ 63 then None else duration_items fl n (d + v) rest)"

definition time_ParseDuration :: "(nat \<Rightarrow> nat \<Rightarrow> nat \<Rightarrow> nat) \<Rightarrow> string \<Rightarrow> duration option" where
  "time_ParseDuration fl orig =
     (let neg = (orig \<noteq> [] \<and> hd orig = CHR ''-'');
          s = (if orig \<noteq> [] \<and> (hd orig = CHR ''-'' \<or> hd orig = CHR ''+'') then tl orig else orig)
      in if s = ''0'' then Some 0
         else if s = [] then None
         else case duration_items fl (length s) 0 s of
           None \<Rightarrow> None
         | Some d \<Rightarrow>
             if neg then Some (- int d) else if d > 2 ^ 63 - 1 then None else Some (int d))"

lemma leadingInt_length: "leadingInt x s = Some (v, r) \<Longrightarrow> length r \<le> length s"
  by (induction x s arbitrary: v r rule: leadingInt.induct)
    (auto simp: Let_def split: if_splits intro: le_SucI)

lemma leadingFraction_length: "leadingFraction x sc ov s = (f, sc', r) \<Longrightarrow> length r \<le> length s"
  by (induction x sc ov s arbitrary: f sc' r rule: leadingFraction.induct)
    (auto simp: Let_def split: if_splits intro: le_SucI)

lemma duration_number_length:
  assumes "duration_number s = Some (v, f, sc, r)"
  shows "length r \<le> length s"
proof -
  obtain s1 where s1: "leadingInt 0 s = Some (v, s1)" "duration_fraction s1 = (f, sc, r)"
    using assms by (auto simp: duration_number_def split: option.splits prod.splits if_splits)
  then have "length r \<le> length s1"
    using leadingFraction_length [of 0 1 False "tl s1" f sc r]
    by (cases s1) (auto simp: duration_fraction_def split: if_splits)
  with leadingInt_length [OF s1(1)] show ?thesis by simp
qed

lemma duration_item_shorter:
  assumes "duration_item fl s = Some (v, r)"
  shows "length r < length s"
proof -
  obtain n f sc s2 u where n: "duration_number s = Some (n, f, sc, s2)"
      "span_chars (\<lambda>c. \<not> number_char c) s2 = (u, r)" "u \<noteq> []"
    using assms by (auto simp: duration_item_def split: option.splits prod.splits if_splits)
  then show ?thesis
    using duration_number_length [OF n(1)] span_chars_length [OF n(2)] by (cases u) auto
qed

text \<open>More fuel than the length of the text gives the same value, so the bound loses nothing.\<close>

lemma duration_items_fuel:
  "length s \<le> n \<Longrightarrow> length s \<le> m \<Longrightarrow> duration_items fl n d s = duration_items fl m d s"
proof (induction n arbitrary: m d s)
  case 0
  then show ?case by simp
next
  case (Suc n)
  show ?case
  proof (cases s)
    case Nil
    then show ?thesis by simp
  next
    case (Cons c cs)
    with Suc.prems obtain m' where m': "m = Suc m'" "length cs \<le> m'" "length cs \<le> n"
      by (cases m) auto
    show ?thesis
    proof (cases "duration_item fl s")
      case None
      with Cons m' show ?thesis by simp
    next
      case (Some vr)
      obtain v r where vr: "vr = (v, r)" by (cases vr)
      then have "length r \<le> length cs" using duration_item_shorter [of fl s v r] Some Cons by simp
      then have "duration_items fl n (d + v) r = duration_items fl m' (d + v) r"
        using m'(2,3) by (intro Suc.IH) simp_all
      with Cons Some vr m' show ?thesis by simp
    qed
  qed
qed

end
