(* ===== verification/Config.thy ===== *)
theory Config
  imports Go_Duration
begin

text \<open>
  \<open>internal/util/config.go\<close>, the configuration read from the environment, and the
  configuration part of \<open>internal/util/db.go\<close>. The environment after \<open>godotenv.Load\<close> is the
  argument \<open>env\<close> (\<open>os.Getenv\<close> of an unset variable is the empty string). \<open>log.Fatal\<close> ends
  the process: it is the outcome \<open>Panic\<close>, which no caller catches.
\<close>

type_synonym environ = "string \<Rightarrow> string"
type_synonym float_step = "nat \<Rightarrow> nat \<Rightarrow> nat \<Rightarrow> nat"

definition defaultServerAddr :: string where "defaultServerAddr = ''localhost:8080''"
definition defaultWriteTimeout :: duration where "defaultWriteTimeout = 10 * time_Second"
definition defaultReadTimeout :: duration where "defaultReadTimeout = 10 * time_Second"
definition defaultIdleTimeout :: duration where "defaultIdleTimeout = 30 * time_Second"
definition defaultGracefulTimeout :: duration where "defaultGracefulTimeout = 5 * time_Second"
definition defaultAccessTTL :: duration where "defaultAccessTTL = 15 * time_Minute"
definition defaultRefreshTTL :: duration where "defaultRefreshTTL = 24 * time_Hour"
definition defaultRateLimit :: int where "defaultRateLimit = 100"
definition defaultRateInterval :: duration where "defaultRateInterval = 1 * time_Minute"
definition defaultRateBlockTime :: duration where "defaultRateBlockTime = 5 * time_Minute"

definition TokenPartsExpected :: nat where "TokenPartsExpected = 2"
definition RawTokenLength :: nat where "RawTokenLength = 32"
definition JWTLeeWay :: duration where "JWTLeeWay = 5 * time_Second"

lemmas config_defaults =
  defaultServerAddr_def defaultWriteTimeout_def defaultReadTimeout_def defaultIdleTimeout_def
  defaultGracefulTimeout_def defaultAccessTTL_def defaultRefreshTTL_def defaultRateLimit_def
  defaultRateInterval_def defaultRateBlockTime_def

text \<open>
  \<open>init\<close>: \<open>godotenv.Load\<close>, an argument, gives the environment with the entries of the file, or
  fails, which is only logged.
\<close>

definition init_environ :: "(string \<Rightarrow> environ \<Rightarrow> environ outcome) \<Rightarrow> environ \<Rightarrow> environ" where
  "init_environ godotenv_Load env = (case godotenv_Load ''.env'' env of Ok env' \<Rightarrow> env' | _ \<Rightarrow> env)"

definition parseDurationOrDefault ::
  "float_step \<Rightarrow> environ \<Rightarrow> string \<Rightarrow> duration \<Rightarrow> duration" where
  "parseDurationOrDefault fl env varName deflt =
     (let v = env varName in
      if v \<noteq> '''' then (case time_ParseDuration fl v of Some d \<Rightarrow> d | None \<Rightarrow> deflt) else deflt)"

record ServerConfig =
  ServerAddr :: string
  WriteTimeout :: duration
  ReadTimeout :: duration
  IdleTimeout :: duration
  GracefulTimeout :: duration

definition NewServerConfig :: "float_step \<Rightarrow> environ \<Rightarrow> ServerConfig" where
  "NewServerConfig fl env =
     (let addr = env ''SERVER_ADDRESS'';
          addr = (if addr = '''' then defaultServerAddr else addr)
      in \<lparr>ServerAddr = addr,
          WriteTimeout = parseDurationOrDefault fl env ''WRITE_TIMEOUT'' defaultWriteTimeout,
          ReadTimeout = parseDurationOrDefault fl env ''READ_TIMEOUT'' defaultReadTimeout,
          IdleTimeout = parseDurationOrDefault fl env ''IDLE_TIMEOUT'' defaultIdleTimeout,
          GracefulTimeout =
            parseDurationOrDefault fl env ''GRACEFUL_TIMEOUT'' defaultGracefulTimeout\<rparr>)"

record TokenConfig =
  cfgJwtSecretKey :: string
  cfgAccessTTL :: duration
  cfgRefreshTTL :: duration

definition NewTokenConfig :: "float_step \<Rightarrow> environ \<Rightarrow> TokenConfig outcome" where
  "NewTokenConfig fl env =
     (let secret = env ''JWT_SECRET'' in
      if secret = '''' then Panic ''JWT_SECRET is not set''
      else Ok \<lparr>cfgJwtSecretKey = secret,
               cfgAccessTTL = parseDurationOrDefault fl env ''ACCESS_TOKEN_TTL'' defaultAccessTTL,
               cfgRefreshTTL =
                 parseDurationOrDefault fl env ''REFRESH_TOKEN_TTL'' defaultRefreshTTL\<rparr>)"

record RateLimiterConfig =
  Limit :: int
  Interval :: duration
  BlockTime :: duration

definition NewRateLimiterConfig :: "float_step \<Rightarrow> environ \<Rightarrow> RateLimiterConfig" where
  "NewRateLimiterConfig fl env =
     (let limitStr = env ''RATE_LIMIT_LIMIT'';
          limit = (if limitStr \<noteq> ''''
                   then (case strconv_Atoi limitStr of Some l \<Rightarrow> l | None \<Rightarrow> defaultRateLimit)
                   else defaultRateLimit);
          interval = parseDurationOrDefault fl env ''RATE_LIMIT_INTERVAL'' defaultRateInterval;
          blockTime = parseDurationOrDefault fl env ''RATE_LIMIT_BLOCK_TIME'' defaultRateBlockTime
      in \<lparr>Limit = limit, Interval = interval, BlockTime = blockTime\<rparr>)"

definition GetWebhookURL :: "environ \<Rightarrow> string" where
  "GetWebhookURL env = env ''WEBHOOK_URL''"

section \<open>internal/util/db.go\<close>

record DBConfig = DSN :: string
record RedisConfig = RedisAddr :: string

definition NewDBConfig :: "environ \<Rightarrow> DBConfig outcome" where
  "NewDBConfig env =
     (let dsn = env ''DATABASE_URL'' in
      if dsn = '''' then Panic ''DATABASE_URL is not set'' else Ok \<lparr>DSN = dsn\<rparr>)"

definition NewRedisConfig :: "environ \<Rightarrow> RedisConfig outcome" where
  "NewRedisConfig env =
     (let addr = env ''REDIS_ADDR'' in
      if addr = '''' then Panic ''REDIS_ADDR is not set'' else Ok \<lparr>RedisAddr = addr\<rparr>)"

section \<open>Every value is the parsed one or the default\<close>

lemma parseDurationOrDefault_unset [simp]:
  "env v = '''' \<Longrightarrow> parseDurationOrDefault fl env v d = d"
  by (simp add: parseDurationOrDefault_def)

lemma parseDurationOrDefault_invalid:
  "time_ParseDuration fl (env v) = None \<Longrightarrow> parseDurationOrDefault fl env v d = d"
  by (simp add: parseDurationOrDefault_def Let_def)

lemma ParseDuration_empty [simp]: "time_ParseDuration fl [] = None"
  by (simp add: time_ParseDuration_def)

lemma parseDurationOrDefault_valid:
  "time_ParseDuration fl (env v) = Some x \<Longrightarrow> parseDurationOrDefault fl env v d = x"
  by (cases "env v = []") (simp_all add: parseDurationOrDefault_def)

text \<open>A parsed duration is a 64-bit value, so the configuration never wraps.\<close>

lemma duration_items_bound: "duration_items fl n d s = Some r \<Longrightarrow> d \<le> 2 ^ 63 \<Longrightarrow> r \<le> 2 ^ 63"
  by (induction fl n d s rule: duration_items.induct)
    (auto split: option.splits prod.splits if_splits)

lemma ParseDuration_range: "time_ParseDuration fl s = Some d \<Longrightarrow> int64_range d"
  using duration_items_bound [of fl _ 0]
  by (fastforce simp: time_ParseDuration_def Let_def int64_range_def split: if_splits option.splits)

lemma parseDurationOrDefault_range:
  "int64_range deflt \<Longrightarrow> int64_range (parseDurationOrDefault fl env v deflt)"
  by (auto simp: parseDurationOrDefault_def Let_def dest: ParseDuration_range split: option.splits)

end
