(* ===== verification/Go_Sha256.thy ===== *)
theory Go_Sha256
  imports Go_Encoding "HOL-Library.Word"
begin

text \<open>
  \<open>crypto/sha256\<close>: \<open>sha256.Sum256\<close> on byte strings, over 32-bit words as FIPS 180-4 defines
  it (padding, message schedule, compression rounds). The development uses it as the function
  the code calls; of its internals only the digest length is used in proofs, so no property
  assumes anything about collisions.
\<close>

unbundle bit_operations_syntax

type_synonym u32 = "32 word"

definition rotr32 :: "nat \<Rightarrow> u32 \<Rightarrow> u32" where
  "rotr32 n x = drop_bit n x OR push_bit (32 - n) x"

text \<open>The round constants and the initial state.\<close>

definition sha_k :: "u32 list" where
  "sha_k =
    [1116352408, 1899447441, 3049323471, 3921009573, 961987163, 1508970993, 2453635748,
     2870763221, 3624381080, 310598401, 607225278, 1426881987, 1925078388, 2162078206,
     2614888103, 3248222580, 3835390401, 4022224774, 264347078, 604807628, 770255983,
     1249150122, 1555081692, 1996064986, 2554220882, 2821834349, 2952996808, 3210313671,
     3336571891, 3584528711, 113926993, 338241895, 666307205, 773529912, 1294757372, 1396182291,
     1695183700, 1986661051, 2177026350, 2456956037, 2730485921, 2820302411, 3259730800,
     3345764771, 3516065817, 3600352804, 4094571909, 275423344, 430227734, 506948616,
     659060556, 883997877, 958139571, 1322822218, 1537002063, 1747873779, 1955562222,
     2024104815, 2227730452, 2361852424, 2428436474, 2756734187, 3204031479, 3329325298]"

definition sha_init :: "u32 list" where
  "sha_init =
    [1779033703, 3144134277, 1013904242, 2773480762, 1359893119, 2600822924, 528734635,
     1541459225]"

text \<open>The message schedule: a window of sixteen words slides \<open>n\<close> times.\<close>

fun sha_schedule :: "nat \<Rightarrow> u32 list \<Rightarrow> u32 list" where
  "sha_schedule 0 w = w"
| "sha_schedule (Suc n) w =
     (let x = w ! 14; y = w ! 1;
          s1 = rotr32 17 x XOR rotr32 19 x XOR drop_bit 10 x;
          s0 = rotr32 7 y XOR rotr32 18 y XOR drop_bit 3 y
      in w ! 0 # sha_schedule n (tl w @ [s1 + w ! 9 + s0 + w ! 0]))"

fun sha_round :: "u32 list \<Rightarrow> u32 \<times> u32 \<Rightarrow> u32 list" where
  "sha_round [a, b, c, d, e, f, g, h] (k, w) =
     (let t1 = h + (rotr32 6 e XOR rotr32 11 e XOR rotr32 25 e)
               + ((e AND f) XOR (NOT e AND g)) + k + w;
          t2 = (rotr32 2 a XOR rotr32 13 a XOR rotr32 22 a)
               + ((a AND b) XOR (a AND c) XOR (b AND c))
      in [t1 + t2, a, b, c, d + t1, e, f, g])"
| "sha_round st _ = st"

definition sha_block :: "u32 list \<Rightarrow> u32 list \<Rightarrow> u32 list" where
  "sha_block st w = map2 (+) st (foldl sha_round st (zip sha_k (sha_schedule 48 w)))"

definition sha_pad :: "string \<Rightarrow> string" where
  "sha_pad m =
     m @ char_of (128 :: nat) # replicate ((119 - length m mod 64) mod 64) (char_of (0 :: nat)) @
     map (\<lambda>i. char_of (8 * length m div 256 ^ (7 - i))) [0..<8]"

fun sha_words :: "string \<Rightarrow> u32 list" where
  "sha_words (a # b # c # d # cs) =
     (((of_char a * 256 + of_char b) * 256 + of_char c) * 256 + of_char d) # sha_words cs"
| "sha_words _ = []"

fun sha_blocks :: "nat \<Rightarrow> u32 list \<Rightarrow> u32 list \<Rightarrow> u32 list" where
  "sha_blocks 0 ws st = st"
| "sha_blocks (Suc n) ws st = sha_blocks n (drop 16 ws) (sha_block st (take 16 ws))"

definition sha_bytes :: "u32 \<Rightarrow> string" where
  "sha_bytes x = map (\<lambda>i. char_of (unat (drop_bit (8 * (3 - i)) x))) [0..<4]"

definition sha256_Sum256 :: "string \<Rightarrow> string" where
  "sha256_Sum256 m =
     (let p = sha_pad m
      in concat (map sha_bytes (sha_blocks (length p div 64) (sha_words p) sha_init)))"

lemma length_sha_round: "length (sha_round st kw) = length st"
  by (induction st kw rule: sha_round.induct) (simp_all add: Let_def)

lemma length_sha_rounds: "length (foldl sha_round st kws) = length st"
  by (induction kws arbitrary: st) (simp_all add: length_sha_round)

lemma length_sha_block: "length (sha_block st w) = length st"
  by (simp add: sha_block_def length_sha_rounds)

lemma length_sha_blocks: "length (sha_blocks n ws st) = length st"
  by (induction n ws st rule: sha_blocks.induct) (simp_all add: length_sha_block)

lemma length_sha256 [simp]: "length (sha256_Sum256 m) = 32"
proof -
  have "length (concat (map sha_bytes ws)) = 4 * length ws" for ws
    by (induction ws) (simp_all add: sha_bytes_def)
  then show ?thesis
    by (simp add: sha256_Sum256_def Let_def length_sha_blocks sha_init_def)
qed

end
