(* ===== verification/Token_Service.thy ===== *)
theory Token_Service
  imports Token_Storage Jwt_Lib Config Go_Sha256
begin

text \<open>
  \<open>internal/service/token.go\<close>: access tokens (JWT) and refresh tokens (selector and verifier).
  Ambient inputs are arguments: the new UUID, the bytes of \<open>crypto/rand\<close>, and the clock readings
  an operation takes, \<open>clk 0\<close>, \<open>clk 1\<close>, ... in the order it takes them (the instant at which the
  Redis server executes a command is one of them).
\<close>

section \<open>The service\<close>

record 'r TokenService =
  tsJwtSecretKey :: string
  tsAccessTTL :: duration
  tsRefreshTTL :: duration
  tsTokenStorage :: "'r TokenStorage"

definition NewTokenService :: "TokenConfig \<Rightarrow> 'r TokenStorage \<Rightarrow> 'r TokenService" where
  "NewTokenService cfg tokenStorage =
     \<lparr>tsJwtSecretKey = cfgJwtSecretKey cfg, tsAccessTTL = cfgAccessTTL cfg,
      tsRefreshTTL = cfgRefreshTTL cfg, tsTokenStorage = tokenStorage\<rparr>"

text \<open>\<open>rand.Read(b)\<close> fills the whole slice or fails.\<close>

type_synonym entropy = "(nat \<Rightarrow> char) outcome"

definition rand_Read :: "entropy \<Rightarrow> nat \<Rightarrow> string outcome" where
  "rand_Read rnd n = try_pure rnd Err (\<lambda>f. Ok (map f [0..<n]))"

section \<open>Access tokens: creation\<close>

definition access_claims :: "'r TokenService \<Rightarrow> int \<Rightarrow> gotime \<Rightarrow> string \<Rightarrow> jwtClaims" where
  "access_claims ts userID now jti =
     \<lparr>jcUserID = strconv_FormatInt userID, jcID = jti, jcSubject = strconv_FormatInt userID,
      jcIssuedAt = Some (jwt_NewNumericDate now),
      jcExpiresAt = Some (jwt_NewNumericDate (time_Add now (tsAccessTTL ts)))\<rparr>"

definition TokenService_CreateAccessTokenWithJTI ::
  "jwt_lib \<Rightarrow> 'r TokenService \<Rightarrow> int \<Rightarrow> gotime \<Rightarrow> string \<Rightarrow> string outcome" where
  "TokenService_CreateAccessTokenWithJTI J ts userID now jti =
     (let claims = access_claims ts userID now jti in
      try_pure (jwt_SignedString J SigningMethodHS512_Alg claims (tsJwtSecretKey ts))
        (\<lambda>err. Err (Errorf ''signed string: '' err))
        (\<lambda>signedToken. Ok signedToken))"

definition TokenService_CreateAccessToken ::
  "jwt_lib \<Rightarrow> 'r TokenService \<Rightarrow> string \<Rightarrow> int \<Rightarrow> gotime \<Rightarrow> (string \<times> string) outcome" where
  "TokenService_CreateAccessToken J ts uuid userID now =
     (let jti = uuid in
      try_pure (TokenService_CreateAccessTokenWithJTI J ts userID now jti) Err
        (\<lambda>signedToken. Ok (signedToken, jti)))"

section \<open>Refresh tokens\<close>

text \<open>The results are the token, its selector and the hash of its verifier.\<close>

definition TokenService_CreateRefreshToken :: "entropy \<Rightarrow> (string \<times> string \<times> string) outcome" where
  "TokenService_CreateRefreshToken rnd =
     try_pure (rand_Read rnd RawTokenLength)
       (\<lambda>err. Err (Errorf ''failed to read random bytes: '' err))
       (\<lambda>rawToken.
          let selector = b64_EncodeToString (take 16 rawToken);
              verifier = b64_EncodeToString (drop 16 rawToken);
              hashedVerifierBytes = sha256_Sum256 verifier;
              verifierHash = hex_EncodeToString hashedVerifierBytes;
              token = selector @ ''.'' @ verifier
          in Ok (token, selector, verifierHash))"

definition TokenService_ValidateRefreshToken :: "string \<Rightarrow> string \<Rightarrow> unit outcome" where
  "TokenService_ValidateRefreshToken token verifierHash =
     (let parts = strings_Split (CHR ''.'') token in
      if length parts \<noteq> TokenPartsExpected then Err (ErrorsNew ''invalid token format'')
      else
        let verifier = parts ! 1 in
        case hex_DecodeString verifierHash of
          None \<Rightarrow> Err (Errorf ''failed to decode stored hash: '' (ExtError ''encoding/hex''))
        | Some hashedVerifierBytes \<Rightarrow>
            let newHashBytes = sha256_Sum256 verifier in
            if subtle_ConstantTimeCompare newHashBytes hashedVerifierBytes \<noteq> 1
            then Err (ErrorsNew ''invalid refresh token'')
            else Ok ())"

section \<open>Access tokens: validation and revocation\<close>

definition TokenService_IsAccessTokenInvalidated ::
  "'r TokenService \<Rightarrow> gotime \<Rightarrow> string \<Rightarrow> ('r, bool) go" where
  "TokenService_IsAccessTokenInvalidated ts now accessToken =
     go_try (IsTokenInvalidated (tsTokenStorage ts) now accessToken)
       (go_wrap ''is token invalidated: '') go_ret"

definition validation_options :: jwt_options where
  "validation_options =
     \<lparr>joValidMethods = [SigningMethodHS512_Alg], joLeeway = JWTLeeWay,
      joExpirationRequired = True\<rparr>"

definition validation_key :: "'r TokenService \<Rightarrow> string \<Rightarrow> string outcome" where
  "validation_key ts alg =
     (if alg \<noteq> SigningMethodHS512_Alg then Err (Sentinel ErrInvalidSigningMethod)
      else Ok (tsJwtSecretKey ts))"

definition TokenService_ValidateAccessTokenAndGetUserID ::
  "jwt_lib \<Rightarrow> 'r TokenService \<Rightarrow> clock \<Rightarrow> string \<Rightarrow> ('r, int) go" where
  "TokenService_ValidateAccessTokenAndGetUserID J ts clk token =
     go_try (TokenService_IsAccessTokenInvalidated ts (clk 0) token)
       (go_wrap ''failed to check if token is invalidated: '')
       (\<lambda>isInvalidated.
          if isInvalidated then go_fail (Sentinel ErrTokenRevoked)
          else go_try
            (go_pure (jwt_ParseWithClaims J (clk 1) validation_options (validation_key ts) token))
            (go_wrap ''parse token claims: '')
            (\<lambda>parsedToken.
               case parsedToken of
                 None \<Rightarrow> go_fail (Sentinel ErrTokenInvalid)
               | Some p \<Rightarrow>
                   if \<not> jtValid p then go_fail (Sentinel ErrTokenInvalid)
                   else (case jtClaims p of
                           OtherClaims \<Rightarrow> go_fail (Sentinel ErrTokenInvalid)
                         | JwtClaims claims \<Rightarrow>
                             if jcUserID claims = '''' then go_fail (Sentinel ErrTokenInvalid)
                             else (case strconv_ParseInt (jcUserID claims) of
                                     None \<Rightarrow> go_fail (Sentinel ErrInvalidUserID)
                                   | Some userID \<Rightarrow> go_ret userID))))"

definition TokenService_getClaimsFromToken :: "jwt_lib \<Rightarrow> string \<Rightarrow> jwtClaims outcome" where
  "TokenService_getClaimsFromToken J token =
     try_pure (jwt_ParseUnverified J token)
       (\<lambda>err. Err (Errorf2 (Sentinel ErrTokenMalformed) '': '' err))
       (\<lambda>parsedToken.
          case jtClaims parsedToken of
            OtherClaims \<Rightarrow> Err (ErrorsNew ''invalid token claims'')
          | JwtClaims claims \<Rightarrow> Ok claims)"

text \<open>\<open>claims.ExpiresAt.Time\<close> dereferences a nil pointer when the token has no \<open>exp\<close>.\<close>

definition TokenService_InvalidateAccessToken ::
  "jwt_lib \<Rightarrow> 'r TokenService \<Rightarrow> clock \<Rightarrow> string \<Rightarrow> ('r, unit) go" where
  "TokenService_InvalidateAccessToken J ts clk accessToken =
     go_try (go_pure (TokenService_getClaimsFromToken J accessToken))
       (go_wrap ''get claims from token: '')
       (\<lambda>claims.
          case jcExpiresAt claims of
            None \<Rightarrow> go_panic ''invalid memory address or nil pointer dereference''
          | Some expiresAt \<Rightarrow>
              (let expiration = time_Until (clk 0) expiresAt in
               go_try (InvalidateToken (tsTokenStorage ts) (clk 1) accessToken expiration)
                 (go_wrap ''invalidate token: '') (\<lambda>_. go_ret ())))"

section \<open>Refresh tokens: what is created validates, and nothing else\<close>

text \<open>The two halves of a token, by the bytes that were drawn.\<close>

definition random_selector :: "(nat \<Rightarrow> char) \<Rightarrow> string" where
  "random_selector f = b64_EncodeToString (take 16 (map f [0..<RawTokenLength]))"

definition random_verifier :: "(nat \<Rightarrow> char) \<Rightarrow> string" where
  "random_verifier f = b64_EncodeToString (drop 16 (map f [0..<RawTokenLength]))"

lemma random_halves [simp]:
  "CHR ''.'' \<notin> set (random_selector f)" "CHR ''.'' \<notin> set (random_verifier f)"
  "length (random_selector f) = 22" "length (random_verifier f) = 22"
  by (simp_all add: random_selector_def random_verifier_def b64_Encode_no_dot length_b64_Encode
      RawTokenLength_def)

lemma random_selector_inject:
  "random_selector f = random_selector g \<longleftrightarrow> (\<forall>i < 16. f i = g i)"
proof -
  have "take 16 (map f [0..<RawTokenLength]) = map f [0..<16]" for f :: "nat \<Rightarrow> char"
    by (simp only: take_map take_upt RawTokenLength_def) (simp only: take_upt add_0 numeral_le_iff semiring_norm)
  then show ?thesis
    by (simp only: random_selector_def b64_Encode_inject) (auto simp: map_eq_conv)
qed

lemma CreateRefreshToken_Ok:
  "TokenService_CreateRefreshToken rnd = Ok (tok, sel, vh) \<longleftrightarrow>
   (\<exists>f. rnd = Ok f \<and> sel = random_selector f \<and> tok = sel @ ''.'' @ random_verifier f \<and>
      vh = hex_EncodeToString (sha256_Sum256 (random_verifier f)))"
  unfolding TokenService_CreateRefreshToken_def rand_Read_def Let_def
    random_selector_def random_verifier_def
  by (cases rnd) (simp_all only: try_pure_simps outcome.inject outcome.distinct prod.inject, auto)

lemma CreateRefreshToken_split:
  assumes "TokenService_CreateRefreshToken rnd = Ok (tok, sel, vh)"
  shows "\<exists>ver. strings_Split (CHR ''.'') tok = [sel, ver] \<and> length sel = 22 \<and>
    vh = hex_EncodeToString (sha256_Sum256 ver)"
  using assms by (auto simp: CreateRefreshToken_Ok strings_Split_two)

lemma ValidateRefreshToken_iff:
  "TokenService_ValidateRefreshToken tok vh = Ok () \<longleftrightarrow>
   (\<exists>sel ver. strings_Split (CHR ''.'') tok = [sel, ver] \<and>
      hex_DecodeString vh = Some (sha256_Sum256 ver))"
proof (cases "length (strings_Split (CHR ''.'') tok) = 2")
  case True
  then obtain a b where "strings_Split (CHR ''.'') tok = [a, b]"
    by (auto simp: numeral_2_eq_2)
  then show ?thesis
    by (auto simp: TokenService_ValidateRefreshToken_def TokenPartsExpected_def
        split: option.splits)
next
  case False
  then show ?thesis by (auto simp: TokenService_ValidateRefreshToken_def TokenPartsExpected_def)
qed

lemma ValidateRefreshToken_no_sentinel:
  "TokenService_ValidateRefreshToken tok vh = Err e \<Longrightarrow> \<not> errors_Is e s"
  by (auto simp: TokenService_ValidateRefreshToken_def Let_def split: if_splits option.splits)

lemma ValidateRefreshToken_no_panic: "TokenService_ValidateRefreshToken tok vh \<noteq> Panic p"
  by (simp add: TokenService_ValidateRefreshToken_def Let_def split: option.split)

lemma create_validate_refresh:
  assumes "TokenService_CreateRefreshToken rnd = Ok (tok, sel, vh)"
  shows "TokenService_ValidateRefreshToken tok vh = Ok ()"
  using CreateRefreshToken_split [OF assms] by (auto simp: ValidateRefreshToken_iff)

end
