(* ===== verification/Token_Contract.thy ===== *)
theory Token_Contract
  imports Token_Service
begin

text \<open>
  What the token service promises for access tokens, on any denylist that keeps its contract and
  any JWT library that keeps its laws: which tokens validate, that a created token does, that a
  revoked one does not, and which errors come back.
\<close>

definition leeway_end :: "jwtClaims \<Rightarrow> gotime option" where
  "leeway_end c = map_option (\<lambda>ex. ex + JWTLeeWay) (jcExpiresAt c)"

definition accepted_claims :: "jwtClaims \<Rightarrow> gotime \<Rightarrow> int \<Rightarrow> bool" where
  "accepted_claims c now userID \<longleftrightarrow>
     (\<exists>ex. jcExpiresAt c = Some ex \<and> now < ex + JWTLeeWay) \<and>
     strconv_ParseInt (jcUserID c) = Some userID"

lemma validation_key_simps [simp]:
  "validation_key ts SigningMethodHS512_Alg = Ok (tsJwtSecretKey ts)"
  "validation_key ts alg = Ok key \<longleftrightarrow> alg = SigningMethodHS512_Alg \<and> key = tsJwtSecretKey ts"
  "validation_key ts alg \<noteq> Panic p"
  "validation_key ts alg = Err e \<longleftrightarrow>
     alg \<noteq> SigningMethodHS512_Alg \<and> e = Sentinel ErrInvalidSigningMethod"
  by (auto simp: validation_key_def)

lemma validation_options_simps [simp]:
  "joValidMethods validation_options = [SigningMethodHS512_Alg]"
  "joLeeway validation_options = JWTLeeWay" "joExpirationRequired validation_options"
  by (simp_all add: validation_options_def)

lemma ParseInt_empty [simp]: "strconv_ParseInt [] = None"
  by (simp add: strconv_ParseInt_def)

lemma plain_FormatInt: "plain_text (strconv_FormatInt i)"
proof -
  have "32 \<le> (of_char c :: nat) \<and> (of_char c :: nat) < 127" if "is_digit c" for c
    using that by (simp add: is_digit_def)
  then show ?thesis
    using decimal_digits by (auto simp: plain_text_def strconv_FormatInt_def)
qed

lemma plain_NumericDate:
  assumes "0 \<le> t" and "t < 2 ^ 40 * time_Second"
  shows "plain_date (Some (jwt_NewNumericDate t))"
proof -
  have "t div time_Second * time_Second \<le> t" by (simp add: time_units div_times_less_eq_dividend)
  moreover have "0 \<le> t div time_Second * time_Second" using assms(1) by (simp add: time_units pos_imp_zdiv_nonneg_iff)
  ultimately show ?thesis
    using assms(2) by (auto simp: plain_date_def jwt_NewNumericDate_def time_units)
qed

text \<open>The inputs a created token is expected with: a UUID and dates the format can carry.\<close>

definition token_inputs :: "'r TokenService \<Rightarrow> int \<Rightarrow> gotime \<Rightarrow> string \<Rightarrow> bool" where
  "token_inputs ts userID now jti \<longleftrightarrow> plain_text jti \<and> int64_range userID \<and>
     0 \<le> now \<and> now < 2 ^ 40 * time_Second \<and>
     0 \<le> time_Add now (tsAccessTTL ts) \<and> time_Add now (tsAccessTTL ts) < 2 ^ 40 * time_Second"

lemma plain_access_claims:
  "token_inputs ts userID now jti \<Longrightarrow> plain_claims (access_claims ts userID now jti)"
  by (simp add: token_inputs_def plain_claims_def access_claims_def plain_FormatInt
      plain_NumericDate)

lemma access_claims_simps [simp]:
  "jcUserID (access_claims ts userID now jti) = strconv_FormatInt userID"
  "jcID (access_claims ts userID now jti) = jti"
  "jcExpiresAt (access_claims ts userID now jti) =
     Some (jwt_NewNumericDate (time_Add now (tsAccessTTL ts)))"
  by (simp_all add: access_claims_def)

locale token_service =
  token_storage "tsTokenStorage ts" denied store + jwt_laws J decode genuine
  for ts :: "'r TokenService" and denied store J decode genuine
begin

abbreviation "Validate \<equiv> TokenService_ValidateAccessTokenAndGetUserID J ts"
abbreviation "Revoke \<equiv> TokenService_InvalidateAccessToken J ts"

lemma is_invalidated:
  assumes "TokenService_IsAccessTokenInvalidated ts now tok s = (rb, s')"
  shows "same_denied now (denied s) (denied s') \<and> same_view now (store s) (store s') \<and>
    (case rb of Ok b \<Rightarrow> b = denied s now tok | Err e \<Rightarrow> redis_error e | Panic _ \<Rightarrow> False)"
  using assms unfolding TokenService_IsAccessTokenInvalidated_def
proof (cases rule: go_try_cases)
  case (Ok v s1)
  with check [OF Ok(1)] show ?thesis by auto
next
  case (Err e s1)
  with check [OF Err(1)] show ?thesis by auto
next
  case (Panic p)
  with check [OF Panic(1)] show ?thesis by simp
qed

text \<open>
  The whole behaviour of validation: an accepted token is not denied, carries a signature that
  checks under the service's key, has not reached its expiry and names the user; the errors are
  those of Redis, a denied token, or a token that is not valid.
\<close>

lemma validate:
  assumes "Validate clk tok s = (r, s')"
  shows "same_denied (clk 0) (denied s) (denied s') \<and> same_view (clk 0) (store s) (store s') \<and>
    (case r of
       Ok userID \<Rightarrow> \<not> denied s (clk 0) tok \<and>
         (\<exists>c. decode tok = Some (SigningMethodHS512_Alg, c) \<and>
            genuine SigningMethodHS512_Alg (tsJwtSecretKey ts) tok \<and>
            accepted_claims c (clk 1) userID)
     | Err e \<Rightarrow> (\<forall>st. errors_Is e st \<longrightarrow>
         st \<in> {ErrTokenRevoked, ErrTokenInvalid, ErrInvalidUserID, ErrInvalidSigningMethod})
     | Panic _ \<Rightarrow> False)"
  using assms unfolding TokenService_ValidateAccessTokenAndGetUserID_def
proof (cases rule: go_try_cases)
  case (Err e s1)
  with is_invalidated [OF Err(1)] show ?thesis by (auto simp: redis_error_def)
next
  case (Panic p)
  with is_invalidated [OF Panic(1)] show ?thesis by simp
next
  case (Ok b s1)
  note chk = is_invalidated [OF Ok(1)]
  show ?thesis
  proof (cases b)
    case True
    with chk Ok(2) show ?thesis by auto
  next
    case False
    with chk have live: "\<not> denied s (clk 0) tok" by simp
    from Ok(2) show ?thesis
      unfolding if_not_P [OF False]
    proof (cases rule: go_try_cases)
      case (Ok p s2)
      then have pr: "jwt_ParseWithClaims J (clk 1) validation_options (validation_key ts) tok = Ok p"
        and s2: "s2 = s1" by simp_all
      from parse_Ok [OF pr] obtain c ex where c: "decode tok = Some (SigningMethodHS512_Alg, c)"
          "genuine SigningMethodHS512_Alg (tsJwtSecretKey ts) tok"
          "p = Some \<lparr>jtValid = True, jtClaims = JwtClaims c\<rparr>"
          "jcExpiresAt c = Some ex" "clk 1 < ex + JWTLeeWay"
        by auto
      show ?thesis
        using Ok(2) chk live c
        by (auto simp: s2 accepted_claims_def split: if_splits option.splits)
    next
      case (Err e s2)
      then have "jwt_ParseWithClaims J (clk 1) validation_options (validation_key ts) tok = Err e"
        by simp
      from parse_Err [OF this] have "errors_Is e st \<Longrightarrow> st = ErrInvalidSigningMethod" for st
        by fastforce
      with Err chk show ?thesis by auto
    next
      case (Panic p)
      with parse_no_panic [of "validation_key ts" "clk 1" validation_options tok p]
      show ?thesis by simp
    qed
  qed
qed

lemma create_total:
  assumes "token_inputs ts userID now jti"
  shows "\<exists>tok. TokenService_CreateAccessTokenWithJTI J ts userID now jti = Ok tok"
  using sign [OF plain_access_claims [OF assms], of "tsJwtSecretKey ts"]
  by (auto simp: TokenService_CreateAccessTokenWithJTI_def)

lemma create_no_panic: "TokenService_CreateAccessTokenWithJTI J ts userID now jti \<noteq> Panic p"
  using sign_no_panic
  by (auto simp: TokenService_CreateAccessTokenWithJTI_def try_pure_def split: outcome.splits)

lemma create_error:
  "TokenService_CreateAccessTokenWithJTI J ts userID now jti = Err e \<Longrightarrow> \<not> errors_Is e st"
  using sign_error
  by (auto simp: TokenService_CreateAccessTokenWithJTI_def try_pure_def split: outcome.splits)

lemma create_signed:
  "TokenService_CreateAccessTokenWithJTI J ts userID now jti = Ok tok \<Longrightarrow>
   jwt_SignedString J SigningMethodHS512_Alg (access_claims ts userID now jti)
     (tsJwtSecretKey ts) = Ok tok"
  by (auto simp: TokenService_CreateAccessTokenWithJTI_def try_pure_def split: outcome.splits)

lemma create_decode:
  assumes "token_inputs ts userID now jti"
    and "TokenService_CreateAccessTokenWithJTI J ts userID now jti = Ok tok"
  shows "decode tok = Some (SigningMethodHS512_Alg, access_claims ts userID now jti)"
  by (rule sign_decode [OF plain_access_claims [OF assms(1)] create_signed [OF assms(2)]])

text \<open>A created token validates for its user until its expiry plus the leeway.\<close>

lemma validate_created:
  assumes inp: "token_inputs ts userID now jti"
    and tok: "TokenService_CreateAccessTokenWithJTI J ts userID now jti = Ok tok"
    and live: "\<not> denied s (clk 0) tok"
    and time: "clk 1 < jwt_NewNumericDate (time_Add now (tsAccessTTL ts)) + JWTLeeWay"
    and run: "Validate clk tok s = (r, s')"
  shows "r = Ok userID \<or> (\<exists>e. r = Err e \<and> redis_error e)"
proof -
  have parsed: "jwt_ParseWithClaims J (clk 1) validation_options (validation_key ts) tok =
      Ok (Some \<lparr>jtValid = True, jtClaims = JwtClaims (access_claims ts userID now jti)\<rparr>)"
    by (rule parse_signed [OF plain_access_claims [OF inp] create_signed [OF tok]])
      (use time in simp_all)
  have id: "strconv_ParseInt (strconv_FormatInt userID) = Some userID"
    using inp by (simp add: token_inputs_def ParseInt_FormatInt)
  show ?thesis
    using run unfolding TokenService_ValidateAccessTokenAndGetUserID_def
  proof (cases rule: go_try_cases)
    case (Ok b s1)
    with is_invalidated [OF Ok(1)] live parsed id show ?thesis by (simp add: go_try_def)
  next
    case (Err e s1)
    with is_invalidated [OF Err(1)] show ?thesis by auto
  next
    case (Panic p)
    with is_invalidated [OF Panic(1)] show ?thesis by simp
  qed
qed

text \<open>Claims read without verification: malformed tokens are the only ones rejected.\<close>

lemma claims_Ok:
  "TokenService_getClaimsFromToken J tok = Ok c \<longleftrightarrow> (\<exists>alg. decode tok = Some (alg, c))"
  using unverified_error [of tok] unverified_decode [of tok]
  by (cases "decode tok")
    (auto simp: TokenService_getClaimsFromToken_def try_pure_def split: outcome.splits)

lemma claims_Err:
  "TokenService_getClaimsFromToken J tok = Err e \<Longrightarrow>
   decode tok = None \<and> (errors_Is e st \<longleftrightarrow> st = ErrTokenMalformed)"
  using unverified_error [of tok] unverified_decode [of tok]
  by (cases "decode tok")
    (auto simp: TokenService_getClaimsFromToken_def try_pure_def split: outcome.splits)

lemma claims_no_panic: "TokenService_getClaimsFromToken J tok \<noteq> Panic p"
  using unverified_error [of tok] unverified_decode [of tok]
  by (cases "decode tok")
    (auto simp: TokenService_getClaimsFromToken_def try_pure_def split: outcome.splits)

lemma revoke:
  assumes "Revoke clk tok s = (r, s')"
  shows "same_but (clk 1) tok (store s) (store s') \<and>
    (case r of
       Ok _ \<Rightarrow> (\<exists>alg c ex. decode tok = Some (alg, c) \<and> jcExpiresAt c = Some ex \<and>
         (time_Until (clk 0) ex \<noteq> KeepTTL \<longrightarrow>
            deny_effect (clk 1) tok (time_Until (clk 0) ex) (denied s) (denied s')))
     | Err e \<Rightarrow> (\<forall>st. errors_Is e st \<longrightarrow> st = ErrTokenMalformed) \<and>
         (\<forall>t \<ge> clk 1. \<forall>k. k \<noteq> tok \<longrightarrow> denied s' t k = denied s t k)
     | Panic _ \<Rightarrow> \<exists>alg c. decode tok = Some (alg, c) \<and> jcExpiresAt c = None)"
  using assms unfolding TokenService_InvalidateAccessToken_def
proof (cases rule: go_try_cases)
  case (Err e s1)
  then have e: "TokenService_getClaimsFromToken J tok = Err e" "s1 = s" by simp_all
  from Err(2) have "r = Err (Errorf ''get claims from token: '' e)" "s' = s" by (simp_all add: e(2))
  with claims_Err [OF e(1)] show ?thesis by (simp add: same_but_def)
next
  case (Panic p)
  with claims_no_panic show ?thesis by simp
next
  case (Ok c s1)
  then obtain alg where c: "decode tok = Some (alg, c)" and s1: "s1 = s"
    using claims_Ok by auto
  show ?thesis
  proof (cases "jcExpiresAt c")
    case None
    with Ok(2) c s1 show ?thesis by (auto simp: same_but_def)
  next
    case (Some ex)
    with Ok(2) s1 have run: "go_try (InvalidateToken (tsTokenStorage ts) (clk 1) tok
        (time_Until (clk 0) ex)) (go_wrap ''invalidate token: '') (\<lambda>_. go_ret ()) s = (r, s')"
      by (simp add: Let_def)
    then show ?thesis
    proof (cases rule: go_try_cases)
      case (Ok u s2)
      with invalidate [OF Ok(1)] c Some show ?thesis by auto
    next
      case (Err e s2)
      with invalidate [OF Err(1)] show ?thesis by (auto simp: redis_error_def)
    next
      case (Panic p)
      with invalidate [OF Panic(1)] show ?thesis by simp
    qed
  qed
qed

text \<open>A revoked token stays denied until a millisecond before its expiry.\<close>

lemma revoke_denies:
  assumes run: "Revoke clk tok s = (Ok u, s')"
    and c: "decode tok = Some (alg, c)" "jcExpiresAt c = Some ex"
    and time: "clk 0 \<le> clk 1" "clk 1 \<le> t" "t < ex - time_Millisecond" "int64_range (ex - clk 0)"
  shows "denied s' t tok"
proof -
  have d: "time_Until (clk 0) ex = ex - clk 0"
    using time(4) by (simp add: time_Until_def duration_clamp_id)
  have pos: "0 < ex - clk 0" using time by (simp add: time_units)
  then have "deny_effect (clk 1) tok (ex - clk 0) (denied s) (denied s')"
    using revoke [OF run] c by (auto simp: d KeepTTL_def)
  with pos time(1,2,3) show ?thesis by (auto simp: deny_effect_def)
qed

text \<open>
  A token revoked at or after its expiry (validation accepts it during the leeway) is denied with
  no deadline.
\<close>

lemma revoke_late:
  assumes run: "Revoke clk tok s = (Ok u, s')"
    and c: "decode tok = Some (alg, c)" "jcExpiresAt c = Some ex"
    and time: "ex \<le> clk 0" "ex - clk 0 \<noteq> -1" "clk 1 \<le> t"
  shows "denied s' t tok"
proof -
  have d: "no_expiry (time_Until (clk 0) ex)"
    using time(1,2) by (auto simp: time_Until_def duration_clamp_def no_expiry_def KeepTTL_def)
  then have "deny_effect (clk 1) tok (time_Until (clk 0) ex) (denied s) (denied s')"
    using revoke [OF run] c by (auto simp: no_expiry_def)
  with d time(3) show ?thesis by (auto simp: deny_effect_def)
qed

text \<open>The denial ends with the token's expiry, up to the precision of the deadline.\<close>

lemma revoke_expires:
  assumes run: "Revoke clk tok s = (Ok u, s')"
    and c: "decode tok = Some (alg, c)" "jcExpiresAt c = Some ex"
    and time: "0 < ex - clk 0" "int64_range (ex - clk 0)"
      "clk 1 + (ex - clk 0) + 2 * time_Millisecond \<le> t"
  shows "\<not> denied s' t tok"
proof -
  have d: "time_Until (clk 0) ex = ex - clk 0"
    using time(2) by (simp add: time_Until_def duration_clamp_id)
  have "clk 1 + max (ex - clk 0) time_Millisecond + time_Millisecond \<le> t"
    using time(1,3) by (simp add: time_units max_def)
  moreover have "deny_effect (clk 1) tok (ex - clk 0) (denied s) (denied s')"
    using revoke [OF run] c time(1) by (auto simp: d KeepTTL_def)
  ultimately show ?thesis using time(1) unfolding deny_effect_def by blast
qed

end

lemma token_serviceI:
  assumes "jwt_laws J decode genuine" and "token_storage (tsTokenStorage ts) denied store"
  shows "token_service ts denied store J decode genuine"
  using assms by (simp add: token_service_def)

abbreviation redis_denied :: "redisconn \<Rightarrow> denylist" where
  "redis_denied s \<equiv> \<lambda>t k. redis_view s t k = Some ''invalidated''"

interpretation redis_tokens: token_service "NewTokenService cfg (NewTokenStorage redis_Client)"
  redis_denied redis_view plain_jwt jwt_decode jwt_genuine
  for cfg
  by (rule token_serviceI [OF jwt.jwt_laws_axioms])
    (simp add: NewTokenService_def redis.ts.token_storage_axioms)

end
