(* ===== verification/Storage_Contract.thy ===== *)
theory Storage_Contract
  imports Models
begin

text \<open>
  What the services rely on when they hold a \<open>storage.Storage\<close>: an abstract store of users (by
  ID) and of sessions (by selector, with their status), and for every method its effect on that
  store. A method that fails leaves the store as it was, or has taken effect although its answer
  was lost. The locale \<open>storage_contract\<close> is this interface; the services are proved against
  it, and \<open>Postgres_Contract\<close> interprets it by the PostgreSQL implementation.
\<close>

type_synonym user_store = "int \<Rightarrow> string option"
type_synonym session_store = "string \<Rightarrow> (RefreshSession \<times> string) option"

definition revoke_user :: "int \<Rightarrow> session_store \<Rightarrow> session_store" where
  "revoke_user i m =
     (\<lambda>sel. case m sel of
        Some (s, st) \<Rightarrow> if rsUserID s = i then None else Some (s, st)
      | None \<Rightarrow> None)"

definition revoke_selector :: "string \<Rightarrow> session_store \<Rightarrow> session_store" where
  "revoke_selector sel m = m(sel := None)"

definition use_session :: "string \<Rightarrow> session_store \<Rightarrow> session_store" where
  "use_session sel m = (case m sel of Some (s, _) \<Rightarrow> m(sel \<mapsto> (s, ''used'')) | None \<Rightarrow> m)"

definition issue_spec ::
  "(RefreshSession \<Rightarrow> RefreshSession) \<Rightarrow> (string \<Rightarrow> string option) \<Rightarrow> string \<Rightarrow> RefreshSession \<Rightarrow>
   user_store \<times> session_store \<Rightarrow> User \<Rightarrow> user_store \<times> session_store \<Rightarrow> bool" where
  "issue_spec nrm gin guid s st u st' \<longleftrightarrow>
     gin guid = Some (uGUID u) \<and>
     (fst st (uID u) = Some (uGUID u) \<or> fst st (uID u) = None \<and> uGUID u \<notin> ran (fst st)) \<and>
     fst st' = (fst st)(uID u \<mapsto> uGUID u) \<and>
     snd st (rsSelector s) = None \<and>
     (\<exists>i. snd st' = (snd st)(rsSelector s \<mapsto>
            (nrm (s\<lparr>rsID := i, rsUserID := uID u\<rparr>), ''active'')))"

definition rotate_spec ::
  "(RefreshSession \<Rightarrow> RefreshSession) \<Rightarrow> string \<Rightarrow> RefreshSession \<Rightarrow> int \<Rightarrow>
   user_store \<times> session_store \<Rightarrow> User \<Rightarrow> user_store \<times> session_store \<Rightarrow> bool" where
  "rotate_spec nrm old s userID st u st' \<longleftrightarrow>
     uID u = userID \<and> fst st userID = Some (uGUID u) \<and> fst st' = fst st \<and>
     snd st (rsSelector s) = None \<and>
     (\<exists>i. snd st' = (use_session old (snd st))(rsSelector s \<mapsto>
            (nrm (s\<lparr>rsID := i, rsUserID := userID\<rparr>), ''active'')))"

lemma revoke_user_Some [simp]:
  "revoke_user i m sel = Some (s, st) \<longleftrightarrow> m sel = Some (s, st) \<and> rsUserID s \<noteq> i"
  by (auto simp: revoke_user_def split: option.splits)

lemma use_session_same: "m sel = Some (s, st) \<Longrightarrow> use_session sel m sel = Some (s, ''used'')"
  by (simp add: use_session_def)

lemma use_session_other: "sel' \<noteq> sel \<Longrightarrow> use_session sel m sel' = m sel'"
  by (auto simp: use_session_def split: option.splits)

locale storage_contract =
  fixes S :: "'d Storage"
    and ready :: "'d \<Rightarrow> bool"
    and usr :: "'d \<Rightarrow> user_store"
    and ses :: "'d \<Rightarrow> session_store"
    and nrm :: "RefreshSession \<Rightarrow> RefreshSession"
    and gin :: "string \<Rightarrow> string option"
  assumes selector_key: "ready d \<Longrightarrow> ses d sel = Some (s, st) \<Longrightarrow> rsSelector s = sel"
    and owner_exists: "ready d \<Longrightarrow> ses d sel = Some (s, st) \<Longrightarrow> usr d (rsUserID s) \<noteq> None"
    and nrm_frame: "\<exists>a b. nrm s = s\<lparr>rsCreatedAt := a, rsExpiresAt := b\<rparr>"
    and get_active: "ready d \<Longrightarrow> GetActiveSessionBySelector (Sessions S) sel d = (r, d') \<Longrightarrow>
      ready d' \<and> usr d' = usr d \<and> ses d' = ses d \<and>
      (case r of
         Ok s \<Rightarrow> ses d sel = Some (s, ''active'')
       | Err e \<Rightarrow> errors_Is e ErrSessionNotFound \<longrightarrow> (\<forall>s. ses d sel \<noteq> Some (s, ''active''))
       | Panic _ \<Rightarrow> False)"
    and find: "ready d \<Longrightarrow> FindSessionBySelector (Sessions S) sel d = (r, d') \<Longrightarrow>
      ready d' \<and> usr d' = usr d \<and> ses d' = ses d \<and>
      (case r of
         Ok s \<Rightarrow> (\<exists>st. ses d sel = Some (s, st))
       | Err e \<Rightarrow> errors_Is e ErrSessionNotFound \<longrightarrow> ses d sel = None
       | Panic _ \<Rightarrow> False)"
    and delete_all: "ready d \<Longrightarrow> DeleteAllUserSessions (Sessions S) i d = (ru, d') \<Longrightarrow>
      ready d' \<and> usr d' = usr d \<and>
      (case ru of
         Ok _ \<Rightarrow> ses d' = revoke_user i (ses d)
       | Err e \<Rightarrow> \<not> errors_Is e ErrSessionNotFound \<and>
           (ses d' = ses d \<or> ses d' = revoke_user i (ses d))
       | Panic _ \<Rightarrow> False)"
    and get_user: "ready d \<Longrightarrow> GetUserByID (Users S) i d = (rw, d') \<Longrightarrow>
      ready d' \<and> usr d' = usr d \<and> ses d' = ses d \<and>
      (case rw of
         Ok u \<Rightarrow> uID u = i \<and> usr d i = Some (uGUID u)
       | Err e \<Rightarrow> errors_Is e ErrUserNotFound \<longrightarrow> usr d i = None
       | Panic _ \<Rightarrow> False)"
    and issue: "ready d \<Longrightarrow> IssueTokensTx S guid s d = (rw, d') \<Longrightarrow>
      ready d' \<and>
      (case rw of
         Ok u \<Rightarrow> issue_spec nrm gin guid s (usr d, ses d) u (usr d', ses d')
       | Err e \<Rightarrow> usr d' = usr d \<and> ses d' = ses d \<or>
           (\<exists>u. issue_spec nrm gin guid s (usr d, ses d) u (usr d', ses d'))
       | Panic _ \<Rightarrow> False)"
    and rotate: "ready d \<Longrightarrow> RotateTokensTx S old s i d = (rw, d') \<Longrightarrow>
      ready d' \<and>
      (case rw of
         Ok u \<Rightarrow> rotate_spec nrm old s i (usr d, ses d) u (usr d', ses d')
       | Err e \<Rightarrow> usr d' = usr d \<and> ses d' = ses d \<or>
           (\<exists>u. rotate_spec nrm old s i (usr d, ses d) u (usr d', ses d'))
       | Panic _ \<Rightarrow> False)"
begin

lemma nrm_simps [simp]:
  "rsID (nrm s) = rsID s" "rsUserID (nrm s) = rsUserID s" "rsSelector (nrm s) = rsSelector s"
  "rsVerifierHash (nrm s) = rsVerifierHash s" "rsUserAgent (nrm s) = rsUserAgent s"
  "rsIPAddress (nrm s) = rsIPAddress s" "rsAccessTokenJTI (nrm s) = rsAccessTokenJTI s"
  using nrm_frame [of s] by auto

lemma no_panic:
  "ready d \<Longrightarrow> fst (GetActiveSessionBySelector (Sessions S) sel d) \<noteq> Panic p"
  "ready d \<Longrightarrow> fst (FindSessionBySelector (Sessions S) sel d) \<noteq> Panic p"
  "ready d \<Longrightarrow> fst (DeleteAllUserSessions (Sessions S) i d) \<noteq> Panic p"
  "ready d \<Longrightarrow> fst (GetUserByID (Users S) i d) \<noteq> Panic p"
  "ready d \<Longrightarrow> fst (IssueTokensTx S guid s d) \<noteq> Panic p"
  "ready d \<Longrightarrow> fst (RotateTokensTx S old s i d) \<noteq> Panic p"
  using get_active [of d sel] find [of d sel] delete_all [of d i] get_user [of d i]
    issue [of d guid s] rotate [of d old s i]
  by (metis (no_types, lifting) outcome.simps(12) prod.collapse)+

text \<open>A selector that is in use keeps its session through a rotation of another one.\<close>

lemma rotate_keeps_others:
  assumes "ready d" and "RotateTokensTx S old s i d = (Ok u, d')"
    and "sel \<noteq> old" and "ses d sel = Some x"
  shows "ses d' sel = Some x"
  using rotate [OF assms(1,2)] assms(3,4)
  by (auto simp: rotate_spec_def use_session_other)

lemma rotate_marks_old:
  assumes "ready d" and "RotateTokensTx S old s i d = (Ok u, d')"
    and "ses d old = Some (s0, st)"
  shows "ses d' old = Some (s0, ''used'')"
  using rotate [OF assms(1,2)] assms(3)
  by (auto simp: rotate_spec_def use_session_same)

lemma issue_keeps_others:
  assumes "ready d" and "IssueTokensTx S guid s d = (Ok u, d')" and "ses d sel = Some x"
  shows "ses d' sel = Some x"
  using issue [OF assms(1,2)] assms(3) by (auto simp: issue_spec_def)

end

section \<open>Progress\<close>

text \<open>
  The same interface while the provider answers every call (\<open>healthy\<close>): methods succeed on data
  it accepts (\<open>text_in\<close> for strings, \<open>room\<close> for one more row), and what is missing is
  reported as missing.
\<close>

definition session_texts :: "(string \<Rightarrow> bool) \<Rightarrow> RefreshSession \<Rightarrow> bool" where
  "session_texts p s \<longleftrightarrow> p (rsSelector s) \<and> p (rsVerifierHash s) \<and> p (rsIPAddress s) \<and>
     p (rsUserAgent s) \<and> p (rsAccessTokenJTI s)"

locale storage_live = storage_contract S ready usr ses nrm gin
  for S :: "'d Storage" and ready usr ses nrm gin +
  fixes healthy :: "'d \<Rightarrow> bool" and room :: "'d \<Rightarrow> bool" and text_in :: "string \<Rightarrow> bool"
  assumes healthy_ready: "healthy d \<Longrightarrow> ready d"
    and user_range: "healthy d \<Longrightarrow> usr d i = Some g \<Longrightarrow> int64_range i"
    and active_live: "healthy d \<Longrightarrow> text_in sel \<Longrightarrow>
      GetActiveSessionBySelector (Sessions S) sel d = (r, d') \<Longrightarrow>
      healthy d' \<and> (room d \<longrightarrow> room d') \<and> (\<forall>e. r = Err e \<longrightarrow> errors_Is e ErrSessionNotFound)"
    and find_live: "healthy d \<Longrightarrow> text_in sel \<Longrightarrow>
      FindSessionBySelector (Sessions S) sel d = (r, d') \<Longrightarrow>
      healthy d' \<and> (\<forall>e. r = Err e \<longrightarrow> errors_Is e ErrSessionNotFound)"
    and delete_all_live: "healthy d \<Longrightarrow> int64_range i \<Longrightarrow>
      DeleteAllUserSessions (Sessions S) i d = (ru, d') \<Longrightarrow> healthy d' \<and> ru = Ok ()"
    and get_user_live: "healthy d \<Longrightarrow> int64_range i \<Longrightarrow> GetUserByID (Users S) i d = (rw, d') \<Longrightarrow>
      healthy d' \<and> (\<forall>e. rw = Err e \<longrightarrow> errors_Is e ErrUserNotFound)"
    and issue_live: "healthy d \<Longrightarrow> room d \<Longrightarrow> gin guid \<noteq> None \<Longrightarrow> session_texts text_in s \<Longrightarrow>
      ses d (rsSelector s) = None \<Longrightarrow> IssueTokensTx S guid s d = (rw, d') \<Longrightarrow>
      healthy d' \<and> (\<exists>u. rw = Ok u)"
    and rotate_live: "healthy d \<Longrightarrow> room d \<Longrightarrow> text_in old \<Longrightarrow> session_texts text_in s \<Longrightarrow>
      ses d (rsSelector s) = None \<Longrightarrow> usr d i \<noteq> None \<Longrightarrow> RotateTokensTx S old s i d = (rw, d') \<Longrightarrow>
      healthy d' \<and> (\<exists>u. rw = Ok u)"
begin

lemma active_found:
  assumes "healthy d" and "text_in sel" and "ses d sel = Some (s, ''active'')"
    and "GetActiveSessionBySelector (Sessions S) sel d = (r, d')"
  shows "r = Ok s"
  using active_live [OF assms(1,2,4)] get_active [OF healthy_ready [OF assms(1)] assms(4)] assms(3)
  by (cases r) auto

lemma active_missing:
  assumes "healthy d" and "text_in sel" and "\<forall>s. ses d sel \<noteq> Some (s, ''active'')"
    and "GetActiveSessionBySelector (Sessions S) sel d = (r, d')"
  obtains e where "r = Err e" and "errors_Is e ErrSessionNotFound"
  using active_live [OF assms(1,2,4)] get_active [OF healthy_ready [OF assms(1)] assms(4)] assms(3)
  by (cases r) auto

lemma found:
  assumes "healthy d" and "text_in sel" and "ses d sel = Some (s, st)"
    and "FindSessionBySelector (Sessions S) sel d = (r, d')"
  shows "r = Ok s"
  using find_live [OF assms(1,2,4)] find [OF healthy_ready [OF assms(1)] assms(4)] assms(3)
  by (cases r) auto

lemma user_found:
  assumes "healthy d" and "usr d i = Some g" and "GetUserByID (Users S) i d = (rw, d')"
  obtains u where "rw = Ok u" and "uGUID u = g"
  using get_user_live [OF assms(1) user_range [OF assms(1,2)] assms(3)]
    get_user [OF healthy_ready [OF assms(1)] assms(3)] assms(2)
  by (cases rw) auto

end

end
