(* ===== verification/Go_Json.thy ===== *)
theory Go_Json
  imports Go_Strings
begin

text \<open>
  \<open>encoding/json\<close> as the notifications use it: strings as \<open>json.Marshal\<close> writes them, and
  \<open>json.Unmarshal\<close> into a \<open>map[string]interface{}\<close>, with the scanner's grammar, its limit of nested
  values and the decoding of escapes. Text is bytes; what is not UTF-8 becomes U+FFFD on both ways.
  Whether the text of a number is in the range of \<open>float64\<close> is an argument.
\<close>

section \<open>UTF-8\<close>

definition cont_byte :: "char \<Rightarrow> bool" where
  "cont_byte c \<longleftrightarrow> 128 \<le> (of_char c :: nat) \<and> (of_char c :: nat) \<le> 191"

text \<open>The range of the second byte, by the first.\<close>

definition second_byte :: "nat \<Rightarrow> char \<Rightarrow> bool" where
  "second_byte x c \<longleftrightarrow>
     (if x = 224 then 160 else if x = 240 then 144 else 128) \<le> (of_char c :: nat) \<and>
     (of_char c :: nat) \<le> (if x = 237 then 159 else if x = 244 then 143 else 191)"

text \<open>\<open>utf8.DecodeRune\<close>: the size of the first rune, 0 for an invalid one (whose size is 1 in Go).\<close>

fun rune_size :: "string \<Rightarrow> nat" where
  "rune_size [] = 0"
| "rune_size (b # r) =
     (let x = of_char b in
      if x < 128 then 1
      else if 194 \<le> x \<and> x \<le> 223 then
        (case r of c # _ \<Rightarrow> if cont_byte c then 2 else 0 | [] \<Rightarrow> 0)
      else if 224 \<le> x \<and> x \<le> 239 then
        (case r of c # d # _ \<Rightarrow> if second_byte x c \<and> cont_byte d then 3 else 0 | _ \<Rightarrow> 0)
      else if 240 \<le> x \<and> x \<le> 244 then
        (case r of c # d # e # _ \<Rightarrow> if second_byte x c \<and> cont_byte d \<and> cont_byte e then 4 else 0
         | _ \<Rightarrow> 0)
      else 0)"

text \<open>\<open>utf8.AppendRune\<close>.\<close>

definition encode_rune :: "nat \<Rightarrow> string" where
  "encode_rune v =
     (if v < 128 then [char_of v]
      else if v < 2048 then [char_of (192 + v div 64), char_of (128 + v mod 64)]
      else if v < 65536 then
        [char_of (224 + v div 4096), char_of (128 + v div 64 mod 64), char_of (128 + v mod 64)]
      else
        [char_of (240 + v div 262144), char_of (128 + v div 4096 mod 64),
         char_of (128 + v div 64 mod 64), char_of (128 + v mod 64)])"

definition rune_error :: string where
  "rune_error = [char_of (239::nat), char_of (191::nat), char_of (189::nat)]"

text \<open>The text with every byte that is not part of a rune replaced by U+FFFD.\<close>

fun utf8_repair :: "string \<Rightarrow> string" where
  "utf8_repair [] = []"
| "utf8_repair (c # cs) =
     (case rune_size (c # cs) of
        0 \<Rightarrow> rune_error @ utf8_repair cs
      | Suc k \<Rightarrow> take (Suc k) (c # cs) @ utf8_repair (drop k cs))"

lemma rune_size_bound: "rune_size s \<le> length s"
  by (cases s) (auto simp: Let_def split: list.splits)

lemma rune_size_take: "0 < rune_size s \<Longrightarrow> rune_size (take (rune_size s) s @ t) = rune_size s"
  by (cases s) (auto simp: Let_def split: list.splits if_splits)

lemma rune_size_high: "128 \<le> (of_char c :: nat) \<Longrightarrow> rune_size (c # cs) \<noteq> Suc 0"
  by (auto simp: Let_def split: list.splits)

lemma utf8_repair_ascii: "\<forall>c \<in> set s. (of_char c :: nat) < 128 \<Longrightarrow> utf8_repair s = s"
  by (induction s) (simp_all add: Let_def)

section \<open>Writing strings\<close>

definition low_hex :: "nat \<Rightarrow> char" where
  "low_hex d = (if d < 10 then char_of (48 + d) else char_of (87 + d))"

abbreviation backslash :: char where "backslash \<equiv> CHR 0x5C"
abbreviation quote :: char where "quote \<equiv> CHR 0x22"

text \<open>A byte below 128: \<open>htmlSafeSet\<close> as it is, the others with an escape.\<close>

definition html_safe :: "char \<Rightarrow> bool" where
  "html_safe c \<longleftrightarrow> 32 \<le> (of_char c :: nat) \<and> (of_char c :: nat) < 128 \<and>
     c \<notin> {quote, backslash, CHR ''<'', CHR ''>'', CHR ''&''}"

definition escape_byte :: "char \<Rightarrow> string" where
  "escape_byte c =
     (if html_safe c then [c]
      else if c = backslash \<or> c = quote then [backslash, c]
      else if c = CHR 0x08 then [backslash, CHR ''b'']
      else if c = CHR 0x0C then [backslash, CHR ''f'']
      else if c = CHR 0x0A then [backslash, CHR ''n'']
      else if c = CHR 0x0D then [backslash, CHR ''r'']
      else if c = CHR 0x09 then [backslash, CHR ''t'']
      else [backslash, CHR ''u'', CHR ''0'', CHR ''0'',
            low_hex (of_char c div 16), low_hex (of_char c mod 16)])"

text \<open>U+2028 and U+2029 are escaped too.\<close>

definition line_separator :: "string \<Rightarrow> bool" where
  "line_separator r \<longleftrightarrow>
     r = [char_of (226::nat), char_of (128::nat), char_of (168::nat)] \<or>
     r = [char_of (226::nat), char_of (128::nat), char_of (169::nat)]"

fun json_escape :: "string \<Rightarrow> string" where
  "json_escape [] = []"
| "json_escape (c # cs) =
     (if (of_char c :: nat) < 128 then escape_byte c @ json_escape cs
      else
        (case rune_size (c # cs) of
           0 \<Rightarrow> [backslash, CHR ''u'', CHR ''f'', CHR ''f'', CHR ''f'', CHR ''d''] @ json_escape cs
         | Suc k \<Rightarrow>
             (let r = take (Suc k) (c # cs) in
              (if line_separator r
               then [backslash, CHR ''u'', CHR ''2'', CHR ''0'', CHR ''2'',
                     low_hex (of_char (last r) mod 16)]
               else r) @ json_escape (drop k cs))))"

definition json_string :: "string \<Rightarrow> string" where
  "json_string s = quote # json_escape s @ [quote]"

section \<open>Reading strings\<close>

definition hex_val :: "char \<Rightarrow> nat option" where
  "hex_val c =
     (let x = of_char c in
      if 48 \<le> x \<and> x \<le> 57 then Some (x - 48)
      else if 97 \<le> x \<and> x \<le> 102 then Some (x - 87)
      else if 65 \<le> x \<and> x \<le> 70 then Some (x - 55)
      else None)"

fun getu4 :: "string \<Rightarrow> nat option" where
  "getu4 (a # b # c # d # _) =
     (case (hex_val a, hex_val b, hex_val c, hex_val d) of
        (Some i, Some j, Some k, Some l) \<Rightarrow> Some (4096 * i + 256 * j + 16 * k + l)
      | _ \<Rightarrow> None)"
| "getu4 _ = None"

text \<open>The second half of a surrogate pair, if the text goes on with it.\<close>

fun low_surrogate :: "string \<Rightarrow> nat option" where
  "low_surrogate (a # b # r) =
     (if a = backslash \<and> b = CHR ''u''
      then (case getu4 r of Some w \<Rightarrow> if 0xDC00 \<le> w \<and> w < 0xE000 then Some w else None | None \<Rightarrow> None)
      else None)"
| "low_surrogate _ = None"

definition unescape_char :: "char \<Rightarrow> char option" where
  "unescape_char e =
     (if e = quote \<or> e = backslash \<or> e = CHR ''/'' then Some e
      else if e = CHR ''b'' then Some (CHR 0x08)
      else if e = CHR ''f'' then Some (CHR 0x0C)
      else if e = CHR ''n'' then Some (CHR 0x0A)
      else if e = CHR ''r'' then Some (CHR 0x0D)
      else if e = CHR ''t'' then Some (CHR 0x09)
      else None)"

abbreviation put :: "'a list \<Rightarrow> ('a list \<times> string) option \<Rightarrow> ('a list \<times> string) option" where
  "put b m \<equiv> map_option (\<lambda>(s, r). (b @ s, r)) m"

text \<open>The rest of a string after its opening quote: its text, and what follows its end.\<close>

fun json_chars :: "string \<Rightarrow> (string \<times> string) option" where
  "json_chars [] = None"
| "json_chars (c # cs) =
     (if c = quote then Some ([], cs)
      else if c = backslash then
        (case cs of
           [] \<Rightarrow> None
         | e # r \<Rightarrow>
             if e = CHR ''u'' then
               (case getu4 r of
                  None \<Rightarrow> None
                | Some v \<Rightarrow>
                    if 0xD800 \<le> v \<and> v < 0xE000 then
                      (case low_surrogate (drop 4 r) of
                         Some w \<Rightarrow>
                           if v < 0xDC00
                           then put (encode_rune (0x10000 + (v - 0xD800) * 1024 + (w - 0xDC00)))
                                  (json_chars (drop 10 r))
                           else put rune_error (json_chars (drop 4 r))
                       | None \<Rightarrow> put rune_error (json_chars (drop 4 r)))
                    else put (encode_rune v) (json_chars (drop 4 r)))
             else
               (case unescape_char e of
                  Some b \<Rightarrow> put [b] (json_chars r)
                | None \<Rightarrow> None))
      else if (of_char c :: nat) < 32 then None
      else
        (case rune_size (c # cs) of
           0 \<Rightarrow> put rune_error (json_chars cs)
         | Suc k \<Rightarrow> put (take (Suc k) (c # cs)) (json_chars (drop k cs))))"

text \<open>
  Reading back a written string gives its text with U+FFFD for what is not UTF-8, whatever it was.
\<close>

lemma hex_val_low_hex: "d < 16 \<Longrightarrow> hex_val (low_hex d) = Some d"
  by (simp add: hex_val_def low_hex_def)

declare json_chars.simps(2) [simp del]

lemma json_chars_u:
  assumes "getu4 (a # b # c # d # X) = Some v" and "v < 0xD800 \<or> 0xE000 \<le> v"
  shows "json_chars (backslash # CHR ''u'' # a # b # c # d # X) = put (encode_rune v) (json_chars X)"
  using assms by (auto simp: json_chars.simps(2) [of backslash] simp del: getu4.simps)

lemma json_chars_escape_byte:
  assumes "(of_char c :: nat) < 128"
  shows "json_chars (escape_byte c @ X) = put [c] (json_chars X)"
proof (cases "html_safe c")
  case True
  then show ?thesis
    by (simp add: escape_byte_def json_chars.simps(2) [of c] html_safe_def)
next
  case False
  let ?x = "of_char c :: nat"
  show ?thesis
  proof (cases "c = backslash \<or> c = quote \<or> c = CHR 0x08 \<or> c = CHR 0x0C \<or> c = CHR 0x0A \<or> c = CHR 0x0D \<or> c = CHR 0x09")
    case True
    then show ?thesis
      by (elim disjE) (simp_all add: escape_byte_def json_chars.simps(2) [of backslash] html_safe_def unescape_char_def)
  next
    case other: False
    have "?x div 16 < 16" "?x mod 16 < 16" "16 * (?x div 16) + ?x mod 16 = ?x" using assms by simp_all
    then have "getu4 (CHR ''0'' # CHR ''0'' # low_hex (?x div 16) # low_hex (?x mod 16) # X) = Some ?x"
      by (simp add: hex_val_low_hex) (simp add: hex_val_def)
    from json_chars_u [OF this] assms other False show ?thesis
      by (simp add: escape_byte_def encode_rune_def)
  qed
qed

lemma json_chars_rune:
  assumes "128 \<le> (of_char c :: nat)" and "rune_size (c # cs) = Suc k"
  shows "json_chars (take (Suc k) (c # cs) @ X) = put (take (Suc k) (c # cs)) (json_chars X)"
proof -
  have k: "k \<le> length cs" using rune_size_bound [of "c # cs"] assms(2) by simp
  have "rune_size (take (Suc k) (c # cs) @ X) = Suc k"
    using rune_size_take [of "c # cs" X] assms(2) by simp
  moreover have "c \<noteq> quote" "c \<noteq> backslash" "\<not> (of_char c :: nat) < 32" using assms(1) by auto
  ultimately show ?thesis using k
    by (simp add: json_chars.simps(2) [of c] del: rune_size.simps)
qed

lemma line_separator_rune:
  "line_separator r \<Longrightarrow> encode_rune (8224 + of_char (last r) mod 16) = r \<and>
    (of_char (last r) :: nat) mod 16 < 16"
  by (auto simp: line_separator_def encode_rune_def)

lemma json_chars_escape:
  "json_chars (json_escape s @ quote # rest) = Some (utf8_repair s, rest)"
proof (induction s rule: json_escape.induct)
  case 1
  then show ?case by (simp add: json_chars.simps(2) [of quote])
next
  case (2 c cs)
  show ?case
  proof (cases "(of_char c :: nat) < 128")
    case True
    then have "rune_size (c # cs) = Suc 0" by (simp add: Let_def)
    with 2(1) [OF True] json_chars_escape_byte [OF True] True show ?thesis
      by (simp del: rune_size.simps)
  next
    case high: False
    then have ge: "128 \<le> (of_char c :: nat)" by simp
    show ?thesis
    proof (cases "rune_size (c # cs)")
      case 0
      have "getu4 (CHR ''f'' # CHR ''f'' # CHR ''f'' # CHR ''d'' # X) = Some 0xFFFD" for X
        by (simp add: hex_val_def)
      from json_chars_u [OF this] 2(2) [OF high 0] high 0 show ?thesis
        by (simp add: encode_rune_def rune_error_def del: rune_size.simps)
    next
      case (Suc k)
      note IH = 2(3) [OF high Suc refl]
      let ?r = "take (Suc k) (c # cs)"
      show ?thesis
      proof (cases "line_separator ?r")
        case True
        have "getu4 (CHR ''2'' # CHR ''0'' # CHR ''2'' # low_hex (of_char (last ?r) mod 16) # X) =
            Some (8224 + of_char (last ?r) mod 16)" for X
          using line_separator_rune [OF True] by (simp add: hex_val_low_hex) (simp add: hex_val_def)
        from json_chars_u [OF this] line_separator_rune [OF True] IH high Suc True show ?thesis
          by (simp add: Let_def del: rune_size.simps take_Suc_Cons)
      next
        case False
        from json_chars_rune [OF ge Suc] IH high Suc False show ?thesis
          by (simp add: Let_def del: rune_size.simps take_Suc_Cons)
      qed
    qed
  qed
qed

end
