(* ===== verification/Go_Float.thy ===== *)
theory Go_Float
  imports Go_Strings
begin

text \<open>
  The \<open>float64\<close> values \<open>strconv.ParseFloat\<close> makes of decimal literals, rounded to nearest, ties to
  even, and \<open>%.0f\<close> of them. Such a value is finite: a sign, a mantissa below \<open>2 ^ 53\<close> and an
  exponent between -1074 and 971; a literal that rounds beyond them is out of range.
\<close>

datatype float64 = Float64 (f64_neg: bool) (f64_mantissa: nat) (f64_exponent: int)

section \<open>Rounding\<close>

text \<open>\<open>n / d\<close> to the nearest integer, the even one of two.\<close>

definition div_even :: "nat \<Rightarrow> nat \<Rightarrow> nat" where
  "div_even n d =
     (let q = n div d; r = n mod d in if 2 * r < d \<or> 2 * r = d \<and> even q then q else Suc q)"

text \<open>The fraction \<open>n / d / 2 ^ e\<close>.\<close>

definition scaled :: "nat \<Rightarrow> nat \<Rightarrow> int \<Rightarrow> nat \<times> nat" where
  "scaled n d e = (if 0 \<le> e then (n, d * 2 ^ nat e) else (n * 2 ^ nat (- e), d))"

definition float_exponents :: "int list" where
  "float_exponents = [-1074..971]"

text \<open>The exponent is the least that leaves a mantissa of at most 53 bits.\<close>

definition float_round :: "bool \<Rightarrow> nat \<Rightarrow> nat \<Rightarrow> float64 option" where
  "float_round neg n d =
     (case find (\<lambda>e. case scaled n d e of (a, b) \<Rightarrow> a < b * 2 ^ 53) float_exponents of
        None \<Rightarrow> None
      | Some e \<Rightarrow>
          (let m = (case scaled n d e of (a, b) \<Rightarrow> div_even a b) in
           if m < 2 ^ 53 then Some (Float64 neg m e)
           else if e < 971 then Some (Float64 neg (2 ^ 52) (e + 1)) else None))"

section \<open>Parsing and printing\<close>

definition float_exponent :: "string \<Rightarrow> int option" where
  "float_exponent s =
     (case s of
        [] \<Rightarrow> Some 0
      | c # t \<Rightarrow>
          if c = CHR ''e'' \<or> c = CHR ''E'' then
            (case t of
               [] \<Rightarrow> None
             | d # ds \<Rightarrow>
                 if d = CHR ''-'' then map_option (\<lambda>n. - int n) (parse_digits 0 ds)
                 else if d = CHR ''+'' then map_option int (parse_digits 0 ds)
                 else map_option int (parse_digits 0 t))
          else None)"

text \<open>\<open>ParseFloat(s, 64)\<close> of a decimal literal; \<open>None\<close> is a non-nil error (syntax or range).\<close>

definition strconv_ParseFloat :: "string \<Rightarrow> float64 option" where
  "strconv_ParseFloat s =
     (let (neg, s1) = (case s of c # cs \<Rightarrow> if c = CHR ''-'' then (True, cs) else (False, s)
                       | [] \<Rightarrow> (False, s));
          i = takeWhile is_digit s1; s2 = dropWhile is_digit s1;
          (f, s3) = (case s2 of
                       c # cs \<Rightarrow> if c = CHR ''.'' then (takeWhile is_digit cs, dropWhile is_digit cs)
                                else ([], s2)
                     | [] \<Rightarrow> ([], s2))
      in if i @ f = [] then None
         else case (parse_digits 0 (i @ f), float_exponent s3) of
                (Some n, Some x) \<Rightarrow>
                  (let k = x - int (length f) in
                   if 0 \<le> k then float_round neg (n * 10 ^ nat k) 1
                   else float_round neg n (10 ^ nat (- k)))
              | _ \<Rightarrow> None)"

text \<open>\<open>fmt\<close>'s \<open>%.0f\<close>.\<close>

definition Sprintf_0f :: "float64 \<Rightarrow> string" where
  "Sprintf_0f f =
     (case f of Float64 neg m e \<Rightarrow>
        (if neg then ''-'' else '''') @
        decimal (if 0 \<le> e then m * 2 ^ nat e else div_even m (2 ^ nat (- e))))"

section \<open>Rounding is to the nearest\<close>

lemma div_even_near:
  assumes "0 < d"
  shows "2 * n \<le> 2 * d * div_even n d + d" and "2 * d * div_even n d \<le> 2 * n + d"
proof -
  have n: "n = d * (n div d) + n mod d" "n mod d < d" using assms by simp_all
  define q r where "q = n div d" and "r = n mod d"
  have n: "n = d * q + r" "r < d" using n by (simp_all add: q_def r_def)
  have "div_even n d = q \<and> 2 * r \<le> d \<or> div_even n d = Suc q \<and> d \<le> 2 * r"
    by (auto simp: div_even_def Let_def q_def r_def)
  then show "2 * n \<le> 2 * d * div_even n d + d" "2 * d * div_even n d \<le> 2 * n + d"
    using n(2) by (auto simp: n(1) algebra_simps)
qed

lemma div_even_exact [simp]: "0 < d \<Longrightarrow> div_even (n * d) d = n"
  by (simp add: div_even_def)

lemma div_even_1 [simp]: "div_even n (Suc 0) = n"
  by (simp add: div_even_def)

lemma find_upto:
  assumes "find P [a..b] = Some e"
  shows "a \<le> e" and "e \<le> b" and "P e" and "a \<le> x \<Longrightarrow> x < e \<Longrightarrow> \<not> P x"
proof -
  from assms obtain i where i: "i < length [a..b]" "P ([a..b] ! i)" "e = [a..b] ! i"
    "\<forall>j < i. \<not> P ([a..b] ! j)" by (auto simp: find_Some_iff)
  then have e: "e = a + int i" "e \<le> b" by (auto simp: nth_upto)
  with i(2,3) show "a \<le> e" "e \<le> b" "P e" by simp_all
  assume x: "a \<le> x" "x < e"
  then have "nat (x - a) < i" using e(1) by simp
  with i(4) have "\<not> P ([a..b] ! nat (x - a))" by blast
  with x e(2) show "\<not> P x" by (simp add: nth_upto)
qed

lemma find_upto_Some:
  assumes "a \<le> x" and "x \<le> b" and "P x"
  obtains e where "find P [a..b] = Some e" and "e \<le> x"
proof -
  have "find P [a..b] \<noteq> None" using assms by (auto simp: find_None_iff)
  then obtain e where e: "find P [a..b] = Some e" by auto
  have "e \<le> x" using find_upto(4) [OF e, of x] assms by force
  with e show thesis by (rule that)
qed

lemmas find_exponent = find_upto [where a = "-1074" and b = 971, folded float_exponents_def]
lemmas find_exponent_Some = find_upto_Some [where a = "-1074" and b = 971, folded float_exponents_def]

text \<open>The value is within the range, and half a unit of its last place from the fraction.\<close>

lemma float_round_near:
  assumes "float_round neg n d = Some f" and "0 < d"
  obtains a b m e where "-1074 \<le> e" and "e \<le> 971" and "scaled n d e = (a, b)" and "m = div_even a b"
    and "2 * a \<le> 2 * b * m + b" and "2 * b * m \<le> 2 * a + b"
    and "f = Float64 neg m e \<and> m < 2 ^ 53 \<or> f = Float64 neg (2 ^ 52) (e + 1) \<and> m = 2 ^ 53 \<and> e < 971"
proof -
  from assms(1) obtain e where e: "find (\<lambda>e. case scaled n d e of (a, b) \<Rightarrow> a < b * 2 ^ 53) float_exponents = Some e"
    by (auto simp: float_round_def split: option.splits)
  obtain a b where ab: "scaled n d e = (a, b)" by fastforce
  from find_exponent(1-3) [OF e] ab have r: "-1074 \<le> e" "e \<le> 971" "a < b * 2 ^ 53" by auto
  have b: "0 < b" using ab assms(2) by (auto simp: scaled_def split: if_splits)
  have "2 * b * div_even a b \<le> 2 * a + b" by (rule div_even_near(2) [OF b])
  also have "\<dots> < 2 * (b * 2 ^ 53) + b" using r(3) by simp
  also have "\<dots> = b * (2 * 2 ^ 53 + 1)" by (simp add: algebra_simps)
  finally have "b * (2 * div_even a b) < b * (2 * 2 ^ 53 + 1)" by (simp add: mult.commute mult.left_commute)
  then have "div_even a b \<le> 2 ^ 53" by simp
  with assms(1) e ab have "f = Float64 neg (div_even a b) e \<and> div_even a b < 2 ^ 53 \<or>
      f = Float64 neg (2 ^ 52) (e + 1) \<and> div_even a b = 2 ^ 53 \<and> e < 971"
    by (auto simp: float_round_def Let_def split: if_splits)
  with r(1,2) ab div_even_near [OF b] show thesis by (intro that [of e a b "div_even a b"]) simp_all
qed

section \<open>Integers\<close>

text \<open>Below \<open>2 ^ 53\<close> an integer is its own value; at \<open>2 ^ 53\<close> the last place becomes 2.\<close>

lemma float_round_small:
  assumes "n < 2 ^ 53"
  obtains e where "e \<le> 0" and "float_round neg n 1 = Some (Float64 neg (n * 2 ^ nat (- e)) e)"
proof -
  let ?P = "\<lambda>e. case scaled n 1 e of (a, b) \<Rightarrow> a < b * 2 ^ 53"
  have "?P 0" using assms by (simp add: scaled_def)
  then obtain e where e: "find ?P float_exponents = Some e" "e \<le> 0"
    by (rule find_exponent_Some [rotated 2]) simp_all
  have sc: "scaled n 1 e = (n * 2 ^ nat (- e), 1)" using e(2) by (simp add: scaled_def)
  with find_exponent(3) [OF e(1)] have "n * 2 ^ nat (- e) < 2 ^ 53" by simp
  with e sc show thesis by (intro that [of e]) (simp_all add: float_round_def Let_def)
qed

lemma float_round_edge:
  assumes "n = 2 ^ 53 \<or> n = 2 ^ 53 + 1"
  shows "float_round neg n 1 = Some (Float64 neg (2 ^ 52) 1)"
proof -
  let ?P = "\<lambda>e. case scaled n 1 e of (a, b) \<Rightarrow> a < b * 2 ^ 53"
  have "?P 1" using assms by (auto simp: scaled_def)
  then obtain e where e: "find ?P float_exponents = Some e" "e \<le> 1"
    by (rule find_exponent_Some [rotated 2]) simp_all
  have "\<not> e \<le> 0"
  proof
    assume "e \<le> 0"
    then have "scaled n 1 e = (n * 2 ^ nat (- e), 1)" by (simp add: scaled_def)
    with find_exponent(3) [OF e(1)] have "n * 2 ^ nat (- e) < 2 ^ 53" by simp
    moreover have "n * 1 \<le> n * 2 ^ nat (- e)" by (intro mult_le_mono2) simp
    ultimately show False using assms by linarith
  qed
  with e have e1: "find ?P float_exponents = Some 1" by (simp add: order_antisym)
  have "div_even n 2 = 2 ^ 52" using assms by (auto simp: div_even_def)
  with e1 show ?thesis by (simp add: float_round_def scaled_def Let_def)
qed

lemma float_round_int64:
  assumes "n < 2 ^ 64"
  obtains f where "float_round neg n 1 = Some f"
proof -
  let ?P = "\<lambda>e. case scaled n 1 e of (a, b) \<Rightarrow> a < b * 2 ^ 53"
  have "?P 11" using assms by (simp add: scaled_def)
  then obtain e where "find ?P float_exponents = Some e" "e \<le> 11"
    by (rule find_exponent_Some [rotated 2]) simp_all
  then have "float_round neg n 1 \<noteq> None" by (simp add: float_round_def Let_def)
  with that show thesis by auto
qed

text \<open>An integer as \<open>FormatInt\<close> writes it.\<close>

lemma ParseFloat_FormatInt: "strconv_ParseFloat (strconv_FormatInt i) = float_round (i < 0) (nat \<bar>i\<bar>) 1"
proof -
  have run: "takeWhile is_digit (decimal n) = decimal n" "dropWhile is_digit (decimal n) = []" for n
    using decimal_digits by (auto simp: takeWhile_eq_all_conv)
  obtain c cs where c: "decimal (nat i) = c # cs" "is_digit c" by (rule decimal_Cons)
  then have neq: "c \<noteq> CHR ''-''" using not_digit_sign by auto
  show ?thesis
  proof (cases "i < 0")
    case True
    then show ?thesis
      by (simp add: strconv_ParseFloat_def strconv_FormatInt_def run parse_digits_decimal float_exponent_def)
  next
    case False
    have "(case decimal (nat i) of d # ds \<Rightarrow> if d = CHR ''-'' then (True, ds) else (False, decimal (nat i))
        | [] \<Rightarrow> (False, decimal (nat i))) = (False, decimal (nat i))" by (simp add: c neq)
    with False show ?thesis
      by (simp add: strconv_ParseFloat_def strconv_FormatInt_def run parse_digits_decimal float_exponent_def)
  qed
qed

lemma Sprintf_FormatInt:
  assumes "\<bar>i\<bar> \<le> 2 ^ 53" and "strconv_ParseFloat (strconv_FormatInt i) = Some f"
  shows "Sprintf_0f f = strconv_FormatInt i"
proof -
  have f: "float_round (i < 0) (nat \<bar>i\<bar>) 1 = Some f" using assms(2) by (simp add: ParseFloat_FormatInt)
  have sign: "strconv_FormatInt i = (if i < 0 then ''-'' else '''') @ decimal (nat \<bar>i\<bar>)"
    by (simp add: strconv_FormatInt_def)
  show ?thesis
  proof (cases "nat \<bar>i\<bar> < 2 ^ 53")
    case True
    then obtain e where "e \<le> 0" "f = Float64 (i < 0) (nat \<bar>i\<bar> * 2 ^ nat (- e)) e"
      by (rule float_round_small [where neg = "i < 0"]) (use f in simp)
    then show ?thesis unfolding sign by (cases "e = 0") (simp_all add: Sprintf_0f_def)
  next
    case False
    with assms(1) have n: "nat \<bar>i\<bar> = 2 ^ 53" by simp
    then have "f = Float64 (i < 0) (2 ^ 52) 1"
      using f float_round_edge [of "nat \<bar>i\<bar>" "i < 0"] by simp
    then show ?thesis unfolding sign n by (simp add: Sprintf_0f_def)
  qed
qed

end
