(* ===== verification/Go_Json_Value.thy ===== *)
theory Go_Json_Value
  imports Go_Json Go_Float
begin

text \<open>
  \<open>json.Unmarshal\<close> into a \<open>map[string]interface{}\<close>: the grammar of JSON values, whose nesting the
  scanner limits to 10000, and the Go values they become. The recursion is bounded by fuel; \<open>json_value_fuel\<close> shows that more
  than twice the length of the text loses nothing.
\<close>

section \<open>Values\<close>

datatype json =
    JNull
  | JBool bool
  | JNumber string
  | JString string
  | JArray "json list"
  | JObject "(string \<times> json) list"

definition json_space :: "char \<Rightarrow> bool" where
  "json_space c \<longleftrightarrow> c = CHR '' '' \<or> c = CHR 0x09 \<or> c = CHR 0x0A \<or> c = CHR 0x0D"

abbreviation skip_ws :: "string \<Rightarrow> string" where
  "skip_ws \<equiv> dropWhile json_space"

text \<open>The text of a number, from its parts, and what follows.\<close>

definition json_int :: "string \<Rightarrow> (string \<times> string) option" where
  "json_int s =
     (case s of
        [] \<Rightarrow> None
      | c # cs \<Rightarrow>
          if c = CHR ''0'' then Some ([c], cs)
          else if is_digit c then Some (takeWhile is_digit s, dropWhile is_digit s)
          else None)"

definition json_digits :: "string \<Rightarrow> string \<Rightarrow> (string \<times> string) option" where
  "json_digits pre s =
     (if takeWhile is_digit s = [] then None
      else Some (pre @ takeWhile is_digit s, dropWhile is_digit s))"

definition json_frac :: "string \<Rightarrow> (string \<times> string) option" where
  "json_frac s =
     (case s of c # cs \<Rightarrow> if c = CHR ''.'' then json_digits [c] cs else Some ([], s)
      | [] \<Rightarrow> Some ([], s))"

definition json_exp :: "string \<Rightarrow> (string \<times> string) option" where
  "json_exp s =
     (case s of
        c # cs \<Rightarrow>
          if c = CHR ''e'' \<or> c = CHR ''E'' then
            (case cs of
               d # ds \<Rightarrow> if d = CHR ''+'' \<or> d = CHR ''-'' then json_digits [c, d] ds else json_digits [c] cs
             | [] \<Rightarrow> None)
          else Some ([], s)
      | [] \<Rightarrow> Some ([], s))"

definition json_number :: "string \<Rightarrow> (string \<times> string) option" where
  "json_number s =
     (let (sign, s1) = (case s of c # cs \<Rightarrow> if c = CHR ''-'' then ([c], cs) else ([], s) | [] \<Rightarrow> ([], s))
      in (case json_int s1 of
            None \<Rightarrow> None
          | Some (i, s2) \<Rightarrow>
              (case json_frac s2 of
                 None \<Rightarrow> None
               | Some (f, s3) \<Rightarrow>
                   (case json_exp s3 of
                      None \<Rightarrow> None
                    | Some (e, s4) \<Rightarrow> Some (sign @ i @ f @ e, s4)))))"

text \<open>The three literals that are words.\<close>

definition json_word :: "string \<Rightarrow> (json \<times> string) option" where
  "json_word s =
     (if strings_HasPrefix s ''null'' then Some (JNull, drop 4 s)
      else if strings_HasPrefix s ''true'' then Some (JBool True, drop 4 s)
      else if strings_HasPrefix s ''false'' then Some (JBool False, drop 5 s)
      else None)"

fun json_value :: "nat \<Rightarrow> nat \<Rightarrow> string \<Rightarrow> (json \<times> string) option"
  and json_members :: "nat \<Rightarrow> nat \<Rightarrow> string \<Rightarrow> ((string \<times> json) list \<times> string) option"
  and json_elements :: "nat \<Rightarrow> nat \<Rightarrow> string \<Rightarrow> (json list \<times> string) option" where
  "json_value 0 d s = None"
| "json_value (Suc n) d s =
     (case skip_ws s of
        [] \<Rightarrow> None
      | c # cs \<Rightarrow>
          if c = CHR ''{'' then
            (if d = 0 then None
             else case skip_ws cs of
                    [] \<Rightarrow> None
                  | e # r \<Rightarrow>
                      if e = CHR ''}'' then Some (JObject [], r)
                      else map_option (\<lambda>(kvs, r). (JObject kvs, r)) (json_members n (d - 1) (e # r)))
          else if c = CHR ''['' then
            (if d = 0 then None
             else case skip_ws cs of
                    [] \<Rightarrow> None
                  | e # r \<Rightarrow>
                      if e = CHR '']'' then Some (JArray [], r)
                      else map_option (\<lambda>(vs, r). (JArray vs, r)) (json_elements n (d - 1) (e # r)))
          else if c = quote then map_option (\<lambda>(t, r). (JString t, r)) (json_chars cs)
          else if c = CHR ''-'' \<or> is_digit c
          then map_option (\<lambda>(t, r). (JNumber t, r)) (json_number (c # cs))
          else json_word (c # cs))"
| "json_members 0 d s = None"
| "json_members (Suc n) d s =
     (case skip_ws s of
        [] \<Rightarrow> None
      | c # cs \<Rightarrow>
          if c \<noteq> quote then None
          else (case json_chars cs of
                  None \<Rightarrow> None
                | Some (k, r) \<Rightarrow>
                    (case skip_ws r of
                       [] \<Rightarrow> None
                     | e # r1 \<Rightarrow>
                         if e \<noteq> CHR '':'' then None
                         else (case json_value n d r1 of
                                 None \<Rightarrow> None
                               | Some (v, r2) \<Rightarrow>
                                   (case skip_ws r2 of
                                      [] \<Rightarrow> None
                                    | g # r3 \<Rightarrow>
                                        if g = CHR '','' then put [(k, v)] (json_members n d r3)
                                        else if g = CHR ''}'' then Some ([(k, v)], r3)
                                        else None)))))"
| "json_elements 0 d s = None"
| "json_elements (Suc n) d s =
     (case json_value n d s of
        None \<Rightarrow> None
      | Some (v, r2) \<Rightarrow>
          (case skip_ws r2 of
             [] \<Rightarrow> None
           | g # r3 \<Rightarrow>
               if g = CHR '','' then put [v] (json_elements n d r3)
               else if g = CHR '']'' then Some ([v], r3)
               else None))"

section \<open>Unmarshal\<close>

text \<open>
  The values of an \<open>interface{}\<close>: numbers become \<open>float64\<close>, and one outside its range is an error
  of the document. In a map the last of equal keys counts.
\<close>

datatype iface =
    IfaceNil
  | IfaceBool bool
  | IfaceFloat64 float64
  | IfaceString string
  | IfaceSlice "iface list"
  | IfaceMap "(string \<times> iface) list"

fun json_iface :: "json \<Rightarrow> iface option" where
  "json_iface JNull = Some IfaceNil"
| "json_iface (JBool b) = Some (IfaceBool b)"
| "json_iface (JNumber t) = map_option IfaceFloat64 (strconv_ParseFloat t)"
| "json_iface (JString s) = Some (IfaceString s)"
| "json_iface (JArray vs) = map_option IfaceSlice (those (map json_iface vs))"
| "json_iface (JObject kvs) =
     map_option IfaceMap (those (map (\<lambda>(k, v). map_option (Pair k) (json_iface v)) kvs))"

definition maxNestingDepth :: nat where "maxNestingDepth = 10000"

text \<open>\<open>None\<close> is an error; \<open>null\<close> leaves the map nil, which reads like an empty one.\<close>

definition json_Unmarshal_map :: "string \<Rightarrow> (string \<rightharpoonup> iface) option" where
  "json_Unmarshal_map s =
     (case json_value (Suc (2 * length s)) maxNestingDepth s of
        None \<Rightarrow> None
      | Some (v, r) \<Rightarrow>
          if skip_ws r \<noteq> [] then None
          else (case json_iface v of
                  Some (IfaceMap kvs) \<Rightarrow> Some (map_of (rev kvs))
                | Some IfaceNil \<Rightarrow> Some Map.empty
                | _ \<Rightarrow> None))"

section \<open>Fuel\<close>

text \<open>Every reader takes at least one character.\<close>

lemma json_chars_shorter: "json_chars s = Some (t, r) \<Longrightarrow> length r < length s"
proof (induction s arbitrary: t r rule: length_induct)
  case (1 s)
  then have IH: "length r' < length u \<or> length s \<le> length u" if "json_chars u = Some (t', r')" for u t' r'
    using that by (meson not_less)
  show ?case
  proof (cases s)
    case (Cons c cs)
    show ?thesis
      using 1(2) unfolding Cons json_chars.simps(2)
      by (auto split: if_splits list.splits option.splits nat.splits
          simp del: rune_size.simps getu4.simps dest!: IH simp: Cons)
  qed (use 1(2) in simp)
qed

lemma dropWhile_shorter: "length (dropWhile p s) \<le> length s"
  by (induction s) auto

lemma skip_ws_Cons: "skip_ws s = c # cs \<Longrightarrow> length cs < length s"
  using dropWhile_shorter [of json_space s] by simp

lemma json_number_shorter: "json_number s = Some (t, r) \<Longrightarrow> length r < length s"
proof -
  have digits: "json_digits p u = Some (w, q) \<Longrightarrow> length q \<le> length u" for p u w q
    using dropWhile_shorter [of is_digit u] by (auto simp: json_digits_def split: if_splits)
  have int: "json_int u = Some (w, q) \<Longrightarrow> length q < length u" for u w q
    by (auto simp: json_int_def split: list.splits if_splits)
      (use dropWhile_shorter [of is_digit] in \<open>simp add: less_Suc_eq_le\<close>)
  have frac: "json_frac u = Some (w, q) \<Longrightarrow> length q \<le> length u" for u w q
    by (auto simp: json_frac_def split: list.splits if_splits dest: digits)
  have exp: "json_exp u = Some (w, q) \<Longrightarrow> length q \<le> length u" for u w q
    by (auto simp: json_exp_def split: list.splits if_splits dest!: digits)
  assume "json_number s = Some (t, r)"
  then show ?thesis
    by (auto simp: json_number_def Let_def split: list.splits if_splits option.splits prod.splits
        dest!: int frac exp)
qed

lemma json_word_shorter: "json_word s = Some (v, r) \<Longrightarrow> length r < length s"
  by (auto simp: json_word_def strings_HasPrefix_def split: if_splits)

lemma json_value_shorter_all:
  "(\<forall>d s v r. json_value n d s = Some (v, r) \<longrightarrow> length r < length s) \<and>
   (\<forall>d s kvs r. json_members n d s = Some (kvs, r) \<longrightarrow> length r < length s) \<and>
   (\<forall>d s vs r. json_elements n d s = Some (vs, r) \<longrightarrow> length r < length s)"
proof (induction n)
  case 0
  then show ?case by simp
next
  case (Suc n)
  then have IH: "json_value n d s = Some (v, r) \<Longrightarrow> length r < length s"
    "json_members n d s = Some (kvs, r) \<Longrightarrow> length r < length s"
    "json_elements n d s = Some (vs, r) \<Longrightarrow> length r < length s" for d s v r kvs vs
    by blast+
  have "length r < length s" if "json_value (Suc n) d s = Some (v, r)" for d s v r
    using that
    by (auto split: list.splits if_splits
        dest!: skip_ws_Cons json_chars_shorter json_number_shorter json_word_shorter IH)
  moreover have "length r < length s" if "json_members (Suc n) d s = Some (kvs, r)" for d s kvs r
    using that
    by (auto split: list.splits if_splits option.splits prod.splits
        dest!: skip_ws_Cons json_chars_shorter IH)
  moreover have "length r < length s" if "json_elements (Suc n) d s = Some (vs, r)" for d s vs r
    using that
    by (auto split: list.splits if_splits option.splits prod.splits dest!: skip_ws_Cons IH)
  ultimately show ?case by blast
qed

lemmas json_value_shorter = json_value_shorter_all [THEN conjunct1, rule_format]
lemmas json_members_shorter = json_value_shorter_all [THEN conjunct2, THEN conjunct1, rule_format]
lemmas json_elements_shorter = json_value_shorter_all [THEN conjunct2, THEN conjunct2, rule_format]

text \<open>More fuel than the length of the text changes nothing.\<close>

lemma json_value_fuel_all:
  "(\<forall>d s m. 2 * length s < n \<longrightarrow> 2 * length s < m \<longrightarrow> json_value n d s = json_value m d s) \<and>
   (\<forall>d s m. 2 * length s < n \<longrightarrow> 2 * length s < m \<longrightarrow> json_members n d s = json_members m d s) \<and>
   (\<forall>d s m. Suc (2 * length s) < n \<longrightarrow> Suc (2 * length s) < m \<longrightarrow>
      json_elements n d s = json_elements m d s)"
proof (induction n)
  case 0
  then show ?case by simp
next
  case (Suc n)
  then have IH: "2 * length s < n \<Longrightarrow> 2 * length s < m \<Longrightarrow> json_value n d s = json_value m d s"
    "2 * length s < n \<Longrightarrow> 2 * length s < m \<Longrightarrow> json_members n d s = json_members m d s"
    "Suc (2 * length s) < n \<Longrightarrow> Suc (2 * length s) < m \<Longrightarrow> json_elements n d s = json_elements m d s"
    for d s m
    by blast+
  have "json_value (Suc n) d s = json_value (Suc m) d s"
    if len: "2 * length s < Suc n" "2 * length s < Suc m" for d s m
  proof -
    have inner: "json_members n k (e # r) = json_members m k (e # r)"
      "json_elements n k (e # r) = json_elements m k (e # r)"
      if "skip_ws s = c # cs" "skip_ws cs = e # r" for c cs e r k
      using that len by (intro IH; auto dest!: skip_ws_Cons)+
    show ?thesis
    proof (cases "skip_ws s")
      case (Cons c cs)
      then show ?thesis by (cases "skip_ws cs") (simp_all add: inner [OF Cons] del: dropWhile_eq_Nil_conv)
    qed (simp del: dropWhile_eq_Nil_conv)
  qed
  moreover have "json_members (Suc n) d s = json_members (Suc m) d s"
    if len: "2 * length s < Suc n" "2 * length s < Suc m" for d s m
  proof -
    have val: "json_value n d r1 = json_value m d r1"
      if "skip_ws s = c # cs" "json_chars cs = Some (k, r)" "skip_ws r = e # r1" for c cs k r e r1
      using that len by (intro IH(1)) (auto dest!: skip_ws_Cons json_chars_shorter)
    have rest: "json_members n d r3 = json_members m d r3"
      if "skip_ws s = c # cs" "json_chars cs = Some (k, r)" "skip_ws r = e # r1"
        "json_value m d r1 = Some (v, r2)" "skip_ws r2 = g # r3" for c cs k r e r1 v r2 g r3
      using that len
      by (intro IH(2)) (auto dest!: skip_ws_Cons json_chars_shorter json_value_shorter)
    show ?thesis by (auto split: list.splits option.splits simp: val rest simp del: dropWhile_eq_Nil_conv)
  qed
  moreover have "json_elements (Suc n) d s = json_elements (Suc m) d s"
    if len: "Suc (2 * length s) < Suc n" "Suc (2 * length s) < Suc m" for d s m
  proof -
    have val: "json_value n d s = json_value m d s" using len by (intro IH(1)) auto
    have rest: "json_elements n d r3 = json_elements m d r3"
      if "json_value m d s = Some (v, r2)" "skip_ws r2 = g # r3" for v r2 g r3
      using that len by (intro IH(3)) (auto dest!: skip_ws_Cons json_value_shorter)
    show ?thesis by (auto split: list.splits option.splits simp: val rest simp del: dropWhile_eq_Nil_conv)
  qed
  ultimately have step: "2 * length s < Suc n \<Longrightarrow> 2 * length s < Suc m \<Longrightarrow>
      json_value (Suc n) d s = json_value (Suc m) d s"
    "2 * length s < Suc n \<Longrightarrow> 2 * length s < Suc m \<Longrightarrow> json_members (Suc n) d s = json_members (Suc m) d s"
    "Suc (2 * length s) < Suc n \<Longrightarrow> Suc (2 * length s) < Suc m \<Longrightarrow>
      json_elements (Suc n) d s = json_elements (Suc m) d s" for d s m
    by blast+
  show ?case
  proof (intro conjI allI impI)
    fix d m and s :: string assume a: "2 * length s < Suc n" "2 * length s < m"
    then obtain m' where m: "m = Suc m'" by (cases m) auto
    show "json_value (Suc n) d s = json_value m d s" unfolding m by (rule step(1)) (use a m in simp_all)
  next
    fix d m and s :: string assume a: "2 * length s < Suc n" "2 * length s < m"
    then obtain m' where m: "m = Suc m'" by (cases m) auto
    show "json_members (Suc n) d s = json_members m d s" unfolding m by (rule step(2)) (use a m in simp_all)
  next
    fix d m and s :: string assume a: "Suc (2 * length s) < Suc n" "Suc (2 * length s) < m"
    then obtain m' where m: "m = Suc m'" by (cases m) auto
    show "json_elements (Suc n) d s = json_elements m d s" unfolding m by (rule step(3)) (use a m in simp_all)
  qed
qed

lemma json_value_fuel: "2 * length s < n \<Longrightarrow> json_value n d s = json_value (Suc (2 * length s)) d s"
  by (rule json_value_fuel_all [THEN conjunct1, rule_format]) simp_all

section \<open>Reading what was written\<close>

text \<open>An object as \<open>Marshal\<close> writes it, from its keys and the texts of its values.\<close>

fun write_members :: "(string \<times> string) list \<Rightarrow> string" where
  "write_members [] = ''''"
| "write_members [(k, v)] = json_string k @ CHR '':'' # v"
| "write_members ((k, v) # kvs) = json_string k @ CHR '':'' # v @ CHR '','' # write_members kvs"

definition write_object :: "(string \<times> string) list \<Rightarrow> string" where
  "write_object kvs = CHR ''{'' # write_members kvs @ ''}''"

text \<open>A text that reads as a value in front of a comma or the end of an object.\<close>

definition reads_as :: "string \<Rightarrow> json \<Rightarrow> bool" where
  "reads_as t v \<longleftrightarrow> (\<forall>n d X. X \<noteq> [] \<longrightarrow> hd X \<in> {CHR '','', CHR ''}''} \<longrightarrow>
     json_value (Suc n) d (t @ X) = Some (v, X))"

lemma string_reads: "reads_as (json_string t) (JString (utf8_repair t))"
  by (simp add: reads_as_def json_string_def json_space_def json_chars_escape)

lemma decimal_leading: "decimal n = c # cs \<Longrightarrow> c = CHR ''0'' \<Longrightarrow> cs = []"
proof (induction n arbitrary: cs rule: decimal.induct)
  case (1 n)
  show ?case
  proof (cases "n < 10")
    case True
    with 1(2) show ?thesis by (simp add: decimal.simps [of n])
  next
    case False
    with 1(2) obtain ds where ds: "decimal (n div 10) = c # ds"
      by (cases "decimal (n div 10)") (auto simp: decimal.simps [of n])
    with 1(1) [OF False ds 1(3)] 1(3) have "decimal (n div 10) = [CHR ''0'']" by simp
    then have "parse_digits 0 (decimal (n div 10)) = Some 0" by (simp add: is_digit_def)
    with False show ?thesis by (simp add: parse_digits_decimal)
  qed
qed

lemma json_int_decimal:
  assumes "X \<noteq> []" and "hd X \<in> {CHR '','', CHR ''}''}"
  shows "json_int (decimal n @ X) = Some (decimal n, X)"
proof -
  obtain c cs where c: "decimal n = c # cs" "is_digit c" by (rule decimal_Cons)
  have digits: "\<forall>x \<in> set (decimal n). is_digit x" using decimal_digits by blast
  have X: "takeWhile is_digit X = []" "dropWhile is_digit X = X"
    using assms by (cases X; auto simp: is_digit_def)+
  show ?thesis
  proof (cases "c = CHR ''0''")
    case True
    with decimal_leading [OF c(1)] c show ?thesis by (simp add: json_int_def)
  next
    case False
    have "takeWhile is_digit (decimal n @ X) = decimal n" "dropWhile is_digit (decimal n @ X) = X"
      using digits X by (simp_all add: takeWhile_append2 dropWhile_append2)
    with c False show ?thesis by (simp add: json_int_def)
  qed
qed

lemma json_number_FormatInt:
  assumes "X \<noteq> []" and "hd X \<in> {CHR '','', CHR ''}''}"
  shows "json_number (strconv_FormatInt i @ X) = Some (strconv_FormatInt i, X)"
proof -
  have tail: "json_frac X = Some ([], X)" "json_exp X = Some ([], X)"
    using assms by (cases X; auto simp: json_frac_def json_exp_def)+
  obtain c cs where c: "decimal (nat i) = c # cs" "is_digit c" by (rule decimal_Cons)
  then have neq: "c \<noteq> CHR ''-''" using not_digit_sign by auto
  have int: "json_int (c # cs @ X) = Some (c # cs, X)"
    using json_int_decimal [OF assms, of "nat i"] c by simp
  show ?thesis
  proof (cases "i < 0")
    case True
    with tail json_int_decimal [OF assms] show ?thesis
      by (simp add: json_number_def strconv_FormatInt_def)
  next
    case False
    with tail int neq c show ?thesis by (simp add: json_number_def strconv_FormatInt_def)
  qed
qed

lemma int_reads: "reads_as (strconv_FormatInt i) (JNumber (strconv_FormatInt i))"
proof -
  have "\<exists>c cs. strconv_FormatInt i = c # cs \<and> (c = CHR ''-'' \<or> is_digit c)"
    unfolding strconv_FormatInt_def by (cases "i < 0") (simp_all, metis decimal_Cons)
  then obtain c cs where c: "strconv_FormatInt i = c # cs" "c = CHR ''-'' \<or> is_digit c" by blast
  then have "\<not> json_space c" "c \<noteq> CHR ''{''" "c \<noteq> CHR ''[''" "c \<noteq> quote"
    by (auto simp: json_space_def is_digit_def)
  with c show ?thesis
    using json_number_FormatInt [of _ i] by (auto simp: reads_as_def)
qed

lemma members_read:
  assumes "kvs \<noteq> []" and "list_all2 (\<lambda>(k, t) v. reads_as t v) kvs vs" and "length kvs < n"
  shows "json_members n d (write_members kvs @ CHR ''}'' # X) =
    Some (zip (map (\<lambda>kv. utf8_repair (fst kv)) kvs) vs, X)"
  using assms
proof (induction kvs arbitrary: n vs rule: write_members.induct)
  case (2 k t)
  then obtain v m where v: "vs = [v]" "reads_as t v" "n = Suc (Suc m)"
    by (cases n; cases "n - 1") (auto simp: list_all2_Cons1)
  then show ?case
    by (simp add: json_string_def json_chars_escape json_space_def reads_as_def)
next
  case (3 k t e kvs)
  then obtain v us m where v: "vs = v # us" "reads_as t v" "n = Suc (Suc m)"
    "list_all2 (\<lambda>(k, t) v. reads_as t v) (e # kvs) us"
    by (cases n; cases "n - 1") (auto simp: list_all2_Cons1)
  have rest: "json_members (Suc m) d (write_members (e # kvs) @ CHR ''}'' # X) =
      Some (zip (map (\<lambda>kv. utf8_repair (fst kv)) (e # kvs)) us, X)"
    using 3(1) [OF _ v(4), of "Suc m"] 3(4) v(3) by (simp del: json_members.simps)
  have "json_members (Suc (Suc m)) d (write_members ((k, t) # e # kvs) @ CHR ''}'' # X) =
      put [(utf8_repair k, v)] (json_members (Suc m) d (write_members (e # kvs) @ CHR ''}'' # X))"
    using v(2) by (subst json_members.simps(2))
      (simp add: json_string_def json_chars_escape json_space_def reads_as_def del: json_members.simps)
  then show ?case unfolding v(1,3) rest by simp
qed simp

lemma write_members_length: "length kvs \<le> length (write_members kvs)"
  by (induction kvs rule: write_members.induct) (auto simp: json_string_def)

lemma those_members:
  "list_all2 (\<lambda>v x. json_iface v = Some x) vs xs \<Longrightarrow>
   those (map (\<lambda>(k, v). map_option (Pair k) (json_iface v)) (zip ks vs)) = Some (zip ks xs)"
proof (induction ks arbitrary: vs xs)
  case (Cons k ks)
  then show ?case by (cases vs; cases xs) auto
qed simp

lemma Unmarshal_written:
  assumes "list_all2 (\<lambda>(k, t) v. reads_as t v) kvs vs" and "kvs \<noteq> []"
    and "list_all2 (\<lambda>v x. json_iface v = Some x) vs xs"
    and "distinct (map (\<lambda>kv. utf8_repair (fst kv)) kvs)"
  shows "json_Unmarshal_map (write_object kvs) =
    Some (map_of (zip (map (\<lambda>kv. utf8_repair (fst kv)) kvs) xs))"
proof -
  let ?ks = "map (\<lambda>kv. utf8_repair (fst kv)) kvs"
  have len: "length ?ks = length xs"
    using list_all2_lengthD [OF assms(1)] list_all2_lengthD [OF assms(3)] by simp
  obtain r where start: "write_members kvs @ ''}'' = quote # r"
    using assms(2) by (cases kvs rule: write_members.cases) (auto simp: json_string_def)
  have "json_members (2 * length (write_object kvs)) (maxNestingDepth - 1) (write_members kvs @ ''}'') =
      Some (zip ?ks vs, [])"
  proof -
    have "length kvs < 2 * length (write_object kvs)"
      using write_members_length [of kvs] by (simp add: write_object_def)
    from members_read [OF assms(2,1) this] show ?thesis by blast
  qed
  then have "json_value (Suc (2 * length (write_object kvs))) maxNestingDepth (write_object kvs) =
      Some (JObject (zip ?ks vs), [])"
    by (simp add: write_object_def start json_space_def maxNestingDepth_def)
  moreover have "json_iface (JObject (zip ?ks vs)) = Some (IfaceMap (zip ?ks xs))"
    using those_members [OF assms(3), of ?ks] by simp
  moreover have "map_of (rev (zip ?ks xs)) = map_of (zip ?ks xs)"
    by (rule map_of_inject_set [THEN iffD2]) (use assms(4) len in \<open>simp_all add: rev_map [symmetric] distinct_rev\<close>)
  ultimately show ?thesis by (simp add: json_Unmarshal_map_def del: json_iface.simps)
qed

end
