(* ===== verification/Webhook.thy ===== *)
theory Webhook
  imports Models Go_Json_Value "HOL-Library.List_Lexorder" "HOL-Library.Char_ord"
begin

text \<open>
  \<open>internal/service/webhook.go\<close>: the notification of an IP change. \<open>NotifyIPChange\<close> only starts
  a goroutine; the goroutine's body is \<open>WebhookService_send\<close>, which runs later, with the HTTP
  stack as a parameter, on the outside world \<open>'h\<close>. The request context it
  was given is cancelled or not by then (\<open>cancelled\<close>).
\<close>

datatype webhook_value = AnyInt int | AnyString string

type_synonym webhook_data = "(string \<times> webhook_value) list"

text \<open>\<open>json.Marshal\<close> of the \<open>map[string]any\<close>: sorted by key, every value as text. It cannot fail.\<close>

definition marshal_value :: "webhook_value \<Rightarrow> string" where
  "marshal_value v = (case v of AnyInt i \<Rightarrow> strconv_FormatInt i | AnyString s \<Rightarrow> json_string s)"

definition json_Marshal :: "webhook_data \<Rightarrow> string outcome" where
  "json_Marshal data =
     Ok (write_object (map (\<lambda>(k, v). (k, marshal_value v)) (sort_key fst data)))"

record WebhookService = wsURL :: string

definition NewWebhookService :: "string \<Rightarrow> WebhookService" where
  "NewWebhookService webhookURL = \<lparr>wsURL = webhookURL\<rparr>"

record http_request =
  hrMethod :: string
  hrURL :: string
  hrBody :: string
  hrHeaders :: "(string \<times> string) list"

record 'h http_lib =
  http_NewRequest :: "string \<Rightarrow> string \<Rightarrow> string \<Rightarrow> http_request outcome"
  http_Do :: "bool \<Rightarrow> http_request \<Rightarrow> ('h, int) go"

definition Header_Set :: "string \<Rightarrow> string \<Rightarrow> http_request \<Rightarrow> http_request" where
  "Header_Set k v req =
     req\<lparr>hrHeaders := (k, v) # filter (\<lambda>h. fst h \<noteq> k) (hrHeaders req)\<rparr>"

text \<open>The body of the goroutine; its errors and its status check only write to the log.\<close>

definition WebhookService_send ::
  "'h http_lib \<Rightarrow> WebhookService \<Rightarrow> bool \<Rightarrow> webhook_data \<Rightarrow> ('h, unit) go" where
  "WebhookService_send H s cancelled data =
     (if wsURL s = '''' then go_ret ()
      else go_try (go_pure (json_Marshal data)) (\<lambda>_. go_ret ())
        (\<lambda>payload. go_try (go_pure (http_NewRequest H ''POST'' (wsURL s) payload)) (\<lambda>_. go_ret ())
          (\<lambda>req. go_try (http_Do H cancelled (Header_Set ''Content-Type'' ''application/json'' req))
            (\<lambda>_. go_ret ()) (\<lambda>status. go_ret ()))))"

text \<open>Without a configured URL nothing is sent.\<close>

lemma send_without_URL: "wsURL s = '''' \<Longrightarrow> WebhookService_send H s cancelled data h = (Ok (), h)"
  by (simp add: WebhookService_send_def)

text \<open>The goroutine never reports an error: a failed notification is lost.\<close>

lemma send_never_fails: "fst (WebhookService_send H s cancelled data h) \<noteq> Err e"
  unfolding WebhookService_send_def by (auto simp: go_try_def split: outcome.splits prod.splits)

end
