(* ===== verification/Auth_Service.thy ===== *)
theory Auth_Service
  imports Token_Contract Storage_Contract Webhook
begin

text \<open>
  \<open>internal/service/auth.go\<close>: issuing, refreshing and revoking tokens. The service acts on the
  state of the database, the state of Redis and the list of webhook goroutines it has started.
  \<open>RefreshTokens\<close> is cut where its checks end and the rotation begins, so that the steps of two
  concurrent calls can be interleaved.
\<close>

section \<open>The state the service acts on\<close>

record ('d, 'r) world =
  w_db :: 'd
  w_redis :: 'r
  w_hooks :: "webhook_data list"

definition lift_db :: "('d, 'a) go \<Rightarrow> (('d, 'r) world, 'a) go" where
  "lift_db m w = (case m (w_db w) of (r, d) \<Rightarrow> (r, w\<lparr>w_db := d\<rparr>))"

definition lift_redis :: "('r, 'a) go \<Rightarrow> (('d, 'r) world, 'a) go" where
  "lift_redis m w = (case m (w_redis w) of (r, s) \<Rightarrow> (r, w\<lparr>w_redis := s\<rparr>))"

text \<open>\<open>NotifyIPChange\<close> starts a goroutine and returns.\<close>

definition WebhookService_NotifyIPChange :: "webhook_data \<Rightarrow> (('d, 'r) world, unit) go" where
  "WebhookService_NotifyIPChange data w = (Ok (), w\<lparr>w_hooks := w_hooks w @ [data]\<rparr>)"

record ('d, 'r) AuthService =
  asTokenService :: "'r TokenService"
  asStorage :: "'d Storage"
  asWebhookService :: WebhookService

definition NewAuthService ::
  "'r TokenService \<Rightarrow> 'd Storage \<Rightarrow> WebhookService \<Rightarrow> ('d, 'r) AuthService" where
  "NewAuthService ts s ws =
     \<lparr>asTokenService = ts, asStorage = s, asWebhookService = ws\<rparr>"

lemma NewAuthService_simps [simp]:
  "asTokenService (NewAuthService ts s ws) = ts" "asStorage (NewAuthService ts s ws) = s"
  "asWebhookService (NewAuthService ts s ws) = ws"
  by (simp_all add: NewAuthService_def)

text \<open>What one call draws from its surroundings: clock readings, a new UUID, random bytes.\<close>

record ambient =
  amClock :: clock
  amUUID :: string
  amRand :: entropy

section \<open>The operations\<close>

definition AuthService_AuthenticateAccessToken ::
  "jwt_lib \<Rightarrow> ('d, 'r) AuthService \<Rightarrow> clock \<Rightarrow> string \<Rightarrow> (('d, 'r) world, int) go" where
  "AuthService_AuthenticateAccessToken J as clk tokenString =
     go_try (lift_redis (TokenService_ValidateAccessTokenAndGetUserID J (asTokenService as) clk tokenString))
       (go_wrap ''access token validation failed: '') go_ret"

definition new_session ::
  "('d, 'r) AuthService \<Rightarrow> string \<Rightarrow> string \<Rightarrow> UserMetadata \<Rightarrow> string \<Rightarrow> gotime \<Rightarrow> RefreshSession" where
  "new_session as selector verifierHash userMetadata jti now =
     \<lparr>rsID = 0, rsUserID = 0, rsSelector = selector, rsVerifierHash = verifierHash,
      rsUserAgent = umUserAgent userMetadata, rsIPAddress = umIPAddress userMetadata,
      rsAccessTokenJTI = jti, rsCreatedAt = now,
      rsExpiresAt = time_Add now (tsRefreshTTL (asTokenService as))\<rparr>"

definition AuthService_IssueTokens ::
  "jwt_lib \<Rightarrow> ('d, 'r) AuthService \<Rightarrow> ambient \<Rightarrow> string \<Rightarrow> UserMetadata \<Rightarrow>
   (('d, 'r) world, string \<times> string) go" where
  "AuthService_IssueTokens J as am guid userMetadata =
     (let now = amClock am 0; jti = amUUID am in
      go_try (go_pure (TokenService_CreateRefreshToken (amRand am)))
        (go_wrap ''failed to create refresh token: '')
        (\<lambda>(refreshToken, selector, verifierHash).
           let session = new_session as selector verifierHash userMetadata jti now in
           go_try (lift_db (IssueTokensTx (asStorage as) guid session))
             (go_wrap ''failed to execute issue tokens transaction: '')
             (\<lambda>user.
                go_try (go_pure (TokenService_CreateAccessTokenWithJTI J (asTokenService as)
                          (uID user) now jti))
                  (go_wrap ''failed to create access token with correct user ID: '')
                  (\<lambda>accessToken. go_ret (accessToken, refreshToken)))))"

definition AuthService_detectTheftAndRevoke ::
  "('d, 'r) AuthService \<Rightarrow> string \<Rightarrow> (('d, 'r) world, unit) go" where
  "AuthService_detectTheftAndRevoke as selector =
     go_try (lift_db (FindSessionBySelector (Sessions (asStorage as)) selector))
       (\<lambda>_. go_fail (Sentinel ErrSessionNotFound))
       (\<lambda>usedSession.
          go_try (lift_db (DeleteAllUserSessions (Sessions (asStorage as)) (rsUserID usedSession)))
            (go_wrap ''failed to revoke sessions after theft detection: '')
            (\<lambda>_. go_fail (ErrorsNew ''token reuse detected, all sessions revoked'')))"

definition ip_change :: "RefreshSession \<Rightarrow> UserMetadata \<Rightarrow> webhook_data" where
  "ip_change activeSession userMetadata =
     [(''user_id'', AnyInt (rsUserID activeSession)),
      (''old_ip'', AnyString (rsIPAddress activeSession)),
      (''new_ip'', AnyString (umIPAddress userMetadata)),
      (''user_agent'', AnyString (umUserAgent userMetadata))]"

text \<open>
  The checks of \<open>RefreshTokens\<close>: those on the active session, then the whole read phase. There
  \<open>Inl\<close> is an early return of the method with a nil error (no path of \<open>detectTheftAndRevoke\<close>
  gives one) and \<open>Inr\<close> goes on with the selector and the session.
\<close>

definition AuthService_RefreshTokens_session ::
  "('d, 'r) AuthService \<Rightarrow> jwtClaims \<Rightarrow> string \<Rightarrow> UserMetadata \<Rightarrow> RefreshSession \<Rightarrow>
   (('d, 'r) world, unit) go" where
  "AuthService_RefreshTokens_session as claims refreshToken userMetadata activeSession =
     (if rsAccessTokenJTI activeSession \<noteq> jcID claims
      then go_fail (ErrorsNew ''access and refresh tokens do not match'')
      else if rsUserAgent activeSession \<noteq> umUserAgent userMetadata
      then go_try
        (lift_db (DeleteAllUserSessions (Sessions (asStorage as)) (rsUserID activeSession)))
        (go_wrap ''failed to revoke sessions after user-agent mismatch: '')
        (\<lambda>_. go_fail (ErrorsNew ''user-agent has changed, all sessions revoked''))
      else
        go_try
          (if rsIPAddress activeSession \<noteq> umIPAddress userMetadata
           then WebhookService_NotifyIPChange (ip_change activeSession userMetadata)
           else go_ret ())
          go_fail
          (\<lambda>_. go_pure (TokenService_ValidateRefreshToken refreshToken
                           (rsVerifierHash activeSession))))"

definition AuthService_RefreshTokens_checks ::
  "jwt_lib \<Rightarrow> ('d, 'r) AuthService \<Rightarrow> string \<Rightarrow> string \<Rightarrow> UserMetadata \<Rightarrow>
   (('d, 'r) world, (string \<times> string) + (string \<times> RefreshSession)) go" where
  "AuthService_RefreshTokens_checks J as accessToken refreshToken userMetadata =
     go_try (go_pure (TokenService_getClaimsFromToken J accessToken))
       (go_wrap ''invalid access token: '')
       (\<lambda>claims.
          let parts = strings_Split (CHR ''.'') refreshToken in
          if length parts \<noteq> TokenPartsExpected
          then go_fail (ErrorsNew ''invalid refresh token format'')
          else
            let selector = parts ! 0 in
            go_try (lift_db (GetActiveSessionBySelector (Sessions (asStorage as)) selector))
              (\<lambda>err.
                 if errors_Is err ErrSessionNotFound
                 then go_try (AuthService_detectTheftAndRevoke as selector) go_fail
                        (\<lambda>_. go_ret (Inl ('''', '''')))
                 else go_wrap ''failed to get active session: '' err)
              (\<lambda>activeSession.
                 go_try (AuthService_RefreshTokens_session as claims refreshToken userMetadata
                           activeSession)
                   go_fail (\<lambda>_. go_ret (Inr (selector, activeSession)))))"

definition AuthService_RefreshTokens_rotation ::
  "jwt_lib \<Rightarrow> ('d, 'r) AuthService \<Rightarrow> ambient \<Rightarrow> string \<Rightarrow> RefreshSession \<Rightarrow> UserMetadata \<Rightarrow>
   (('d, 'r) world, string \<times> string) go" where
  "AuthService_RefreshTokens_rotation J as am selector activeSession userMetadata =
     (let now = amClock am 0 in
      go_try (go_pure (TokenService_CreateAccessToken J (asTokenService as) (amUUID am)
                (rsUserID activeSession) now))
        (go_wrap ''failed to create new access token: '')
        (\<lambda>(newAccessToken, newJTI).
           go_try (go_pure (TokenService_CreateRefreshToken (amRand am)))
             (go_wrap ''failed to create new refresh token: '')
             (\<lambda>(newRefreshToken, newSelector, newVerifierHash).
                let newSession = new_session as newSelector newVerifierHash userMetadata newJTI now in
                go_try (lift_db (RotateTokensTx (asStorage as) selector newSession
                          (rsUserID activeSession)))
                  (go_wrap ''failed to execute rotate tokens transaction: '')
                  (\<lambda>_. go_ret (newAccessToken, newRefreshToken)))))"

definition AuthService_RefreshTokens ::
  "jwt_lib \<Rightarrow> ('d, 'r) AuthService \<Rightarrow> ambient \<Rightarrow> string \<Rightarrow> string \<Rightarrow> UserMetadata \<Rightarrow>
   (('d, 'r) world, string \<times> string) go" where
  "AuthService_RefreshTokens J as am accessToken refreshToken userMetadata =
     go_try (AuthService_RefreshTokens_checks J as accessToken refreshToken userMetadata) go_fail
       (\<lambda>x. case x of
          Inl r \<Rightarrow> go_ret r
        | Inr (selector, activeSession) \<Rightarrow>
            AuthService_RefreshTokens_rotation J as am selector activeSession userMetadata)"

definition AuthService_Logout ::
  "jwt_lib \<Rightarrow> ('d, 'r) AuthService \<Rightarrow> clock \<Rightarrow> string \<Rightarrow> (('d, 'r) world, unit) go" where
  "AuthService_Logout J as clk accessToken =
     go_try (lift_redis (TokenService_ValidateAccessTokenAndGetUserID J (asTokenService as) clk accessToken))
       (go_wrap ''access token validation failed: '')
       (\<lambda>userID.
          go_try (lift_redis (TokenService_InvalidateAccessToken J (asTokenService as)
                    (\<lambda>n. clk (n + 2)) accessToken))
            (go_wrap ''failed to invalidate access token: '')
            (\<lambda>_. go_try (lift_db (DeleteAllUserSessions (Sessions (asStorage as)) userID))
               (go_wrap ''failed to delete all user sessions: '') (\<lambda>_. go_ret ())))"

definition AuthService_GetPublicGUID ::
  "('d, 'r) AuthService \<Rightarrow> int \<Rightarrow> (('d, 'r) world, string) go" where
  "AuthService_GetPublicGUID as userID =
     go_try (lift_db (GetUserByID (Users (asStorage as)) userID))
       (go_wrap ''get user by id: '') (\<lambda>user. go_ret (uGUID user))"

end
