(* ===== verification/Auth_Contract.thy ===== *)
theory Auth_Contract
  imports Auth_Service
begin

text \<open>
  What the authentication service promises, on any storage that keeps \<open>storage_contract\<close> and
  any denylist and JWT library that keep theirs. Each operation is described by its effect on the
  abstract users, sessions and denylist for every outcome, failures of the providers included.
\<close>

section \<open>Specifications\<close>

text \<open>The refresh a session allows: an active session, the paired access token, the same client.\<close>

definition valid_refresh ::
  "(string \<Rightarrow> (string \<times> jwtClaims) option) \<Rightarrow> string \<Rightarrow> string \<Rightarrow> UserMetadata \<Rightarrow> session_store \<Rightarrow>
   string \<Rightarrow> RefreshSession \<Rightarrow> bool" where
  "valid_refresh decode acc rt md m sel s \<longleftrightarrow>
     (\<exists>alg c ver. decode acc = Some (alg, c) \<and> strings_Split (CHR ''.'') rt = [sel, ver] \<and>
        m sel = Some (s, ''active'') \<and> rsAccessTokenJTI s = jcID c \<and>
        rsUserAgent s = umUserAgent md \<and>
        hex_DecodeString (rsVerifierHash s) = Some (sha256_Sum256 ver))"

text \<open>
  The refreshes that revoke: the selector of a session that is no longer active, or of an active
  one presented by another user agent with its paired access token.
\<close>

definition revoking_refresh ::
  "(string \<Rightarrow> (string \<times> jwtClaims) option) \<Rightarrow> string \<Rightarrow> string \<Rightarrow> UserMetadata \<Rightarrow> session_store \<Rightarrow>
   RefreshSession \<Rightarrow> bool" where
  "revoking_refresh decode acc rt md m s \<longleftrightarrow>
     (\<exists>alg c sel ver st. decode acc = Some (alg, c) \<and> strings_Split (CHR ''.'') rt = [sel, ver] \<and>
        m sel = Some (s, st) \<and>
        (st = ''active'' \<longrightarrow> rsAccessTokenJTI s = jcID c \<and> rsUserAgent s \<noteq> umUserAgent md))"

definition refresh_rotated ::
  "(RefreshSession \<Rightarrow> RefreshSession) \<Rightarrow> ('d, 'r) AuthService \<Rightarrow> ambient \<Rightarrow> string \<Rightarrow> RefreshSession \<Rightarrow> UserMetadata \<Rightarrow> string \<Rightarrow>
   user_store \<times> session_store \<Rightarrow> user_store \<times> session_store \<Rightarrow> bool" where
  "refresh_rotated nrm as am sel s md newRefresh st st' \<longleftrightarrow>
     (\<exists>nsel nvh u. TokenService_CreateRefreshToken (amRand am) = Ok (newRefresh, nsel, nvh) \<and>
        rotate_spec nrm sel (new_session as nsel nvh md (amUUID am) (amClock am 0)) (rsUserID s)
          st u st')"

abbreviation reuse_error :: gerror where
  "reuse_error \<equiv> ErrorsNew ''token reuse detected, all sessions revoked''"

abbreviation agent_error :: gerror where
  "agent_error \<equiv> ErrorsNew ''user-agent has changed, all sessions revoked''"

text \<open>The notification a refresh starts, if the address of the client changed.\<close>

definition notified :: "RefreshSession \<Rightarrow> UserMetadata \<Rightarrow> webhook_data list" where
  "notified s md = (if rsIPAddress s \<noteq> umIPAddress md then [ip_change s md] else [])"

section \<open>Lifted provider calls\<close>

lemma lift_db_run:
  "lift_db m w = (r, w') \<longleftrightarrow> (\<exists>d. m (w_db w) = (r, d) \<and> w' = w\<lparr>w_db := d\<rparr>)"
  by (auto simp: lift_db_def split: prod.splits)

lemma lift_redis_run:
  "lift_redis m w = (r, w') \<longleftrightarrow> (\<exists>s. m (w_redis w) = (r, s) \<and> w' = w\<lparr>w_redis := s\<rparr>)"
  by (auto simp: lift_redis_def split: prod.splits)

lemma lift_db_frame: "lift_db m w = (r, w') \<Longrightarrow> w_redis w' = w_redis w \<and> w_hooks w' = w_hooks w"
  by (auto simp: lift_db_run)

locale auth_service =
  storage_contract "asStorage as" ready usr ses nrm gin +
  token_service "asTokenService as" denied store J decode genuine
  for as :: "('d, 'r) AuthService"
    and ready usr ses nrm gin denied store J decode genuine
begin

definition unchanged :: "('d, 'r) world \<Rightarrow> ('d, 'r) world \<Rightarrow> bool" where
  "unchanged w w' \<longleftrightarrow> ready (w_db w') \<and> usr (w_db w') = usr (w_db w) \<and>
     ses (w_db w') = ses (w_db w) \<and> w_redis w' = w_redis w \<and> w_hooks w' = w_hooks w"

definition revoked :: "int \<Rightarrow> ('d, 'r) world \<Rightarrow> ('d, 'r) world \<Rightarrow> bool" where
  "revoked i w w' \<longleftrightarrow> ready (w_db w') \<and> usr (w_db w') = usr (w_db w) \<and>
     ses (w_db w') = revoke_user i (ses (w_db w)) \<and> w_redis w' = w_redis w \<and>
     w_hooks w' = w_hooks w"

lemma db_get_active:
  assumes "ready (w_db w)"
    and "lift_db (GetActiveSessionBySelector (Sessions (asStorage as)) sel) w = (r, w')"
  shows "unchanged w w' \<and>
    (case r of
       Ok s \<Rightarrow> ses (w_db w) sel = Some (s, ''active'')
     | Err e \<Rightarrow> errors_Is e ErrSessionNotFound \<longrightarrow> (\<forall>s. ses (w_db w) sel \<noteq> Some (s, ''active''))
     | Panic _ \<Rightarrow> False)"
  using assms get_active [OF assms(1)] by (fastforce simp: lift_db_run unchanged_def)

lemma db_find:
  assumes "ready (w_db w)"
    and "lift_db (FindSessionBySelector (Sessions (asStorage as)) sel) w = (r, w')"
  shows "unchanged w w' \<and>
    (case r of
       Ok s \<Rightarrow> (\<exists>st. ses (w_db w) sel = Some (s, st))
     | Err e \<Rightarrow> errors_Is e ErrSessionNotFound \<longrightarrow> ses (w_db w) sel = None
     | Panic _ \<Rightarrow> False)"
  using assms find [OF assms(1)] by (fastforce simp: lift_db_run unchanged_def)

lemma db_delete_all:
  assumes "ready (w_db w)"
    and "lift_db (DeleteAllUserSessions (Sessions (asStorage as)) i) w = (r, w')"
  shows "case r of
       Ok _ \<Rightarrow> revoked i w w'
     | Err e \<Rightarrow> \<not> errors_Is e ErrSessionNotFound \<and> (unchanged w w' \<or> revoked i w w')
     | Panic _ \<Rightarrow> False"
  using assms delete_all [OF assms(1)]
  by (fastforce simp: lift_db_run unchanged_def revoked_def split: outcome.splits)

lemma detect:
  assumes rdy: "ready (w_db w)" and run: "AuthService_detectTheftAndRevoke as sel w = (r, w')"
  shows "\<exists>e. r = Err e \<and>
    (unchanged w w' \<or> (\<exists>s st. ses (w_db w) sel = Some (s, st) \<and> revoked (rsUserID s) w w')) \<and>
    (e = reuse_error \<longrightarrow>
       (\<exists>s st. ses (w_db w) sel = Some (s, st) \<and> revoked (rsUserID s) w w')) \<and>
    (errors_Is e ErrSessionNotFound \<longrightarrow> unchanged w w') \<and> e \<noteq> agent_error"
  using run unfolding AuthService_detectTheftAndRevoke_def
proof (cases rule: go_try_cases)
  case (Err e w1)
  with db_find [OF rdy Err(1)] show ?thesis by auto
next
  case (Panic p)
  with db_find [OF rdy Panic(1)] show ?thesis by simp
next
  case (Ok s w1)
  then obtain st where s: "unchanged w w1" "ses (w_db w) sel = Some (s, st)"
    using db_find [OF rdy Ok(1)] by auto
  then have rdy1: "ready (w_db w1)" by (simp add: unchanged_def)
  have same: "unchanged w1 x \<Longrightarrow> unchanged w x" "revoked i w1 x \<Longrightarrow> revoked i w x" for i x
    using s(1) by (simp_all add: unchanged_def revoked_def)
  from Ok(2) show ?thesis
  proof (cases rule: go_try_cases)
    case (Ok u w2)
    with db_delete_all [OF rdy1 Ok(1)] s(2) same show ?thesis by auto
  next
    case (Err e w2)
    with db_delete_all [OF rdy1 Err(1)] s(2) same show ?thesis by auto
  next
    case (Panic p)
    with db_delete_all [OF rdy1 Panic(1)] show ?thesis by simp
  qed
qed

text \<open>The checks on the active session.\<close>

lemma check_session:
  assumes rdy: "ready (w_db w)"
    and run: "AuthService_RefreshTokens_session as c rt md s w = (r, w')"
  shows "case r of
      Ok _ \<Rightarrow> rsAccessTokenJTI s = jcID c \<and> rsUserAgent s = umUserAgent md \<and>
        TokenService_ValidateRefreshToken rt (rsVerifierHash s) = Ok () \<and>
        unchanged w (w'\<lparr>w_hooks := w_hooks w\<rparr>) \<and>
        w_hooks w' = w_hooks w @
          (if rsIPAddress s \<noteq> umIPAddress md then [ip_change s md] else [])
    | Err e \<Rightarrow> \<not> errors_Is e ErrSessionNotFound \<and>
        (unchanged w (w'\<lparr>w_hooks := w_hooks w\<rparr>) \<or>
         rsAccessTokenJTI s = jcID c \<and> rsUserAgent s \<noteq> umUserAgent md \<and>
         revoked (rsUserID s) w w') \<and>
        (e = agent_error \<longrightarrow> rsAccessTokenJTI s = jcID c \<and> rsUserAgent s \<noteq> umUserAgent md \<and>
         revoked (rsUserID s) w w') \<and> e \<noteq> reuse_error
    | Panic _ \<Rightarrow> False"
proof (cases "rsAccessTokenJTI s = jcID c")
  case False
  with run rdy show ?thesis by (auto simp: AuthService_RefreshTokens_session_def unchanged_def)
next
  case jti: True
  show ?thesis
  proof (cases "rsUserAgent s = umUserAgent md")
    case False
    with run jti have "go_try (lift_db (DeleteAllUserSessions (Sessions (asStorage as)) (rsUserID s)))
        (go_wrap ''failed to revoke sessions after user-agent mismatch: '')
        (\<lambda>_. go_fail agent_error) w = (r, w')"
      by (simp add: AuthService_RefreshTokens_session_def)
    then show ?thesis
    proof (cases rule: go_try_cases)
      case (Ok u w1)
      with db_delete_all [OF rdy Ok(1)] jti False show ?thesis by auto
    next
      case (Err e w1)
      with db_delete_all [OF rdy Err(1)] jti False show ?thesis by (auto simp: unchanged_def)
    next
      case (Panic p)
      with db_delete_all [OF rdy Panic(1)] show ?thesis by simp
    qed
  next
    case True
    have v: "r = TokenService_ValidateRefreshToken rt (rsVerifierHash s)"
      "w' = w\<lparr>w_hooks := w_hooks w @
          (if rsIPAddress s \<noteq> umIPAddress md then [ip_change s md] else [])\<rparr>"
      using run jti True
      by (auto simp: AuthService_RefreshTokens_session_def go_try_def
          WebhookService_NotifyIPChange_def split: if_splits)
    have msg: "TokenService_ValidateRefreshToken rt vh \<noteq> Err agent_error \<and>
        TokenService_ValidateRefreshToken rt vh \<noteq> Err reuse_error" for vh
      by (simp add: TokenService_ValidateRefreshToken_def Let_def split: option.split)
    have same: "unchanged w (w'\<lparr>w_hooks := w_hooks w\<rparr>)"
      using rdy by (simp add: v(2) unchanged_def)
    show ?thesis
    proof (cases r)
      case (Ok u)
      with v(1) have "TokenService_ValidateRefreshToken rt (rsVerifierHash s) = Ok ()" by simp
      with Ok same jti True show ?thesis by (simp add: v(2))
    next
      case (Err e)
      with v(1) have "TokenService_ValidateRefreshToken rt (rsVerifierHash s) = Err e" by simp
      with msg [of "rsVerifierHash s"] ValidateRefreshToken_no_sentinel [OF this] same Err
      show ?thesis by auto
    next
      case (Panic p)
      with v(1) ValidateRefreshToken_no_panic show ?thesis by metis
    qed
  qed
qed

text \<open>The read phase: it goes on only for a valid refresh, and revokes only for a revoking one.\<close>

lemma unchanged_trans:
  "unchanged w w1 \<Longrightarrow> unchanged w1 w2 \<Longrightarrow> unchanged w w2"
  "unchanged w w1 \<Longrightarrow> revoked i w1 w2 \<Longrightarrow> revoked i w w2"
  by (simp_all add: unchanged_def revoked_def)

lemma checks_active:
  assumes rdy: "ready (w_db w)"
    and run: "go_try (lift_db (GetActiveSessionBySelector (Sessions (asStorage as)) sel))
      (\<lambda>err. if errors_Is err ErrSessionNotFound
         then go_try (AuthService_detectTheftAndRevoke as sel) go_fail
                (\<lambda>_. go_ret (Inl ('''', '''')))
         else go_wrap ''failed to get active session: '' err)
      (\<lambda>s. go_try (AuthService_RefreshTokens_session as c rt md s)
         go_fail (\<lambda>_. go_ret (Inr (sel, s)))) w = (r, w')"
    and split: "strings_Split (CHR ''.'') rt = [sel, ver]" and dec: "decode acc = Some (alg, c)"
  shows "case r of
      Ok x \<Rightarrow> (\<exists>s. x = Inr (sel, s) \<and>
        valid_refresh decode acc rt md (ses (w_db w)) sel s \<and>
        unchanged w (w'\<lparr>w_hooks := w_hooks w\<rparr>) \<and> w_hooks w' = w_hooks w @ notified s md)
    | Err e \<Rightarrow>
        (unchanged w (w'\<lparr>w_hooks := w_hooks w\<rparr>) \<or>
         (\<exists>s. revoking_refresh decode acc rt md (ses (w_db w)) s \<and> revoked (rsUserID s) w w')) \<and>
        (errors_Is e ErrSessionNotFound \<longrightarrow> unchanged w w') \<and>
        (e \<in> {reuse_error,
               agent_error} \<longrightarrow>
         (\<exists>s. revoking_refresh decode acc rt md (ses (w_db w)) s \<and> revoked (rsUserID s) w w'))
    | Panic _ \<Rightarrow> False"
  using run
proof (cases rule: go_try_cases)
  case (Panic p)
  with db_get_active [OF rdy Panic(1)] show ?thesis by simp
next
  case (Err e w1)
  note act = db_get_active [OF rdy Err(1)]
  then have un: "unchanged w w1" and rdy1: "ready (w_db w1)" by (simp_all add: unchanged_def)
  show ?thesis
  proof (cases "errors_Is e ErrSessionNotFound")
    case False
    with Err(2) un show ?thesis by (auto simp: unchanged_def)
  next
    case True
    with act have inactive: "ses (w_db w) sel \<noteq> Some (s, ''active'')" for s by simp
    obtain e' w2 where d: "AuthService_detectTheftAndRevoke as sel w1 = (Err e', w2)"
      using detect [OF rdy1] by (metis surj_pair)
    with Err(2) True have r: "r = Err e'" "w' = w2" by (simp_all add: go_try_def)
    have rev: "\<exists>s. revoking_refresh decode acc rt md (ses (w_db w)) s \<and> revoked (rsUserID s) w w2"
      if "ses (w_db w1) sel = Some (s, st)" "revoked (rsUserID s) w1 w2" for s st
    proof -
      have "ses (w_db w) sel = Some (s, st)" using that(1) un by (simp add: unchanged_def)
      moreover from this inactive have "st \<noteq> ''active''" by auto
      ultimately have "revoking_refresh decode acc rt md (ses (w_db w)) s"
        unfolding revoking_refresh_def using split dec by blast
      with unchanged_trans(2) [OF un that(2)] show ?thesis by blast
    qed
    from detect [OF rdy1 d] have D:
      "unchanged w1 w2 \<or> (\<exists>s st. ses (w_db w1) sel = Some (s, st) \<and> revoked (rsUserID s) w1 w2)"
      "e' = reuse_error \<longrightarrow> (\<exists>s st. ses (w_db w1) sel = Some (s, st) \<and> revoked (rsUserID s) w1 w2)"
      "errors_Is e' ErrSessionNotFound \<longrightarrow> unchanged w1 w2" "e' \<noteq> agent_error"
      by simp_all
    have hooks: "unchanged w w2 \<Longrightarrow> unchanged w (w2\<lparr>w_hooks := w_hooks w\<rparr>)"
      by (simp add: unchanged_def)
    show ?thesis
      unfolding r outcome.case
      using D rev unchanged_trans(1) [OF un, of w2] hooks by blast
  qed
next
  case (Ok s w1)
  note act = db_get_active [OF rdy Ok(1)]
  then have un: "unchanged w w1" and rdy1: "ready (w_db w1)"
    and s: "ses (w_db w) sel = Some (s, ''active'')" by (simp_all add: unchanged_def)
  have hooks: "unchanged w1 (x\<lparr>w_hooks := w_hooks w1\<rparr>) \<Longrightarrow> unchanged w (x\<lparr>w_hooks := w_hooks w\<rparr>)"
    "w_hooks w1 = w_hooks w" for x
    using un by (auto simp: unchanged_def)
  from Ok(2) show ?thesis
  proof (cases rule: go_try_cases)
    case (Ok u w2)
    then have "valid_refresh decode acc rt md (ses (w_db w)) sel s"
      using check_session [OF rdy1 Ok(1)] split dec s
      by (auto simp: valid_refresh_def ValidateRefreshToken_iff)
    with check_session [OF rdy1 Ok(1)] Ok(2) hooks show ?thesis by (auto simp: notified_def)
  next
    case (Err e w2)
    have "revoking_refresh decode acc rt md (ses (w_db w)) s"
      if "rsAccessTokenJTI s = jcID c" "rsUserAgent s \<noteq> umUserAgent md"
      unfolding revoking_refresh_def using split dec s that by blast
    moreover have r: "r = Err e" "w' = w2" using Err(2) by simp_all
    ultimately show ?thesis
      using check_session [OF rdy1 Err(1)] hooks(1) [of w2] unchanged_trans(2) [OF un, of _ w2]
      unfolding r outcome.case by blast
  next
    case (Panic p)
    with check_session [OF rdy1 Panic(1)] show ?thesis by simp
  qed
qed

lemma checks:
  assumes rdy: "ready (w_db w)"
    and run: "AuthService_RefreshTokens_checks J as acc rt md w = (r, w')"
  shows "case r of
      Ok x \<Rightarrow> (\<exists>sel s. x = Inr (sel, s) \<and>
        valid_refresh decode acc rt md (ses (w_db w)) sel s \<and>
        unchanged w (w'\<lparr>w_hooks := w_hooks w\<rparr>) \<and> w_hooks w' = w_hooks w @ notified s md)
    | Err e \<Rightarrow>
        (unchanged w (w'\<lparr>w_hooks := w_hooks w\<rparr>) \<or>
         (\<exists>s. revoking_refresh decode acc rt md (ses (w_db w)) s \<and> revoked (rsUserID s) w w')) \<and>
        (errors_Is e ErrSessionNotFound \<longrightarrow> unchanged w w') \<and>
        (e \<in> {reuse_error, agent_error} \<longrightarrow>
         (\<exists>s. revoking_refresh decode acc rt md (ses (w_db w)) s \<and> revoked (rsUserID s) w w'))
    | Panic _ \<Rightarrow> False"
  using run unfolding AuthService_RefreshTokens_checks_def
proof (cases rule: go_try_cases)
  case (Err e w1)
  then have "r = Err (Errorf ''invalid access token: '' e)" "w' = w" by simp_all
  with rdy show ?thesis by (simp add: unchanged_def)
next
  case (Panic p)
  with claims_no_panic show ?thesis by simp
next
  case (Ok c w1)
  then obtain alg where dec: "decode acc = Some (alg, c)" and w1: "w1 = w"
    using claims_Ok by auto
  show ?thesis
  proof (cases "length (strings_Split (CHR ''.'') rt) = TokenPartsExpected")
    case False
    with Ok(2) w1 have "r = Err (ErrorsNew ''invalid refresh token format'')" "w' = w"
      by (simp_all add: Let_def)
    with rdy show ?thesis by (simp add: unchanged_def)
  next
    case True
    then obtain sel ver where split: "strings_Split (CHR ''.'') rt = [sel, ver]"
      by (auto simp: TokenPartsExpected_def numeral_2_eq_2)
    from Ok(2) True have run: "go_try (lift_db (GetActiveSessionBySelector (Sessions (asStorage as)) sel))
      (\<lambda>err. if errors_Is err ErrSessionNotFound
         then go_try (AuthService_detectTheftAndRevoke as sel) go_fail
                (\<lambda>_. go_ret (Inl ('''', '''')))
         else go_wrap ''failed to get active session: '' err)
      (\<lambda>s. go_try (AuthService_RefreshTokens_session as c rt md s)
         go_fail (\<lambda>_. go_ret (Inr (sel, s)))) w = (r, w')"
      by (simp add: Let_def split w1)
    from checks_active [OF rdy run split dec] show ?thesis
      by (auto split: outcome.splits)
  qed
qed

text \<open>The rotation: new tokens, the old session used and the new one active, or nothing.\<close>

lemma create_access_token_run:
  "TokenService_CreateAccessToken J (asTokenService as) uuid i now =
   (case TokenService_CreateAccessTokenWithJTI J (asTokenService as) i now uuid of
      Ok t \<Rightarrow> Ok (t, uuid) | Err e \<Rightarrow> Err e | Panic p \<Rightarrow> Panic p)"
  by (simp add: TokenService_CreateAccessToken_def try_pure_def split: outcome.split)

abbreviation "pair d \<equiv> (usr d, ses d)"

lemma rotation:
  assumes rdy: "ready (w_db w)"
    and run: "AuthService_RefreshTokens_rotation J as am sel s md w = (r, w')"
  shows "ready (w_db w') \<and> w_redis w' = w_redis w \<and> w_hooks w' = w_hooks w \<and>
    (case r of
       Ok (newAccess, newRefresh) \<Rightarrow>
         TokenService_CreateAccessTokenWithJTI J (asTokenService as) (rsUserID s) (amClock am 0)
           (amUUID am) = Ok newAccess \<and>
         refresh_rotated nrm as am sel s md newRefresh (pair (w_db w)) (pair (w_db w'))
     | Err e \<Rightarrow> pair (w_db w') = pair (w_db w) \<or>
         (\<exists>newRefresh. refresh_rotated nrm as am sel s md newRefresh (pair (w_db w)) (pair (w_db w')))
     | Panic p \<Rightarrow> amRand am = Panic p \<and> pair (w_db w') = pair (w_db w))"
  using run unfolding AuthService_RefreshTokens_rotation_def Let_def
proof (cases rule: go_try_cases)
  case (Err e w1)
  with rdy show ?thesis by auto
next
  case (Panic p)
  with create_no_panic show ?thesis by (auto simp: create_access_token_run split: outcome.splits)
next
  case (Ok x w1)
  obtain na jti where x: "x = (na, jti)" by (cases x)
  with Ok(1) have new: "TokenService_CreateAccessTokenWithJTI J (asTokenService as) (rsUserID s)
      (amClock am 0) (amUUID am) = Ok na" "jti = amUUID am" "w1 = w"
    by (auto simp: create_access_token_run split: outcome.splits)
  from Ok(2) show ?thesis
    unfolding x prod.case new(2,3)
  proof (cases rule: go_try_cases)
    case (Err e w2)
    with rdy show ?thesis by auto
  next
    case (Panic p)
    with rdy show ?thesis
      by (auto simp: TokenService_CreateRefreshToken_def rand_Read_def try_pure_def Let_def
          split: outcome.splits)
  next
    case (Ok y w2)
    obtain nr nsel nvh where y: "y = (nr, nsel, nvh)" by (rule prod_cases3)
    with Ok(1) have ref: "TokenService_CreateRefreshToken (amRand am) = Ok (nr, nsel, nvh)"
      and w2: "w2 = w" by simp_all
    let ?new = "new_session as nsel nvh md (amUUID am) (amClock am 0)"
    from Ok(2) show ?thesis
      unfolding y prod.case w2
    proof (cases rule: go_try_cases)
      case (Ok u w3)
      then obtain d where d: "RotateTokensTx (asStorage as) sel ?new (rsUserID s) (w_db w) = (Ok u, d)"
        and w': "w' = w\<lparr>w_db := d\<rparr>" and r: "r = Ok (na, nr)"
        by (auto simp: lift_db_run)
      from rotate [OF rdy d] ref show ?thesis
        unfolding r w' using new(1) by (auto simp: refresh_rotated_def)
    next
      case (Err e w3)
      then obtain d where d: "RotateTokensTx (asStorage as) sel ?new (rsUserID s) (w_db w) = (Err e, d)"
        and w': "w' = w\<lparr>w_db := d\<rparr>"
        and r: "r = Err (Errorf ''failed to execute rotate tokens transaction: '' e)"
        by (auto simp: lift_db_run)
      from rotate [OF rdy d] ref show ?thesis
        unfolding r w' by (auto simp: refresh_rotated_def)
    next
      case (Panic p)
      with rotate [OF rdy] show ?thesis by (fastforce simp: lift_db_run)
    qed
  qed
qed

lemma rotated_users: "refresh_rotated nrm as am sel s md nr st st' \<Longrightarrow> fst st' = fst st"
  by (auto simp: refresh_rotated_def rotate_spec_def)

section \<open>The operations\<close>

lemma refresh:
  assumes rdy: "ready (w_db w)"
    and run: "AuthService_RefreshTokens J as am acc rt md w = (r, w')"
  shows "ready (w_db w') \<and> w_redis w' = w_redis w \<and> usr (w_db w') = usr (w_db w) \<and>
    (case r of
       Ok (newAccess, newRefresh) \<Rightarrow> (\<exists>sel s.
         valid_refresh decode acc rt md (ses (w_db w)) sel s \<and>
         w_hooks w' = w_hooks w @ notified s md \<and>
         TokenService_CreateAccessTokenWithJTI J (asTokenService as) (rsUserID s) (amClock am 0)
           (amUUID am) = Ok newAccess \<and>
         refresh_rotated nrm as am sel s md newRefresh (pair (w_db w)) (pair (w_db w')))
     | Err e \<Rightarrow>
         (pair (w_db w') = pair (w_db w) \<or>
          (\<exists>s. revoking_refresh decode acc rt md (ses (w_db w)) s \<and>
             ses (w_db w') = revoke_user (rsUserID s) (ses (w_db w))) \<or>
          (\<exists>sel s newRefresh. valid_refresh decode acc rt md (ses (w_db w)) sel s \<and>
             refresh_rotated nrm as am sel s md newRefresh (pair (w_db w)) (pair (w_db w')))) \<and>
         (e \<in> {reuse_error, agent_error} \<longrightarrow>
          (\<exists>s. revoking_refresh decode acc rt md (ses (w_db w)) s \<and>
             ses (w_db w') = revoke_user (rsUserID s) (ses (w_db w))))
     | Panic p \<Rightarrow> amRand am = Panic p \<and> ses (w_db w') = ses (w_db w))"
  using run unfolding AuthService_RefreshTokens_def
proof (cases rule: go_try_cases)
  case (Err e w1)
  then have r: "r = Err e" "w' = w1" by simp_all
  have frame:
    "unchanged w (w1\<lparr>w_hooks := w_hooks w\<rparr>) \<Longrightarrow> ready (w_db w1) \<and> w_redis w1 = w_redis w \<and>
      usr (w_db w1) = usr (w_db w) \<and> pair (w_db w1) = pair (w_db w)"
    "revoked i w w1 \<Longrightarrow> ready (w_db w1) \<and> w_redis w1 = w_redis w \<and>
      usr (w_db w1) = usr (w_db w) \<and> ses (w_db w1) = revoke_user i (ses (w_db w))" for i
    by (simp_all add: unchanged_def revoked_def)
  from checks [OF rdy Err(1)] frame show ?thesis
    unfolding r outcome.case by blast
next
  case (Panic p)
  with checks [OF rdy Panic(1)] show ?thesis by simp
next
  case (Ok x w1)
  from checks [OF rdy Ok(1)] obtain sel s where x: "x = Inr (sel, s)"
    and v: "valid_refresh decode acc rt md (ses (w_db w)) sel s"
    and un: "unchanged w (w1\<lparr>w_hooks := w_hooks w\<rparr>)"
    and hooks: "w_hooks w1 = w_hooks w @ notified s md" by auto
  have rdy1: "ready (w_db w1)" and eq: "pair (w_db w1) = pair (w_db w)" "w_redis w1 = w_redis w"
    using un by (simp_all add: unchanged_def)
  from Ok(2) have run: "AuthService_RefreshTokens_rotation J as am sel s md w1 = (r, w')"
    by (simp add: x)
  note rot = rotation [OF rdy1 run, unfolded eq hooks]
  have usr: "pair d = pair d' \<Longrightarrow> usr d = usr d'" "fst (pair d) = usr d" for d d'
    by simp_all
  show ?thesis
  proof (cases r)
    case r: (Ok y)
    obtain na nr where y: "y = (na, nr)" by (cases y)
    from rot have rot': "refresh_rotated nrm as am sel s md nr (pair (w_db w)) (pair (w_db w'))"
      by (simp add: r y)
    from rotated_users [OF this] have "usr (w_db w') = usr (w_db w)" by (simp add: usr(2))
    with rot rot' v show ?thesis by (auto simp: r y)
  next
    case r: (Err e)
    have "e \<notin> {reuse_error, agent_error}"
      using run unfolding r AuthService_RefreshTokens_rotation_def
      by (auto simp: go_try_def Let_def split: outcome.splits prod.splits)
    with rot r v rotated_users [of am sel s md _ "pair (w_db w)" "pair (w_db w')"] show ?thesis
      by (auto simp: usr(2) dest: usr(1))
  next
    case r: (Panic p)
    with rot show ?thesis by (auto dest: usr(1))
  qed
qed

text \<open>A refresh that succeeds, spelled out on the session store.\<close>

lemma refresh_Ok:
  assumes rdy: "ready (w_db w)"
    and run: "AuthService_RefreshTokens J as am acc rt md w = (Ok (newAcc, newRt), w')"
  obtains sel s nsel nvh i where
    "valid_refresh decode acc rt md (ses (w_db w)) sel s"
    "w_hooks w' = w_hooks w @ notified s md"
    "TokenService_CreateAccessTokenWithJTI J (asTokenService as) (rsUserID s) (amClock am 0)
       (amUUID am) = Ok newAcc"
    "TokenService_CreateRefreshToken (amRand am) = Ok (newRt, nsel, nvh)"
    "ses (w_db w) nsel = None"
    "ses (w_db w') = (use_session sel (ses (w_db w)))(nsel \<mapsto>
       (nrm (new_session as nsel nvh md (amUUID am) (amClock am 0)
          \<lparr>rsID := i, rsUserID := rsUserID s\<rparr>), ''active''))"
proof -
  from refresh [OF rdy run] obtain sel s where v: "valid_refresh decode acc rt md (ses (w_db w)) sel s"
    and hooks: "w_hooks w' = w_hooks w @ notified s md"
    and new: "TokenService_CreateAccessTokenWithJTI J (asTokenService as) (rsUserID s) (amClock am 0)
       (amUUID am) = Ok newAcc"
    and rot: "refresh_rotated nrm as am sel s md newRt (pair (w_db w)) (pair (w_db w'))"
    by auto
  from rot obtain nsel nvh u where ref: "TokenService_CreateRefreshToken (amRand am) = Ok (newRt, nsel, nvh)"
    and spec: "rotate_spec nrm sel (new_session as nsel nvh md (amUUID am) (amClock am 0)) (rsUserID s)
      (pair (w_db w)) u (pair (w_db w'))"
    by (auto simp: refresh_rotated_def)
  have sel: "rsSelector (new_session as nsel nvh md jti now) = nsel" for jti now
    by (simp add: new_session_def)
  from spec v hooks new ref show thesis
    by (auto simp: rotate_spec_def sel intro: that)
qed

text \<open>The selector it used is spent: no refresh with the same token succeeds afterwards.\<close>

lemma refresh_spent:
  assumes rdy: "ready (w_db w)"
    and run: "AuthService_RefreshTokens J as am acc rt md w = (Ok (newAcc, newRt), w1)"
  obtains sel s ver where "strings_Split (CHR ''.'') rt = [sel, ver]"
    and "ses (w_db w1) sel = Some (s, ''used'')" and "ses (w_db w) sel = Some (s, ''active'')"
proof -
  from rdy run show thesis
  proof (rule refresh_Ok)
    fix sel s nsel nvh i
    assume v: "valid_refresh decode acc rt md (ses (w_db w)) sel s" and new: "ses (w_db w) nsel = None"
      and w1: "ses (w_db w1) = (use_session sel (ses (w_db w)))(nsel \<mapsto>
       (nrm (new_session as nsel nvh md (amUUID am) (amClock am 0)
          \<lparr>rsID := i, rsUserID := rsUserID s\<rparr>), ''active''))"
    from v obtain ver where "strings_Split (CHR ''.'') rt = [sel, ver]"
      and s: "ses (w_db w) sel = Some (s, ''active'')" by (auto simp: valid_refresh_def)
    moreover from s new have "sel \<noteq> nsel" by auto
    ultimately show thesis by (intro that [of sel ver s]) (simp_all add: w1 use_session_same)
  qed
qed

lemma inactive_never_refreshes:
  assumes rdy: "ready (w_db w)" and split: "strings_Split (CHR ''.'') rt = [sel, ver]"
    and st: "\<forall>s. ses (w_db w) sel \<noteq> Some (s, ''active'')"
  shows "fst (AuthService_RefreshTokens J as am acc rt md w) \<noteq> Ok x"
proof
  assume "fst (AuthService_RefreshTokens J as am acc rt md w) = Ok x"
  then obtain w' where "AuthService_RefreshTokens J as am acc rt md w = (Ok (fst x, snd x), w')"
    by (cases "AuthService_RefreshTokens J as am acc rt md w") auto
  from refresh [OF rdy this] st split show False by (auto simp: valid_refresh_def)
qed

text \<open>Whatever the outcome, a refresh touches the sessions of one user only.\<close>

lemma refresh_isolated:
  assumes rdy: "ready (w_db w)" and run: "AuthService_RefreshTokens J as am acc rt md w = (r, w')"
    and other: "ses (w_db w) k = Some (s', st)"
    and owner: "\<And>sel ver s st. strings_Split (CHR ''.'') rt = [sel, ver] \<Longrightarrow>
      ses (w_db w) sel = Some (s, st) \<Longrightarrow> rsUserID s' \<noteq> rsUserID s"
  shows "ses (w_db w') k = Some (s', st)"
proof -
  have rot: "ses (w_db w') k = Some (s', st)"
    if "valid_refresh decode acc rt md (ses (w_db w)) sel s"
      and "refresh_rotated nrm as am sel s md nr (pair (w_db w)) (pair (w_db w'))" for sel s nr
  proof -
    from that(1) owner other have "k \<noteq> sel" by (auto simp: valid_refresh_def)
    with that(2) other show ?thesis
      by (auto simp: refresh_rotated_def rotate_spec_def use_session_other)
  qed
  have rev: "revoke_user (rsUserID s) (ses (w_db w)) k = Some (s', st)"
    if "revoking_refresh decode acc rt md (ses (w_db w)) s" for s
    using that owner other by (auto simp: revoking_refresh_def)
  show ?thesis
  proof (cases r)
    case (Ok x)
    with refresh [OF rdy run] rot show ?thesis by (cases x) auto
  next
    case (Err e)
    with refresh [OF rdy run] rot rev other show ?thesis by auto
  next
    case (Panic p)
    with refresh [OF rdy run] other show ?thesis by simp
  qed
qed

lemma issue_tokens:
  assumes rdy: "ready (w_db w)"
    and run: "AuthService_IssueTokens J as am guid md w = (r, w')"
  shows "ready (w_db w') \<and> w_redis w' = w_redis w \<and> w_hooks w' = w_hooks w \<and>
    (case r of
       Ok (acc, rt) \<Rightarrow> (\<exists>u sel vh.
         TokenService_CreateRefreshToken (amRand am) = Ok (rt, sel, vh) \<and>
         issue_spec nrm gin guid (new_session as sel vh md (amUUID am) (amClock am 0))
           (pair (w_db w)) u (pair (w_db w')) \<and>
         TokenService_CreateAccessTokenWithJTI J (asTokenService as) (uID u) (amClock am 0)
           (amUUID am) = Ok acc)
     | Err e \<Rightarrow> pair (w_db w') = pair (w_db w) \<or>
         (\<exists>u rt sel vh. TokenService_CreateRefreshToken (amRand am) = Ok (rt, sel, vh) \<and>
            issue_spec nrm gin guid (new_session as sel vh md (amUUID am) (amClock am 0))
              (pair (w_db w)) u (pair (w_db w')))
     | Panic p \<Rightarrow> amRand am = Panic p \<and> pair (w_db w') = pair (w_db w))"
  using run unfolding AuthService_IssueTokens_def Let_def
proof (cases rule: go_try_cases)
  case (Err e w1)
  with rdy show ?thesis by auto
next
  case (Panic p)
  with rdy show ?thesis
    by (auto simp: TokenService_CreateRefreshToken_def rand_Read_def try_pure_def Let_def
        split: outcome.splits)
next
  case (Ok y w1)
  obtain rt sel vh where y: "y = (rt, sel, vh)" by (rule prod_cases3)
  with Ok(1) have ref: "TokenService_CreateRefreshToken (amRand am) = Ok (rt, sel, vh)"
    and w1: "w1 = w" by simp_all
  let ?new = "new_session as sel vh md (amUUID am) (amClock am 0)"
  from Ok(2) show ?thesis
    unfolding y prod.case w1
  proof (cases rule: go_try_cases)
    case (Err e w2)
    then obtain d where d: "IssueTokensTx (asStorage as) guid ?new (w_db w) = (Err e, d)"
      and w': "w' = w\<lparr>w_db := d\<rparr>"
      and r: "r = Err (Errorf ''failed to execute issue tokens transaction: '' e)"
      by (auto simp: lift_db_run)
    from issue [OF rdy d] ref show ?thesis unfolding r w' by auto
  next
    case (Panic p)
    with issue [OF rdy] show ?thesis by (fastforce simp: lift_db_run)
  next
    case (Ok u w2)
    then obtain d where d: "IssueTokensTx (asStorage as) guid ?new (w_db w) = (Ok u, d)"
      and w2: "w2 = w\<lparr>w_db := d\<rparr>"
      by (auto simp: lift_db_run)
    note iss = issue [OF rdy d]
    from Ok(2) show ?thesis
    proof (cases rule: go_try_cases)
      case (Ok t w3)
      with iss ref show ?thesis by (auto simp: w2)
    next
      case (Err e w3)
      with iss ref show ?thesis by (auto simp: w2)
    next
      case (Panic p)
      with create_no_panic show ?thesis by simp
    qed
  qed
qed

lemma authenticate:
  assumes "AuthService_AuthenticateAccessToken J as clk tok w = (r, w')"
  shows "w_db w' = w_db w \<and> w_hooks w' = w_hooks w \<and>
    same_denied (clk 0) (denied (w_redis w)) (denied (w_redis w')) \<and>
    same_view (clk 0) (store (w_redis w)) (store (w_redis w')) \<and>
    (case r of
       Ok userID \<Rightarrow> \<not> denied (w_redis w) (clk 0) tok \<and>
         (\<exists>c. decode tok = Some (SigningMethodHS512_Alg, c) \<and>
            genuine SigningMethodHS512_Alg (tsJwtSecretKey (asTokenService as)) tok \<and>
            accepted_claims c (clk 1) userID)
     | Err e \<Rightarrow> \<not> errors_Is e ErrTokenExpired \<and> \<not> errors_Is e ErrSessionNotFound
     | Panic _ \<Rightarrow> False)"
  using assms unfolding AuthService_AuthenticateAccessToken_def
proof (cases rule: go_try_cases)
  case (Ok v w1)
  with validate show ?thesis by (fastforce simp: lift_redis_run)
next
  case (Err e w1)
  with validate show ?thesis by (fastforce simp: lift_redis_run)
next
  case (Panic p)
  with validate show ?thesis by (fastforce simp: lift_redis_run)
qed

lemma authenticate_created:
  assumes "token_inputs (asTokenService as) userID now jti"
    and "TokenService_CreateAccessTokenWithJTI J (asTokenService as) userID now jti = Ok tok"
    and "\<not> denied (w_redis w) (clk 0) tok"
    and "clk 1 < jwt_NewNumericDate (time_Add now (tsAccessTTL (asTokenService as))) + JWTLeeWay"
    and "AuthService_AuthenticateAccessToken J as clk tok w = (r, w')"
  shows "r = Ok userID \<or> (\<exists>e. r = Err e \<and> redis_error e)"
  using assms(5) unfolding AuthService_AuthenticateAccessToken_def
proof (cases rule: go_try_cases)
  case (Ok v w1)
  with validate_created [OF assms(1-4)] show ?thesis by (fastforce simp: lift_redis_run)
next
  case (Err e w1)
  with validate_created [OF assms(1-4)] show ?thesis by (fastforce simp: lift_redis_run)
next
  case (Panic p)
  with validate_created [OF assms(1-4)] show ?thesis by (fastforce simp: lift_redis_run)
qed

lemma get_public_guid:
  assumes rdy: "ready (w_db w)" and run: "AuthService_GetPublicGUID as i w = (r, w')"
  shows "unchanged w w' \<and>
    (case r of
       Ok g \<Rightarrow> usr (w_db w) i = Some g
     | Err e \<Rightarrow> errors_Is e ErrUserNotFound \<longrightarrow> usr (w_db w) i = None
     | Panic _ \<Rightarrow> False)"
  using run unfolding AuthService_GetPublicGUID_def
proof (cases rule: go_try_cases)
  case (Ok v w1)
  with get_user [OF rdy] show ?thesis by (fastforce simp: lift_db_run unchanged_def)
next
  case (Err e w1)
  with get_user [OF rdy] show ?thesis by (fastforce simp: lift_db_run unchanged_def)
next
  case (Panic p)
  with get_user [OF rdy] show ?thesis by (fastforce simp: lift_db_run)
qed

text \<open>
  A logout that succeeds has validated the token, denies it from then on, and removes every
  session of its user. One that fails may have done the first steps only.
\<close>

lemma logout:
  assumes rdy: "ready (w_db w)" and mono: "mono clk"
    and run: "AuthService_Logout J as clk tok w = (r, w')"
  shows "ready (w_db w') \<and> w_hooks w' = w_hooks w \<and> usr (w_db w') = usr (w_db w) \<and>
    same_but (clk 3) tok (store (w_redis w)) (store (w_redis w')) \<and>
    (case r of
       Ok _ \<Rightarrow> \<not> denied (w_redis w) (clk 0) tok \<and>
         (\<exists>c ex userID. decode tok = Some (SigningMethodHS512_Alg, c) \<and>
            genuine SigningMethodHS512_Alg (tsJwtSecretKey (asTokenService as)) tok \<and>
            accepted_claims c (clk 1) userID \<and> jcExpiresAt c = Some ex \<and>
            ses (w_db w') = revoke_user userID (ses (w_db w)) \<and>
            (int64_range (ex - clk 2) \<longrightarrow>
               (\<forall>t \<ge> clk 3. t < ex - time_Millisecond \<longrightarrow> denied (w_redis w') t tok) \<and>
               (\<forall>t. 0 < ex - clk 2 \<and> clk 3 + (ex - clk 2) + 2 * time_Millisecond \<le> t \<longrightarrow>
                 \<not> denied (w_redis w') t tok)))
     | Err e \<Rightarrow> ses (w_db w') = ses (w_db w) \<or>
         (\<exists>c userID. decode tok = Some (SigningMethodHS512_Alg, c) \<and>
            accepted_claims c (clk 1) userID \<and>
            ses (w_db w') = revoke_user userID (ses (w_db w)))
     | Panic _ \<Rightarrow> False)"
  using run unfolding AuthService_Logout_def
proof (cases rule: go_try_cases)
  case (Err e w1)
  then obtain s1 where s1: "Validate clk tok (w_redis w) = (Err e, s1)" "w1 = w\<lparr>w_redis := s1\<rparr>"
    by (auto simp: lift_redis_run)
  have "clk 0 \<le> clk 3" using mono by (simp add: monoD)
  with validate [OF s1(1)] have "same_but (clk 3) tok (store (w_redis w)) (store s1)"
    by (simp add: same_view_def same_but_def)
  with Err(2) rdy s1(2) show ?thesis by auto
next
  case (Panic p)
  then obtain s1 where "Validate clk tok (w_redis w) = (Panic p, s1)"
    by (auto simp: lift_redis_run)
  from validate [OF this] show ?thesis by simp
next
  case (Ok uid w1)
  then obtain s1 where s1: "Validate clk tok (w_redis w) = (Ok uid, s1)" "w1 = w\<lparr>w_redis := s1\<rparr>"
    by (auto simp: lift_redis_run)
  let ?clk = "\<lambda>n. clk (n + 2)"
  have clk: "clk 0 \<le> clk 3" "clk 2 \<le> clk 3" "?clk 0 = clk 2" "?clk 1 = clk 3"
    "clk (Suc (Suc 0)) = clk 2" "clk (Suc (Suc (Suc 0))) = clk 3"
    using mono by (simp_all add: monoD numeral_2_eq_2 numeral_3_eq_3)
  from validate [OF s1(1)] obtain c ex where c: "decode tok = Some (SigningMethodHS512_Alg, c)"
      "genuine SigningMethodHS512_Alg (tsJwtSecretKey (asTokenService as)) tok"
      "accepted_claims c (clk 1) uid" "jcExpiresAt c = Some ex"
    and live: "\<not> denied (w_redis w) (clk 0) tok"
    and st1: "same_view (clk 0) (store (w_redis w)) (store s1)"
    by (auto simp: accepted_claims_def)
  have frame: "same_but (clk 3) tok (store s1) x \<Longrightarrow> same_but (clk 3) tok (store (w_redis w)) x" for x
    using st1 clk(1) by (auto simp: same_view_def same_but_def)
  from Ok(2) show ?thesis
  proof (cases rule: go_try_cases)
    case (Err e w2)
    then obtain s2 where s2: "Revoke ?clk tok s1 = (Err e, s2)" "w2 = w\<lparr>w_redis := s2\<rparr>"
      by (auto simp: lift_redis_run s1(2))
    from revoke [OF s2(1)] frame Err(2) rdy show ?thesis by (auto simp: s2(2) clk)
  next
    case (Panic p)
    then obtain s2 where "Revoke ?clk tok s1 = (Panic p, s2)" by (auto simp: lift_redis_run s1(2))
    from revoke [OF this] c show ?thesis by auto
  next
    case (Ok u w2)
    then obtain s2 where s2: "Revoke ?clk tok s1 = (Ok u, s2)" "w2 = w\<lparr>w_redis := s2\<rparr>"
      by (auto simp: lift_redis_run s1(2))
    have fr: "same_but (clk 3) tok (store (w_redis w)) (store s2)"
      using revoke [OF s2(1)] frame by (simp add: clk)
    have den: "denied s2 t tok"
      if "int64_range (ex - clk 2)" "clk 3 \<le> t" "t < ex - time_Millisecond" for t
      using revoke_denies [OF s2(1) c(1,4)] that clk by simp
    have gone: "\<not> denied s2 t tok"
      if "int64_range (ex - clk 2)" "0 < ex - clk 2" "clk 3 + (ex - clk 2) + 2 * time_Millisecond \<le> t"
      for t
      using revoke_expires [OF s2(1) c(1,4)] that clk by simp
    have rdy2: "ready (w_db w2)" using rdy by (simp add: s2(2))
    from Ok(2) show ?thesis
    proof (cases rule: go_try_cases)
      case (Ok u' w3)
      from Ok(2) have r: "r = Ok ()" "w' = w3" by simp_all
      from db_delete_all [OF rdy2 Ok(1)] c live fr den gone show ?thesis
        unfolding r by (auto simp: revoked_def s2(2))
    next
      case (Err e w3)
      from Err(2) have r: "r = Err (Errorf ''failed to delete all user sessions: '' e)" "w' = w3"
        by simp_all
      from db_delete_all [OF rdy2 Err(1)] c(1,3) fr show ?thesis
        unfolding r by (auto simp: revoked_def unchanged_def s2(2))
    next
      case (Panic p)
      with db_delete_all [OF rdy2 Panic(1)] show ?thesis by simp
    qed
  qed
qed

end

end
