(* ===== verification/Postgres_Engine.thy ===== *)
theory Postgres_Engine
  imports Models
begin

text \<open>
  Package \<open>database/sql\<close> over a PostgreSQL server, as the repositories see it: a \<open>*sql.DB\<close>
  that runs a statement in its own transaction and a \<open>*sql.Tx\<close> that works on a copy of the
  tables until \<open>Commit\<close>. The server, the driver and the network can fail at any call: the
  list \<open>pg_faults\<close> says, call by call, whether it succeeds, fails without effect, or takes
  effect and is then reported as failed (the answer is lost). Sequences are not rolled back.
\<close>

record 'd SqlTx =
  tx_DBTX :: "'d DBTX"
  tx_Commit :: "('d, unit) go"
  tx_Rollback :: "('d, unit) go"

record 'd SqlDB =
  sqldb_DBTX :: "'d DBTX"
  sqldb_BeginTx :: "('d, 'd SqlTx) go"

record pgconn =
  pg_db :: db
  pg_work :: "db option"
  pg_faults :: "fault list"

definition next_fault :: "pgconn \<Rightarrow> fault" where
  "next_fault c = (case pg_faults c of [] \<Rightarrow> NoFault | f # _ \<Rightarrow> f)"

definition pop_fault :: "pgconn \<Rightarrow> pgconn" where
  "pop_fault c = c\<lparr>pg_faults := tl (pg_faults c)\<rparr>"

text \<open>A statement on the committed tables, and on the working copy of the open transaction.\<close>

definition run_db ::
  "pg_server \<Rightarrow> tabledef list \<Rightarrow> sqlstmt \<Rightarrow> sqlval list \<Rightarrow> (pgconn, sqlval list list) go" where
  "run_db srv sch st args c =
     (let c1 = pop_fault c in
      case next_fault c of
        FailBefore e \<Rightarrow> (Err (ExtError e), c1)
      | NoFault \<Rightarrow> (case sql_eval srv sch st args (pg_db c) of (r, d) \<Rightarrow> (r, c1\<lparr>pg_db := d\<rparr>))
      | FailAfter e \<Rightarrow>
          (case sql_eval srv sch st args (pg_db c) of
             (r, d) \<Rightarrow> (Err (ExtError e), c1\<lparr>pg_db := d\<rparr>)))"

definition run_tx ::
  "pg_server \<Rightarrow> tabledef list \<Rightarrow> sqlstmt \<Rightarrow> sqlval list \<Rightarrow> (pgconn, sqlval list list) go" where
  "run_tx srv sch st args c =
     (case pg_work c of
        None \<Rightarrow> (Err (Sentinel SqlErrTxDone), c)
      | Some w \<Rightarrow>
          (let c1 = pop_fault c in
           case next_fault c of
             FailBefore e \<Rightarrow> (Err (ExtError e), c1)
           | NoFault \<Rightarrow> (case sql_eval srv sch st args w of (r, d) \<Rightarrow> (r, c1\<lparr>pg_work := Some d\<rparr>))
           | FailAfter e \<Rightarrow>
               (case sql_eval srv sch st args w of
                  (r, d) \<Rightarrow> (Err (ExtError e), c1\<lparr>pg_work := Some d\<rparr>))))"

text \<open>\<open>QueryRow(...)\<close> with its deferred error: no row is \<open>sql.ErrNoRows\<close>.\<close>

definition first_row :: "sqlval list list \<Rightarrow> ('d, sqlval list) go" where
  "first_row rows = (case rows of [] \<Rightarrow> go_fail (Sentinel SqlErrNoRows) | r # _ \<Rightarrow> go_ret r)"

definition dbtx_of :: "(sqlstmt \<Rightarrow> sqlval list \<Rightarrow> ('d, sqlval list list) go) \<Rightarrow> 'd DBTX" where
  "dbtx_of run =
     \<lparr>ExecContext = (\<lambda>st args. go_try (run st args) go_fail (\<lambda>_. go_ret ())),
      QueryContext = run,
      QueryRowContext = (\<lambda>st args. go_try (run st args) go_fail first_row)\<rparr>"

definition end_tx :: "db \<Rightarrow> pgconn \<Rightarrow> pgconn" where
  "end_tx w c = c\<lparr>pg_db := (pg_db c)\<lparr>db_seqs := db_seqs w\<rparr>, pg_work := None\<rparr>"

definition commit_tx :: "(pgconn, unit) go" where
  "commit_tx c =
     (case pg_work c of
        None \<Rightarrow> (Err (Sentinel SqlErrTxDone), c)
      | Some w \<Rightarrow>
          (let c1 = pop_fault c in
           case next_fault c of
             FailBefore e \<Rightarrow> (Err (ExtError e), end_tx w c1)
           | NoFault \<Rightarrow> (Ok (), c1\<lparr>pg_db := w, pg_work := None\<rparr>)
           | FailAfter e \<Rightarrow> (Err (ExtError e), c1\<lparr>pg_db := w, pg_work := None\<rparr>)))"

definition rollback_tx :: "(pgconn, unit) go" where
  "rollback_tx c =
     (case pg_work c of
        None \<Rightarrow> (Err (Sentinel SqlErrTxDone), c)
      | Some w \<Rightarrow> (case next_fault c of
                    NoFault \<Rightarrow> (Ok (), end_tx w (pop_fault c))
                  | FailBefore e \<Rightarrow> (Err (ExtError e), end_tx w (pop_fault c))
                  | FailAfter e \<Rightarrow> (Err (ExtError e), end_tx w (pop_fault c))))"

definition pg_Tx :: "pg_server \<Rightarrow> tabledef list \<Rightarrow> pgconn SqlTx" where
  "pg_Tx srv sch =
     \<lparr>tx_DBTX = dbtx_of (run_tx srv sch), tx_Commit = commit_tx, tx_Rollback = rollback_tx\<rparr>"

definition begin_tx :: "pg_server \<Rightarrow> tabledef list \<Rightarrow> (pgconn, pgconn SqlTx) go" where
  "begin_tx srv sch c =
     (let c1 = pop_fault c in
      case next_fault c of
        NoFault \<Rightarrow> (Ok (pg_Tx srv sch), c1\<lparr>pg_work := Some (pg_db c)\<rparr>)
      | FailBefore e \<Rightarrow> (Err (ExtError e), c1)
      | FailAfter e \<Rightarrow> (Err (ExtError e), c1))"

definition pg_DB :: "pg_server \<Rightarrow> tabledef list \<Rightarrow> pgconn SqlDB" where
  "pg_DB srv sch = \<lparr>sqldb_DBTX = dbtx_of (run_db srv sch), sqldb_BeginTx = begin_tx srv sch\<rparr>"

end
