(* ===== verification/Postgres.thy ===== *)
theory Postgres
  imports Postgres_Engine
begin

text \<open>
  Package \<open>internal/storage/postgres\<close>: the user and session repositories over a \<open>DBTX\<close> and
  the two transactions of \<open>Storage\<close>. Every statement is the SQL of the source, with its
  columns and parameters in the source's order; \<open>Scan\<close> binds the columns of a row by
  position. The definitions hold for any provider of \<open>DBTX\<close>.
\<close>

section \<open>The schema: internal/migrations/00001_initial_schema.sql\<close>

definition users_table :: tabledef where
  "users_table =
     \<lparr>tname = ''users'', tcols =
       [\<lparr>cname = ''id'', ctype = BIGSERIAL, cnotnull = True, cunique = True,
         cdefault = NoDefault, creferences = None\<rparr>,
        \<lparr>cname = ''guid'', ctype = UUID, cnotnull = True, cunique = True,
         cdefault = NoDefault, creferences = None\<rparr>]\<rparr>"

definition sessions_table :: tabledef where
  "sessions_table =
     \<lparr>tname = ''sessions'', tcols =
       [\<lparr>cname = ''id'', ctype = BIGSERIAL, cnotnull = True, cunique = True,
         cdefault = NoDefault, creferences = None\<rparr>,
        \<lparr>cname = ''user_id'', ctype = BIGINT, cnotnull = True, cunique = False,
         cdefault = NoDefault, creferences = Some (''users'', ''id'')\<rparr>,
        \<lparr>cname = ''selector'', ctype = TEXT, cnotnull = True, cunique = True,
         cdefault = NoDefault, creferences = None\<rparr>,
        \<lparr>cname = ''verifier_hash'', ctype = TEXT, cnotnull = True, cunique = False,
         cdefault = NoDefault, creferences = None\<rparr>,
        \<lparr>cname = ''client_ip'', ctype = TEXT, cnotnull = True, cunique = False,
         cdefault = NoDefault, creferences = None\<rparr>,
        \<lparr>cname = ''user_agent'', ctype = TEXT, cnotnull = True, cunique = False,
         cdefault = NoDefault, creferences = None\<rparr>,
        \<lparr>cname = ''expires_at'', ctype = TIMESTAMPTZ, cnotnull = True, cunique = False,
         cdefault = NoDefault, creferences = None\<rparr>,
        \<lparr>cname = ''created_at'', ctype = TIMESTAMPTZ, cnotnull = False, cunique = False,
         cdefault = DefaultNow, creferences = None\<rparr>,
        \<lparr>cname = ''status'', ctype = TEXT, cnotnull = True, cunique = False,
         cdefault = DefaultValue (SText ''active''), creferences = None\<rparr>,
        \<lparr>cname = ''access_token_jti'', ctype = TEXT, cnotnull = True, cunique = False,
         cdefault = DefaultValue (SText ''''), creferences = None\<rparr>]\<rparr>"

definition initial_schema :: "tabledef list" where
  "initial_schema = [users_table, sessions_table]"

section \<open>internal/storage/postgres/user.go\<close>

definition Scan_User :: "sqlval list \<Rightarrow> ('d, User) go" where
  "Scan_User vs =
     (case vs of
        [SInt i, SText g] \<Rightarrow> go_ret \<lparr>uID = i, uGUID = g\<rparr>
      | _ \<Rightarrow> go_fail (ExtError ''sql: Scan error''))"

definition CreateUser_query :: sqlstmt where
  "CreateUser_query = Insert ''users'' [(''guid'', 1)] [''id'', ''guid'']"

definition UserRepository_CreateUser :: "'d DBTX \<Rightarrow> string \<Rightarrow> ('d, User) go" where
  "UserRepository_CreateUser r guid =
     go_try (go_try (QueryRowContext r CreateUser_query [SText guid]) go_fail Scan_User)
       (go_wrap ''failed to create user: '') go_ret"

definition GetUserByGUID_query :: sqlstmt where
  "GetUserByGUID_query = Select [''id'', ''guid''] ''users'' [EqParam ''guid'' 1]"

definition UserRepository_GetUserByGUID :: "'d DBTX \<Rightarrow> string \<Rightarrow> ('d, User) go" where
  "UserRepository_GetUserByGUID r guid =
     go_try (go_try (QueryRowContext r GetUserByGUID_query [SText guid]) go_fail Scan_User)
       (\<lambda>err. if errors_Is err SqlErrNoRows then go_fail (Sentinel ErrUserNotFound)
              else go_wrap ''failed to get user by guid: '' err) go_ret"

definition GetUserByID_query :: sqlstmt where
  "GetUserByID_query = Select [''id'', ''guid''] ''users'' [EqParam ''id'' 1]"

definition UserRepository_GetUserByID :: "'d DBTX \<Rightarrow> int \<Rightarrow> ('d, User) go" where
  "UserRepository_GetUserByID r i =
     go_try (go_try (QueryRowContext r GetUserByID_query [SInt i]) go_fail Scan_User)
       (\<lambda>err. if errors_Is err SqlErrNoRows then go_fail (Sentinel ErrUserNotFound)
              else go_wrap ''get user by id: '' err) go_ret"

definition NewUserRepository :: "'d DBTX \<Rightarrow> 'd UserRepository" where
  "NewUserRepository db =
     \<lparr>CreateUser = UserRepository_CreateUser db,
      GetUserByGUID = UserRepository_GetUserByGUID db,
      GetUserByID = UserRepository_GetUserByID db\<rparr>"

section \<open>internal/storage/postgres/session.go\<close>

definition CreateSession_query :: sqlstmt where
  "CreateSession_query =
     Insert ''sessions''
       [(''user_id'', 1), (''selector'', 2), (''verifier_hash'', 3), (''client_ip'', 4),
        (''user_agent'', 5), (''expires_at'', 6), (''created_at'', 7), (''access_token_jti'', 8)]
       [''id'']"

definition Scan_id :: "sqlval list \<Rightarrow> ('d, int) go" where
  "Scan_id vs = (case vs of [SInt i] \<Rightarrow> go_ret i | _ \<Rightarrow> go_fail (ExtError ''sql: Scan error''))"

definition SessionRepository_CreateSession :: "'d DBTX \<Rightarrow> RefreshSession \<Rightarrow> ('d, int) go" where
  "SessionRepository_CreateSession r session =
     go_try
       (go_try
         (QueryRowContext r CreateSession_query
           [SInt (rsUserID session), SText (rsSelector session), SText (rsVerifierHash session),
            SText (rsIPAddress session), SText (rsUserAgent session),
            STime (rsExpiresAt session), STime (rsCreatedAt session),
            SText (rsAccessTokenJTI session)])
         go_fail Scan_id)
       (go_wrap ''failed to insert session: '') go_ret"

definition session_columns :: "string list" where
  "session_columns =
     [''id'', ''user_id'', ''selector'', ''verifier_hash'', ''client_ip'', ''user_agent'',
      ''expires_at'', ''created_at'', ''access_token_jti'']"

definition Scan_Session :: "sqlval list \<Rightarrow> ('d, RefreshSession) go" where
  "Scan_Session vs =
     (case vs of
        [SInt i, SInt u, SText sel, SText vh, SText ip, SText ua, STime ex, STime cr, SText jti] \<Rightarrow>
          go_ret \<lparr>rsID = i, rsUserID = u, rsSelector = sel, rsVerifierHash = vh,
                   rsUserAgent = ua, rsIPAddress = ip, rsAccessTokenJTI = jti,
                   rsCreatedAt = cr, rsExpiresAt = ex\<rparr>
      | _ \<Rightarrow> go_fail (ExtError ''sql: Scan error''))"

definition session_not_found :: "string \<Rightarrow> gerror" where
  "session_not_found selector =
     Errorf (''session with selector '' @ selector @ '' not found: '') (Sentinel ErrSessionNotFound)"

definition GetActiveSessionBySelector_query :: sqlstmt where
  "GetActiveSessionBySelector_query =
     Select session_columns ''sessions''
       [EqParam ''selector'' 1, EqLiteral ''status'' (SText ''active'')]"

definition SessionRepository_GetActiveSessionBySelector ::
  "'d DBTX \<Rightarrow> string \<Rightarrow> ('d, RefreshSession) go" where
  "SessionRepository_GetActiveSessionBySelector r selector =
     go_try
       (go_try (QueryRowContext r GetActiveSessionBySelector_query [SText selector])
         go_fail Scan_Session)
       (\<lambda>err. if err = Sentinel SqlErrNoRows then go_fail (session_not_found selector)
              else go_wrap ''failed to get session: '' err) go_ret"

definition FindSessionBySelector_query :: sqlstmt where
  "FindSessionBySelector_query =
     Select session_columns ''sessions'' [EqParam ''selector'' 1]"

definition SessionRepository_FindSessionBySelector ::
  "'d DBTX \<Rightarrow> string \<Rightarrow> ('d, RefreshSession) go" where
  "SessionRepository_FindSessionBySelector r selector =
     go_try
       (go_try (QueryRowContext r FindSessionBySelector_query [SText selector])
         go_fail Scan_Session)
       (\<lambda>err. if err = Sentinel SqlErrNoRows then go_fail (session_not_found selector)
              else go_wrap ''failed to get session: '' err) go_ret"

definition MarkSessionAsUsed_query :: sqlstmt where
  "MarkSessionAsUsed_query =
     Update ''sessions'' [(''status'', SText ''used'')] [EqParam ''selector'' 1]"

definition SessionRepository_MarkSessionAsUsed :: "'d DBTX \<Rightarrow> string \<Rightarrow> ('d, unit) go" where
  "SessionRepository_MarkSessionAsUsed r selector =
     go_try (ExecContext r MarkSessionAsUsed_query [SText selector])
       (go_wrap ''failed to mark session as used: '') go_ret"

definition DeleteSession_query :: sqlstmt where
  "DeleteSession_query = Delete ''sessions'' [EqParam ''selector'' 1]"

definition SessionRepository_DeleteSession :: "'d DBTX \<Rightarrow> string \<Rightarrow> ('d, unit) go" where
  "SessionRepository_DeleteSession r selector =
     go_try (ExecContext r DeleteSession_query [SText selector])
       (go_wrap ''failed to delete session: '') go_ret"

definition DeleteAllUserSessions_query :: sqlstmt where
  "DeleteAllUserSessions_query = Delete ''sessions'' [EqParam ''user_id'' 1]"

definition SessionRepository_DeleteAllUserSessions :: "'d DBTX \<Rightarrow> int \<Rightarrow> ('d, unit) go" where
  "SessionRepository_DeleteAllUserSessions r userID =
     go_try (ExecContext r DeleteAllUserSessions_query [SInt userID])
       (go_wrap ''delete user sessions: '') go_ret"

definition NewSessionRepository :: "'d DBTX \<Rightarrow> 'd SessionRepository" where
  "NewSessionRepository db =
     \<lparr>CreateSession = SessionRepository_CreateSession db,
      GetActiveSessionBySelector = SessionRepository_GetActiveSessionBySelector db,
      FindSessionBySelector = SessionRepository_FindSessionBySelector db,
      MarkSessionAsUsed = SessionRepository_MarkSessionAsUsed db,
      DeleteSession = SessionRepository_DeleteSession db,
      DeleteAllUserSessions = SessionRepository_DeleteAllUserSessions db\<rparr>"

section \<open>internal/storage/postgres/storage.go\<close>

text \<open>The body of each transaction works on the repositories of the open \<open>tx\<close>.\<close>

definition IssueTokensTx_body ::
  "'d SqlTx \<Rightarrow> string \<Rightarrow> RefreshSession \<Rightarrow> ('d, User) go" where
  "IssueTokensTx_body tx guid session =
     (let userRepoTx = NewUserRepository (tx_DBTX tx);
          sessionRepoTx = NewSessionRepository (tx_DBTX tx)
      in go_try
           (go_try (GetUserByGUID userRepoTx guid)
             (\<lambda>err. if errors_Is err ErrUserNotFound
                    then go_try (CreateUser userRepoTx guid)
                           (go_wrap ''failed to create user in tx: '') go_ret
                    else go_wrap ''failed to get user by guid in tx: '' err)
             go_ret)
           go_fail
           (\<lambda>user.
             go_try (CreateSession sessionRepoTx (session\<lparr>rsUserID := uID user\<rparr>))
               (go_wrap ''failed to create session in tx: '')
               (\<lambda>_.
                 go_try (tx_Commit tx) (go_wrap ''commit transaction: '')
                   (\<lambda>_. go_ret user))))"

definition Storage_IssueTokensTx ::
  "'d SqlDB \<Rightarrow> string \<Rightarrow> RefreshSession \<Rightarrow> ('d, User) go" where
  "Storage_IssueTokensTx db guid session =
     go_try (sqldb_BeginTx db) (go_wrap ''begin transaction: '')
       (\<lambda>tx. go_defer (tx_Rollback tx) (IssueTokensTx_body tx guid session))"

definition RotateTokensTx_body ::
  "'d SqlTx \<Rightarrow> string \<Rightarrow> RefreshSession \<Rightarrow> int \<Rightarrow> ('d, User) go" where
  "RotateTokensTx_body tx oldSelector newSession userID =
     (let sessionRepoTx = NewSessionRepository (tx_DBTX tx);
          userRepoTx = NewUserRepository (tx_DBTX tx)
      in go_try (MarkSessionAsUsed sessionRepoTx oldSelector)
           (go_wrap ''failed to mark session as used in tx: '')
           (\<lambda>_.
             go_try (CreateSession sessionRepoTx (newSession\<lparr>rsUserID := userID\<rparr>))
               (go_wrap ''failed to create new session in tx: '')
               (\<lambda>_.
                 go_try (GetUserByID userRepoTx userID)
                   (go_wrap ''failed to get user by id in tx: '')
                   (\<lambda>user.
                     go_try (tx_Commit tx) (go_wrap ''commit transaction: '')
                       (\<lambda>_. go_ret user)))))"

definition Storage_RotateTokensTx ::
  "'d SqlDB \<Rightarrow> string \<Rightarrow> RefreshSession \<Rightarrow> int \<Rightarrow> ('d, User) go" where
  "Storage_RotateTokensTx db oldSelector newSession userID =
     go_try (sqldb_BeginTx db) (go_wrap ''begin transaction: '')
       (\<lambda>tx. go_defer (tx_Rollback tx) (RotateTokensTx_body tx oldSelector newSession userID))"

definition NewStorage :: "'d SqlDB \<Rightarrow> 'd Storage" where
  "NewStorage db =
     \<lparr>Sessions = NewSessionRepository (sqldb_DBTX db),
      Users = NewUserRepository (sqldb_DBTX db),
      IssueTokensTx = Storage_IssueTokensTx db,
      RotateTokensTx = Storage_RotateTokensTx db\<rparr>"

end
