(* ===== verification/Postgres_Tables.thy ===== *)
theory Postgres_Tables
  imports Postgres
begin

text \<open>
  The tables of the schema as typed lists, and what each SQL statement of the repositories does
  to them: the rows of \<open>users\<close> and \<open>sessions\<close> encode lists of \<open>User\<close> and of stored sessions,
  and every statement of the program, evaluated on encoded tables, is an operation on the
  lists. The constraints of the schema (keys, uniqueness, the foreign key) are the invariant
  \<open>tables_inv\<close>.
\<close>

type_synonym stored = "RefreshSession \<times> string"

record tables =
  tUsers :: "User list"
  tSessions :: "stored list"
  tUserSeq :: int
  tSessionSeq :: int

definition user_row :: "User \<Rightarrow> row" where
  "user_row u = [(''id'', SInt (uID u)), (''guid'', SText (uGUID u))]"

definition session_row :: "stored \<Rightarrow> row" where
  "session_row s =
     [(''id'', SInt (rsID (fst s))), (''user_id'', SInt (rsUserID (fst s))),
      (''selector'', SText (rsSelector (fst s))),
      (''verifier_hash'', SText (rsVerifierHash (fst s))),
      (''client_ip'', SText (rsIPAddress (fst s))),
      (''user_agent'', SText (rsUserAgent (fst s))),
      (''expires_at'', STime (rsExpiresAt (fst s))),
      (''created_at'', STime (rsCreatedAt (fst s))),
      (''status'', SText (snd s)),
      (''access_token_jti'', SText (rsAccessTokenJTI (fst s)))]"

definition encodes :: "tables \<Rightarrow> db \<Rightarrow> bool" where
  "encodes t d \<longleftrightarrow>
     db_tables d ''users'' = map user_row (tUsers t) \<and>
     db_tables d ''sessions'' = map session_row (tSessions t) \<and>
     db_seqs d ''users'' = tUserSeq t \<and> db_seqs d ''sessions'' = tSessionSeq t"

definition tables_inv :: "tables \<Rightarrow> bool" where
  "tables_inv t \<longleftrightarrow>
     distinct (map uID (tUsers t)) \<and> distinct (map uGUID (tUsers t)) \<and>
     distinct (map (\<lambda>s. rsID (fst s)) (tSessions t)) \<and>
     distinct (map (\<lambda>s. rsSelector (fst s)) (tSessions t)) \<and>
     (\<forall>s \<in> set (tSessions t). rsUserID (fst s) \<in> uID ` set (tUsers t)) \<and>
     (\<forall>u \<in> set (tUsers t). uID u < tUserSeq t \<and> int64_range (uID u)) \<and>
     (\<forall>s \<in> set (tSessions t). rsID (fst s) < tSessionSeq t \<and> int64_range (rsID (fst s)))"

section \<open>The statements on typed tables\<close>

definition user_cols :: "User \<Rightarrow> sqlval list" where
  "user_cols u = [SInt (uID u), SText (uGUID u)]"

definition session_cols :: "RefreshSession \<Rightarrow> sqlval list" where
  "session_cols s =
     [SInt (rsID s), SInt (rsUserID s), SText (rsSelector s), SText (rsVerifierHash s),
      SText (rsIPAddress s), SText (rsUserAgent s), STime (rsExpiresAt s),
      STime (rsCreatedAt s), SText (rsAccessTokenJTI s)]"

text \<open>What a session becomes when it is stored: its times at the server's precision.\<close>

definition stored_form :: "pg_server \<Rightarrow> RefreshSession \<Rightarrow> RefreshSession" where
  "stored_form srv s =
     s\<lparr>rsCreatedAt := pg_ts_in srv (rsCreatedAt s), rsExpiresAt := pg_ts_in srv (rsExpiresAt s)\<rparr>"

definition texts_ok :: "pg_server \<Rightarrow> RefreshSession \<Rightarrow> bool" where
  "texts_ok srv s \<longleftrightarrow>
     pg_text_ok srv (rsSelector s) \<and> pg_text_ok srv (rsVerifierHash s) \<and>
     pg_text_ok srv (rsIPAddress s) \<and> pg_text_ok srv (rsUserAgent s) \<and>
     pg_text_ok srv (rsAccessTokenJTI s)"

definition t_insert_user :: "pg_server \<Rightarrow> string \<Rightarrow> tables \<Rightarrow> User option \<times> tables" where
  "t_insert_user srv g t =
     (case pg_uuid_in srv g of
        None \<Rightarrow> (None, t)
      | Some g' \<Rightarrow>
          if \<not> int64_range (tUserSeq t) then (None, t)
          else if g' \<in> uGUID ` set (tUsers t) then (None, t\<lparr>tUserSeq := tUserSeq t + 1\<rparr>)
          else (let u = \<lparr>uID = tUserSeq t, uGUID = g'\<rparr>
                in (Some u, t\<lparr>tUsers := tUsers t @ [u], tUserSeq := tUserSeq t + 1\<rparr>)))"

definition t_insert_session ::
  "pg_server \<Rightarrow> RefreshSession \<Rightarrow> tables \<Rightarrow> int option \<times> tables" where
  "t_insert_session srv s t =
     (if \<not> (int64_range (rsUserID s) \<and> texts_ok srv s) then (None, t)
      else if \<not> int64_range (tSessionSeq t) then (None, t)
      else (let t1 = t\<lparr>tSessionSeq := tSessionSeq t + 1\<rparr>
            in if rsSelector s \<in> (\<lambda>s. rsSelector (fst s)) ` set (tSessions t) \<or>
                  rsUserID s \<notin> uID ` set (tUsers t)
               then (None, t1)
               else (Some (tSessionSeq t),
                     t1\<lparr>tSessions := tSessions t @
                          [(stored_form srv (s\<lparr>rsID := tSessionSeq t\<rparr>), ''active'')]\<rparr>)))"

definition t_mark_used :: "string \<Rightarrow> tables \<Rightarrow> tables" where
  "t_mark_used sel t =
     t\<lparr>tSessions := map (\<lambda>s. if rsSelector (fst s) = sel then (fst s, ''used'') else s)
        (tSessions t)\<rparr>"

definition t_delete_sessions :: "(RefreshSession \<Rightarrow> bool) \<Rightarrow> tables \<Rightarrow> tables" where
  "t_delete_sessions p t = t\<lparr>tSessions := filter (\<lambda>s. \<not> p (fst s)) (tSessions t)\<rparr>"

section \<open>Every statement implements its operation\<close>

lemma find_table_simps [sql_simps]:
  "find_table initial_schema ''users'' = Some users_table"
  "find_table initial_schema ''sessions'' = Some sessions_table"
  by (simp_all add: find_table_def initial_schema_def users_table_def sessions_table_def)

lemma find_table_other [sql_simps]:
  "u \<noteq> ''users'' \<Longrightarrow> u \<noteq> ''sessions'' \<Longrightarrow> find_table initial_schema u = None"
  by (auto simp: find_table_def initial_schema_def users_table_def sessions_table_def)

lemma coerce_col_simps [sql_simps]:
  "coerce_col srv users_table ''id'' (SInt i) = (if int64_range i then Some (SInt i) else None)"
  "coerce_col srv users_table ''guid'' (SText g) = map_option SText (pg_uuid_in srv g)"
  "coerce_col srv sessions_table ''user_id'' (SInt i) =
     (if int64_range i then Some (SInt i) else None)"
  "coerce_col srv sessions_table ''selector'' (SText x) =
     (if pg_text_ok srv x then Some (SText x) else None)"
  "coerce_col srv sessions_table ''verifier_hash'' (SText x) =
     (if pg_text_ok srv x then Some (SText x) else None)"
  "coerce_col srv sessions_table ''client_ip'' (SText x) =
     (if pg_text_ok srv x then Some (SText x) else None)"
  "coerce_col srv sessions_table ''user_agent'' (SText x) =
     (if pg_text_ok srv x then Some (SText x) else None)"
  "coerce_col srv sessions_table ''status'' (SText x) =
     (if pg_text_ok srv x then Some (SText x) else None)"
  "coerce_col srv sessions_table ''access_token_jti'' (SText x) =
     (if pg_text_ok srv x then Some (SText x) else None)"
  "coerce_col srv sessions_table ''expires_at'' (STime tm) = Some (STime (pg_ts_in srv tm))"
  "coerce_col srv sessions_table ''created_at'' (STime tm) = Some (STime (pg_ts_in srv tm))"
  by (simp_all add: coerce_col_def find_col_def users_table_def sessions_table_def)

lemmas query_defs [sql_simps] =
  CreateUser_query_def GetUserByGUID_query_def GetUserByID_query_def CreateSession_query_def
  GetActiveSessionBySelector_query_def FindSessionBySelector_query_def
  MarkSessionAsUsed_query_def DeleteSession_query_def DeleteAllUserSessions_query_def

lemmas eval_defs [sql_simps] =
  sql_eval_def args_ok_def sql_error_def

lemma filter_user_row:
  "filter p (map user_row us) = map user_row (filter (\<lambda>u. p (user_row u)) us)"
  "filter p (map session_row ss) = map session_row (filter (\<lambda>s. p (session_row s)) ss)"
  by (simp_all add: filter_map comp_def)

lemma row_matches_simps [sql_simps]:
  "row_matches [(''guid'', SText g)] (user_row u) \<longleftrightarrow> uGUID u = g"
  "row_matches [(''id'', SInt i)] (user_row u) \<longleftrightarrow> uID u = i"
  "row_matches [(''selector'', SText sel)] (session_row s) \<longleftrightarrow> rsSelector (fst s) = sel"
  "row_matches [(''user_id'', SInt i)] (session_row s) \<longleftrightarrow> rsUserID (fst s) = i"
  "row_matches [(''selector'', SText sel), (''status'', SText st)] (session_row s) \<longleftrightarrow>
     rsSelector (fst s) = sel \<and> snd s = st"
  by (simp_all add: row_matches_def user_row_def session_row_def)

lemma project_simps [sql_simps]:
  "project [''id'', ''guid''] (user_row u) = user_cols u"
  "project [''id''] (session_row s) = [SInt (rsID (fst s))]"
  "project session_columns (session_row s) = session_cols (fst s)"
  by (simp_all add: project_def user_row_def session_row_def user_cols_def session_cols_def
      session_columns_def)

text \<open>
  \<open>implements r x\<close>: the statement's outcome \<open>r\<close> is the typed operation's result \<open>x\<close>, an error
  of the server where \<open>x\<close> has no rows, and the tables it leaves encode the typed ones.
\<close>

definition implements ::
  "sqlval list list outcome \<times> db \<Rightarrow> sqlval list list option \<times> tables \<Rightarrow> bool" where
  "implements r x \<longleftrightarrow>
     encodes (snd x) (snd r) \<and>
     (case fst x of Some rows \<Rightarrow> fst r = Ok rows | None \<Rightarrow> (\<exists>e. fst r = Err (ExtError e)))"

lemma implements_simps:
  "implements (Ok rows, d) (Some rows', t) \<longleftrightarrow> rows = rows' \<and> encodes t d"
  "implements (Err e, d) (None, t) \<longleftrightarrow> (\<exists>x. e = ExtError x) \<and> encodes t d"
  by (auto simp: implements_def)

definition stmt_effect ::
  "pg_server \<Rightarrow> sqlstmt \<Rightarrow> sqlval list \<Rightarrow> tables \<Rightarrow>
   sqlval list list option \<times> tables \<Rightarrow> bool" where
  "stmt_effect srv st args t x \<longleftrightarrow>
     (\<forall>d. encodes t d \<longrightarrow> implements (sql_eval srv initial_schema st args d) x)"

lemma stmt_effectI:
  "(\<And>d. encodes t d \<Longrightarrow> implements (sql_eval srv initial_schema st args d) x) \<Longrightarrow>
   stmt_effect srv st args t x"
  by (simp add: stmt_effect_def)

lemma eval_GetUserByGUID:
  shows "stmt_effect srv GetUserByGUID_query [SText g] t
    (map_option (\<lambda>g'. map user_cols (filter (\<lambda>u. uGUID u = g') (tUsers t))) (pg_uuid_in srv g), t)"
  by (rule stmt_effectI, cases "pg_uuid_in srv g")
    (simp_all add: implements_simps sql_simps filter_user_row comp_def encodes_def)

lemma eval_GetUserByID:
  shows "stmt_effect srv GetUserByID_query [SInt i] t
    (if int64_range i then Some (map user_cols (filter (\<lambda>u. uID u = i) (tUsers t))) else None, t)"
  by (rule stmt_effectI)
    (simp add: implements_simps sql_simps filter_user_row comp_def encodes_def)

lemma eval_GetActiveSession:
  shows "stmt_effect srv GetActiveSessionBySelector_query [SText sel] t
    (if pg_text_ok srv sel \<and> pg_text_ok srv ''active''
     then Some (map (\<lambda>s. session_cols (fst s))
            (filter (\<lambda>s. rsSelector (fst s) = sel \<and> snd s = ''active'') (tSessions t)))
     else None, t)"
  by (rule stmt_effectI)
    (simp add: implements_simps sql_simps filter_user_row comp_def encodes_def)

lemma eval_FindSession:
  shows "stmt_effect srv FindSessionBySelector_query [SText sel] t
    (if pg_text_ok srv sel
     then Some (map (\<lambda>s. session_cols (fst s))
            (filter (\<lambda>s. rsSelector (fst s) = sel) (tSessions t)))
     else None, t)"
  by (rule stmt_effectI)
    (simp add: implements_simps sql_simps filter_user_row comp_def encodes_def)

subsection \<open>INSERT INTO users\<close>

lemma user_insert_checks:
  assumes "encodes t d" and "tables_inv t"
  shows "map (insert_value srv [(''guid'', SText g)] next) (tcols users_table) =
      user_row \<lparr>uID = next, uGUID = g\<rparr>"
    and "not_null_ok (tcols users_table) (user_row u)"
    and "references_ok d (tcols users_table) (user_row u)"
    and "unique_ok (tcols users_table) (map user_row (tUsers t)) (user_row u) \<longleftrightarrow>
      uID u \<notin> uID ` set (tUsers t) \<and> uGUID u \<notin> uGUID ` set (tUsers t)"
proof -
  show "map (insert_value srv [(''guid'', SText g)] next) (tcols users_table) =
      user_row \<lparr>uID = next, uGUID = g\<rparr>"
    by (simp add: users_table_def insert_value_def user_row_def)
  show "not_null_ok (tcols users_table) (user_row u)"
    by (simp add: users_table_def not_null_ok_def user_row_def)
  show "references_ok d (tcols users_table) (user_row u)"
    by (simp add: users_table_def references_ok_def user_row_def)
  show "unique_ok (tcols users_table) (map user_row (tUsers t)) (user_row u) \<longleftrightarrow>
      uID u \<notin> uID ` set (tUsers t) \<and> uGUID u \<notin> uGUID ` set (tUsers t)"
    by (auto simp: users_table_def unique_ok_def user_row_def list_all_iff image_mem_iff)
qed

lemma next_user_id_fresh: "tables_inv t \<Longrightarrow> tUserSeq t \<notin> uID ` set (tUsers t)"
  by (auto simp: tables_inv_def)

lemma eval_CreateUser_tables:
  assumes enc: "encodes t d" and inv: "tables_inv t"
  shows "implements (sql_eval srv initial_schema CreateUser_query [SText g] d)
    (map_option (\<lambda>u. [user_cols u]) (fst (t_insert_user srv g t)), snd (t_insert_user srv g t))"
proof (cases "pg_uuid_in srv g")
  case None
  with enc show ?thesis by (simp add: implements_simps sql_simps t_insert_user_def)
next
  case (Some g')
  have tn: "tname users_table = ''users''" by (simp add: users_table_def)
  have rows: "db_tables d ''users'' = map user_row (tUsers t)"
    and seq: "db_seqs d ''users'' = tUserSeq t"
    using enc by (simp_all add: encodes_def)
  show ?thesis
    using Some enc next_user_id_fresh [OF inv]
    by (simp add: sql_simps t_insert_user_def eval_insert_def tn rows seq Let_def
        user_insert_checks [OF enc inv] implements_simps)
      (simp add: encodes_def)
qed

lemma eval_CreateUser:
  assumes "tables_inv t"
  shows "stmt_effect srv CreateUser_query [SText g] t
    (map_option (\<lambda>u. [user_cols u]) (fst (t_insert_user srv g t)), snd (t_insert_user srv g t))"
  by (rule stmt_effectI) (rule eval_CreateUser_tables [OF _ assms])

subsection \<open>INSERT INTO sessions\<close>

lemma session_insert_row:
  "map (insert_value srv
      [(''user_id'', SInt (rsUserID s)), (''selector'', SText (rsSelector s)),
       (''verifier_hash'', SText (rsVerifierHash s)), (''client_ip'', SText (rsIPAddress s)),
       (''user_agent'', SText (rsUserAgent s)),
       (''expires_at'', STime (pg_ts_in srv (rsExpiresAt s))),
       (''created_at'', STime (pg_ts_in srv (rsCreatedAt s))),
       (''access_token_jti'', SText (rsAccessTokenJTI s))] next) (tcols sessions_table) =
     session_row (stored_form srv (s\<lparr>rsID := next\<rparr>), ''active'')"
  by (simp add: sessions_table_def insert_value_def session_row_def stored_form_def)

lemma session_insert_checks:
  assumes "encodes t d"
  shows "not_null_ok (tcols sessions_table) (session_row s)"
    and "references_ok d (tcols sessions_table) (session_row s) \<longleftrightarrow>
      rsUserID (fst s) \<in> uID ` set (tUsers t)"
    and "unique_ok (tcols sessions_table) (map session_row (tSessions t)) (session_row s) \<longleftrightarrow>
      rsID (fst s) \<notin> (\<lambda>s. rsID (fst s)) ` set (tSessions t) \<and>
      rsSelector (fst s) \<notin> (\<lambda>s. rsSelector (fst s)) ` set (tSessions t)"
proof -
  show "not_null_ok (tcols sessions_table) (session_row s)"
    by (simp add: sessions_table_def not_null_ok_def session_row_def)
  show "references_ok d (tcols sessions_table) (session_row s) \<longleftrightarrow>
      rsUserID (fst s) \<in> uID ` set (tUsers t)"
    using assms
    by (auto simp: sessions_table_def references_ok_def session_row_def encodes_def list_ex_iff
        user_row_def image_mem_iff)
  show "unique_ok (tcols sessions_table) (map session_row (tSessions t)) (session_row s) \<longleftrightarrow>
      rsID (fst s) \<notin> (\<lambda>s. rsID (fst s)) ` set (tSessions t) \<and>
      rsSelector (fst s) \<notin> (\<lambda>s. rsSelector (fst s)) ` set (tSessions t)"
    by (auto simp: sessions_table_def unique_ok_def session_row_def list_all_iff image_mem_iff)
qed

lemma next_session_id_fresh:
  "tables_inv t \<Longrightarrow> tSessionSeq t \<notin> (\<lambda>s. rsID (fst s)) ` set (tSessions t)"
  by (auto simp: tables_inv_def)

definition session_args :: "RefreshSession \<Rightarrow> sqlval list" where
  "session_args s =
     [SInt (rsUserID s), SText (rsSelector s), SText (rsVerifierHash s), SText (rsIPAddress s),
      SText (rsUserAgent s), STime (rsExpiresAt s), STime (rsCreatedAt s),
      SText (rsAccessTokenJTI s)]"

lemma eval_CreateSession_tables:
  assumes enc: "encodes t d" and inv: "tables_inv t"
  shows "implements (sql_eval srv initial_schema CreateSession_query (session_args s) d)
    (map_option (\<lambda>i. [[SInt i]]) (fst (t_insert_session srv s t)), snd (t_insert_session srv s t))"
proof (cases "int64_range (rsUserID s) \<and> texts_ok srv s")
  case False
  with enc show ?thesis
    by (auto simp: implements_simps sql_simps t_insert_session_def session_args_def texts_ok_def)
next
  case True
  have tn: "tname sessions_table = ''sessions''" by (simp add: sessions_table_def)
  have rows: "db_tables d ''sessions'' = map session_row (tSessions t)"
    and seq: "db_seqs d ''sessions'' = tSessionSeq t"
    using enc by (simp_all add: encodes_def)
  have bind: "bind_pairs srv sessions_table
      (map (\<lambda>(c, n). (c, session_args s ! (n - 1)))
        [(''user_id'', 1), (''selector'', 2), (''verifier_hash'', 3), (''client_ip'', 4),
         (''user_agent'', 5), (''expires_at'', 6), (''created_at'', 7), (''access_token_jti'', 8)]) =
      Some [(''user_id'', SInt (rsUserID s)), (''selector'', SText (rsSelector s)),
       (''verifier_hash'', SText (rsVerifierHash s)), (''client_ip'', SText (rsIPAddress s)),
       (''user_agent'', SText (rsUserAgent s)),
       (''expires_at'', STime (pg_ts_in srv (rsExpiresAt s))),
       (''created_at'', STime (pg_ts_in srv (rsCreatedAt s))),
       (''access_token_jti'', SText (rsAccessTokenJTI s))]"
    using True by (simp add: sql_simps session_args_def texts_ok_def)
  have args: "args_ok CreateSession_query (session_args s)"
    by (simp add: args_ok_def CreateSession_query_def session_args_def)
  have eval: "sql_eval srv initial_schema CreateSession_query (session_args s) d =
      eval_insert srv sessions_table
       [(''user_id'', SInt (rsUserID s)), (''selector'', SText (rsSelector s)),
       (''verifier_hash'', SText (rsVerifierHash s)), (''client_ip'', SText (rsIPAddress s)),
       (''user_agent'', SText (rsUserAgent s)),
       (''expires_at'', STime (pg_ts_in srv (rsExpiresAt s))),
       (''created_at'', STime (pg_ts_in srv (rsCreatedAt s))),
       (''access_token_jti'', SText (rsAccessTokenJTI s))] [''id''] d"
    using args bind by (simp add: sql_eval_def CreateSession_query_def find_table_simps)
  have proj: "project [''id''] (session_row (stored_form srv (s\<lparr>rsID := i\<rparr>), st)) = [SInt i]" for i st
    by (simp add: project_simps stored_form_def)
  show ?thesis
    using True enc next_session_id_fresh [OF inv]
    by (simp add: eval t_insert_session_def eval_insert_def tn rows seq Let_def
        session_insert_row session_insert_checks [OF enc] implements_simps proj sql_error_def)
      (simp add: encodes_def stored_form_def)
qed

lemma eval_CreateSession:
  assumes "tables_inv t"
  shows "stmt_effect srv CreateSession_query (session_args s) t
    (map_option (\<lambda>i. [[SInt i]]) (fst (t_insert_session srv s t)), snd (t_insert_session srv s t))"
  by (rule stmt_effectI) (rule eval_CreateSession_tables [OF _ assms])

subsection \<open>UPDATE and DELETE on sessions\<close>

lemma set_status_row [sql_simps]:
  "set_columns [(''status'', SText st)] (session_row s) = session_row (fst s, st)"
  by (simp add: set_columns_def session_row_def)

lemma set_status_unconstrained [sql_simps]:
  "\<not> set_constrained sessions_table (''status'', SText st)"
  by (simp add: set_constrained_def find_col_def sessions_table_def)

lemma eval_MarkSessionAsUsed:
  shows "stmt_effect srv MarkSessionAsUsed_query [SText sel] t
    (if pg_text_ok srv sel \<and> pg_text_ok srv ''used'' then (Some [], t_mark_used sel t)
     else (None, t))"
  by (rule stmt_effectI)
    (auto simp: implements_simps sql_simps encodes_def t_mark_used_def)

lemma cascade_from_sessions [sql_simps]:
  "cascade_from ''sessions'' gone users_table rows = rows"
  "cascade_from ''sessions'' gone sessions_table rows = rows"
  by (simp_all add: cascade_from_def users_table_def sessions_table_def)

lemma encodes_delete:
  assumes "encodes t d" and "\<And>s. row_matches cvs (session_row s) \<longleftrightarrow> p (fst s)"
  shows "encodes (t_delete_sessions p t) (eval_delete initial_schema ''sessions'' cvs d)"
  using assms
  by (simp add: eval_delete_def encodes_def t_delete_sessions_def sql_simps Let_def
      filter_user_row comp_def)

lemma eval_DeleteSession:
  shows "stmt_effect srv DeleteSession_query [SText sel] t
    (if pg_text_ok srv sel then (Some [], t_delete_sessions (\<lambda>s. rsSelector s = sel) t)
     else (None, t))"
  by (rule stmt_effectI)
    (auto simp: implements_simps sql_simps intro!: encodes_delete)

lemma eval_DeleteAllUserSessions:
  shows "stmt_effect srv DeleteAllUserSessions_query [SInt i] t
    (if int64_range i then (Some [], t_delete_sessions (\<lambda>s. rsUserID s = i) t) else (None, t))"
  by (rule stmt_effectI)
    (auto simp: implements_simps sql_simps intro!: encodes_delete)

section \<open>The invariant is kept\<close>

lemma inv_insert_user: "tables_inv t \<Longrightarrow> tables_inv (snd (t_insert_user srv g t))"
  by (auto simp: t_insert_user_def tables_inv_def Let_def image_mem_iff less_le split: option.splits)

lemma inv_insert_session: "tables_inv t \<Longrightarrow> tables_inv (snd (t_insert_session srv s t))"
  by (auto simp: t_insert_session_def tables_inv_def Let_def stored_form_def image_mem_iff less_le)

lemma inv_mark_used: "tables_inv t \<Longrightarrow> tables_inv (t_mark_used sel t)"
proof -
  assume inv: "tables_inv t"
  have keep: "map (\<lambda>s. f (fst s)) (tSessions (t_mark_used sel t)) = map (\<lambda>s. f (fst s)) (tSessions t)"
    for f :: "RefreshSession \<Rightarrow> 'x"
    by (simp add: t_mark_used_def)
  show ?thesis
    using inv by (auto simp: tables_inv_def keep) (auto simp: t_mark_used_def)
qed

lemma inv_delete_sessions: "tables_inv t \<Longrightarrow> tables_inv (t_delete_sessions p t)"
  by (auto simp: tables_inv_def t_delete_sessions_def distinct_map_filter_imp)

end
