(* ===== verification/Postgres_Repos.thy ===== *)
theory Postgres_Repos
  imports Postgres_Tables
begin

text \<open>
  The repositories over any handle that keeps the contract of \<open>DBTX\<close>. The contract is the
  locale \<open>dbtx\<close>: a call answers what the statement means on the tables the handle sees, or
  fails with an error of the driver, and then the statement may or may not have taken effect;
  it touches nothing else. Both handles of the engine, \<open>*sql.DB\<close> and \<open>*sql.Tx\<close>, are
  interpretations.
\<close>

definition sees :: "('d \<Rightarrow> db option) \<Rightarrow> tables \<Rightarrow> 'd \<Rightarrow> bool" where
  "sees cur t c \<longleftrightarrow> (\<exists>d. cur c = Some d \<and> encodes t d)"

text \<open>An error in whose chain no sentinel of the program or of \<open>database/sql\<close> occurs.\<close>

definition foreign :: "gerror \<Rightarrow> bool" where
  "foreign e \<longleftrightarrow> (\<forall>s. \<not> errors_Is e s)"

lemma foreign_simps [simp]:
  "foreign (ExtError x)" "foreign (ErrorsNew x)" "foreign (Errorf p e) = foreign e"
  "\<not> foreign (Sentinel s)"
  by (auto simp: foreign_def)

lemma foreign_not_Is [simp, dest]: "foreign e \<Longrightarrow> \<not> errors_Is e s"
  by (simp add: foreign_def)

definition drop_rows :: "sqlval list list outcome \<Rightarrow> unit outcome" where
  "drop_rows r = (case r of Ok _ \<Rightarrow> Ok () | Err e \<Rightarrow> Err e | Panic p \<Rightarrow> Panic p)"

definition first_of :: "sqlval list list outcome \<Rightarrow> sqlval list outcome" where
  "first_of r =
     (case r of
        Ok [] \<Rightarrow> Err (Sentinel SqlErrNoRows)
      | Ok (x # _) \<Rightarrow> Ok x
      | Err e \<Rightarrow> Err e
      | Panic p \<Rightarrow> Panic p)"

locale dbtx =
  fixes srv :: pg_server
    and h :: "'d DBTX"
    and cur :: "'d \<Rightarrow> db option"
    and frame :: "'d \<Rightarrow> 'x"
  assumes exec_law: "\<lbrakk>cur c = Some d; ExecContext h st args c = (r, c')\<rbrakk> \<Longrightarrow>
      frame c' = frame c \<and>
      (r = drop_rows (fst (sql_eval srv initial_schema st args d)) \<and>
         cur c' = Some (snd (sql_eval srv initial_schema st args d)) \<or>
       (\<exists>x. r = Err (ExtError x)) \<and>
         (cur c' = Some d \<or> cur c' = Some (snd (sql_eval srv initial_schema st args d))))"
    and query_row_law: "\<lbrakk>cur c = Some d; QueryRowContext h st args c = (q, c')\<rbrakk> \<Longrightarrow>
      frame c' = frame c \<and>
      (q = first_of (fst (sql_eval srv initial_schema st args d)) \<and>
         cur c' = Some (snd (sql_eval srv initial_schema st args d)) \<or>
       (\<exists>x. q = Err (ExtError x)) \<and>
         (cur c' = Some d \<or> cur c' = Some (snd (sql_eval srv initial_schema st args d))))"
begin

lemma query_row_cases:
  assumes "sees cur t c"
    and "stmt_effect srv st args t x"
    and "QueryRowContext h st args c = (r, c')"
  obtains (row) y ys where "fst x = Some (y # ys)" "r = Ok y" "sees cur (snd x) c'" "frame c' = frame c"
  | (no_row) "fst x = Some []" "r = Err (Sentinel SqlErrNoRows)" "sees cur (snd x) c'"
      "frame c' = frame c"
  | (failed) e where "r = Err (ExtError e)" "sees cur t c' \<or> sees cur (snd x) c'" "frame c' = frame c"
proof -
  from assms(1) obtain d where d: "cur c = Some d" "encodes t d" by (auto simp: sees_def)
  have impl: "implements (sql_eval srv initial_schema st args d) x"
    using assms(2) d(2) by (simp add: stmt_effect_def)
  note law = query_row_law [OF d(1) assms(3)]
  from impl have enc: "encodes (snd x) (snd (sql_eval srv initial_schema st args d))"
    by (simp add: implements_def)
  show thesis
  proof (cases "\<exists>e. r = Err (ExtError e)")
    case True
    with law d(2) enc show ?thesis by (auto simp: sees_def intro: failed)
  next
    case False
    with law have r: "r = first_of (fst (sql_eval srv initial_schema st args d))"
      and c': "sees cur (snd x) c'" "frame c' = frame c"
      using enc by (auto simp: sees_def)
    show ?thesis
    proof (cases "fst x")
      case None
      with impl r False show ?thesis by (auto simp: implements_def first_of_def)
    next
      case (Some rows)
      with impl have "fst (sql_eval srv initial_schema st args d) = Ok rows"
        by (simp add: implements_def)
      with Some r c' show ?thesis by (cases rows) (auto simp: first_of_def intro: row no_row)
    qed
  qed
qed

lemma exec_cases:
  assumes "sees cur t c"
    and "stmt_effect srv st args t x"
    and "ExecContext h st args c = (r, c')"
  obtains (effect) rows where "fst x = Some rows" "r = Ok ()" "sees cur (snd x) c'" "frame c' = frame c"
  | (failed) e where "r = Err (ExtError e)" "sees cur t c' \<or> sees cur (snd x) c'" "frame c' = frame c"
proof -
  from assms(1) obtain d where d: "cur c = Some d" "encodes t d" by (auto simp: sees_def)
  have impl: "implements (sql_eval srv initial_schema st args d) x"
    using assms(2) d(2) by (simp add: stmt_effect_def)
  note law = exec_law [OF d(1) assms(3)]
  from impl have enc: "encodes (snd x) (snd (sql_eval srv initial_schema st args d))"
    by (simp add: implements_def)
  show thesis
  proof (cases "\<exists>e. r = Err (ExtError e)")
    case True
    with law d(2) enc show ?thesis by (auto simp: sees_def intro: failed)
  next
    case False
    with law have r: "r = drop_rows (fst (sql_eval srv initial_schema st args d))"
      and c': "sees cur (snd x) c'" "frame c' = frame c"
      using enc by (auto simp: sees_def)
    show ?thesis
    proof (cases "fst x")
      case None
      with impl r False show ?thesis by (auto simp: implements_def drop_rows_def)
    next
      case (Some rows)
      with impl have "fst (sql_eval srv initial_schema st args d) = Ok rows"
        by (simp add: implements_def)
      with Some r c' show ?thesis by (auto simp: drop_rows_def intro: effect)
    qed
  qed
qed

subsection \<open>Users\<close>

lemma Scan_user_cols [simp]: "Scan_User (user_cols u) c = (Ok u, c)"
  by (simp add: Scan_User_def user_cols_def)

lemma CreateUser_result:
  assumes at: "sees cur t c" and inv: "tables_inv t"
    and run: "UserRepository_CreateUser h g c = (r, c')"
  shows "frame c' = frame c \<and>
    (case r of
       Ok u \<Rightarrow> fst (t_insert_user srv g t) = Some u \<and> sees cur (snd (t_insert_user srv g t)) c'
     | Err e \<Rightarrow> foreign e \<and> (sees cur t c' \<or> sees cur (snd (t_insert_user srv g t)) c')
     | Panic _ \<Rightarrow> False)"
proof -
  obtain r1 c1 where q: "QueryRowContext h CreateUser_query [SText g] c = (r1, c1)"
    by fastforce
  from at eval_CreateUser [OF inv] q show ?thesis
  proof (cases rule: query_row_cases)
    case (row y ys)
    then obtain u where "fst (t_insert_user srv g t) = Some u" "y = user_cols u" by auto
    with row q run show ?thesis
      by (auto simp: UserRepository_CreateUser_def go_try_def)
  next
    case no_row
    then show ?thesis by auto
  next
    case (failed e)
    with q run show ?thesis by (auto simp: UserRepository_CreateUser_def go_try_def)
  qed
qed

lemma GetUserByGUID_result:
  assumes at: "sees cur t c"
    and run: "UserRepository_GetUserByGUID h g c = (r, c')"
  shows "frame c' = frame c \<and> sees cur t c' \<and>
    (case r of
       Ok u \<Rightarrow> u \<in> set (tUsers t) \<and> pg_uuid_in srv g = Some (uGUID u)
     | Err e \<Rightarrow> (errors_Is e ErrUserNotFound \<longrightarrow>
           (\<exists>g'. pg_uuid_in srv g = Some g' \<and> g' \<notin> uGUID ` set (tUsers t)))
         \<and> \<not> errors_Is e ErrSessionNotFound
     | Panic _ \<Rightarrow> False)"
proof -
  obtain r1 c1 where q: "QueryRowContext h GetUserByGUID_query [SText g] c = (r1, c1)"
    by fastforce
  from at eval_GetUserByGUID q show ?thesis
  proof (cases rule: query_row_cases)
    case (row y ys)
    then obtain g' u where "pg_uuid_in srv g = Some g'" "y = user_cols u"
      "u \<in> set (filter (\<lambda>u. uGUID u = g') (tUsers t))"
      by (auto dest!: map_filter_ConsD)
    with row q run show ?thesis
      by (auto simp: UserRepository_GetUserByGUID_def go_try_def)
  next
    case no_row
    with q run show ?thesis
      by (auto simp: UserRepository_GetUserByGUID_def go_try_def filter_empty_conv)
  next
    case (failed e)
    with q run show ?thesis by (auto simp: UserRepository_GetUserByGUID_def go_try_def)
  qed
qed

lemma GetUserByID_result:
  assumes at: "sees cur t c"
    and run: "UserRepository_GetUserByID h i c = (r, c')"
  shows "frame c' = frame c \<and> sees cur t c' \<and>
    (case r of
       Ok u \<Rightarrow> u \<in> set (tUsers t) \<and> uID u = i
     | Err e \<Rightarrow> (errors_Is e ErrUserNotFound \<longrightarrow> i \<notin> uID ` set (tUsers t))
         \<and> \<not> errors_Is e ErrSessionNotFound
     | Panic _ \<Rightarrow> False)"
proof -
  obtain r1 c1 where q: "QueryRowContext h GetUserByID_query [SInt i] c = (r1, c1)"
    by fastforce
  from at eval_GetUserByID q show ?thesis
  proof (cases rule: query_row_cases)
    case (row y ys)
    then obtain u where "y = user_cols u" "u \<in> set (filter (\<lambda>u. uID u = i) (tUsers t))"
      by (auto dest!: map_filter_ConsD split: if_splits)
    with row q run show ?thesis
      by (auto simp: UserRepository_GetUserByID_def go_try_def)
  next
    case no_row
    with q run show ?thesis
      by (auto simp: UserRepository_GetUserByID_def go_try_def filter_empty_conv split: if_splits)
  next
    case (failed e)
    with q run show ?thesis by (auto simp: UserRepository_GetUserByID_def go_try_def)
  qed
qed

subsection \<open>Sessions\<close>

lemma CreateSession_result:
  assumes at: "sees cur t c" and inv: "tables_inv t"
    and run: "SessionRepository_CreateSession h s c = (r, c')"
  shows "frame c' = frame c \<and>
    (case r of
       Ok i \<Rightarrow> fst (t_insert_session srv s t) = Some i \<and>
         sees cur (snd (t_insert_session srv s t)) c'
     | Err e \<Rightarrow> foreign e \<and> (sees cur t c' \<or> sees cur (snd (t_insert_session srv s t)) c')
     | Panic _ \<Rightarrow> False)"
proof -
  obtain r1 c1 where q: "QueryRowContext h CreateSession_query (session_args s) c = (r1, c1)"
    by fastforce
  from at eval_CreateSession [OF inv] q show ?thesis
  proof (cases rule: query_row_cases)
    case (row y ys)
    then obtain i where "fst (t_insert_session srv s t) = Some i" "y = [SInt i]" by auto
    with row q run show ?thesis
      by (auto simp: SessionRepository_CreateSession_def go_try_def Scan_id_def session_args_def)
  next
    case no_row
    then show ?thesis by auto
  next
    case (failed e)
    with q run show ?thesis
      by (auto simp: SessionRepository_CreateSession_def go_try_def session_args_def)
  qed
qed

lemma Scan_session_cols [simp]: "Scan_Session (session_cols s) c = (Ok s, c)"
  by (simp add: Scan_Session_def session_cols_def)

lemma GetActiveSession_result:
  assumes at: "sees cur t c"
    and run: "SessionRepository_GetActiveSessionBySelector h sel c = (r, c')"
  shows "frame c' = frame c \<and> sees cur t c' \<and>
    (case r of
       Ok s \<Rightarrow> (s, ''active'') \<in> set (tSessions t) \<and> rsSelector s = sel
     | Err e \<Rightarrow> errors_Is e ErrSessionNotFound \<longrightarrow>
         (\<forall>s \<in> set (tSessions t). rsSelector (fst s) = sel \<longrightarrow> snd s \<noteq> ''active'')
     | Panic _ \<Rightarrow> False)"
proof -
  obtain r1 c1 where q:
    "QueryRowContext h GetActiveSessionBySelector_query [SText sel] c = (r1, c1)"
    by fastforce
  from at eval_GetActiveSession q show ?thesis
  proof (cases rule: query_row_cases)
    case (row y ys)
    then obtain s where "y = session_cols (fst s)"
      "s \<in> set (filter (\<lambda>s. rsSelector (fst s) = sel \<and> snd s = ''active'') (tSessions t))"
      by (auto dest!: map_filter_ConsD split: if_splits)
    with row q run show ?thesis
      by (cases s) (auto simp: SessionRepository_GetActiveSessionBySelector_def go_try_def)
  next
    case no_row
    with q run show ?thesis
      by (auto simp: SessionRepository_GetActiveSessionBySelector_def go_try_def
          filter_empty_conv split: if_splits)
  next
    case (failed e)
    with q run show ?thesis
      by (auto simp: SessionRepository_GetActiveSessionBySelector_def go_try_def)
  qed
qed

lemma FindSession_result:
  assumes at: "sees cur t c"
    and run: "SessionRepository_FindSessionBySelector h sel c = (r, c')"
  shows "frame c' = frame c \<and> sees cur t c' \<and>
    (case r of
       Ok s \<Rightarrow> (\<exists>st. (s, st) \<in> set (tSessions t)) \<and> rsSelector s = sel
     | Err e \<Rightarrow> errors_Is e ErrSessionNotFound \<longrightarrow>
         (\<forall>s \<in> set (tSessions t). rsSelector (fst s) \<noteq> sel)
     | Panic _ \<Rightarrow> False)"
proof -
  obtain r1 c1 where q:
    "QueryRowContext h FindSessionBySelector_query [SText sel] c = (r1, c1)"
    by fastforce
  from at eval_FindSession q show ?thesis
  proof (cases rule: query_row_cases)
    case (row y ys)
    then obtain s where "y = session_cols (fst s)"
      "s \<in> set (filter (\<lambda>s. rsSelector (fst s) = sel) (tSessions t))"
      by (auto dest!: map_filter_ConsD split: if_splits)
    with row q run show ?thesis
      by (cases s) (auto simp: SessionRepository_FindSessionBySelector_def go_try_def)
  next
    case no_row
    with q run show ?thesis
      by (auto simp: SessionRepository_FindSessionBySelector_def go_try_def
          filter_empty_conv split: if_splits)
  next
    case (failed e)
    with q run show ?thesis
      by (auto simp: SessionRepository_FindSessionBySelector_def go_try_def)
  qed
qed

lemma MarkSessionAsUsed_result:
  assumes at: "sees cur t c"
    and run: "SessionRepository_MarkSessionAsUsed h sel c = (r, c')"
  shows "frame c' = frame c \<and>
    (case r of
       Ok _ \<Rightarrow> sees cur (t_mark_used sel t) c'
     | Err e \<Rightarrow> foreign e \<and> (sees cur t c' \<or> sees cur (t_mark_used sel t) c')
     | Panic _ \<Rightarrow> False)"
proof -
  obtain r1 c1 where q: "ExecContext h MarkSessionAsUsed_query [SText sel] c = (r1, c1)"
    by fastforce
  from at eval_MarkSessionAsUsed q show ?thesis
    by (cases rule: exec_cases)
      (use run q in \<open>auto simp: SessionRepository_MarkSessionAsUsed_def go_try_def split: if_splits\<close>)
qed

lemma DeleteSession_result:
  assumes at: "sees cur t c"
    and run: "SessionRepository_DeleteSession h sel c = (r, c')"
  shows "frame c' = frame c \<and>
    (case r of
       Ok _ \<Rightarrow> sees cur (t_delete_sessions (\<lambda>s. rsSelector s = sel) t) c'
     | Err e \<Rightarrow> foreign e \<and>
         (sees cur t c' \<or> sees cur (t_delete_sessions (\<lambda>s. rsSelector s = sel) t) c')
     | Panic _ \<Rightarrow> False)"
proof -
  obtain r1 c1 where q: "ExecContext h DeleteSession_query [SText sel] c = (r1, c1)"
    by fastforce
  from at eval_DeleteSession q show ?thesis
    by (cases rule: exec_cases)
      (use run q in \<open>auto simp: SessionRepository_DeleteSession_def go_try_def split: if_splits\<close>)
qed

lemma DeleteAllUserSessions_result:
  assumes at: "sees cur t c"
    and run: "SessionRepository_DeleteAllUserSessions h i c = (r, c')"
  shows "frame c' = frame c \<and>
    (case r of
       Ok _ \<Rightarrow> sees cur (t_delete_sessions (\<lambda>s. rsUserID s = i) t) c'
     | Err e \<Rightarrow> foreign e \<and>
         (sees cur t c' \<or> sees cur (t_delete_sessions (\<lambda>s. rsUserID s = i) t) c')
     | Panic _ \<Rightarrow> False)"
proof -
  obtain r1 c1 where q: "ExecContext h DeleteAllUserSessions_query [SInt i] c = (r1, c1)"
    by fastforce
  from at eval_DeleteAllUserSessions q show ?thesis
    by (cases rule: exec_cases)
      (use run q in \<open>auto simp: SessionRepository_DeleteAllUserSessions_def go_try_def
          split: if_splits\<close>)
qed

end

section \<open>The two handles of the engine\<close>

lemma run_db_result:
  assumes "run_db srv sch st args c = (r, c')"
  shows "pg_work c' = pg_work c \<and>
    (r = fst (sql_eval srv sch st args (pg_db c)) \<and>
       pg_db c' = snd (sql_eval srv sch st args (pg_db c)) \<or>
     (\<exists>x. r = Err (ExtError x)) \<and>
       (pg_db c' = pg_db c \<or> pg_db c' = snd (sql_eval srv sch st args (pg_db c))))"
  using assms
  by (auto simp: run_db_def Let_def pop_fault_def split: fault.splits prod.splits)

lemma run_tx_result:
  assumes "run_tx srv sch st args c = (r, c')" and "pg_work c = Some w"
  shows "pg_db c' = pg_db c \<and>
    (r = fst (sql_eval srv sch st args w) \<and>
       pg_work c' = Some (snd (sql_eval srv sch st args w)) \<or>
     (\<exists>x. r = Err (ExtError x)) \<and>
       (pg_work c' = Some w \<or> pg_work c' = Some (snd (sql_eval srv sch st args w))))"
  using assms
  by (auto simp: run_tx_def Let_def pop_fault_def split: fault.splits prod.splits)

lemma dbtx_of_exec:
  "ExecContext (dbtx_of run) st args c = (drop_rows (fst (run st args c)), snd (run st args c))"
  by (simp add: dbtx_of_def go_try_def drop_rows_def split: prod.splits outcome.splits)

lemma dbtx_of_query_row:
  "QueryRowContext (dbtx_of run) st args c = (first_of (fst (run st args c)), snd (run st args c))"
  by (auto simp: dbtx_of_def go_try_def first_of_def first_row_def
      split: prod.splits outcome.splits list.splits)

lemma outcome_of_ExtError [simp]:
  "drop_rows (Err (ExtError x)) = Err (ExtError x)"
  "first_of (Err (ExtError x)) = Err (ExtError x)"
  by (simp_all add: drop_rows_def first_of_def)

interpretation db_handle: dbtx srv "dbtx_of (run_db srv initial_schema)"
  "\<lambda>c. Some (pg_db c)" pg_work
  for srv
proof unfold_locales
  fix c d st args r c'
  assume "Some (pg_db c) = Some d"
    and "ExecContext (dbtx_of (run_db srv initial_schema)) st args c = (r, c')"
  then show "pg_work c' = pg_work c \<and>
      (r = drop_rows (fst (sql_eval srv initial_schema st args d)) \<and>
         Some (pg_db c') = Some (snd (sql_eval srv initial_schema st args d)) \<or>
       (\<exists>x. r = Err (ExtError x)) \<and>
         (Some (pg_db c') = Some d \<or>
          Some (pg_db c') = Some (snd (sql_eval srv initial_schema st args d))))"
    by (cases "run_db srv initial_schema st args c") (auto simp: dbtx_of_exec dest!: run_db_result)
next
  fix c d st args r c'
  assume "Some (pg_db c) = Some d"
    and "QueryRowContext (dbtx_of (run_db srv initial_schema)) st args c = (r, c')"
  then show "pg_work c' = pg_work c \<and>
      (r = first_of (fst (sql_eval srv initial_schema st args d)) \<and>
         Some (pg_db c') = Some (snd (sql_eval srv initial_schema st args d)) \<or>
       (\<exists>x. r = Err (ExtError x)) \<and>
         (Some (pg_db c') = Some d \<or>
          Some (pg_db c') = Some (snd (sql_eval srv initial_schema st args d))))"
    by (cases "run_db srv initial_schema st args c") (auto simp: dbtx_of_query_row dest!: run_db_result)
qed

interpretation tx_handle: dbtx srv "dbtx_of (run_tx srv initial_schema)" pg_work pg_db
  for srv
proof unfold_locales
  fix c d st args r c'
  assume "pg_work c = Some d"
    and "ExecContext (dbtx_of (run_tx srv initial_schema)) st args c = (r, c')"
  then show "pg_db c' = pg_db c \<and>
      (r = drop_rows (fst (sql_eval srv initial_schema st args d)) \<and>
         pg_work c' = Some (snd (sql_eval srv initial_schema st args d)) \<or>
       (\<exists>x. r = Err (ExtError x)) \<and>
         (pg_work c' = Some d \<or>
          pg_work c' = Some (snd (sql_eval srv initial_schema st args d))))"
    by (cases "run_tx srv initial_schema st args c") (auto simp: dbtx_of_exec dest!: run_tx_result)
next
  fix c d st args r c'
  assume "pg_work c = Some d"
    and "QueryRowContext (dbtx_of (run_tx srv initial_schema)) st args c = (r, c')"
  then show "pg_db c' = pg_db c \<and>
      (r = first_of (fst (sql_eval srv initial_schema st args d)) \<and>
         pg_work c' = Some (snd (sql_eval srv initial_schema st args d)) \<or>
       (\<exists>x. r = Err (ExtError x)) \<and>
         (pg_work c' = Some d \<or>
          pg_work c' = Some (snd (sql_eval srv initial_schema st args d))))"
    by (cases "run_tx srv initial_schema st args c") (auto simp: dbtx_of_query_row dest!: run_tx_result)
qed

end
