(* ===== verification/Postgres_Tx.thy ===== *)
theory Postgres_Tx
  imports Postgres_Repos
begin

text \<open>
  The two transactions of \<open>Storage\<close> on the engine. While a transaction is open its working
  copy runs ahead of the committed tables (\<open>tx_state\<close>); every way out of the body either
  commits the copy or ends with the committed rows as they were, whatever calls fail. A commit
  whose answer is lost may have happened: that is the only error after which the rows can have
  changed.
\<close>

definition same_rows :: "tables \<Rightarrow> tables \<Rightarrow> bool" where
  "same_rows t t' \<longleftrightarrow> tUsers t' = tUsers t \<and> tSessions t' = tSessions t"

definition holds :: "tables \<Rightarrow> pgconn \<Rightarrow> bool" where
  "holds t c \<longleftrightarrow> encodes t (pg_db c) \<and> tables_inv t"

definition tx_state :: "tables \<Rightarrow> tables \<Rightarrow> pgconn \<Rightarrow> bool" where
  "tx_state t w c \<longleftrightarrow>
     holds t c \<and> sees pg_work w c \<and> tables_inv w \<and>
     tUserSeq t \<le> tUserSeq w \<and> tSessionSeq t \<le> tSessionSeq w"

lemma seqs_insert_user:
  "tUserSeq t \<le> tUserSeq (snd (t_insert_user srv g t))"
  "tSessionSeq (snd (t_insert_user srv g t)) = tSessionSeq t"
  by (simp_all add: t_insert_user_def Let_def split: option.splits)

lemma seqs_insert_session:
  "tUserSeq (snd (t_insert_session srv s t)) = tUserSeq t"
  "tSessionSeq t \<le> tSessionSeq (snd (t_insert_session srv s t))"
  by (simp_all add: t_insert_session_def Let_def)

lemma seqs_mark_used:
  "tUserSeq (t_mark_used sel t) = tUserSeq t" "tSessionSeq (t_mark_used sel t) = tSessionSeq t"
  by (simp_all add: t_mark_used_def)

lemma tx_state_step:
  assumes "tx_state t w c" and "pg_db c' = pg_db c" and "sees pg_work w' c'"
    and "tables_inv w'" and "tUserSeq w \<le> tUserSeq w'" and "tSessionSeq w \<le> tSessionSeq w'"
  shows "tx_state t w' c'"
  using assms by (auto simp: tx_state_def holds_def)

lemma tx_state_some:
  assumes "tx_state t w c" and "pg_db c' = pg_db c"
    and "sees pg_work w c' \<or> sees pg_work w' c'"
    and "tables_inv w'" and "tUserSeq w \<le> tUserSeq w'" and "tSessionSeq w \<le> tSessionSeq w'"
  shows "\<exists>w''. tx_state t w'' c'"
  using assms by (auto simp: tx_state_def holds_def)

section \<open>The repositories of an open transaction\<close>

lemma tx_state_sees: "tx_state t w c \<Longrightarrow> sees pg_work w c \<and> tables_inv w"
  by (simp add: tx_state_def)

lemma tx_CreateUser:
  assumes st: "tx_state t w c"
    and run: "UserRepository_CreateUser (tx_DBTX (pg_Tx srv initial_schema)) g c = (r, c')"
  shows "case r of
      Ok u \<Rightarrow> fst (t_insert_user srv g w) = Some u \<and> tx_state t (snd (t_insert_user srv g w)) c'
    | Err e \<Rightarrow> \<exists>w'. tx_state t w' c'
    | Panic _ \<Rightarrow> False"
proof -
  from st have "sees pg_work w c" and inv: "tables_inv w" by (simp_all add: tx_state_def)
  from tx_handle.CreateUser_result [OF this run [unfolded pg_Tx_def, simplified]]
  show ?thesis
    using tx_state_step [OF st] inv_insert_user [OF inv, of srv g] inv seqs_insert_user [where t = w and srv = srv and g = g]
      tx_state_some [OF st, where w' = "snd (t_insert_user srv g w)"]
    by (cases r) auto
qed

lemma tx_GetUserByGUID:
  assumes st: "tx_state t w c"
    and run: "UserRepository_GetUserByGUID (tx_DBTX (pg_Tx srv initial_schema)) g c = (r, c')"
  shows "tx_state t w c' \<and>
    (case r of
       Ok u \<Rightarrow> u \<in> set (tUsers w) \<and> pg_uuid_in srv g = Some (uGUID u)
     | Err e \<Rightarrow> True
     | Panic _ \<Rightarrow> False)"
proof -
  from st have "sees pg_work w c" and inv: "tables_inv w" by (simp_all add: tx_state_def)
  from tx_handle.GetUserByGUID_result [OF this(1) run [unfolded pg_Tx_def, simplified]]
  show ?thesis using tx_state_step [OF st] inv by (cases r) auto
qed

lemma tx_GetUserByID:
  assumes st: "tx_state t w c"
    and run: "UserRepository_GetUserByID (tx_DBTX (pg_Tx srv initial_schema)) i c = (r, c')"
  shows "tx_state t w c' \<and>
    (case r of Ok u \<Rightarrow> u \<in> set (tUsers w) \<and> uID u = i | Err e \<Rightarrow> True | Panic _ \<Rightarrow> False)"
proof -
  from st have "sees pg_work w c" and inv: "tables_inv w" by (simp_all add: tx_state_def)
  from tx_handle.GetUserByID_result [OF this(1) run [unfolded pg_Tx_def, simplified]]
  show ?thesis using tx_state_step [OF st] inv by (cases r) auto
qed

lemma tx_CreateSession:
  assumes st: "tx_state t w c"
    and run: "SessionRepository_CreateSession (tx_DBTX (pg_Tx srv initial_schema)) s c = (r, c')"
  shows "case r of
      Ok i \<Rightarrow> fst (t_insert_session srv s w) = Some i \<and>
        tx_state t (snd (t_insert_session srv s w)) c'
    | Err e \<Rightarrow> \<exists>w'. tx_state t w' c'
    | Panic _ \<Rightarrow> False"
proof -
  from st have "sees pg_work w c" and inv: "tables_inv w" by (simp_all add: tx_state_def)
  from tx_handle.CreateSession_result [OF this run [unfolded pg_Tx_def, simplified]]
  show ?thesis
    using tx_state_step [OF st] inv_insert_session [OF inv, of srv s] inv
      seqs_insert_session [where t = w and srv = srv and s = s]
      tx_state_some [OF st, where w' = "snd (t_insert_session srv s w)"]
    by (cases r) auto
qed

lemma tx_MarkSessionAsUsed:
  assumes st: "tx_state t w c"
    and run: "SessionRepository_MarkSessionAsUsed (tx_DBTX (pg_Tx srv initial_schema)) sel c = (r, c')"
  shows "case r of
      Ok _ \<Rightarrow> tx_state t (t_mark_used sel w) c'
    | Err e \<Rightarrow> \<exists>w'. tx_state t w' c'
    | Panic _ \<Rightarrow> False"
proof -
  from st have "sees pg_work w c" and inv: "tables_inv w" by (simp_all add: tx_state_def)
  from tx_handle.MarkSessionAsUsed_result [OF this(1) run [unfolded pg_Tx_def, simplified]]
  show ?thesis
    using tx_state_step [OF st] inv_mark_used [OF inv, of sel] inv seqs_mark_used [of sel w]
      tx_state_some [OF st, where w' = "t_mark_used sel w"]
    by (cases r) auto
qed

section \<open>The ends of a transaction\<close>

lemma begin_tx_result:
  assumes "holds t c" and "pg_work c = None" and "begin_tx srv sch c = (r, c')"
  shows "case r of
      Ok tx \<Rightarrow> tx = pg_Tx srv sch \<and> tx_state t t c'
    | Err e \<Rightarrow> holds t c' \<and> pg_work c' = None
    | Panic _ \<Rightarrow> False"
  using assms
  by (auto simp: begin_tx_def Let_def pop_fault_def holds_def tx_state_def sees_def
      split: fault.splits)

lemma end_tx_holds:
  assumes "tx_state t w c" and "pg_work c = Some d" and "pg_db c' = pg_db c"
  obtains t' where "same_rows t t'" and "holds t' (end_tx d c')" and "pg_work (end_tx d c') = None"
proof -
  have d: "encodes w d" and t: "encodes t (pg_db c)" "tables_inv t"
    and seqs: "tUserSeq t \<le> tUserSeq w" "tSessionSeq t \<le> tSessionSeq w"
    using assms(1,2) by (auto simp: tx_state_def holds_def sees_def)
  let ?t = "t\<lparr>tUserSeq := tUserSeq w, tSessionSeq := tSessionSeq w\<rparr>"
  have "encodes ?t (pg_db (end_tx d c'))"
    using d t assms(3) by (simp add: encodes_def end_tx_def)
  moreover have "tables_inv ?t"
    using t(2) seqs by (auto simp: tables_inv_def)
  ultimately show thesis
    by (intro that [of ?t]) (simp_all add: same_rows_def holds_def end_tx_def)
qed

lemma rollback_open:
  assumes "tx_state t w c"
  obtains t' where "same_rows t t'" and "holds t' (snd (rollback_tx c))"
    and "pg_work (snd (rollback_tx c)) = None"
proof -
  from assms obtain d where d: "pg_work c = Some d" by (auto simp: tx_state_def sees_def)
  have "snd (rollback_tx c) = end_tx d (pop_fault c)"
    using d by (simp add: rollback_tx_def split: fault.splits)
  moreover have "pg_db (pop_fault c) = pg_db c" by (simp add: pop_fault_def)
  ultimately show thesis using end_tx_holds [OF assms d] that by metis
qed

lemma rollback_closed: "pg_work c = None \<Longrightarrow> snd (rollback_tx c) = c"
  by (simp add: rollback_tx_def)

lemma commit_result:
  assumes st: "tx_state t w c" and run: "commit_tx c = (r, c')"
  shows "pg_work c' = None \<and>
    (r = Ok () \<and> holds w c' \<or>
     (\<exists>x. r = Err (ExtError x)) \<and> (holds w c' \<or> (\<exists>t'. same_rows t t' \<and> holds t' c')))"
proof -
  from st obtain d where d: "pg_work c = Some d" "encodes w d" "tables_inv w"
    by (auto simp: tx_state_def sees_def)
  have fault: "pg_db (pop_fault c) = pg_db c" by (simp add: pop_fault_def)
  show ?thesis
  proof (cases "next_fault c")
    case (FailBefore e)
    obtain t' where "same_rows t t'" "holds t' (end_tx d (pop_fault c))"
      "pg_work (end_tx d (pop_fault c)) = None"
      by (rule end_tx_holds [OF st d(1) fault])
    with FailBefore run d show ?thesis by (auto simp: commit_tx_def)
  qed (use run d in \<open>auto simp: commit_tx_def holds_def Let_def\<close>)
qed

section \<open>IssueTokensTx\<close>

text \<open>What a committed \<open>IssueTokensTx\<close> did: the user found or created, then the session.\<close>

definition issued ::
  "pg_server \<Rightarrow> string \<Rightarrow> RefreshSession \<Rightarrow> tables \<Rightarrow> User \<Rightarrow> tables \<Rightarrow> bool" where
  "issued srv guid s t u t' \<longleftrightarrow>
     (\<exists>t1 i. (u \<in> set (tUsers t) \<and> pg_uuid_in srv guid = Some (uGUID u) \<and> t1 = t \<or>
              t_insert_user srv guid t = (Some u, t1)) \<and>
             t_insert_session srv (s\<lparr>rsUserID := uID u\<rparr>) t1 = (Some i, t'))"

text \<open>What every way out of a transaction body leaves: \<open>done\<close> is the committed effect.\<close>

definition body_outcome ::
  "('a \<Rightarrow> tables \<Rightarrow> bool) \<Rightarrow> tables \<Rightarrow> 'a outcome \<Rightarrow> pgconn \<Rightarrow> bool" where
  "body_outcome eff t r c \<longleftrightarrow>
     (case r of
        Ok u \<Rightarrow> pg_work c = None \<and> (\<exists>t'. eff u t' \<and> holds t' c)
      | Err e \<Rightarrow>
          (\<exists>w. tx_state t w c) \<or>
          pg_work c = None \<and> (\<exists>t'. (same_rows t t' \<or> (\<exists>u. eff u t')) \<and> holds t' c)
      | Panic _ \<Rightarrow> False)"

lemma body_Err: "tx_state t w c \<Longrightarrow> body_outcome eff t (Err e) c"
  by (auto simp: body_outcome_def)

lemma body_commit:
  assumes st: "tx_state t w c" and eff: "eff u w"
    and run: "go_try commit_tx (go_wrap p) (\<lambda>_. go_ret u) c = (r, c')"
  shows "body_outcome eff t r c'"
proof -
  obtain rc cc where c: "commit_tx c = (rc, cc)" by fastforce
  note res = commit_result [OF st c]
  from res consider "rc = Ok ()" "holds w cc"
    | x where "rc = Err (ExtError x)" "holds w cc"
    | x t' where "rc = Err (ExtError x)" "same_rows t t'" "holds t' cc"
    by blast
  then show ?thesis
    by cases (use res c run eff in \<open>force simp: go_try_def body_outcome_def\<close>)+
qed

lemma tx_outcome:
  assumes c: "holds t c" "pg_work c = None"
    and body: "\<And>c1 r1 c2. tx_state t t c1 \<Longrightarrow> m (pg_Tx srv initial_schema) c1 = (r1, c2) \<Longrightarrow>
      body_outcome eff t r1 c2"
    and run: "go_try (sqldb_BeginTx (pg_DB srv initial_schema)) (go_wrap p)
      (\<lambda>tx. go_defer (tx_Rollback tx) (m tx)) c = (r, c')"
  shows "pg_work c' = None \<and>
    (case r of
       Ok u \<Rightarrow> \<exists>t'. eff u t' \<and> holds t' c'
     | Err e \<Rightarrow> \<exists>t'. (same_rows t t' \<or> (\<exists>u. eff u t')) \<and> holds t' c'
     | Panic _ \<Rightarrow> False)"
proof -
  obtain rb cb where b: "begin_tx srv initial_schema c = (rb, cb)" by fastforce
  note bres = begin_tx_result [OF c b]
  show ?thesis
  proof (cases rb)
    case (Ok tx)
    with bres have tx: "tx = pg_Tx srv initial_schema" and st: "tx_state t t cb" by simp_all
    obtain r1 c2 where m: "m tx cb = (r1, c2)" by fastforce
    have out: "body_outcome eff t r1 c2" using body [OF st] m tx by simp
    have res: "r = r1" "c' = snd (rollback_tx c2)"
      using run Ok b m tx
      by (simp_all add: go_try_def go_defer_def pg_DB_def pg_Tx_def)
    show ?thesis
    proof (cases "pg_work c2 = None")
      case True
      with rollback_closed have "snd (rollback_tx c2) = c2" by simp
      with out res True show ?thesis
        by (auto simp: body_outcome_def tx_state_def sees_def split: outcome.splits)
    next
      case False
      with out obtain e w where e: "r1 = Err e" and w: "tx_state t w c2"
        by (auto simp: body_outcome_def split: outcome.splits)
      obtain t' where "same_rows t t'" "holds t' (snd (rollback_tx c2))"
        "pg_work (snd (rollback_tx c2)) = None"
        by (rule rollback_open [OF w])
      with res e show ?thesis by auto
    qed
  next
    case (Err e)
    with bres have h: "holds t cb" "pg_work cb = None" by simp_all
    have res: "r = Err (Errorf p e)" "c' = cb"
      using run Err b by (simp_all add: go_try_def pg_DB_def)
    have "same_rows t t" by (simp add: same_rows_def)
    with h res show ?thesis by auto
  next
    case (Panic p)
    with bres show ?thesis by simp
  qed
qed

text \<open>The user of the transaction: found by its GUID, or created.\<close>

definition user_of_guid :: "pg_server \<Rightarrow> string \<Rightarrow> tables \<Rightarrow> User \<Rightarrow> tables \<Rightarrow> bool" where
  "user_of_guid srv guid t u t1 \<longleftrightarrow>
     u \<in> set (tUsers t) \<and> pg_uuid_in srv guid = Some (uGUID u) \<and> t1 = t \<or>
     t_insert_user srv guid t = (Some u, t1)"

lemma find_or_create_user:
  assumes st: "tx_state t w c"
    and run: "go_try
        (UserRepository_GetUserByGUID (tx_DBTX (pg_Tx srv initial_schema)) guid)
        (\<lambda>err. if errors_Is err ErrUserNotFound
               then go_try (UserRepository_CreateUser (tx_DBTX (pg_Tx srv initial_schema)) guid)
                      (go_wrap p) go_ret
               else go_wrap q err) go_ret c = (r, c')"
  shows "case r of
      Ok u \<Rightarrow> \<exists>w'. user_of_guid srv guid w u w' \<and> tx_state t w' c'
    | Err e \<Rightarrow> \<exists>w'. tx_state t w' c'
    | Panic _ \<Rightarrow> False"
  using run
proof (cases rule: go_try_cases)
  case (Ok u c1)
  with tx_GetUserByGUID [OF st Ok(1)] show ?thesis by (auto simp: user_of_guid_def)
next
  case (Err e c1)
  note st1 = conjunct1 [OF tx_GetUserByGUID [OF st Err(1)]]
  show ?thesis
  proof (cases "errors_Is e ErrUserNotFound")
    case True
    with Err(2) have "go_try (UserRepository_CreateUser (tx_DBTX (pg_Tx srv initial_schema)) guid)
        (go_wrap p) go_ret c1 = (r, c')" by simp
    then show ?thesis
    proof (cases rule: go_try_cases)
      case (Ok u c2)
      with tx_CreateUser [OF st1 Ok(1)] show ?thesis
        by (cases "t_insert_user srv guid w") (auto simp: user_of_guid_def)
    next
      case (Err e' c2)
      with tx_CreateUser [OF st1 Err(1)] show ?thesis by auto
    next
      case (Panic x)
      with tx_CreateUser [OF st1 Panic(1)] show ?thesis by simp
    qed
  next
    case False
    with Err st1 show ?thesis by auto
  qed
next
  case (Panic x)
  with tx_GetUserByGUID [OF st Panic(1)] show ?thesis by simp
qed

lemma issued_iff:
  "issued srv guid s t u t' \<longleftrightarrow>
     (\<exists>t1 i. user_of_guid srv guid t u t1 \<and>
             t_insert_session srv (s\<lparr>rsUserID := uID u\<rparr>) t1 = (Some i, t'))"
  by (auto simp: issued_def user_of_guid_def)

lemma IssueTokensTx_body_outcome:
  assumes st: "tx_state t t c"
    and run: "IssueTokensTx_body (pg_Tx srv initial_schema) guid s c = (r, c')"
  shows "body_outcome (issued srv guid s t) t r c'"
  using run unfolding IssueTokensTx_body_def Let_def NewUserRepository_def
    NewSessionRepository_def UserRepository.simps SessionRepository.simps
proof (cases rule: go_try_cases)
  case (Ok u c1)
  from find_or_create_user [OF st Ok(1)] obtain t1
    where u: "user_of_guid srv guid t u t1" and st1: "tx_state t t1 c1" by auto
  from Ok(2) show ?thesis
  proof (cases rule: go_try_cases)
    case (Ok i c2)
    from tx_CreateSession [OF st1 Ok(1)]
    have "issued srv guid s t u (snd (t_insert_session srv (s\<lparr>rsUserID := uID u\<rparr>) t1))"
      and "tx_state t (snd (t_insert_session srv (s\<lparr>rsUserID := uID u\<rparr>) t1)) c2"
      using u by (auto simp: issued_iff) (metis prod.collapse)
    with Ok(2) show ?thesis by (intro body_commit) (simp_all add: pg_Tx_def)
  next
    case (Err e c2)
    with tx_CreateSession [OF st1 Err(1)] show ?thesis by (auto intro: body_Err)
  next
    case (Panic x)
    with tx_CreateSession [OF st1 Panic(1)] show ?thesis by simp
  qed
next
  case (Err e c1)
  with find_or_create_user [OF st Err(1)] show ?thesis by (auto intro: body_Err)
next
  case (Panic x)
  with find_or_create_user [OF st Panic(1)] show ?thesis by simp
qed

section \<open>RotateTokensTx\<close>

definition rotated ::
  "pg_server \<Rightarrow> string \<Rightarrow> RefreshSession \<Rightarrow> int \<Rightarrow> tables \<Rightarrow> User \<Rightarrow> tables \<Rightarrow> bool" where
  "rotated srv old s userID t u t' \<longleftrightarrow>
     u \<in> set (tUsers t) \<and> uID u = userID \<and>
     (\<exists>i. t_insert_session srv (s\<lparr>rsUserID := userID\<rparr>) (t_mark_used old t) = (Some i, t'))"

lemma users_after_rotation:
  "tUsers (snd (t_insert_session srv s (t_mark_used old t))) = tUsers t"
  by (simp add: t_insert_session_def t_mark_used_def Let_def)

lemma RotateTokensTx_body_outcome:
  assumes st: "tx_state t t c"
    and run: "RotateTokensTx_body (pg_Tx srv initial_schema) old s userID c = (r, c')"
  shows "body_outcome (rotated srv old s userID t) t r c'"
  using run unfolding RotateTokensTx_body_def Let_def NewUserRepository_def
    NewSessionRepository_def UserRepository.simps SessionRepository.simps
proof (cases rule: go_try_cases)
  case (Ok _ c1)
  with tx_MarkSessionAsUsed [OF st Ok(1)] have st1: "tx_state t (t_mark_used old t) c1" by simp
  from Ok(2) show ?thesis
  proof (cases rule: go_try_cases)
    case (Ok i c2)
    let ?t2 = "snd (t_insert_session srv (s\<lparr>rsUserID := userID\<rparr>) (t_mark_used old t))"
    from tx_CreateSession [OF st1 Ok(1)] have st2: "tx_state t ?t2 c2"
      and ins: "t_insert_session srv (s\<lparr>rsUserID := userID\<rparr>) (t_mark_used old t) = (Some i, ?t2)"
      by (simp_all add: prod_eq_iff)
    from Ok(2) show ?thesis
    proof (cases rule: go_try_cases)
      case (Ok u c3)
      from tx_GetUserByID [OF st2 Ok(1)] ins have "rotated srv old s userID t u ?t2"
        and "tx_state t ?t2 c3"
        by (auto simp: rotated_def users_after_rotation)
      with Ok(2) show ?thesis by (intro body_commit) (simp_all add: pg_Tx_def)
    next
      case (Err e c3)
      with tx_GetUserByID [OF st2 Err(1)] show ?thesis by (auto intro: body_Err)
    next
      case (Panic x)
      with tx_GetUserByID [OF st2 Panic(1)] show ?thesis by simp
    qed
  next
    case (Err e c2)
    with tx_CreateSession [OF st1 Err(1)] show ?thesis by (auto intro: body_Err)
  next
    case (Panic x)
    with tx_CreateSession [OF st1 Panic(1)] show ?thesis by simp
  qed
next
  case (Err e c1)
  with tx_MarkSessionAsUsed [OF st Err(1)] show ?thesis by (auto intro: body_Err)
next
  case (Panic x)
  with tx_MarkSessionAsUsed [OF st Panic(1)] show ?thesis by simp
qed

section \<open>Both transactions, from begin to end\<close>

lemma IssueTokensTx_outcome:
  assumes "holds t c" and "pg_work c = None"
    and "Storage_IssueTokensTx (pg_DB srv initial_schema) guid s c = (r, c')"
  shows "pg_work c' = None \<and>
    (case r of
       Ok u \<Rightarrow> \<exists>t'. issued srv guid s t u t' \<and> holds t' c'
     | Err e \<Rightarrow> \<exists>t'. (same_rows t t' \<or> (\<exists>u. issued srv guid s t u t')) \<and> holds t' c'
     | Panic _ \<Rightarrow> False)"
  using tx_outcome [OF assms(1,2) IssueTokensTx_body_outcome assms(3) [unfolded
        Storage_IssueTokensTx_def]] .

lemma RotateTokensTx_outcome:
  assumes "holds t c" and "pg_work c = None"
    and "Storage_RotateTokensTx (pg_DB srv initial_schema) old s userID c = (r, c')"
  shows "pg_work c' = None \<and>
    (case r of
       Ok u \<Rightarrow> \<exists>t'. rotated srv old s userID t u t' \<and> holds t' c'
     | Err e \<Rightarrow> \<exists>t'. (same_rows t t' \<or> (\<exists>u. rotated srv old s userID t u t')) \<and> holds t' c'
     | Panic _ \<Rightarrow> False)"
  using tx_outcome [OF assms(1,2) RotateTokensTx_body_outcome assms(3) [unfolded
        Storage_RotateTokensTx_def]] .

end
