(* ===== verification/Postgres_Contract.thy ===== *)
theory Postgres_Contract
  imports Postgres_Tx Storage_Contract
begin

text \<open>
  PostgreSQL implements the storage contract: the abstract users and sessions are read off the
  committed tables, and every method of \<open>NewStorage\<close> on the engine keeps the laws of
  \<open>storage_contract\<close>, whatever calls of the driver fail.
\<close>

section \<open>The abstract store of a database\<close>

definition decode_user :: "row \<Rightarrow> User" where
  "decode_user r =
     (case map snd r of [SInt i, SText g] \<Rightarrow> \<lparr>uID = i, uGUID = g\<rparr> | _ \<Rightarrow> \<lparr>uID = 0, uGUID = ''''\<rparr>)"

definition decode_session :: "row \<Rightarrow> stored" where
  "decode_session r =
     (case map snd r of
        [SInt i, SInt u, SText sel, SText vh, SText ip, SText ua, STime ex, STime cr, SText st,
         SText jti] \<Rightarrow>
          (\<lparr>rsID = i, rsUserID = u, rsSelector = sel, rsVerifierHash = vh, rsUserAgent = ua,
            rsIPAddress = ip, rsAccessTokenJTI = jti, rsCreatedAt = cr, rsExpiresAt = ex\<rparr>, st)
      | _ \<Rightarrow> (\<lparr>rsID = 0, rsUserID = 0, rsSelector = '''', rsVerifierHash = '''', rsUserAgent = '''',
            rsIPAddress = '''', rsAccessTokenJTI = '''', rsCreatedAt = 0, rsExpiresAt = 0\<rparr>, ''''))"

definition users_map :: "User list \<Rightarrow> user_store" where
  "users_map us = map_of (map (\<lambda>u. (uID u, uGUID u)) us)"

definition sessions_map :: "stored list \<Rightarrow> session_store" where
  "sessions_map ss = map_of (map (\<lambda>s. (rsSelector (fst s), s)) ss)"

definition pg_users :: "pgconn \<Rightarrow> user_store" where
  "pg_users c = users_map (map decode_user (db_tables (pg_db c) ''users''))"

definition pg_sessions :: "pgconn \<Rightarrow> session_store" where
  "pg_sessions c = sessions_map (map decode_session (db_tables (pg_db c) ''sessions''))"

definition pg_ready :: "pgconn \<Rightarrow> bool" where
  "pg_ready c \<longleftrightarrow> pg_work c = None \<and> (\<exists>t. holds t c)"

lemma decode_user_row [simp]: "decode_user (user_row u) = u"
  by (simp add: decode_user_def user_row_def)

lemma decode_session_row [simp]: "decode_session (session_row s) = s"
  by (cases s) (simp add: decode_session_def session_row_def)

lemma holds_users: "holds t c \<Longrightarrow> pg_users c = users_map (tUsers t)"
  by (simp add: holds_def encodes_def pg_users_def comp_def)

lemma holds_sessions: "holds t c \<Longrightarrow> pg_sessions c = sessions_map (tSessions t)"
  by (simp add: holds_def encodes_def pg_sessions_def comp_def)

lemma users_map_Some:
  "distinct (map uID us) \<Longrightarrow> users_map us i = Some g \<longleftrightarrow> (\<exists>u \<in> set us. uID u = i \<and> uGUID u = g)"
  unfolding users_map_def by (rule map_of_map_key) (rule distinct_map_inj)

lemma users_map_None: "users_map us i = None \<longleftrightarrow> i \<notin> uID ` set us"
  unfolding users_map_def by (simp add: map_of_map_key_None image_mem_iff)

lemma sessions_map_Some:
  "distinct (map (\<lambda>s. rsSelector (fst s)) ss) \<Longrightarrow>
   sessions_map ss sel = Some s \<longleftrightarrow> s \<in> set ss \<and> rsSelector (fst s) = sel"
  unfolding sessions_map_def
  by (subst map_of_map_key) (auto dest: distinct_map_inj)

lemma sessions_map_None:
  "sessions_map ss sel = None \<longleftrightarrow> sel \<notin> (\<lambda>s. rsSelector (fst s)) ` set ss"
  unfolding sessions_map_def by (simp add: map_of_map_key_None image_mem_iff)

section \<open>The typed operations on the abstract store\<close>

lemma sessions_map_delete:
  assumes "distinct (map (\<lambda>s. rsSelector (fst s)) ss)"
  shows "sessions_map (filter (\<lambda>s. rsUserID (fst s) \<noteq> i) ss) = revoke_user i (sessions_map ss)"
proof (rule ext)
  fix sel
  have d: "distinct (map (\<lambda>s. rsSelector (fst s)) (filter (\<lambda>s. rsUserID (fst s) \<noteq> i) ss))"
    using assms by (rule distinct_map_filter_imp)
  have "sessions_map (filter (\<lambda>s. rsUserID (fst s) \<noteq> i) ss) sel = Some x \<longleftrightarrow>
      revoke_user i (sessions_map ss) sel = Some x" for x
    by (cases x) (auto simp: sessions_map_Some [OF d] sessions_map_Some [OF assms])
  then show "sessions_map (filter (\<lambda>s. rsUserID (fst s) \<noteq> i) ss) sel =
      revoke_user i (sessions_map ss) sel"
    by (metis not_None_eq)
qed

lemma sessions_map_append:
  "rsSelector (fst s) \<notin> (\<lambda>s. rsSelector (fst s)) ` set ss \<Longrightarrow>
   sessions_map (ss @ [s]) = (sessions_map ss)(rsSelector (fst s) \<mapsto> s)"
  unfolding sessions_map_def by (rule map_of_append_key)

lemma users_map_append:
  "uID u \<notin> uID ` set us \<Longrightarrow> users_map (us @ [u]) = (users_map us)(uID u \<mapsto> uGUID u)"
  unfolding users_map_def by (rule map_of_append_key)

lemma sessions_map_mark:
  assumes "distinct (map (\<lambda>s. rsSelector (fst s)) ss)"
  shows "sessions_map (map (\<lambda>s. if rsSelector (fst s) = sel then (fst s, ''used'') else s) ss) =
    use_session sel (sessions_map ss)"
  using assms
proof (induction ss)
  case Nil
  show ?case by (rule ext) (simp add: sessions_map_def use_session_def)
next
  case (Cons s ss)
  have cons: "sessions_map (x # xs) = (sessions_map xs)(rsSelector (fst x) \<mapsto> x)" for x xs
    by (simp add: sessions_map_def)
  show ?case
  proof (cases "rsSelector (fst s) = sel")
    case True
    with Cons.prems have none: "sel \<notin> (\<lambda>s. rsSelector (fst s)) ` set ss" by auto
    then have "map (\<lambda>s. if rsSelector (fst s) = sel then (fst s, ''used'') else s) ss = ss"
      by (intro map_idI_cond) auto
    with True show ?thesis by (cases s) (auto simp: cons use_session_def fun_eq_iff)
  next
    case False
    with Cons show ?thesis
      by (auto simp: cons use_session_def fun_upd_twist split: option.splits)
  qed
qed

section \<open>Every method keeps its law\<close>

lemma sees_db: "sees (\<lambda>c. Some (pg_db c)) t c \<longleftrightarrow> encodes t (pg_db c)"
  by (simp add: sees_def)

lemma pg_readyE:
  assumes "pg_ready c"
  obtains t where "holds t c" and "encodes t (pg_db c)" and "tables_inv t" and "pg_work c = None"
    and "pg_users c = users_map (tUsers t)" and "pg_sessions c = sessions_map (tSessions t)"
  using assms by (auto simp: pg_ready_def holds_users holds_sessions)
    (auto simp: holds_def holds_users holds_sessions)

lemma pg_readyI: "encodes t (pg_db c) \<Longrightarrow> tables_inv t \<Longrightarrow> pg_work c = None \<Longrightarrow> pg_ready c"
  by (auto simp: pg_ready_def holds_def)

lemma encodes_users: "encodes t (pg_db c) \<Longrightarrow> pg_users c = users_map (tUsers t)"
  by (simp add: encodes_def pg_users_def comp_def)

lemma encodes_sessions: "encodes t (pg_db c) \<Longrightarrow> pg_sessions c = sessions_map (tSessions t)"
  by (simp add: encodes_def pg_sessions_def comp_def)

lemma inv_distinct:
  assumes "tables_inv t"
  shows "distinct (map uID (tUsers t))" "distinct (map uGUID (tUsers t))"
    "distinct (map (\<lambda>s. rsSelector (fst s)) (tSessions t))"
  using assms by (simp_all add: tables_inv_def)

abbreviation pg_storage :: "pg_server \<Rightarrow> pgconn Storage" where
  "pg_storage srv \<equiv> NewStorage (pg_DB srv initial_schema)"

lemmas pg_storage_unfold =
  NewStorage_def NewSessionRepository_def NewUserRepository_def pg_DB_def Storage.simps
  SessionRepository.simps UserRepository.simps SqlDB.simps

lemma pg_get_active:
  assumes rdy: "pg_ready c"
    and run: "GetActiveSessionBySelector (Sessions (pg_storage srv)) sel c = (r, c')"
  shows "pg_ready c' \<and> pg_users c' = pg_users c \<and> pg_sessions c' = pg_sessions c \<and>
    (case r of
       Ok s \<Rightarrow> pg_sessions c sel = Some (s, ''active'')
     | Err e \<Rightarrow> errors_Is e ErrSessionNotFound \<longrightarrow> (\<forall>s. pg_sessions c sel \<noteq> Some (s, ''active''))
     | Panic _ \<Rightarrow> False)"
proof -
  obtain t where t: "encodes t (pg_db c)" "tables_inv t" "pg_work c = None"
    using rdy by (rule pg_readyE)
  from db_handle.GetActiveSession_result [of t c srv sel r c'] run t(1)
  have res: "pg_work c' = pg_work c" "encodes t (pg_db c')"
    "case r of
       Ok s \<Rightarrow> (s, ''active'') \<in> set (tSessions t) \<and> rsSelector s = sel
     | Err e \<Rightarrow> errors_Is e ErrSessionNotFound \<longrightarrow>
         (\<forall>s \<in> set (tSessions t). rsSelector (fst s) = sel \<longrightarrow> snd s \<noteq> ''active'')
     | Panic _ \<Rightarrow> False"
    by (simp_all add: sees_db pg_storage_unfold)
  from res(3) show ?thesis
    using res(1,2) t
    by (auto simp: encodes_users encodes_sessions sessions_map_Some [OF inv_distinct(3)]
        intro: pg_readyI split: outcome.splits)
qed

lemma pg_find:
  assumes rdy: "pg_ready c"
    and run: "FindSessionBySelector (Sessions (pg_storage srv)) sel c = (r, c')"
  shows "pg_ready c' \<and> pg_users c' = pg_users c \<and> pg_sessions c' = pg_sessions c \<and>
    (case r of
       Ok s \<Rightarrow> (\<exists>st. pg_sessions c sel = Some (s, st))
     | Err e \<Rightarrow> errors_Is e ErrSessionNotFound \<longrightarrow> pg_sessions c sel = None
     | Panic _ \<Rightarrow> False)"
proof -
  obtain t where t: "encodes t (pg_db c)" "tables_inv t" "pg_work c = None"
    using rdy by (rule pg_readyE)
  from db_handle.FindSession_result [of t c srv sel r c'] run t(1)
  have res: "pg_work c' = pg_work c" "encodes t (pg_db c')"
    "case r of
       Ok s \<Rightarrow> (\<exists>st. (s, st) \<in> set (tSessions t)) \<and> rsSelector s = sel
     | Err e \<Rightarrow> errors_Is e ErrSessionNotFound \<longrightarrow>
         (\<forall>s \<in> set (tSessions t). rsSelector (fst s) \<noteq> sel)
     | Panic _ \<Rightarrow> False"
    by (simp_all add: sees_db pg_storage_unfold)
  from res(3) show ?thesis
    using res(1,2) t
    by (auto simp: encodes_users encodes_sessions sessions_map_Some [OF inv_distinct(3)]
        sessions_map_None image_mem_iff intro: pg_readyI split: outcome.splits)
qed

lemma pg_delete_all:
  assumes rdy: "pg_ready c"
    and run: "DeleteAllUserSessions (Sessions (pg_storage srv)) i c = (r, c')"
  shows "pg_ready c' \<and> pg_users c' = pg_users c \<and>
    (case r of
       Ok _ \<Rightarrow> pg_sessions c' = revoke_user i (pg_sessions c)
     | Err e \<Rightarrow> \<not> errors_Is e ErrSessionNotFound \<and>
         (pg_sessions c' = pg_sessions c \<or> pg_sessions c' = revoke_user i (pg_sessions c))
     | Panic _ \<Rightarrow> False)"
proof -
  obtain t where t: "encodes t (pg_db c)" "tables_inv t" "pg_work c = None"
    using rdy by (rule pg_readyE)
  let ?t = "t_delete_sessions (\<lambda>s. rsUserID s = i) t"
  from db_handle.DeleteAllUserSessions_result [of t c srv i r c'] run t(1)
  have res: "pg_work c' = pg_work c"
    "case r of
       Ok _ \<Rightarrow> encodes ?t (pg_db c')
     | Err e \<Rightarrow> foreign e \<and> (encodes t (pg_db c') \<or> encodes ?t (pg_db c'))
     | Panic _ \<Rightarrow> False"
    by (simp_all add: sees_db pg_storage_unfold split: outcome.splits)
  have eff: "pg_ready c' \<and> pg_users c' = pg_users c \<and>
      pg_sessions c' = revoke_user i (pg_sessions c)" if enc: "encodes ?t (pg_db c')"
  proof -
    have "pg_ready c'" using res(1) t(3) by (intro pg_readyI [OF enc inv_delete_sessions [OF t(2)]]) simp
    moreover have "pg_users c' = pg_users c"
      by (simp add: encodes_users [OF enc] encodes_users [OF t(1)] t_delete_sessions_def)
    moreover have "pg_sessions c' = revoke_user i (pg_sessions c)"
      using sessions_map_delete [OF inv_distinct(3) [OF t(2)], of i]
      by (simp add: encodes_sessions [OF enc] encodes_sessions [OF t(1)] t_delete_sessions_def)
    ultimately show ?thesis by simp
  qed
  have same: "pg_ready c' \<and> pg_users c' = pg_users c \<and> pg_sessions c' = pg_sessions c"
    if "encodes t (pg_db c')"
    using that t res(1) by (auto simp: encodes_users encodes_sessions intro: pg_readyI)
  from res(2) eff same show ?thesis by (auto split: outcome.splits)
qed

lemma pg_get_user:
  assumes rdy: "pg_ready c" and run: "GetUserByID (Users (pg_storage srv)) i c = (r, c')"
  shows "pg_ready c' \<and> pg_users c' = pg_users c \<and> pg_sessions c' = pg_sessions c \<and>
    (case r of
       Ok u \<Rightarrow> uID u = i \<and> pg_users c i = Some (uGUID u)
     | Err e \<Rightarrow> errors_Is e ErrUserNotFound \<longrightarrow> pg_users c i = None
     | Panic _ \<Rightarrow> False)"
proof -
  obtain t where t: "encodes t (pg_db c)" "tables_inv t" "pg_work c = None"
    using rdy by (rule pg_readyE)
  from db_handle.GetUserByID_result [of t c srv i r c'] run t(1)
  have res: "pg_work c' = pg_work c" "encodes t (pg_db c')"
    "case r of
       Ok u \<Rightarrow> u \<in> set (tUsers t) \<and> uID u = i
     | Err e \<Rightarrow> (errors_Is e ErrUserNotFound \<longrightarrow> i \<notin> uID ` set (tUsers t))
         \<and> \<not> errors_Is e ErrSessionNotFound
     | Panic _ \<Rightarrow> False"
    by (simp_all add: sees_db pg_storage_unfold)
  from res(3) show ?thesis
    using res(1,2) t
    by (auto simp: encodes_users encodes_sessions users_map_Some [OF inv_distinct(1)]
        users_map_None intro: pg_readyI split: outcome.splits)
qed

lemma session_id_owner: "s\<lparr>rsUserID := u, rsID := i\<rparr> = s\<lparr>rsID := i, rsUserID := u\<rparr>"
  by (cases s) simp

lemma insert_session_spec:
  assumes inv: "tables_inv t" and ins: "t_insert_session srv s t = (Some i, t')"
  shows "users_map (tUsers t') = users_map (tUsers t)"
    and "sessions_map (tSessions t) (rsSelector s) = None"
    and "sessions_map (tSessions t') = (sessions_map (tSessions t))(rsSelector s \<mapsto>
      (stored_form srv (s\<lparr>rsID := i\<rparr>), ''active''))"
proof -
  have fresh: "rsSelector s \<notin> (\<lambda>s. rsSelector (fst s)) ` set (tSessions t)"
    and i: "i = tSessionSeq t"
    and t': "t' = t\<lparr>tSessionSeq := tSessionSeq t + 1, tSessions := tSessions t @
      [(stored_form srv (s\<lparr>rsID := tSessionSeq t\<rparr>), ''active'')]\<rparr>"
    using ins by (auto simp: t_insert_session_def Let_def split: if_splits)
  show "users_map (tUsers t') = users_map (tUsers t)" by (simp add: t')
  show "sessions_map (tSessions t) (rsSelector s) = None"
    using fresh by (simp add: sessions_map_None)
  have "rsSelector (stored_form srv (s\<lparr>rsID := tSessionSeq t\<rparr>)) = rsSelector s"
    by (simp add: stored_form_def)
  with fresh show "sessions_map (tSessions t') = (sessions_map (tSessions t))(rsSelector s \<mapsto>
      (stored_form srv (s\<lparr>rsID := i\<rparr>), ''active''))"
    by (simp add: t' i sessions_map_append)
qed

lemma insert_user_spec:
  assumes inv: "tables_inv t" and ins: "t_insert_user srv guid t = (Some u, t')"
  shows "pg_uuid_in srv guid = Some (uGUID u)"
    and "users_map (tUsers t) (uID u) = None" and "uGUID u \<notin> ran (users_map (tUsers t))"
    and "users_map (tUsers t') = (users_map (tUsers t))(uID u \<mapsto> uGUID u)"
    and "tSessions t' = tSessions t" and "tables_inv t'"
proof -
  obtain g where g: "pg_uuid_in srv guid = Some g" "g \<notin> uGUID ` set (tUsers t)"
    and u: "u = \<lparr>uID = tUserSeq t, uGUID = g\<rparr>"
    and t': "t' = t\<lparr>tUsers := tUsers t @ [u], tUserSeq := tUserSeq t + 1\<rparr>"
    using ins by (auto simp: t_insert_user_def Let_def split: option.splits if_splits)
  have fresh: "uID u \<notin> uID ` set (tUsers t)"
    using next_user_id_fresh [OF inv] by (simp add: u)
  show "pg_uuid_in srv guid = Some (uGUID u)" using g by (simp add: u)
  show "users_map (tUsers t) (uID u) = None" using fresh by (simp add: users_map_None)
  show "uGUID u \<notin> ran (users_map (tUsers t))"
    using g(2) by (auto simp: u ran_def users_map_Some [OF inv_distinct(1) [OF inv]])
  show "users_map (tUsers t') = (users_map (tUsers t))(uID u \<mapsto> uGUID u)"
    using fresh by (simp add: t' users_map_append)
  show "tSessions t' = tSessions t" by (simp add: t')
  show "tables_inv t'" using inv_insert_user [OF inv, of srv guid] ins by simp
qed

lemma issued_spec:
  assumes inv: "tables_inv t" and iss: "issued srv guid s t u t'"
  shows "issue_spec (stored_form srv) (pg_uuid_in srv) guid s
    (users_map (tUsers t), sessions_map (tSessions t)) u
    (users_map (tUsers t'), sessions_map (tSessions t'))"
proof -
  obtain t1 i where u: "user_of_guid srv guid t u t1"
    and ins: "t_insert_session srv (s\<lparr>rsUserID := uID u\<rparr>) t1 = (Some i, t')"
    using iss by (auto simp: issued_iff)
  let ?goal = "pg_uuid_in srv guid = Some (uGUID u) \<and> tables_inv t1 \<and> tSessions t1 = tSessions t \<and>
    users_map (tUsers t1) = (users_map (tUsers t))(uID u \<mapsto> uGUID u) \<and>
    (users_map (tUsers t) (uID u) = Some (uGUID u) \<or>
     users_map (tUsers t) (uID u) = None \<and> uGUID u \<notin> ran (users_map (tUsers t)))"
  have u1: ?goal
  proof (cases "t_insert_user srv guid t = (Some u, t1)")
    case True
    show ?thesis using insert_user_spec [OF inv True] by simp
  next
    case False
    with u have found: "t1 = t" "u \<in> set (tUsers t)" "pg_uuid_in srv guid = Some (uGUID u)"
      by (auto simp: user_of_guid_def)
    then have "users_map (tUsers t) (uID u) = Some (uGUID u)"
      using users_map_Some [OF inv_distinct(1) [OF inv]] by auto
    with found inv show ?thesis by (simp add: map_upd_triv)
  qed
  then have "tables_inv t1" by simp
  from u1 insert_session_spec [OF this ins] show ?thesis
    by (auto simp: issue_spec_def session_id_owner intro!: exI [of _ i])
qed

lemma rotated_spec:
  assumes inv: "tables_inv t" and rot: "rotated srv old s i t u t'"
  shows "rotate_spec (stored_form srv) old s i
    (users_map (tUsers t), sessions_map (tSessions t)) u
    (users_map (tUsers t'), sessions_map (tSessions t'))"
proof -
  obtain j where u: "u \<in> set (tUsers t)" "uID u = i"
    and ins: "t_insert_session srv (s\<lparr>rsUserID := i\<rparr>) (t_mark_used old t) = (Some j, t')"
    using rot by (auto simp: rotated_def)
  have marked: "tUsers (t_mark_used old t) = tUsers t"
    "sessions_map (tSessions (t_mark_used old t)) = use_session old (sessions_map (tSessions t))"
    using sessions_map_mark [OF inv_distinct(3) [OF inv]] by (simp_all add: t_mark_used_def)
  note spec = insert_session_spec [OF inv_mark_used [OF inv] ins, unfolded marked]
  from spec(2) have "sessions_map (tSessions t) (rsSelector s) = None"
    by (auto simp: use_session_def split: option.splits if_splits)
  with spec u show ?thesis
    using users_map_Some [OF inv_distinct(1) [OF inv]]
    by (auto simp: rotate_spec_def session_id_owner intro!: exI [of _ j])
qed

lemma pg_issue:
  assumes rdy: "pg_ready c" and run: "IssueTokensTx (pg_storage srv) guid s c = (r, c')"
  shows "pg_ready c' \<and>
    (case r of
       Ok u \<Rightarrow> issue_spec (stored_form srv) (pg_uuid_in srv) guid s
           (pg_users c, pg_sessions c) u (pg_users c', pg_sessions c')
     | Err e \<Rightarrow> pg_users c' = pg_users c \<and> pg_sessions c' = pg_sessions c \<or>
         (\<exists>u. issue_spec (stored_form srv) (pg_uuid_in srv) guid s
           (pg_users c, pg_sessions c) u (pg_users c', pg_sessions c'))
     | Panic _ \<Rightarrow> False)"
proof -
  obtain t where t: "holds t c" "tables_inv t" "pg_work c = None"
    using rdy by (rule pg_readyE)
  have "pg_work c' = None \<and>
    (case r of
       Ok u \<Rightarrow> \<exists>t'. issued srv guid s t u t' \<and> holds t' c'
     | Err e \<Rightarrow> \<exists>t'. (same_rows t t' \<or> (\<exists>u. issued srv guid s t u t')) \<and> holds t' c'
     | Panic _ \<Rightarrow> False)"
    using run by (intro IssueTokensTx_outcome [OF t(1,3)]) (simp add: NewStorage_def)
  then show ?thesis
    using issued_spec [OF t(2)] t(1)
    by (fastforce simp: holds_users holds_sessions pg_ready_def same_rows_def
        split: outcome.splits)
qed

lemma pg_rotate:
  assumes rdy: "pg_ready c" and run: "RotateTokensTx (pg_storage srv) old s i c = (r, c')"
  shows "pg_ready c' \<and>
    (case r of
       Ok u \<Rightarrow> rotate_spec (stored_form srv) old s i
           (pg_users c, pg_sessions c) u (pg_users c', pg_sessions c')
     | Err e \<Rightarrow> pg_users c' = pg_users c \<and> pg_sessions c' = pg_sessions c \<or>
         (\<exists>u. rotate_spec (stored_form srv) old s i
           (pg_users c, pg_sessions c) u (pg_users c', pg_sessions c'))
     | Panic _ \<Rightarrow> False)"
proof -
  obtain t where t: "holds t c" "tables_inv t" "pg_work c = None"
    using rdy by (rule pg_readyE)
  have "pg_work c' = None \<and>
    (case r of
       Ok u \<Rightarrow> \<exists>t'. rotated srv old s i t u t' \<and> holds t' c'
     | Err e \<Rightarrow> \<exists>t'. (same_rows t t' \<or> (\<exists>u. rotated srv old s i t u t')) \<and> holds t' c'
     | Panic _ \<Rightarrow> False)"
    using run by (intro RotateTokensTx_outcome [OF t(1,3)]) (simp add: NewStorage_def)
  then show ?thesis
    using rotated_spec [OF t(2)] t(1)
    by (fastforce simp: holds_users holds_sessions pg_ready_def same_rows_def
        split: outcome.splits)
qed

lemma pg_selector_key: "pg_ready c \<Longrightarrow> pg_sessions c sel = Some (s, st) \<Longrightarrow> rsSelector s = sel"
  by (erule pg_readyE) (auto simp: sessions_map_Some [OF inv_distinct(3)])

lemma pg_owner_exists:
  assumes rdy: "pg_ready c" and ses: "pg_sessions c sel = Some (s, st)"
  shows "pg_users c (rsUserID s) \<noteq> None"
proof -
  obtain t where t: "holds t c" "tables_inv t" "pg_work c = None"
    using rdy by (rule pg_readyE)
  with ses have "(s, st) \<in> set (tSessions t)"
    by (simp add: holds_sessions sessions_map_Some [OF inv_distinct(3)])
  with t(2) have "rsUserID s \<in> uID ` set (tUsers t)" by (auto simp: tables_inv_def)
  with t(1) show ?thesis by (simp add: holds_users users_map_None)
qed

interpretation pg: storage_contract "pg_storage srv" pg_ready pg_users pg_sessions
  "stored_form srv" "pg_uuid_in srv"
  for srv
proof (unfold_locales, goal_cases)
  case 1
  then show ?case by (rule pg_selector_key)
next
  case 2
  then show ?case by (rule pg_owner_exists)
next
  case (3 s)
  show ?case by (auto simp: stored_form_def)
next
  case 4
  then show ?case by (rule pg_get_active)
next
  case 5
  then show ?case by (rule pg_find)
next
  case 6
  then show ?case by (rule pg_delete_all)
next
  case 7
  then show ?case by (rule pg_get_user)
next
  case 8
  then show ?case by (rule pg_issue)
next
  case 9
  then show ?case by (rule pg_rotate)
qed

lemma pg_guid_unique:
  assumes "pg_ready c" and "pg_users c i = Some g" and "pg_users c j = Some g"
  shows "i = j"
proof -
  obtain t where t: "tables_inv t" "pg_users c = users_map (tUsers t)"
    using assms(1) by (rule pg_readyE)
  with assms(2,3) obtain u v where "u \<in> set (tUsers t)" "uID u = i" "uGUID u = g"
    "v \<in> set (tUsers t)" "uID v = j" "uGUID v = g"
    by (auto simp: users_map_Some [OF inv_distinct(1)])
  with inv_distinct(2) [OF t(1)] show ?thesis by (metis inj_onD distinct_map)
qed

end
