(* ===== verification/Auth_Instance.thy ===== *)
theory Auth_Instance
  imports Auth_Contract Postgres_Contract
begin

text \<open>
  The authentication service as \<open>cmd/main.go\<close> builds it: over \<open>postgres.NewStorage\<close> on the
  PostgreSQL engine and \<open>redis.NewTokenStorage\<close> on the Redis engine.
\<close>

abbreviation main_auth ::
  "pg_server \<Rightarrow> TokenConfig \<Rightarrow> string \<Rightarrow> (pgconn, redisconn) AuthService" where
  "main_auth srv cfg url \<equiv>
     NewAuthService (NewTokenService cfg (NewTokenStorage redis_Client)) (pg_storage srv)
       (NewWebhookService url)"

lemma main_auth_service:
  assumes "jwt_laws J decode genuine"
  shows "auth_service (main_auth srv cfg url) pg_ready pg_users pg_sessions (stored_form srv)
    (pg_uuid_in srv) redis_denied redis_view J decode genuine"
  unfolding auth_service_def
  using pg.storage_contract_axioms [of srv]
    token_serviceI [OF assms, of "NewTokenService cfg (NewTokenStorage redis_Client)"
      redis_denied redis_view] redis.ts.token_storage_axioms
  by (simp add: NewAuthService_def NewTokenService_def)

interpretation main_auth: auth_service "main_auth srv cfg url" pg_ready pg_users pg_sessions
  "stored_form srv" "pg_uuid_in srv" redis_denied redis_view plain_jwt jwt_decode jwt_genuine
  for srv cfg url
  by (rule main_auth_service [OF jwt.jwt_laws_axioms])

end
