(* ===== verification/Postgres_Live.thy ===== *)
theory Postgres_Live
  imports Postgres_Contract
begin

text \<open>
  What the storage answers when no call of the driver fails: every method succeeds on data the
  server accepts, and reports a missing row as such. This complements \<open>Postgres_Contract\<close>, which
  says what an answer means whatever fails. The locale \<open>dbtx_live\<close> extends the contract of a
  handle with the progress of its calls; \<open>storage_live\<close> extends that of the storage.
\<close>

section \<open>Handles that answer\<close>

locale dbtx_live = dbtx srv h cur frame
  for srv :: pg_server and h :: "'d DBTX" and cur :: "'d \<Rightarrow> db option" and frame :: "'d \<Rightarrow> 'x" +
  fixes calm :: "'d \<Rightarrow> bool"
  assumes exec_progress: "calm c \<Longrightarrow> cur c = Some d \<Longrightarrow>
      \<exists>c'. ExecContext h st args c = (drop_rows (fst (sql_eval srv initial_schema st args d)), c') \<and>
        cur c' = Some (snd (sql_eval srv initial_schema st args d)) \<and> calm c'"
    and query_row_progress: "calm c \<Longrightarrow> cur c = Some d \<Longrightarrow>
      \<exists>c'. QueryRowContext h st args c =
          (first_of (fst (sql_eval srv initial_schema st args d)), c') \<and>
        cur c' = Some (snd (sql_eval srv initial_schema st args d)) \<and> calm c'"
begin

lemma query_row_live:
  assumes "calm c" and "sees cur t c" and "stmt_effect srv st args t (Some rows, t')"
  obtains c' where "QueryRowContext h st args c = (first_of (Ok rows), c')" and "sees cur t' c'"
    and "calm c'"
proof -
  from assms(2) obtain d where d: "cur c = Some d" "encodes t d" by (auto simp: sees_def)
  with assms(3) have "implements (sql_eval srv initial_schema st args d) (Some rows, t')"
    by (simp add: stmt_effect_def)
  with query_row_progress [OF assms(1) d(1), of st args] show thesis
    by (auto simp: implements_def sees_def intro: that)
qed

lemma exec_live:
  assumes "calm c" and "sees cur t c" and "stmt_effect srv st args t (Some rows, t')"
  obtains c' where "ExecContext h st args c = (Ok (), c')" and "sees cur t' c'" and "calm c'"
proof -
  from assms(2) obtain d where d: "cur c = Some d" "encodes t d" by (auto simp: sees_def)
  with assms(3) have "implements (sql_eval srv initial_schema st args d) (Some rows, t')"
    by (simp add: stmt_effect_def)
  with exec_progress [OF assms(1) d(1), of st args] show thesis
    by (auto simp: implements_def sees_def drop_rows_def intro: that)
qed

lemma GetUserByID_live:
  assumes at: "calm c" "sees cur t c" "tables_inv t" and i: "int64_range i"
  obtains c' where "sees cur t c'" and "calm c'"
    and "(\<exists>u \<in> set (tUsers t). uID u = i \<and> UserRepository_GetUserByID h i c = (Ok u, c')) \<or>
      i \<notin> uID ` set (tUsers t) \<and>
      UserRepository_GetUserByID h i c = (Err (Sentinel ErrUserNotFound), c')"
proof -
  have eff: "stmt_effect srv GetUserByID_query [SInt i] t
      (Some (map user_cols (filter (\<lambda>u. uID u = i) (tUsers t))), t)"
    using eval_GetUserByID [of srv i t] i by simp
  obtain c' where c': "QueryRowContext h GetUserByID_query [SInt i] c =
      (first_of (Ok (map user_cols (filter (\<lambda>u. uID u = i) (tUsers t)))), c')"
    "sees cur t c'" "calm c'"
    by (rule query_row_live [OF at(1,2) eff])
  from filter_by_key_distinct [OF inv_distinct(1) [OF at(3)], of i] show thesis
    by (elim disjE bexE conjE; intro that [of c'] c'(2,3))
      (auto simp: UserRepository_GetUserByID_def go_try_def c'(1) first_of_def filter_empty_conv)
qed

lemma GetUserByGUID_live:
  assumes at: "calm c" "sees cur t c" "tables_inv t" and g: "pg_uuid_in srv g = Some g'"
  obtains c' where "sees cur t c'" and "calm c'"
    and "(\<exists>u \<in> set (tUsers t). uGUID u = g' \<and> UserRepository_GetUserByGUID h g c = (Ok u, c')) \<or>
      g' \<notin> uGUID ` set (tUsers t) \<and>
      UserRepository_GetUserByGUID h g c = (Err (Sentinel ErrUserNotFound), c')"
proof -
  have eff: "stmt_effect srv GetUserByGUID_query [SText g] t
      (Some (map user_cols (filter (\<lambda>u. uGUID u = g') (tUsers t))), t)"
    using eval_GetUserByGUID [of srv g t] g by simp
  obtain c' where c': "QueryRowContext h GetUserByGUID_query [SText g] c =
      (first_of (Ok (map user_cols (filter (\<lambda>u. uGUID u = g') (tUsers t)))), c')"
    "sees cur t c'" "calm c'"
    by (rule query_row_live [OF at(1,2) eff])
  from filter_by_key_distinct [OF inv_distinct(2) [OF at(3)], of g'] show thesis
    by (elim disjE bexE conjE; intro that [of c'] c'(2,3))
      (auto simp: UserRepository_GetUserByGUID_def go_try_def c'(1) first_of_def filter_empty_conv)
qed

lemma CreateUser_live:
  assumes at: "calm c" "sees cur t c" "tables_inv t" and ins: "t_insert_user srv g t = (Some u, t')"
  obtains c' where "UserRepository_CreateUser h g c = (Ok u, c')" and "sees cur t' c'" and "calm c'"
proof -
  have eff: "stmt_effect srv CreateUser_query [SText g] t (Some [user_cols u], t')"
    using eval_CreateUser [OF at(3), of srv g] ins by simp
  obtain c' where c': "QueryRowContext h CreateUser_query [SText g] c =
      (first_of (Ok [user_cols u]), c')" "sees cur t' c'" "calm c'"
    by (rule query_row_live [OF at(1,2) eff])
  then show thesis
    by (intro that [of c']) (simp_all add: UserRepository_CreateUser_def go_try_def first_of_def)
qed

lemma CreateSession_live:
  assumes at: "calm c" "sees cur t c" "tables_inv t"
    and ins: "t_insert_session srv s t = (Some i, t')"
  obtains c' where "SessionRepository_CreateSession h s c = (Ok i, c')" and "sees cur t' c'"
    and "calm c'"
proof -
  have eff: "stmt_effect srv CreateSession_query (session_args s) t (Some [[SInt i]], t')"
    using eval_CreateSession [OF at(3), of srv s] ins by simp
  obtain c' where c': "QueryRowContext h CreateSession_query (session_args s) c =
      (first_of (Ok [[SInt i]]), c')" "sees cur t' c'" "calm c'"
    by (rule query_row_live [OF at(1,2) eff])
  then show thesis
    by (intro that [of c'])
      (simp_all add: SessionRepository_CreateSession_def go_try_def first_of_def session_args_def
        Scan_id_def)
qed

lemma MarkSessionAsUsed_live:
  assumes at: "calm c" "sees cur t c" and ok: "pg_text_ok srv sel" "pg_text_ok srv ''used''"
  obtains c' where "SessionRepository_MarkSessionAsUsed h sel c = (Ok (), c')"
    and "sees cur (t_mark_used sel t) c'" and "calm c'"
proof -
  have eff: "stmt_effect srv MarkSessionAsUsed_query [SText sel] t (Some [], t_mark_used sel t)"
    using eval_MarkSessionAsUsed [of srv sel t] ok by simp
  obtain c' where c': "ExecContext h MarkSessionAsUsed_query [SText sel] c = (Ok (), c')"
    "sees cur (t_mark_used sel t) c'" "calm c'"
    by (rule exec_live [OF at eff])
  then show thesis
    by (intro that [of c']) (simp_all add: SessionRepository_MarkSessionAsUsed_def go_try_def)
qed

lemma DeleteAllUserSessions_live:
  assumes at: "calm c" "sees cur t c" and i: "int64_range i"
  obtains c' where "SessionRepository_DeleteAllUserSessions h i c = (Ok (), c')" and "calm c'"
proof -
  have eff: "stmt_effect srv DeleteAllUserSessions_query [SInt i] t
      (Some [], t_delete_sessions (\<lambda>s. rsUserID s = i) t)"
    using eval_DeleteAllUserSessions [of srv i t] i by simp
  obtain c' where c': "ExecContext h DeleteAllUserSessions_query [SInt i] c = (Ok (), c')" "calm c'"
    by (rule exec_live [OF at eff])
  then show thesis
    by (intro that [of c']) (simp_all add: SessionRepository_DeleteAllUserSessions_def go_try_def)
qed

lemma GetActiveSession_live:
  assumes at: "calm c" "sees cur t c" "tables_inv t"
    and ok: "pg_text_ok srv sel" "pg_text_ok srv ''active''"
  obtains c' where "calm c'" and "sees cur t c'"
    and "(\<exists>s. (s, ''active'') \<in> set (tSessions t) \<and> rsSelector s = sel \<and>
        SessionRepository_GetActiveSessionBySelector h sel c = (Ok s, c')) \<or>
      (\<forall>s. (s, ''active'') \<in> set (tSessions t) \<longrightarrow> rsSelector s \<noteq> sel) \<and>
      SessionRepository_GetActiveSessionBySelector h sel c = (Err (session_not_found sel), c')"
proof -
  let ?rows = "filter (\<lambda>s. rsSelector (fst s) = sel \<and> snd s = ''active'') (tSessions t)"
  have eff: "stmt_effect srv GetActiveSessionBySelector_query [SText sel] t
      (Some (map (\<lambda>s. session_cols (fst s)) ?rows), t)"
    using eval_GetActiveSession [of srv sel t] ok by simp
  obtain c' where c': "QueryRowContext h GetActiveSessionBySelector_query [SText sel] c =
      (first_of (Ok (map (\<lambda>s. session_cols (fst s)) ?rows)), c')" "calm c'" "sees cur t c'"
    by (rule query_row_live [OF at(1,2) eff])
  show thesis
  proof (cases ?rows)
    case Nil
    with c' show ?thesis
      by (intro that [of c'])
        (auto simp: SessionRepository_GetActiveSessionBySelector_def go_try_def first_of_def
          filter_empty_conv)
  next
    case (Cons x xs)
    then have "x \<in> set ?rows" by simp
    then have "x \<in> set (tSessions t)" "rsSelector (fst x) = sel" "snd x = ''active''"
      by simp_all
    moreover have "SessionRepository_GetActiveSessionBySelector h sel c = (Ok (fst x), c')"
      using c' Cons
      by (simp add: SessionRepository_GetActiveSessionBySelector_def go_try_def first_of_def)
    moreover from calculation have "(fst x, ''active'') \<in> set (tSessions t)"
      by (metis prod.collapse)
    ultimately show ?thesis using c'(2,3) by (intro that [of c']) blast+
  qed
qed

lemma FindSession_live:
  assumes at: "calm c" "sees cur t c" and ok: "pg_text_ok srv sel"
  obtains c' where "calm c'"
    and "(\<exists>s \<in> set (tSessions t). rsSelector (fst s) = sel \<and>
        SessionRepository_FindSessionBySelector h sel c = (Ok (fst s), c')) \<or>
      sel \<notin> (\<lambda>s. rsSelector (fst s)) ` set (tSessions t) \<and>
      SessionRepository_FindSessionBySelector h sel c = (Err (session_not_found sel), c')"
proof -
  let ?rows = "filter (\<lambda>s. rsSelector (fst s) = sel) (tSessions t)"
  have eff: "stmt_effect srv FindSessionBySelector_query [SText sel] t
      (Some (map (\<lambda>s. session_cols (fst s)) ?rows), t)"
    using eval_FindSession [of srv sel t] ok by simp
  obtain c' where c': "QueryRowContext h FindSessionBySelector_query [SText sel] c =
      (first_of (Ok (map (\<lambda>s. session_cols (fst s)) ?rows)), c')" "calm c'"
    by (rule query_row_live [OF at eff])
  show thesis
  proof (cases ?rows)
    case Nil
    with c' show ?thesis
      by (intro that [of c'])
        (auto simp: SessionRepository_FindSessionBySelector_def go_try_def first_of_def
          filter_empty_conv)
  next
    case (Cons x xs)
    then have "x \<in> set ?rows" by simp
    then have "x \<in> set (tSessions t)" "rsSelector (fst x) = sel" by simp_all
    moreover have "SessionRepository_FindSessionBySelector h sel c = (Ok (fst x), c')"
      using c' Cons
      by (simp add: SessionRepository_FindSessionBySelector_def go_try_def first_of_def)
    ultimately show ?thesis using c'(2) by (intro that [of c']) auto
  qed
qed

end

section \<open>The handles of the engine answer while no fault is planned\<close>

lemma calm_pop: "pg_faults c = [] \<Longrightarrow> pop_fault c = c \<and> next_fault c = NoFault"
  by (cases c) (simp add: pop_fault_def next_fault_def)

lemma run_db_calm:
  "pg_faults c = [] \<Longrightarrow> run_db srv sch st args c =
     (fst (sql_eval srv sch st args (pg_db c)), c\<lparr>pg_db := snd (sql_eval srv sch st args (pg_db c))\<rparr>)"
  by (simp add: run_db_def calm_pop split: prod.split)

lemma run_tx_calm:
  "pg_faults c = [] \<Longrightarrow> pg_work c = Some w \<Longrightarrow> run_tx srv sch st args c =
     (fst (sql_eval srv sch st args w), c\<lparr>pg_work := Some (snd (sql_eval srv sch st args w))\<rparr>)"
  by (simp add: run_tx_def calm_pop split: prod.split)

interpretation db_live: dbtx_live srv "dbtx_of (run_db srv initial_schema)"
  "\<lambda>c. Some (pg_db c)" pg_work "\<lambda>c. pg_faults c = []"
  for srv
  by unfold_locales (simp_all add: dbtx_of_exec dbtx_of_query_row run_db_calm)

interpretation tx_live: dbtx_live srv "dbtx_of (run_tx srv initial_schema)" pg_work pg_db
  "\<lambda>c. pg_faults c = []"
  for srv
  by unfold_locales (simp_all add: dbtx_of_exec dbtx_of_query_row run_tx_calm)

section \<open>The transactions commit\<close>

lemma begin_calm:
  "pg_faults c = [] \<Longrightarrow> begin_tx srv sch c = (Ok (pg_Tx srv sch), c\<lparr>pg_work := Some (pg_db c)\<rparr>)"
  by (simp add: begin_tx_def calm_pop)

lemma commit_calm:
  "pg_faults c = [] \<Longrightarrow> pg_work c = Some w \<Longrightarrow> commit_tx c = (Ok (), c\<lparr>pg_db := w, pg_work := None\<rparr>)"
  by (simp add: commit_tx_def calm_pop)

text \<open>The end of both bodies: commit, then the deferred rollback finds nothing to do.\<close>

lemma tx_commits:
  assumes calm: "pg_faults c = []"
    and body: "m (pg_Tx srv initial_schema) (c\<lparr>pg_work := Some (pg_db c)\<rparr>) =
      go_try commit_tx h (\<lambda>_. go_ret u) c2" and c2: "pg_faults c2 = []" "pg_work c2 \<noteq> None"
  shows "\<exists>c'. go_try (sqldb_BeginTx (pg_DB srv initial_schema)) (go_wrap p)
      (\<lambda>tx. go_defer (tx_Rollback tx) (m tx)) c = (Ok u, c') \<and> pg_faults c' = []"
proof -
  from c2(2) obtain w where "pg_work c2 = Some w" by auto
  with c2(1) have "go_try commit_tx h (\<lambda>_. go_ret u) c2 = (Ok u, c2\<lparr>pg_db := w, pg_work := None\<rparr>)"
    by (simp add: go_try_def commit_calm)
  with calm body c2(1) show ?thesis
    by (simp add: go_try_def go_defer_def pg_DB_def pg_Tx_def begin_calm rollback_closed)
qed

lemma pg_Tx_sel:
  "tx_DBTX (pg_Tx srv sch) = dbtx_of (run_tx srv sch)" "tx_Commit (pg_Tx srv sch) = commit_tx"
  by (simp_all add: pg_Tx_def)

lemma sees_work: "sees pg_work t c \<Longrightarrow> pg_work c \<noteq> None"
  by (auto simp: sees_def)

lemma RotateTokensTx_live:
  assumes h: "holds t c" and calm: "pg_faults c = []"
    and ok: "pg_text_ok srv old" "pg_text_ok srv ''used''"
    and ins: "t_insert_session srv (s\<lparr>rsUserID := i\<rparr>) (t_mark_used old t) = (Some j, t')"
    and i: "i \<in> uID ` set (tUsers t)" "int64_range i"
  shows "\<exists>u c'. Storage_RotateTokensTx (pg_DB srv initial_schema) old s i c = (Ok u, c') \<and>
    pg_faults c' = []"
proof -
  obtain c0 where c0: "c0 = c\<lparr>pg_work := Some (pg_db c)\<rparr>" by blast
  let ?h = "dbtx_of (run_tx srv initial_schema)"
  have inv: "tables_inv t" and sees: "sees pg_work t c0"
    using h by (simp_all add: holds_def sees_def c0)
  obtain c1 where c1: "SessionRepository_MarkSessionAsUsed (dbtx_of (run_tx srv initial_schema)) old c0 =
      (Ok (), c1)" "sees pg_work (t_mark_used old t) c1" "pg_faults c1 = []"
    by (rule tx_live.MarkSessionAsUsed_live [OF _ sees ok]) (use calm in \<open>simp_all add: c0\<close>)
  obtain c2 where c2: "SessionRepository_CreateSession (dbtx_of (run_tx srv initial_schema))
      (s\<lparr>rsUserID := i\<rparr>) c1 = (Ok j, c2)" "sees pg_work t' c2" "pg_faults c2 = []"
    by (rule tx_live.CreateSession_live [OF c1(3,2) inv_mark_used [OF inv] ins])
  have t': "t' = snd (t_insert_session srv (s\<lparr>rsUserID := i\<rparr>) (t_mark_used old t))"
    by (simp add: ins)
  have inv': "tables_inv t'" unfolding t' by (rule inv_insert_session [OF inv_mark_used [OF inv]])
  have users: "tUsers t' = tUsers t" by (simp add: t' users_after_rotation)
  obtain c3 u where c3: "UserRepository_GetUserByID (dbtx_of (run_tx srv initial_schema)) i c2 = (Ok u, c3)"
    "sees pg_work t' c3" "pg_faults c3 = []"
    by (rule tx_live.GetUserByID_live [OF c2(3,2) inv' i(2)]) (use i(1) users in auto)
  have body: "RotateTokensTx_body (pg_Tx srv initial_schema) old s i c0 =
      go_try commit_tx (go_wrap ''commit transaction: '') (\<lambda>_. go_ret u) c3"
    unfolding RotateTokensTx_body_def Let_def NewSessionRepository_def NewUserRepository_def
      SessionRepository.simps UserRepository.simps
      pg_Tx_sel go_try_Ok [where m = "SessionRepository_MarkSessionAsUsed ?h old" and s = c0, OF c1(1)]
      go_try_Ok [where m = "SessionRepository_CreateSession ?h (s\<lparr>rsUserID := i\<rparr>)" and s = c1, OF c2(1)]
      go_try_Ok [where m = "UserRepository_GetUserByID ?h i" and s = c2, OF c3(1)] ..
  show ?thesis
    unfolding Storage_RotateTokensTx_def
    using tx_commits [where m = "\<lambda>tx. RotateTokensTx_body tx old s i", OF calm body [unfolded c0] c3(3)
        sees_work [OF c3(2)], of "''begin transaction: ''"] by blast
qed

lemma IssueTokensTx_live:
  assumes h: "holds t c" and calm: "pg_faults c = []"
    and g: "pg_uuid_in srv guid = Some g" and room: "int64_range (tUserSeq t)"
    and ins: "\<And>u t1. user_of_guid srv guid t u t1 \<Longrightarrow>
      \<exists>j t'. t_insert_session srv (s\<lparr>rsUserID := uID u\<rparr>) t1 = (Some j, t')"
  shows "\<exists>u c'. Storage_IssueTokensTx (pg_DB srv initial_schema) guid s c = (Ok u, c') \<and>
    pg_faults c' = []"
proof -
  obtain c0 where c0: "c0 = c\<lparr>pg_work := Some (pg_db c)\<rparr>" by blast
  let ?h = "dbtx_of (run_tx srv initial_schema)"
  let ?user = "go_try (UserRepository_GetUserByGUID ?h guid)
    (\<lambda>err. if errors_Is err ErrUserNotFound
       then go_try (UserRepository_CreateUser ?h guid) (go_wrap ''failed to create user in tx: '') go_ret
       else go_wrap ''failed to get user by guid in tx: '' err) go_ret"
  have inv: "tables_inv t" and sees: "sees pg_work t c0"
    using h by (simp_all add: holds_def sees_def c0)
  obtain u t1 c2 where u: "user_of_guid srv guid t u t1" "?user c0 = (Ok u, c2)" "sees pg_work t1 c2"
      "pg_faults c2 = []" "tables_inv t1"
  proof -
    obtain c1 where c1: "sees pg_work t c1" "pg_faults c1 = []"
      "(\<exists>u \<in> set (tUsers t). uGUID u = g \<and> UserRepository_GetUserByGUID ?h guid c0 = (Ok u, c1)) \<or>
        g \<notin> uGUID ` set (tUsers t) \<and>
        UserRepository_GetUserByGUID ?h guid c0 = (Err (Sentinel ErrUserNotFound), c1)"
      by (rule tx_live.GetUserByGUID_live [OF _ sees inv g]) (use calm in \<open>auto simp: c0\<close>)
    from c1(3) show thesis
    proof (elim disjE bexE conjE)
      fix u assume "u \<in> set (tUsers t)" "uGUID u = g"
        "UserRepository_GetUserByGUID ?h guid c0 = (Ok u, c1)"
      with c1 g inv show thesis
        by (intro that [of u t c1]) (auto simp: user_of_guid_def go_try_def)
    next
      assume new: "g \<notin> uGUID ` set (tUsers t)"
        and run: "UserRepository_GetUserByGUID ?h guid c0 = (Err (Sentinel ErrUserNotFound), c1)"
      obtain u t1 where created: "t_insert_user srv guid t = (Some u, t1)"
        using new g room by (auto simp: t_insert_user_def Let_def)
      obtain c2 where c2: "UserRepository_CreateUser ?h guid c1 = (Ok u, c2)" "sees pg_work t1 c2"
        "pg_faults c2 = []"
        by (rule tx_live.CreateUser_live [OF c1(2,1) inv created])
      with run created inv_insert_user [OF inv, of srv guid] show thesis
        by (intro that [of u t1 c2]) (auto simp: user_of_guid_def go_try_def)
    qed
  qed
  from ins [OF u(1)] obtain j t'
    where ins': "t_insert_session srv (s\<lparr>rsUserID := uID u\<rparr>) t1 = (Some j, t')" by blast
  obtain c3 where c3: "SessionRepository_CreateSession ?h (s\<lparr>rsUserID := uID u\<rparr>) c2 = (Ok j, c3)"
    "sees pg_work t' c3" "pg_faults c3 = []"
    by (rule tx_live.CreateSession_live [OF u(4,3,5) ins'])
  have body: "IssueTokensTx_body (pg_Tx srv initial_schema) guid s c0 =
      go_try commit_tx (go_wrap ''commit transaction: '') (\<lambda>_. go_ret u) c3"
    unfolding IssueTokensTx_body_def Let_def NewSessionRepository_def NewUserRepository_def
      SessionRepository.simps UserRepository.simps
      pg_Tx_sel go_try_Ok [where m = ?user and s = c0, OF u(2)] 
      go_try_Ok [where m = "SessionRepository_CreateSession ?h (s\<lparr>rsUserID := uID u\<rparr>)" and s = c2, OF c3(1)] ..
  show ?thesis
    unfolding Storage_IssueTokensTx_def
    using tx_commits [where m = "\<lambda>tx. IssueTokensTx_body tx guid s", OF calm body [unfolded c0] c3(3)
        sees_work [OF c3(2)], of "''begin transaction: ''"] by blast
qed

section \<open>The engine implements the live contract\<close>

definition pg_healthy :: "pg_server \<Rightarrow> pgconn \<Rightarrow> bool" where
  "pg_healthy srv c \<longleftrightarrow> pg_ready c \<and> pg_faults c = [] \<and>
     pg_text_ok srv ''active'' \<and> pg_text_ok srv ''used''"

definition pg_room :: "pgconn \<Rightarrow> bool" where
  "pg_room c \<longleftrightarrow> int64_range (db_seqs (pg_db c) ''users'') \<and> int64_range (db_seqs (pg_db c) ''sessions'')"

definition same_seqs :: "pgconn \<Rightarrow> pgconn \<Rightarrow> bool" where
  "same_seqs c c' \<longleftrightarrow> (\<forall>n \<in> {''users'', ''sessions''}. db_seqs (pg_db c') n = db_seqs (pg_db c) n)"

text \<open>Room for \<open>n\<close> more sessions after the next one.\<close>

definition pg_space :: "nat \<Rightarrow> pgconn \<Rightarrow> bool" where
  "pg_space n c \<longleftrightarrow> pg_room c \<and> int64_range (db_seqs (pg_db c) ''sessions'' + int n)"

lemma texts_ok_iff: "texts_ok srv s = session_texts (pg_text_ok srv) s"
  by (auto simp: texts_ok_def session_texts_def)

lemma insert_session_fits:
  assumes "int64_range (rsUserID s)" and "texts_ok srv s" and "int64_range (tSessionSeq t)"
    and "rsSelector s \<notin> (\<lambda>s. rsSelector (fst s)) ` set (tSessions t)"
    and "rsUserID s \<in> uID ` set (tUsers t)"
  shows "\<exists>j t'. t_insert_session srv s t = (Some j, t')"
  using assms by (auto simp: t_insert_session_def Let_def)

lemma texts_ok_owner [simp]: "texts_ok srv (s\<lparr>rsUserID := i\<rparr>) = texts_ok srv s"
  by (simp add: texts_ok_def)

lemma session_texts_owner [simp]: "session_texts p (s\<lparr>rsUserID := i\<rparr>) = session_texts p s"
  by (simp add: session_texts_def)

lemma mark_used_keeps [simp]:
  "(\<lambda>s. rsSelector (fst s)) ` set (tSessions (t_mark_used old t)) =
   (\<lambda>s. rsSelector (fst s)) ` set (tSessions t)"
  "tUsers (t_mark_used old t) = tUsers t" "tSessionSeq (t_mark_used old t) = tSessionSeq t"
proof -
  have "map (\<lambda>s. rsSelector (fst s)) (tSessions (t_mark_used old t)) =
      map (\<lambda>s. rsSelector (fst s)) (tSessions t)"
    by (simp add: t_mark_used_def)
  then show "(\<lambda>s. rsSelector (fst s)) ` set (tSessions (t_mark_used old t)) =
      (\<lambda>s. rsSelector (fst s)) ` set (tSessions t)"
    by (metis set_map)
qed (simp_all add: t_mark_used_def)

lemma pg_rotate_live:
  assumes h: "pg_healthy srv c" and room: "pg_room c" and old: "pg_text_ok srv old"
    and texts: "session_texts (pg_text_ok srv) s" and fresh: "pg_sessions c (rsSelector s) = None"
    and i: "pg_users c i \<noteq> None" and run: "RotateTokensTx (pg_storage srv) old s i c = (rw, c')"
  shows "pg_healthy srv c' \<and> (\<exists>u. rw = Ok u)"
proof -
  from h have rdy: "pg_ready c" by (simp add: pg_healthy_def)
  obtain t where t: "holds t c" "encodes t (pg_db c)" "tables_inv t" "pg_work c = None"
    "pg_users c = users_map (tUsers t)" "pg_sessions c = sessions_map (tSessions t)"
    using rdy by (rule pg_readyE)
  have u: "i \<in> uID ` set (tUsers t)" using i t(5) users_map_None [of "tUsers t" i] by auto
  then have i64: "int64_range i" using t(3) by (auto simp: tables_inv_def)
  have "\<exists>j t'. t_insert_session srv (s\<lparr>rsUserID := i\<rparr>) (t_mark_used old t) = (Some j, t')"
    using i64 texts room t(2) fresh u t(6)
    by (intro insert_session_fits) (simp_all add: texts_ok_iff pg_room_def encodes_def sessions_map_None)
  then obtain j t' where ins:
    "t_insert_session srv (s\<lparr>rsUserID := i\<rparr>) (t_mark_used old t) = (Some j, t')" by blast
  have "\<exists>u c'. Storage_RotateTokensTx (pg_DB srv initial_schema) old s i c = (Ok u, c') \<and>
      pg_faults c' = []"
    using h by (intro RotateTokensTx_live [OF t(1) _ old _ ins u i64]) (simp_all add: pg_healthy_def)
  with run pg_rotate [OF rdy run] h show ?thesis
    by (auto simp: NewStorage_def pg_healthy_def)
qed

lemma pg_issue_live:
  assumes h: "pg_healthy srv c" and room: "pg_room c" and g: "pg_uuid_in srv guid \<noteq> None"
    and texts: "session_texts (pg_text_ok srv) s" and fresh: "pg_sessions c (rsSelector s) = None"
    and run: "IssueTokensTx (pg_storage srv) guid s c = (rw, c')"
  shows "pg_healthy srv c' \<and> (\<exists>u. rw = Ok u)"
proof -
  from h have rdy: "pg_ready c" by (simp add: pg_healthy_def)
  obtain t where t: "holds t c" "encodes t (pg_db c)" "tables_inv t" "pg_work c = None"
    "pg_users c = users_map (tUsers t)" "pg_sessions c = sessions_map (tSessions t)"
    using rdy by (rule pg_readyE)
  have seqs: "int64_range (tUserSeq t)" "int64_range (tSessionSeq t)"
    using room t(2) by (simp_all add: pg_room_def encodes_def)
  have new: "rsSelector s \<notin> (\<lambda>s. rsSelector (fst s)) ` set (tSessions t)"
    using fresh t(6) by (simp add: sessions_map_None)
  obtain g' where g': "pg_uuid_in srv guid = Some g'" using g by auto
  have ins: "\<exists>j t'. t_insert_session srv (s\<lparr>rsUserID := uID u\<rparr>) t1 = (Some j, t')"
    if "user_of_guid srv guid t u t1" for u t1
  proof (rule insert_session_fits)
    have "uID u \<in> uID ` set (tUsers t1) \<and> int64_range (uID u) \<and> tSessions t1 = tSessions t \<and>
        tSessionSeq t1 = tSessionSeq t"
      using that t(3)
      by (auto simp: user_of_guid_def t_insert_user_def Let_def tables_inv_def
          split: option.splits if_splits)
    with seqs new texts show "int64_range (rsUserID (s\<lparr>rsUserID := uID u\<rparr>))"
      "texts_ok srv (s\<lparr>rsUserID := uID u\<rparr>)" "int64_range (tSessionSeq t1)"
      "rsSelector (s\<lparr>rsUserID := uID u\<rparr>) \<notin> (\<lambda>s. rsSelector (fst s)) ` set (tSessions t1)"
      "rsUserID (s\<lparr>rsUserID := uID u\<rparr>) \<in> uID ` set (tUsers t1)"
      by (simp_all add: texts_ok_iff)
  qed
  have "\<exists>u c'. Storage_IssueTokensTx (pg_DB srv initial_schema) guid s c = (Ok u, c') \<and>
      pg_faults c' = []"
    using h ins by (intro IssueTokensTx_live [OF t(1) _ g' seqs(1)]) (simp_all add: pg_healthy_def)
  with run pg_issue [OF rdy run] h show ?thesis
    by (auto simp: NewStorage_def pg_healthy_def)
qed

lemma pg_reads_live:
  assumes h: "pg_healthy srv c" and texts: "pg_text_ok srv sel"
  shows "GetActiveSessionBySelector (Sessions (pg_storage srv)) sel c = (r, c') \<Longrightarrow>
      pg_healthy srv c' \<and> same_seqs c c' \<and> (\<forall>e. r = Err e \<longrightarrow> errors_Is e ErrSessionNotFound)"
    and "FindSessionBySelector (Sessions (pg_storage srv)) sel c = (r, c') \<Longrightarrow>
      pg_healthy srv c' \<and> (\<forall>e. r = Err e \<longrightarrow> errors_Is e ErrSessionNotFound)"
proof -
  from h have rdy: "pg_ready c" and calm: "pg_faults c = []" "pg_text_ok srv ''active''"
    by (simp_all add: pg_healthy_def)
  obtain t where t: "sees (\<lambda>c. Some (pg_db c)) t c" "tables_inv t"
    using rdy by (rule pg_readyE) (simp add: sees_db)
  let ?h = "dbtx_of (run_db srv initial_schema)"
  show "pg_healthy srv c' \<and> same_seqs c c' \<and>
      (\<forall>e. r = Err e \<longrightarrow> errors_Is e ErrSessionNotFound)"
    if run: "GetActiveSessionBySelector (Sessions (pg_storage srv)) sel c = (r, c')"
  proof -
    have eq: "SessionRepository_GetActiveSessionBySelector ?h sel c = (r, c')"
      using run by (simp add: pg_storage_unfold)
    obtain c1 where "pg_faults c1 = []" and c1: "sees (\<lambda>c. Some (pg_db c)) t c1"
      and "(\<exists>s. (s, ''active'') \<in> set (tSessions t) \<and> rsSelector s = sel \<and>
          SessionRepository_GetActiveSessionBySelector ?h sel c = (Ok s, c1)) \<or>
        (\<forall>s. (s, ''active'') \<in> set (tSessions t) \<longrightarrow> rsSelector s \<noteq> sel) \<and>
        SessionRepository_GetActiveSessionBySelector ?h sel c = (Err (session_not_found sel), c1)"
      by (rule db_live.GetActiveSession_live [OF calm(1) t texts calm(2)])
    moreover from c1 t(1) have "same_seqs c c1"
      by (simp add: sees_db encodes_def same_seqs_def)
    ultimately show ?thesis
      using eq pg_get_active [OF rdy run] h by (auto simp: pg_healthy_def session_not_found_def)
  qed
  show "pg_healthy srv c' \<and> (\<forall>e. r = Err e \<longrightarrow> errors_Is e ErrSessionNotFound)"
    if run: "FindSessionBySelector (Sessions (pg_storage srv)) sel c = (r, c')"
  proof -
    have eq: "SessionRepository_FindSessionBySelector ?h sel c = (r, c')"
      using run by (simp add: pg_storage_unfold)
    obtain c1 where "pg_faults c1 = []"
      and "(\<exists>s \<in> set (tSessions t). rsSelector (fst s) = sel \<and>
          SessionRepository_FindSessionBySelector ?h sel c = (Ok (fst s), c1)) \<or>
        sel \<notin> (\<lambda>s. rsSelector (fst s)) ` set (tSessions t) \<and>
        SessionRepository_FindSessionBySelector ?h sel c = (Err (session_not_found sel), c1)"
      by (rule db_live.FindSession_live [OF calm(1) t(1) texts])
    with eq pg_find [OF rdy run] h show ?thesis
      by (auto simp: pg_healthy_def session_not_found_def)
  qed
qed

lemma pg_users_live:
  assumes h: "pg_healthy srv c" and i: "int64_range i"
  shows "DeleteAllUserSessions (Sessions (pg_storage srv)) i c = (ru, c') \<Longrightarrow>
      pg_healthy srv c' \<and> ru = Ok ()"
    and "GetUserByID (Users (pg_storage srv)) i c = (rw, c') \<Longrightarrow>
      pg_healthy srv c' \<and> (\<forall>e. rw = Err e \<longrightarrow> errors_Is e ErrUserNotFound)"
proof -
  from h have rdy: "pg_ready c" and calm: "pg_faults c = []" by (simp_all add: pg_healthy_def)
  obtain t where t: "sees (\<lambda>c. Some (pg_db c)) t c" "tables_inv t"
    using rdy by (rule pg_readyE) (simp add: sees_db)
  let ?h = "dbtx_of (run_db srv initial_schema)"
  show "pg_healthy srv c' \<and> ru = Ok ()"
    if run: "DeleteAllUserSessions (Sessions (pg_storage srv)) i c = (ru, c')"
  proof -
    have eq: "SessionRepository_DeleteAllUserSessions ?h i c = (ru, c')"
      using run by (simp add: pg_storage_unfold)
    obtain c1 where "SessionRepository_DeleteAllUserSessions ?h i c = (Ok (), c1)" "pg_faults c1 = []"
      by (rule db_live.DeleteAllUserSessions_live [OF calm t(1) i])
    with eq pg_delete_all [OF rdy run] h show ?thesis by (auto simp: pg_healthy_def)
  qed
  show "pg_healthy srv c' \<and> (\<forall>e. rw = Err e \<longrightarrow> errors_Is e ErrUserNotFound)"
    if run: "GetUserByID (Users (pg_storage srv)) i c = (rw, c')"
  proof -
    have eq: "UserRepository_GetUserByID ?h i c = (rw, c')"
      using run by (simp add: pg_storage_unfold)
    obtain c1 where "pg_faults c1 = []"
      and "(\<exists>u \<in> set (tUsers t). uID u = i \<and> UserRepository_GetUserByID ?h i c = (Ok u, c1)) \<or>
        i \<notin> uID ` set (tUsers t) \<and>
        UserRepository_GetUserByID ?h i c = (Err (Sentinel ErrUserNotFound), c1)"
      by (rule db_live.GetUserByID_live [OF calm t i])
    with eq pg_get_user [OF rdy run] h show ?thesis by (auto simp: pg_healthy_def)
  qed
qed

lemma pg_ready_user_range: "pg_ready c \<Longrightarrow> pg_users c i = Some g \<Longrightarrow> int64_range i"
  by (elim pg_readyE) (auto simp: users_map_Some [OF inv_distinct(1)] tables_inv_def)

lemma pg_user_range: "pg_healthy srv c \<Longrightarrow> pg_users c i = Some g \<Longrightarrow> int64_range i"
  unfolding pg_healthy_def by (blast intro: pg_ready_user_range)

interpretation pg_live: storage_live "pg_storage srv" pg_ready pg_users pg_sessions
  "stored_form srv" "pg_uuid_in srv" "pg_healthy srv" pg_room "pg_text_ok srv"
  for srv
proof (unfold_locales, goal_cases)
  case 1
  then show ?case by (simp add: pg_healthy_def)
next
  case 2
  then show ?case by (rule pg_user_range)
next
  case 3
  from pg_reads_live(1) [OF this] show ?case by (auto simp: same_seqs_def pg_room_def)
next
  case 4
  then show ?case by (rule pg_reads_live(2))
next
  case 5
  then show ?case by (rule pg_users_live(1))
next
  case 6
  then show ?case by (rule pg_users_live(2))
next
  case 7
  then show ?case by (rule pg_issue_live)
next
  case 8
  then show ?case by (rule pg_rotate_live)
qed

lemma pg_space_live:
  "storage_live (pg_storage srv) pg_ready pg_users pg_sessions (stored_form srv) (pg_uuid_in srv)
     (pg_healthy srv) (pg_space n) (pg_text_ok srv)"
proof (unfold_locales, goal_cases)
  case 1
  then show ?case by (rule pg_live.healthy_ready)
next
  case 2
  then show ?case by (rule pg_user_range)
next
  case 3
  from pg_reads_live(1) [OF this] show ?case by (auto simp: same_seqs_def pg_room_def pg_space_def)
next
  case 4
  then show ?case by (rule pg_reads_live(2))
next
  case 5
  then show ?case by (rule pg_users_live(1))
next
  case 6
  then show ?case by (rule pg_users_live(2))
next
  case 7
  then show ?case by (intro pg_issue_live) (simp_all add: pg_space_def)
next
  case 8
  then show ?case by (intro pg_rotate_live) (simp_all add: pg_space_def)
qed

text \<open>A rotation takes one number of the sequence.\<close>

lemma pg_rotate_room:
  assumes rdy: "pg_ready c" and space: "pg_space (Suc 0) c"
    and run: "RotateTokensTx (pg_storage srv) old s i c = (Ok u, c')"
  shows "pg_room c'"
proof -
  obtain t where t: "holds t c" "encodes t (pg_db c)" "pg_work c = None"
    using rdy by (rule pg_readyE)
  have "Storage_RotateTokensTx (pg_DB srv initial_schema) old s i c = (Ok u, c')"
    using run by (simp add: NewStorage_def)
  from RotateTokensTx_outcome [OF t(1,3) this] obtain t' j where "holds t' c'"
    "t_insert_session srv (s\<lparr>rsUserID := i\<rparr>) (t_mark_used old t) = (Some j, t')"
    by (auto simp: rotated_def)
  then show ?thesis
    using space t(2)
    by (auto simp: t_insert_session_def Let_def holds_def encodes_def pg_space_def pg_room_def
        t_mark_used_def split: if_splits)
qed

lemma pg_delete_all_seqs:
  assumes rdy: "pg_ready c"
    and run: "DeleteAllUserSessions (Sessions (pg_storage srv)) i c = (r, c')"
  shows "same_seqs c c'"
proof -
  obtain t where t: "encodes t (pg_db c)" "tables_inv t" "pg_work c = None"
    using rdy by (rule pg_readyE)
  from db_handle.DeleteAllUserSessions_result [of t c srv i r c'] run t(1)
  have "case r of
       Ok _ \<Rightarrow> encodes (t_delete_sessions (\<lambda>s. rsUserID s = i) t) (pg_db c')
     | Err e \<Rightarrow> foreign e \<and> (encodes t (pg_db c') \<or>
         encodes (t_delete_sessions (\<lambda>s. rsUserID s = i) t) (pg_db c'))
     | Panic _ \<Rightarrow> False"
    by (simp_all add: sees_db pg_storage_unfold split: outcome.splits)
  with t(1) show ?thesis
    by (auto simp: same_seqs_def encodes_def t_delete_sessions_def split: outcome.splits)
qed

end
