(* ===== verification/Auth_Live.thy ===== *)
theory Auth_Live
  imports Auth_Instance Postgres_Live
begin

text \<open>
  What the operations of the authentication service do while the database answers: the
  legitimate calls succeed and the illegitimate ones end the sessions they must end.
\<close>

locale auth_live =
  auth_service as ready usr ses nrm gin denied store J decode genuine +
  storage_live "asStorage as" ready usr ses nrm gin healthy room text_in
  for as :: "('d, 'r) AuthService"
    and ready usr ses nrm gin denied store J decode genuine healthy room text_in
begin

lemma go_try_run: "m s = x \<Longrightarrow> go_try m h k s =
    (case x of (Ok v, s') \<Rightarrow> k v s' | (Err e, s') \<Rightarrow> h e s' | (Panic p, s') \<Rightarrow> (Panic p, s'))"
  by (simp add: go_try_def)

lemma get_active_found:
  assumes "healthy (w_db w)" and "text_in sel" and "ses (w_db w) sel = Some (s, ''active'')"
  obtains d where "lift_db (GetActiveSessionBySelector (Sessions (asStorage as)) sel) w =
      (Ok s, w\<lparr>w_db := d\<rparr>)"
    and "healthy d" and "ses d = ses (w_db w)" and "room (w_db w) \<longrightarrow> room d"
proof -
  obtain r d where run: "GetActiveSessionBySelector (Sessions (asStorage as)) sel (w_db w) = (r, d)"
    by fastforce
  show thesis
    using active_found [OF assms run] active_live [OF assms(1,2) run]
      get_active [OF healthy_ready [OF assms(1)] run] run
    by (intro that [of d]) (simp_all add: lift_db_run)
qed

lemma owner_range:
  assumes "healthy d" and "ses d sel = Some (s, st)"
  shows "int64_range (rsUserID s)"
  using owner_exists [OF healthy_ready [OF assms(1)] assms(2)] user_range [OF assms(1)] by auto

lemma delete_all_runs:
  assumes "healthy (w_db w)" and "int64_range i"
  obtains d where "lift_db (DeleteAllUserSessions (Sessions (asStorage as)) i) w =
      (Ok (), w\<lparr>w_db := d\<rparr>)"
    and "healthy d" and "ses d = revoke_user i (ses (w_db w))" and "usr d = usr (w_db w)"
proof -
  obtain r d where run: "DeleteAllUserSessions (Sessions (asStorage as)) i (w_db w) = (r, d)"
    by fastforce
  show thesis
    using delete_all_live [OF assms run] delete_all [OF healthy_ready [OF assms(1)] run] run
    by (intro that [of d]) (auto simp: lift_db_run)
qed

text \<open>The selector of a session that is not active: every session of its user goes.\<close>

lemma replay_revokes:
  assumes h: "healthy (w_db w)" and dec: "decode acc = Some (alg, c)"
    and split: "strings_Split (CHR ''.'') rt = [sel, ver]" and sel: "text_in sel"
    and s: "ses (w_db w) sel = Some (s, st)" and st: "st \<noteq> ''active''"
  obtains w' where "AuthService_RefreshTokens J as am acc rt md w = (Err reuse_error, w')"
    and "healthy (w_db w')" and "ses (w_db w') = revoke_user (rsUserID s) (ses (w_db w))"
proof -
  obtain r d1 where run1: "GetActiveSessionBySelector (Sessions (asStorage as)) sel (w_db w) = (r, d1)"
    by fastforce
  obtain e where e: "r = Err e" "errors_Is e ErrSessionNotFound"
    by (rule active_missing [OF h sel _ run1]) (use s st in auto)
  have h1: "healthy d1" and same1: "ses d1 = ses (w_db w)"
    using active_live [OF h sel run1] get_active [OF healthy_ready [OF h] run1] by simp_all
  obtain r2 d2 where run2: "FindSessionBySelector (Sessions (asStorage as)) sel d1 = (r2, d2)"
    by fastforce
  have r2: "r2 = Ok s" and h2: "healthy d2" and same2: "ses d2 = ses (w_db w)"
    using found [OF h1 sel _ run2, of s st] s same1 find_live [OF h1 sel run2]
      find [OF healthy_ready [OF h1] run2] by simp_all
  obtain d3 where d3: "lift_db (DeleteAllUserSessions (Sessions (asStorage as)) (rsUserID s))
      (w\<lparr>w_db := d2\<rparr>) = (Ok (), w\<lparr>w_db := d3\<rparr>)"
    "healthy d3" "ses d3 = revoke_user (rsUserID s) (ses (w_db w))"
    by (rule delete_all_runs [of "w\<lparr>w_db := d2\<rparr>" "rsUserID s"])
      (use h2 same2 owner_range [OF h s] in auto)
  have det: "AuthService_detectTheftAndRevoke as sel (w\<lparr>w_db := d1\<rparr>) =
      (Err reuse_error, w\<lparr>w_db := d3\<rparr>)"
    using d3(1) run2 r2
    by (simp add: AuthService_detectTheftAndRevoke_def go_try_def lift_db_def split: prod.splits)
  have claims: "TokenService_getClaimsFromToken J acc = Ok c" using dec claims_Ok by blast
  have "lift_db (GetActiveSessionBySelector (Sessions (asStorage as)) sel) w = (Err e, w\<lparr>w_db := d1\<rparr>)"
    using run1 e(1) by (simp add: lift_db_def)
  then have "AuthService_RefreshTokens_checks J as acc rt md w = (Err reuse_error, w\<lparr>w_db := d3\<rparr>)"
    using claims split e(2) det
    by (simp add: AuthService_RefreshTokens_checks_def TokenPartsExpected_def go_try_def)
  then have "AuthService_RefreshTokens J as am acc rt md w = (Err reuse_error, w\<lparr>w_db := d3\<rparr>)"
    by (simp add: AuthService_RefreshTokens_def go_try_def)
  with d3 show thesis by (intro that [of "w\<lparr>w_db := d3\<rparr>"]) simp_all
qed

text \<open>Another user agent with the right pair of tokens: every session of the user goes.\<close>

lemma agent_change_revokes:
  assumes h: "healthy (w_db w)" and dec: "decode acc = Some (alg, c)"
    and split: "strings_Split (CHR ''.'') rt = [sel, ver]" and sel: "text_in sel"
    and s: "ses (w_db w) sel = Some (s, ''active'')" and jti: "rsAccessTokenJTI s = jcID c"
    and ua: "rsUserAgent s \<noteq> umUserAgent md"
  obtains w' where "AuthService_RefreshTokens J as am acc rt md w = (Err agent_error, w')"
    and "healthy (w_db w')" and "ses (w_db w') = revoke_user (rsUserID s) (ses (w_db w))"
proof -
  obtain d1 where d1: "lift_db (GetActiveSessionBySelector (Sessions (asStorage as)) sel) w =
      (Ok s, w\<lparr>w_db := d1\<rparr>)" "healthy d1" "ses d1 = ses (w_db w)"
    by (rule get_active_found [OF h sel s])
  obtain d2 where d2: "lift_db (DeleteAllUserSessions (Sessions (asStorage as)) (rsUserID s))
      (w\<lparr>w_db := d1\<rparr>) = (Ok (), w\<lparr>w_db := d2\<rparr>)"
    "healthy d2" "ses d2 = revoke_user (rsUserID s) (ses (w_db w))"
    by (rule delete_all_runs [of "w\<lparr>w_db := d1\<rparr>" "rsUserID s"])
      (use d1 owner_range [OF h s] in auto)
  have claims: "TokenService_getClaimsFromToken J acc = Ok c" using dec claims_Ok by blast
  have "AuthService_RefreshTokens_session as c rt md s (w\<lparr>w_db := d1\<rparr>) =
      (Err agent_error, w\<lparr>w_db := d2\<rparr>)"
    using jti ua d2(1) by (simp add: AuthService_RefreshTokens_session_def go_try_def)
  then have "AuthService_RefreshTokens_checks J as acc rt md w = (Err agent_error, w\<lparr>w_db := d2\<rparr>)"
    using claims split d1(1)
    by (simp add: AuthService_RefreshTokens_checks_def TokenPartsExpected_def go_try_def)
  then have "AuthService_RefreshTokens J as am acc rt md w = (Err agent_error, w\<lparr>w_db := d2\<rparr>)"
    by (simp add: AuthService_RefreshTokens_def go_try_def)
  with d2 show thesis by (intro that [of "w\<lparr>w_db := d2\<rparr>"]) simp_all
qed

text \<open>
  Theft response: after a refresh, presenting the old refresh token again ends every session of
  the user, the new one included.
\<close>

lemma reuse_after_refresh:
  assumes rdy: "ready (w_db w)"
    and run: "AuthService_RefreshTokens J as am acc rt md w = (Ok (newAcc, newRt), w1)"
    and h: "healthy (w_db w1)" and dec: "decode acc2 = Some (alg, c)"
    and texts: "\<forall>p \<in> set (strings_Split (CHR ''.'') rt). text_in p"
  obtains w2 sel ver s where "AuthService_RefreshTokens J as am2 acc2 rt md2 w1 = (Err reuse_error, w2)"
    and "strings_Split (CHR ''.'') rt = [sel, ver]" and "ses (w_db w) sel = Some (s, ''active'')"
    and "\<forall>k s' st. ses (w_db w2) k = Some (s', st) \<longrightarrow> rsUserID s' \<noteq> rsUserID s"
proof -
  obtain sel s ver where split: "strings_Split (CHR ''.'') rt = [sel, ver]"
    and used: "ses (w_db w1) sel = Some (s, ''used'')" and act: "ses (w_db w) sel = Some (s, ''active'')"
    by (rule refresh_spent [OF rdy run])
  obtain w2 where w2: "AuthService_RefreshTokens J as am2 acc2 rt md2 w1 = (Err reuse_error, w2)"
    "ses (w_db w2) = revoke_user (rsUserID s) (ses (w_db w1))"
    by (rule replay_revokes [OF h dec split _ used]) (use texts split in simp_all)
  from w2(2) have "\<forall>k s' st. ses (w_db w2) k = Some (s', st) \<longrightarrow> rsUserID s' \<noteq> rsUserID s" by simp
  with w2(1) split act show thesis by (rule that)
qed

text \<open>A valid refresh gets through the checks.\<close>

lemma checks_pass:
  assumes h: "healthy (w_db w)" and sel: "text_in sel"
    and v: "valid_refresh decode acc rt md (ses (w_db w)) sel s"
  obtains d where "AuthService_RefreshTokens_checks J as acc rt md w =
      (Ok (Inr (sel, s)), w\<lparr>w_db := d, w_hooks := w_hooks w @ notified s md\<rparr>)"
    and "healthy d" and "ses d = ses (w_db w)" and "room (w_db w) \<longrightarrow> room d"
proof -
  from v obtain alg c ver where dec: "decode acc = Some (alg, c)"
    and split: "strings_Split (CHR ''.'') rt = [sel, ver]"
    and s: "ses (w_db w) sel = Some (s, ''active'')" and jti: "rsAccessTokenJTI s = jcID c"
    and ua: "rsUserAgent s = umUserAgent md"
    and hash: "hex_DecodeString (rsVerifierHash s) = Some (sha256_Sum256 ver)"
    by (auto simp: valid_refresh_def)
  obtain d where d: "lift_db (GetActiveSessionBySelector (Sessions (asStorage as)) sel) w =
      (Ok s, w\<lparr>w_db := d\<rparr>)" "healthy d" "ses d = ses (w_db w)" "room (w_db w) \<longrightarrow> room d"
    by (rule get_active_found [OF h sel s])
  have claims: "TokenService_getClaimsFromToken J acc = Ok c" using dec claims_Ok by blast
  have "TokenService_ValidateRefreshToken rt (rsVerifierHash s) = Ok ()"
    using split hash by (auto simp: ValidateRefreshToken_iff)
  then have "AuthService_RefreshTokens_session as c rt md s (w\<lparr>w_db := d\<rparr>) =
      (Ok (), w\<lparr>w_db := d, w_hooks := w_hooks w @ notified s md\<rparr>)"
    using jti ua
    by (simp add: AuthService_RefreshTokens_session_def go_try_def notified_def
        WebhookService_NotifyIPChange_def)
  then have "AuthService_RefreshTokens_checks J as acc rt md w =
      (Ok (Inr (sel, s)), w\<lparr>w_db := d, w_hooks := w_hooks w @ notified s md\<rparr>)"
    using claims split d(1)
    by (simp add: AuthService_RefreshTokens_checks_def TokenPartsExpected_def go_try_def)
  with d show thesis by (intro that [of d])
qed

lemma rotation_succeeds_user:
  assumes h: "healthy (w_db w)" "room (w_db w)" and sel: "text_in sel"
    and user: "usr (w_db w) (rsUserID s) \<noteq> None"
    and inp: "token_inputs (asTokenService as) (rsUserID s) (amClock am 0) (amUUID am)"
    and rnd: "amRand am = Ok f" and fresh: "ses (w_db w) (random_selector f) = None"
    and texts: "session_texts text_in (new_session as (random_selector f)
        (hex_EncodeToString (sha256_Sum256 (random_verifier f))) md (amUUID am) (amClock am 0))"
  obtains newAccess w' where "AuthService_RefreshTokens_rotation J as am sel s md w =
      (Ok (newAccess, random_selector f @ ''.'' @ random_verifier f), w')"
    and "healthy (w_db w')"
proof -
  obtain na where na: "TokenService_CreateAccessTokenWithJTI J (asTokenService as) (rsUserID s)
      (amClock am 0) (amUUID am) = Ok na"
    using create_total [OF inp] by blast
  let ?vh = "hex_EncodeToString (sha256_Sum256 (random_verifier f))"
  let ?new = "new_session as (random_selector f) ?vh md (amUUID am) (amClock am 0)"
  have ref: "TokenService_CreateRefreshToken (amRand am) =
      Ok (random_selector f @ ''.'' @ random_verifier f, random_selector f, ?vh)"
    using rnd by (simp add: CreateRefreshToken_Ok)
  obtain rw d where run: "RotateTokensTx (asStorage as) sel ?new (rsUserID s) (w_db w) = (rw, d)"
    by fastforce
  have sel': "rsSelector ?new = random_selector f" by (simp add: new_session_def)
  from rotate_live [OF h sel texts _ user run] fresh obtain u where u: "rw = Ok u" "healthy d"
    by (auto simp: sel')
  have "AuthService_RefreshTokens_rotation J as am sel s md w =
      (Ok (na, random_selector f @ ''.'' @ random_verifier f), w\<lparr>w_db := d\<rparr>)"
    using na ref run u(1)
    by (simp add: AuthService_RefreshTokens_rotation_def create_access_token_run Let_def
        go_try_def lift_db_def)
  with u(2) show thesis by (intro that [of na "w\<lparr>w_db := d\<rparr>"]) simp_all
qed

lemma rotation_succeeds:
  assumes h: "healthy (w_db w)" "room (w_db w)" and sel: "text_in sel"
    and s: "ses (w_db w) sel = Some (s, st)"
    and inp: "token_inputs (asTokenService as) (rsUserID s) (amClock am 0) (amUUID am)"
    and rnd: "amRand am = Ok f" and fresh: "ses (w_db w) (random_selector f) = None"
    and texts: "session_texts text_in (new_session as (random_selector f)
        (hex_EncodeToString (sha256_Sum256 (random_verifier f))) md (amUUID am) (amClock am 0))"
  obtains newAccess w' where "AuthService_RefreshTokens_rotation J as am sel s md w =
      (Ok (newAccess, random_selector f @ ''.'' @ random_verifier f), w')"
    and "healthy (w_db w')"
  by (rule rotation_succeeds_user [OF h sel owner_exists [OF healthy_ready [OF h(1)] s] inp rnd fresh texts])

text \<open>Together: a valid refresh succeeds, and only the database state matters for that.\<close>

lemma refresh_succeeds:
  assumes h: "healthy (w_db w)" "room (w_db w)" and sel: "text_in sel"
    and v: "valid_refresh decode acc rt md (ses (w_db w)) sel s"
    and inp: "token_inputs (asTokenService as) (rsUserID s) (amClock am 0) (amUUID am)"
    and rnd: "amRand am = Ok f" and fresh: "ses (w_db w) (random_selector f) = None"
    and texts: "session_texts text_in (new_session as (random_selector f)
        (hex_EncodeToString (sha256_Sum256 (random_verifier f))) md (amUUID am) (amClock am 0))"
  obtains newAccess w' where "AuthService_RefreshTokens J as am acc rt md w =
      (Ok (newAccess, random_selector f @ ''.'' @ random_verifier f), w')"
    and "healthy (w_db w')"
proof -
  obtain d where d: "AuthService_RefreshTokens_checks J as acc rt md w =
      (Ok (Inr (sel, s)), w\<lparr>w_db := d, w_hooks := w_hooks w @ notified s md\<rparr>)"
    "healthy d" "ses d = ses (w_db w)" "room (w_db w) \<longrightarrow> room d"
    by (rule checks_pass [OF h(1) sel v])
  let ?w = "w\<lparr>w_db := d, w_hooks := w_hooks w @ notified s md\<rparr>"
  from v have s: "ses (w_db ?w) sel = Some (s, ''active'')" by (auto simp: valid_refresh_def d(3))
  have hw: "healthy (w_db ?w)" "room (w_db ?w)" "ses (w_db ?w) (random_selector f) = None"
    using d h(2) fresh by simp_all
  obtain na w' where "AuthService_RefreshTokens_rotation J as am sel s md ?w =
      (Ok (na, random_selector f @ ''.'' @ random_verifier f), w')" "healthy (w_db w')"
    by (rule rotation_succeeds [OF hw(1,2) sel s inp rnd hw(3) texts])
  then show thesis
    using d(1) by (intro that [of na w']) (simp_all add: AuthService_RefreshTokens_def go_try_def)
qed

text \<open>Issuing for any GUID the database accepts succeeds.\<close>

lemma issue_succeeds:
  assumes h: "healthy (w_db w)" "room (w_db w)" and g: "gin guid \<noteq> None"
    and inp: "\<And>i. int64_range i \<Longrightarrow> token_inputs (asTokenService as) i (amClock am 0) (amUUID am)"
    and rnd: "amRand am = Ok f" and fresh: "ses (w_db w) (random_selector f) = None"
    and texts: "session_texts text_in (new_session as (random_selector f)
        (hex_EncodeToString (sha256_Sum256 (random_verifier f))) md (amUUID am) (amClock am 0))"
  obtains acc w' where "AuthService_IssueTokens J as am guid md w =
      (Ok (acc, random_selector f @ ''.'' @ random_verifier f), w')"
    and "healthy (w_db w')"
proof -
  let ?vh = "hex_EncodeToString (sha256_Sum256 (random_verifier f))"
  let ?new = "new_session as (random_selector f) ?vh md (amUUID am) (amClock am 0)"
  have ref: "TokenService_CreateRefreshToken (amRand am) =
      Ok (random_selector f @ ''.'' @ random_verifier f, random_selector f, ?vh)"
    using rnd by (simp add: CreateRefreshToken_Ok)
  obtain rw d where run: "IssueTokensTx (asStorage as) guid ?new (w_db w) = (rw, d)"
    by fastforce
  have sel: "rsSelector ?new = random_selector f" by (simp add: new_session_def)
  from issue_live [OF h g texts _ run] fresh obtain u where u: "rw = Ok u" "healthy d"
    by (auto simp: sel)
  from issue [OF healthy_ready [OF h(1)] run] u(1) have "usr d (uID u) = Some (uGUID u)"
    by (simp add: issue_spec_def)
  then have "int64_range (uID u)" by (rule user_range [OF u(2)])
  from create_total [OF inp [OF this]] obtain acc where
    acc: "TokenService_CreateAccessTokenWithJTI J (asTokenService as) (uID u)
      (amClock am 0) (amUUID am) = Ok acc" by blast
  have "AuthService_IssueTokens J as am guid md w =
      (Ok (acc, random_selector f @ ''.'' @ random_verifier f), w\<lparr>w_db := d\<rparr>)"
    using acc ref run u(1)
    by (simp add: AuthService_IssueTokens_def Let_def go_try_def lift_db_def)
  with u(2) show thesis by (intro that [of acc "w\<lparr>w_db := d\<rparr>"]) simp_all
qed

end

lemma main_auth_live:
  assumes "jwt_laws J decode genuine"
  shows "auth_live (main_auth srv cfg url) pg_ready pg_users pg_sessions (stored_form srv)
    (pg_uuid_in srv) redis_denied redis_view J decode genuine (pg_healthy srv) pg_room
    (pg_text_ok srv)"
  unfolding auth_live_def
  using main_auth_service [OF assms, where srv = srv and cfg = cfg and url = url] pg_live.storage_live_axioms [of srv]
  by (simp add: NewAuthService_def)

interpretation main_live: auth_live "main_auth srv cfg url" pg_ready pg_users pg_sessions
  "stored_form srv" "pg_uuid_in srv" redis_denied redis_view plain_jwt jwt_decode jwt_genuine
  "pg_healthy srv" pg_room "pg_text_ok srv"
  for srv cfg url
  by (rule main_auth_live [OF jwt.jwt_laws_axioms])

end
