(* ===== verification/Examples.thy ===== *)
theory Examples
  imports Auth_Live
begin

text \<open>
  Concrete data on which the theorems are applied: a server whose texts are valid UTF-8 without NUL, one user
  with one session, its access and refresh token. The hash of the verifier is never computed: the
  proofs only need that it is the same on both sides.
\<close>

definition ex_server :: pg_server where
  "ex_server = \<lparr>pg_uuid_in = Some, pg_text_ok = (\<lambda>t. CHR 0x00 \<notin> set t \<and> utf8_repair t = t),
     pg_ts_in = (\<lambda>t. t), pg_now = 0\<rparr>"

definition ex_config :: TokenConfig where
  "ex_config =
     \<lparr>cfgJwtSecretKey = ''secret'', cfgAccessTTL = 15 * time_Minute,
      cfgRefreshTTL = 24 * time_Hour\<rparr>"

abbreviation ex_auth :: "(pgconn, redisconn) AuthService" where
  "ex_auth \<equiv> main_auth ex_server ex_config ''''"

definition ex_now :: gotime where "ex_now = 1700000000 * time_Second"

definition ex_bytes :: "nat \<Rightarrow> char" where "ex_bytes n = CHR ''a''"
definition ex_bytes2 :: "nat \<Rightarrow> char" where "ex_bytes2 n = CHR ''b''"

definition ex_refresh :: string where
  "ex_refresh = random_selector ex_bytes @ ''.'' @ random_verifier ex_bytes"

definition ex_metadata :: UserMetadata where
  "ex_metadata = \<lparr>umUserAgent = ''curl'', umIPAddress = ''10.0.0.1''\<rparr>"

definition ex_session :: RefreshSession where
  "ex_session =
     \<lparr>rsID = 1, rsUserID = 1, rsSelector = random_selector ex_bytes,
      rsVerifierHash = hex_EncodeToString (sha256_Sum256 (random_verifier ex_bytes)),
      rsUserAgent = ''curl'', rsIPAddress = ''10.0.0.1'', rsAccessTokenJTI = ''jti-1'',
      rsCreatedAt = ex_now, rsExpiresAt = ex_now + 24 * time_Hour\<rparr>"

definition ex_tables :: "string \<Rightarrow> tables" where
  "ex_tables st =
     \<lparr>tUsers = [\<lparr>uID = 1, uGUID = ''g1''\<rparr>], tSessions = [(ex_session, st)],
      tUserSeq = 2, tSessionSeq = 2\<rparr>"

definition conn_of :: "tables \<Rightarrow> fault list \<Rightarrow> pgconn" where
  "conn_of t fs =
     \<lparr>pg_db = \<lparr>db_tables = (\<lambda>n. if n = ''users'' then map user_row (tUsers t)
                             else if n = ''sessions'' then map session_row (tSessions t) else []),
               db_seqs = (\<lambda>n. if n = ''users'' then tUserSeq t else tSessionSeq t)\<rparr>,
      pg_work = None, pg_faults = fs\<rparr>"

definition ex_redis :: redisconn where
  "ex_redis = \<lparr>rc_keys = (\<lambda>_. None), rc_faults = []\<rparr>"

definition ex_world :: "string \<Rightarrow> (pgconn, redisconn) world" where
  "ex_world st = \<lparr>w_db = conn_of (ex_tables st) [], w_redis = ex_redis, w_hooks = []\<rparr>"

definition ex_claims :: jwtClaims where
  "ex_claims = access_claims (NewTokenService ex_config (NewTokenStorage redis_Client)) 1 ex_now ''jti-1''"

definition ex_access :: string where
  "ex_access =
     (case jwt_SignedString plain_jwt SigningMethodHS512_Alg ex_claims ''secret'' of
        Ok t \<Rightarrow> t | _ \<Rightarrow> '''')"

definition ex_ambient :: ambient where
  "ex_ambient =
     \<lparr>amClock = (\<lambda>n. ex_now + (int n + 1) * time_Second), amUUID = ''jti-2'', amRand = Ok ex_bytes2\<rparr>"

definition ex_clock :: clock where
  "ex_clock n = ex_now + (int n + 1) * time_Second"

section \<open>The data is what it should be\<close>

lemma conn_of_holds: "tables_inv t \<Longrightarrow> holds t (conn_of t fs)"
  by (simp add: holds_def encodes_def conn_of_def)

lemma ex_tables_inv: "tables_inv (ex_tables st)"
  by (simp add: tables_inv_def ex_tables_def ex_session_def int64_range_def)

lemma ex_holds: "holds (ex_tables st) (conn_of (ex_tables st) fs)"
  by (rule conn_of_holds [OF ex_tables_inv])

lemma ex_ready: "pg_ready (w_db (ex_world st))"
  using ex_holds by (auto simp: pg_ready_def ex_world_def conn_of_def)

lemma ex_healthy: "pg_healthy ex_server (w_db (ex_world st))"
  using ex_ready [of st] by (simp add: pg_healthy_def ex_world_def conn_of_def ex_server_def)

lemma ex_room: "pg_room (w_db (ex_world st))"
  by (simp add: pg_room_def ex_world_def conn_of_def ex_tables_def int64_range_def)

lemma ex_sessions:
  "pg_sessions (w_db (ex_world st)) sel =
     (if sel = random_selector ex_bytes then Some (ex_session, st) else None)"
proof -
  have "pg_sessions (w_db (ex_world st)) = sessions_map (tSessions (ex_tables st))"
    using holds_sessions [OF ex_holds] by (simp add: ex_world_def)
  then show ?thesis by (simp add: sessions_map_def ex_tables_def ex_session_def)
qed

lemma ex_users: "pg_users (w_db (ex_world st)) i = (if i = 1 then Some ''g1'' else None)"
proof -
  have "pg_users (w_db (ex_world st)) = users_map (tUsers (ex_tables st))"
    using holds_users [OF ex_holds] by (simp add: ex_world_def)
  then show ?thesis by (simp add: users_map_def ex_tables_def)
qed

lemma ex_service_simps [simp]:
  "tsAccessTTL (NewTokenService ex_config T) = 15 * time_Minute"
  "tsRefreshTTL (NewTokenService ex_config T) = 24 * time_Hour"
  "tsJwtSecretKey (NewTokenService ex_config T) = ''secret''"
  by (simp_all add: NewAuthService_def NewTokenService_def ex_config_def)

lemma ex_server_simps [simp]: "pg_uuid_in ex_server g = Some g" "pg_ts_in ex_server t = t"
  by (simp_all add: ex_server_def)

text \<open>The server takes every plain text, and all that the example stores is plain.\<close>

lemma ex_text [simp]: "plain_text s \<Longrightarrow> pg_text_ok ex_server s"
  using utf8_repair_ascii [of s] by (force simp: ex_server_def plain_text_def)

lemma plain_jti: "plain_text ''jti-1''" "plain_text ''jti-2''"
  by (simp_all add: plain_text_def)

lemma plain_base64: "plain_text (b64_EncodeToString bs)"
proof -
  have "plain_text b64_alphabet" by (simp add: plain_text_def b64_alphabet_def)
  then show ?thesis using b64_Encode_alphabet [of bs] by (auto simp: plain_text_def)
qed

lemma plain_hex [simp]: "plain_text (hex_EncodeToString bs)"
  using hex_Encode_range [of bs] by (fastforce simp: plain_text_def)

lemma plain_random [simp]: "plain_text (random_selector f)" "plain_text (random_verifier f)"
  by (simp_all add: random_selector_def random_verifier_def plain_base64)

lemma ex_session_texts [simp]:
  "session_texts (pg_text_ok ex_server) (new_session as (random_selector f)
     (hex_EncodeToString bs) ex_metadata (amUUID ex_ambient) t)"
proof -
  have "plain_text (umIPAddress ex_metadata)" "plain_text (umUserAgent ex_metadata)"
    "plain_text (amUUID ex_ambient)"
    by (simp_all add: plain_text_def ex_metadata_def ex_ambient_def)
  then show ?thesis by (simp add: session_texts_def new_session_def)
qed

lemma ex_inputs:
  "token_inputs (NewTokenService ex_config T) 1 ex_now ''jti-1''"
  "token_inputs (NewTokenService ex_config T) 1 (amClock ex_ambient 0) (amUUID ex_ambient)"
  by (simp_all add: token_inputs_def plain_jti int64_range_def ex_now_def time_units time_Add_def
      ex_ambient_def)

lemma ex_signed: "jwt_SignedString plain_jwt SigningMethodHS512_Alg ex_claims ''secret'' = Ok ex_access"
  by (simp add: ex_access_def plain_jwt_def Let_def)

lemma plain_ex_claims: "plain_claims ex_claims"
  unfolding ex_claims_def by (rule plain_access_claims [OF ex_inputs(1)])

lemma ex_decode: "jwt_decode ex_access = Some (SigningMethodHS512_Alg, ex_claims)"
  using plain_signed_decode [OF plain_ex_claims ex_signed] by simp

lemma ex_claims_simps [simp]:
  "jcID ex_claims = ''jti-1''" "jcUserID ex_claims = strconv_FormatInt 1"
  "jcExpiresAt ex_claims = Some (ex_now + 15 * time_Minute)"
  by (simp_all add: ex_claims_def time_Add_def jwt_NewNumericDate_def ex_now_def time_units)

lemma ex_split: "strings_Split (CHR ''.'') ex_refresh = [random_selector ex_bytes, random_verifier ex_bytes]"
  by (simp add: ex_refresh_def strings_Split_two)

lemma ex_selectors_differ [simp]: "random_selector ex_bytes2 \<noteq> random_selector ex_bytes"
  by (auto simp: random_selector_inject ex_bytes_def ex_bytes2_def intro!: exI [of _ 0])

lemma ex_session_simps [simp]:
  "rsID ex_session = 1" "rsUserID ex_session = 1" "rsSelector ex_session = random_selector ex_bytes"
  "rsVerifierHash ex_session = hex_EncodeToString (sha256_Sum256 (random_verifier ex_bytes))"
  "rsUserAgent ex_session = ''curl''" "rsIPAddress ex_session = ''10.0.0.1''"
  "rsAccessTokenJTI ex_session = ''jti-1''" "rsExpiresAt ex_session = ex_now + 24 * time_Hour"
  by (simp_all add: ex_session_def)

lemma ex_valid:
  "valid_refresh jwt_decode ex_access ex_refresh ex_metadata
     (pg_sessions (w_db (ex_world ''active''))) (random_selector ex_bytes) ex_session"
  by (simp add: valid_refresh_def ex_decode ex_split ex_sessions ex_metadata_def)

lemma ex_random: "amRand ex_ambient = Ok ex_bytes2" "amUUID ex_ambient = ''jti-2''"
  by (simp_all add: ex_ambient_def)

text \<open>The refresh of the example succeeds.\<close>

lemma ex_refresh_succeeds:
  obtains newAccess w' where "AuthService_RefreshTokens plain_jwt ex_auth ex_ambient ex_access
      ex_refresh ex_metadata (ex_world ''active'') =
      (Ok (newAccess, random_selector ex_bytes2 @ ''.'' @ random_verifier ex_bytes2), w')"
    and "pg_healthy ex_server (w_db w')"
  by (rule main_live.refresh_succeeds [where url = "''''", OF ex_healthy ex_room _ ex_valid _
      ex_random(1)])
    (use ex_inputs(2) [of "NewTokenStorage redis_Client"] in \<open>simp_all add: ex_sessions\<close>)

text \<open>The access token of the example validates.\<close>

lemma mono_ex_clock: "mono ex_clock"
  by (simp add: mono_def ex_clock_def time_units)

lemma ex_parse:
  "clk 1 < ex_now + 15 * time_Minute + JWTLeeWay \<Longrightarrow>
   jwt_ParseWithClaims plain_jwt (clk 1) validation_options
     (validation_key (NewTokenService ex_config T)) ex_access =
   Ok (Some \<lparr>jtValid = True, jtClaims = JwtClaims ex_claims\<rparr>)"
  by (rule jwt.parse_signed [OF plain_ex_claims ex_signed])
    (simp_all add: NewTokenService_def ex_config_def)

lemma ex_redis_empty: "redis_view ex_redis t k = None" "rc_faults ex_redis = []"
  by (simp_all add: redis_view_def server_GET_def ex_redis_def)

lemma ex_validates_on:
  assumes "rc_faults s = []" and "redis_view s (ex_clock 0) ex_access = None"
  shows "TokenService_ValidateAccessTokenAndGetUserID plain_jwt (asTokenService ex_auth) ex_clock
    ex_access s = (Ok 1, s)"
  using ex_parse [of ex_clock "NewTokenStorage redis_Client"] assms
  by (simp add: TokenService_ValidateAccessTokenAndGetUserID_def go_try_def
      TokenService_IsAccessTokenInvalidated_def NewTokenStorage_def NewTokenService_def
      TokenStorage_IsTokenInvalidated_def redis_calm ex_clock_def time_units
      JWTLeeWay_def ParseInt_FormatInt int64_range_def)

lemma ex_validates:
  "TokenService_ValidateAccessTokenAndGetUserID plain_jwt (asTokenService ex_auth) ex_clock ex_access
     ex_redis = (Ok 1, ex_redis)"
  by (rule ex_validates_on) (simp_all add: ex_redis_empty)

lemma ex_authenticates:
  "AuthService_AuthenticateAccessToken plain_jwt ex_auth ex_clock ex_access (ex_world st) =
     (Ok 1, ex_world st)"
  using ex_validates
  by (simp add: AuthService_AuthenticateAccessToken_def go_try_def lift_redis_def ex_world_def)

text \<open>So does its logout.\<close>

lemma ex_logout_healthy:
  assumes "rc_faults s0 = []" and "redis_view s0 (ex_clock 0) ex_access = None"
    and "pg_healthy ex_server (w_db w0)" and "w_redis w0 = s0"
  obtains w' where "AuthService_Logout plain_jwt ex_auth ex_clock ex_access w0 = (Ok (), w')"
    and "rc_faults (w_redis w') = []" and "pg_ready (w_db w')"
proof -
  have claims: "TokenService_getClaimsFromToken plain_jwt ex_access = Ok ex_claims"
    using ex_decode by (simp add: redis_tokens.claims_Ok)
  obtain s where rev: "TokenService_InvalidateAccessToken plain_jwt (asTokenService ex_auth)
      (\<lambda>n. ex_clock (n + 2)) ex_access s0 = (Ok (), s)" and s: "rc_faults s = []"
    using assms(1)
    by (simp add: TokenService_InvalidateAccessToken_def claims go_try_def Let_def
        NewTokenService_def NewTokenStorage_def TokenStorage_InvalidateToken_def redis_calm)
  let ?w = "w0\<lparr>w_redis := s\<rparr>"
  have h: "pg_healthy ex_server (w_db ?w)" using assms(3) by simp
  have "int64_range (1::int)" by (simp add: int64_range_def)
  from main_live.delete_all_runs [where w = ?w and cfg = ex_config and url = "''''", OF h this]
  obtain d where d: "lift_db (DeleteAllUserSessions (Sessions (asStorage ex_auth)) 1) ?w =
      (Ok (), ?w\<lparr>w_db := d\<rparr>)" "pg_healthy ex_server d" by blast
  have "AuthService_Logout plain_jwt ex_auth ex_clock ex_access w0 = (Ok (), ?w\<lparr>w_db := d\<rparr>)"
    using ex_validates_on [OF assms(1,2)] rev d(1) assms(4)
    by (simp add: AuthService_Logout_def go_try_def lift_redis_def)
  then show thesis
    by (rule that) (use s d(2) in \<open>simp_all add: pg_healthy_def\<close>)
qed

lemma ex_logout_on:
  assumes "rc_faults s0 = []" and "redis_view s0 (ex_clock 0) ex_access = None"
    and "w_db w0 = w_db (ex_world st)" and "w_redis w0 = s0"
  obtains w' where "AuthService_Logout plain_jwt ex_auth ex_clock ex_access w0 = (Ok (), w')"
    and "rc_faults (w_redis w') = []" and "pg_ready (w_db w')"
  by (rule ex_logout_healthy [OF assms(1,2) _ assms(4)]) (simp add: assms(3) ex_healthy)

lemma ex_logout_succeeds:
  obtains w' where "AuthService_Logout plain_jwt ex_auth ex_clock ex_access (ex_world st) = (Ok (), w')"
    and "rc_faults (w_redis w') = []" and "pg_ready (w_db w')"
  by (rule ex_logout_on [of ex_redis "ex_world st"]) (simp_all add: ex_redis_empty ex_world_def)

end
