(* ===== verification/Refresh_Properties.thy ===== *)
theory Refresh_Properties
  imports Examples
begin

text \<open>
  The properties of refreshing on the program as \<open>main\<close> builds it: PostgreSQL behind
  \<open>NewStorage\<close>, Redis behind \<open>NewTokenStorage\<close>, and any JWT library that keeps its laws. Unless
  a property says that the database answers (\<open>pg_healthy\<close>), any call of it may fail.
\<close>

text \<open>
  C1. A refresh that succeeds was a valid one: the refresh token names an active session, its
  verifier hashes to the stored hash, the access token carries the session's JTI and the user
  agent is the session's. Afterwards that session is used, a new active session of the same user
  holds the selector and the verifier hash of the new refresh token and the new JTI, every other
  session, the users and Redis are as before, and the only notification started is the one of a
  changed IP address, with the addresses of the session and of the client.
\<close>

theorem refresh_rotates:
  assumes "jwt_laws J decode genuine" and "pg_ready (w_db w)"
    and "AuthService_RefreshTokens J (main_auth srv cfg url) am acc rt md w = (Ok (newAcc, newRt), w')"
  shows "\<exists>sel s nsel nvh i.
      valid_refresh decode acc rt md (pg_sessions (w_db w)) sel s \<and>
      TokenService_CreateRefreshToken (amRand am) = Ok (newRt, nsel, nvh) \<and>
      pg_sessions (w_db w) nsel = None \<and>
      pg_sessions (w_db w') sel = Some (s, ''used'') \<and>
      pg_sessions (w_db w') nsel = Some (stored_form srv
        (new_session (main_auth srv cfg url) nsel nvh md (amUUID am) (amClock am 0)
          \<lparr>rsID := i, rsUserID := rsUserID s\<rparr>), ''active'') \<and>
      (\<forall>k. k \<noteq> sel \<longrightarrow> k \<noteq> nsel \<longrightarrow> pg_sessions (w_db w') k = pg_sessions (w_db w) k) \<and>
      pg_users (w_db w') = pg_users (w_db w) \<and> w_redis w' = w_redis w \<and>
      w_hooks w' = w_hooks w @ (if rsIPAddress s \<noteq> umIPAddress md then [ip_change s md] else [])"
proof -
  note main = main_auth_service [OF assms(1), where srv = srv and cfg = cfg and url = url]
  obtain sel s nsel nvh i where v: "valid_refresh decode acc rt md (pg_sessions (w_db w)) sel s"
    and hooks: "w_hooks w' = w_hooks w @ notified s md"
    and r: "TokenService_CreateRefreshToken (amRand am) = Ok (newRt, nsel, nvh)"
      "pg_sessions (w_db w) nsel = None"
      "pg_sessions (w_db w') = (use_session sel (pg_sessions (w_db w)))(nsel \<mapsto> (stored_form srv
        (new_session (main_auth srv cfg url) nsel nvh md (amUUID am) (amClock am 0)
          \<lparr>rsID := i, rsUserID := rsUserID s\<rparr>), ''active''))"
    by (rule auth_service.refresh_Ok [OF main assms(2,3)])
  from v have "pg_sessions (w_db w) sel = Some (s, ''active'')" by (auto simp: valid_refresh_def)
  moreover from this r(2) have "sel \<noteq> nsel" by auto
  ultimately have "pg_sessions (w_db w') sel = Some (s, ''used'')"
    "\<forall>k. k \<noteq> sel \<longrightarrow> k \<noteq> nsel \<longrightarrow> pg_sessions (w_db w') k = pg_sessions (w_db w) k"
    by (simp_all add: r(3) use_session_same use_session_other)
  moreover have "pg_users (w_db w') = pg_users (w_db w)" "w_redis w' = w_redis w"
    using auth_service.refresh [OF main assms(2,3)] by simp_all
  ultimately show ?thesis using v r hooks
    by (intro exI [of _ sel] exI [of _ s] exI [of _ nsel] exI [of _ nvh] exI [of _ i])
      (simp add: notified_def)
qed

theorem refresh_rotates_witness:
  "\<exists>w' newAcc newRt sel s nsel nvh i.
      AuthService_RefreshTokens plain_jwt ex_auth ex_ambient ex_access ex_refresh ex_metadata
        (ex_world ''active'') = (Ok (newAcc, newRt), w') \<and>
      valid_refresh jwt_decode ex_access ex_refresh ex_metadata
        (pg_sessions (w_db (ex_world ''active''))) sel s \<and>
      TokenService_CreateRefreshToken (amRand ex_ambient) = Ok (newRt, nsel, nvh) \<and>
      pg_sessions (w_db (ex_world ''active'')) nsel = None \<and>
      pg_sessions (w_db w') sel = Some (s, ''used'') \<and>
      pg_sessions (w_db w') nsel = Some (stored_form ex_server
        (new_session ex_auth nsel nvh ex_metadata (amUUID ex_ambient) (amClock ex_ambient 0)
          \<lparr>rsID := i, rsUserID := rsUserID s\<rparr>), ''active'') \<and>
      pg_users (w_db w') = pg_users (w_db (ex_world ''active'')) \<and>
      w_redis w' = w_redis (ex_world ''active'')"
proof -
  obtain newAcc w' where run: "AuthService_RefreshTokens plain_jwt ex_auth ex_ambient ex_access
      ex_refresh ex_metadata (ex_world ''active'') =
      (Ok (newAcc, random_selector ex_bytes2 @ ''.'' @ random_verifier ex_bytes2), w')"
    by (rule ex_refresh_succeeds)
  from refresh_rotates [OF jwt.jwt_laws_axioms ex_ready run] run show ?thesis by blast
qed

text \<open>
  C2. A refresh token works once: after a refresh with it has succeeded, no later refresh with
  it does, with any access token, any client and whatever calls of the database fail.
\<close>

theorem refresh_token_single_use:
  assumes "jwt_laws J decode genuine" and "pg_ready (w_db w)"
    and "AuthService_RefreshTokens J (main_auth srv cfg url) am acc rt md w = (Ok (newAcc, newRt), w1)"
  shows "fst (AuthService_RefreshTokens J (main_auth srv cfg url) am2 acc2 rt md2 w1) \<noteq> Ok x"
proof -
  note main = main_auth_service [OF assms(1), where srv = srv and cfg = cfg and url = url]
  obtain sel s ver where "strings_Split (CHR ''.'') rt = [sel, ver]"
    "pg_sessions (w_db w1) sel = Some (s, ''used'')"
    by (rule auth_service.refresh_spent [OF main assms(2,3)])
  moreover have "pg_ready (w_db w1)" using auth_service.refresh [OF main assms(2,3)] by simp
  ultimately show ?thesis
    by (intro auth_service.inactive_never_refreshes [OF main]) auto
qed

theorem refresh_token_single_use_witness:
  "\<exists>newAcc newRt w1. AuthService_RefreshTokens plain_jwt ex_auth ex_ambient ex_access ex_refresh
      ex_metadata (ex_world ''active'') = (Ok (newAcc, newRt), w1) \<and>
    (\<forall>x. fst (AuthService_RefreshTokens plain_jwt ex_auth ex_ambient ex_access ex_refresh
      ex_metadata w1) \<noteq> Ok x)"
proof -
  obtain newAcc w' where run: "AuthService_RefreshTokens plain_jwt ex_auth ex_ambient ex_access
      ex_refresh ex_metadata (ex_world ''active'') =
      (Ok (newAcc, random_selector ex_bytes2 @ ''.'' @ random_verifier ex_bytes2), w')"
    by (rule ex_refresh_succeeds)
  from refresh_token_single_use [OF jwt.jwt_laws_axioms ex_ready run] run show ?thesis by blast
qed

text \<open>
  C3. Replay: while the database answers, a refresh that presents the selector of a session that
  is no longer active (with any well-formed access token) is refused with the reuse error and
  removes every session of that session's user; all other sessions stay.
\<close>

theorem replay_revokes_user:
  assumes "jwt_laws J decode genuine" and "pg_healthy srv (w_db w)"
    and "decode acc = Some (alg, c)" and "strings_Split (CHR ''.'') rt = [sel, ver]"
    and "pg_text_ok srv sel" and "pg_sessions (w_db w) sel = Some (s, st)" and "st \<noteq> ''active''"
  shows "\<exists>w'. AuthService_RefreshTokens J (main_auth srv cfg url) am acc rt md w = (Err reuse_error, w') \<and>
    (\<forall>k. pg_sessions (w_db w') k =
      (case pg_sessions (w_db w) k of
         Some (s', st') \<Rightarrow> if rsUserID s' = rsUserID s then None else Some (s', st')
       | None \<Rightarrow> None))"
proof -
  obtain w' where "AuthService_RefreshTokens J (main_auth srv cfg url) am acc rt md w =
      (Err reuse_error, w')"
    "pg_sessions (w_db w') = revoke_user (rsUserID s) (pg_sessions (w_db w))"
    by (rule auth_live.replay_revokes [OF main_auth_live [OF assms(1)] assms(2-7)])
  then show ?thesis by (auto simp: revoke_user_def)
qed

theorem replay_revokes_user_witness:
  "\<exists>w'. AuthService_RefreshTokens plain_jwt ex_auth ex_ambient ex_access ex_refresh ex_metadata
      (ex_world ''used'') = (Err reuse_error, w') \<and>
    pg_sessions (w_db w') (random_selector ex_bytes) = None"
  using replay_revokes_user [where w = "ex_world ''used''" and s = ex_session and st = "''used''"
      and cfg = ex_config and url = "''''" and am = ex_ambient and md = ex_metadata,
      OF jwt.jwt_laws_axioms ex_healthy ex_decode ex_split]
  by (auto simp: ex_sessions)

text \<open>
  C4. Another client: while the database answers, a refresh with the right pair of tokens but
  another user agent is refused and removes every session of the user, and only those.
\<close>

theorem agent_change_revokes_user:
  assumes "jwt_laws J decode genuine" and "pg_healthy srv (w_db w)"
    and "decode acc = Some (alg, c)" and "strings_Split (CHR ''.'') rt = [sel, ver]"
    and "pg_text_ok srv sel" and "pg_sessions (w_db w) sel = Some (s, ''active'')"
    and "rsAccessTokenJTI s = jcID c" and "rsUserAgent s \<noteq> umUserAgent md"
  shows "\<exists>w'. AuthService_RefreshTokens J (main_auth srv cfg url) am acc rt md w = (Err agent_error, w') \<and>
    (\<forall>k. pg_sessions (w_db w') k =
      (case pg_sessions (w_db w) k of
         Some (s', st') \<Rightarrow> if rsUserID s' = rsUserID s then None else Some (s', st')
       | None \<Rightarrow> None))"
proof -
  obtain w' where "AuthService_RefreshTokens J (main_auth srv cfg url) am acc rt md w =
      (Err agent_error, w')"
    "pg_sessions (w_db w') = revoke_user (rsUserID s) (pg_sessions (w_db w))"
    by (rule auth_live.agent_change_revokes [OF main_auth_live [OF assms(1)] assms(2-8)])
  then show ?thesis by (auto simp: revoke_user_def)
qed

theorem agent_change_revokes_user_witness:
  "\<exists>w'. AuthService_RefreshTokens plain_jwt ex_auth ex_ambient ex_access ex_refresh
      \<lparr>umUserAgent = ''firefox'', umIPAddress = ''10.0.0.1''\<rparr> (ex_world ''active'') =
      (Err agent_error, w') \<and>
    pg_sessions (w_db w') (random_selector ex_bytes) = None"
  using agent_change_revokes_user [where w = "ex_world ''active''" and s = ex_session
      and md = "\<lparr>umUserAgent = ''firefox'', umIPAddress = ''10.0.0.1''\<rparr>"
      and cfg = ex_config and url = "''''" and am = ex_ambient,
      OF jwt.jwt_laws_axioms ex_healthy ex_decode ex_split]
  by (auto simp: ex_sessions)

text \<open>
  C5. Theft: once a refresh has succeeded, presenting the same refresh token again (while the
  database answers) ends every session of its user, the one that refresh created included: no
  session of the user is left.
\<close>

theorem stolen_token_ends_sessions:
  assumes "jwt_laws J decode genuine" and "pg_ready (w_db w)"
    and "AuthService_RefreshTokens J (main_auth srv cfg url) am acc rt md w = (Ok (newAcc, newRt), w1)"
    and "pg_healthy srv (w_db w1)" and "decode acc2 = Some (alg, c)"
    and "\<forall>p \<in> set (strings_Split (CHR ''.'') rt). pg_text_ok srv p"
  shows "\<exists>w2 sel s. AuthService_RefreshTokens J (main_auth srv cfg url) am2 acc2 rt md2 w1 =
      (Err reuse_error, w2) \<and>
    hd (strings_Split (CHR ''.'') rt) = sel \<and> pg_sessions (w_db w) sel = Some (s, ''active'') \<and>
    (\<forall>k s' st. pg_sessions (w_db w2) k = Some (s', st) \<longrightarrow> rsUserID s' \<noteq> rsUserID s)"
proof -
  obtain w2 sel ver s where "AuthService_RefreshTokens J (main_auth srv cfg url) am2 acc2 rt md2 w1 =
      (Err reuse_error, w2)" "strings_Split (CHR ''.'') rt = [sel, ver]"
    "pg_sessions (w_db w) sel = Some (s, ''active'')"
    "\<forall>k s' st. pg_sessions (w_db w2) k = Some (s', st) \<longrightarrow> rsUserID s' \<noteq> rsUserID s"
    by (rule auth_live.reuse_after_refresh [OF main_auth_live [OF assms(1)] assms(2-6)])
  then show ?thesis by (intro exI [of _ w2] exI [of _ sel] exI [of _ s]) simp
qed

theorem stolen_token_ends_sessions_witness:
  "\<exists>newAcc newRt w1 w2.
    AuthService_RefreshTokens plain_jwt ex_auth ex_ambient ex_access ex_refresh ex_metadata
      (ex_world ''active'') = (Ok (newAcc, newRt), w1) \<and>
    AuthService_RefreshTokens plain_jwt ex_auth ex_ambient ex_access ex_refresh ex_metadata w1 =
      (Err reuse_error, w2) \<and>
    (\<forall>k s st. pg_sessions (w_db w2) k = Some (s, st) \<longrightarrow> rsUserID s \<noteq> 1)"
proof -
  obtain newAcc w1 where run: "AuthService_RefreshTokens plain_jwt ex_auth ex_ambient ex_access
      ex_refresh ex_metadata (ex_world ''active'') =
      (Ok (newAcc, random_selector ex_bytes2 @ ''.'' @ random_verifier ex_bytes2), w1)"
    and h: "pg_healthy ex_server (w_db w1)"
    by (rule ex_refresh_succeeds)
  from stolen_token_ends_sessions [OF jwt.jwt_laws_axioms ex_ready run h ex_decode, of ex_ambient
      ex_metadata] run
  show ?thesis by (fastforce simp: ex_split ex_sessions split: if_splits)
qed

text \<open>
  C6. Progress: while the database answers and has room, a valid refresh succeeds and returns the
  refresh token made of the bytes that were drawn, provided the new selector is not in use.
\<close>

theorem valid_refresh_succeeds:
  assumes "jwt_laws J decode genuine" and "pg_healthy srv (w_db w)" and "pg_room (w_db w)"
    and "pg_text_ok srv sel"
    and "valid_refresh decode acc rt md (pg_sessions (w_db w)) sel s"
    and "token_inputs (asTokenService (main_auth srv cfg url)) (rsUserID s) (amClock am 0) (amUUID am)"
    and "amRand am = Ok f" and "pg_sessions (w_db w) (random_selector f) = None"
    and "session_texts (pg_text_ok srv) (new_session (main_auth srv cfg url) (random_selector f)
      (hex_EncodeToString (sha256_Sum256 (random_verifier f))) md (amUUID am) (amClock am 0))"
  shows "\<exists>newAcc w'. AuthService_RefreshTokens J (main_auth srv cfg url) am acc rt md w =
    (Ok (newAcc, random_selector f @ ''.'' @ random_verifier f), w')"
proof -
  obtain newAcc w' where "AuthService_RefreshTokens J (main_auth srv cfg url) am acc rt md w =
      (Ok (newAcc, random_selector f @ ''.'' @ random_verifier f), w')"
    by (rule auth_live.refresh_succeeds [OF main_auth_live [OF assms(1)] assms(2-9)])
  then show ?thesis by blast
qed

theorem valid_refresh_succeeds_witness:
  "\<exists>newAcc w'. AuthService_RefreshTokens plain_jwt ex_auth ex_ambient ex_access ex_refresh ex_metadata
    (ex_world ''active'') =
    (Ok (newAcc, random_selector ex_bytes2 @ ''.'' @ random_verifier ex_bytes2), w')"
  by (rule valid_refresh_succeeds [where url = "''''", OF jwt.jwt_laws_axioms ex_healthy ex_room _
        ex_valid _ ex_random(1)])
    (use ex_inputs(2) [of "NewTokenStorage redis_Client"] in \<open>simp_all add: ex_sessions\<close>)



text \<open>
  C7. A refresh that fails leaves the sessions as they were, or has revoked the user it must
  revoke, or has rotated although the answer of the commit was lost; the two revocation errors
  are only returned when the user's sessions are gone. It never panics unless the random source
  does.
\<close>

theorem refresh_failure:
  assumes "jwt_laws J decode genuine" and "pg_ready (w_db w)"
    and "AuthService_RefreshTokens J (main_auth srv cfg url) am acc rt md w = (r, w')"
    and "\<And>p. r \<noteq> Ok p"
  shows "(pg_sessions (w_db w') = pg_sessions (w_db w) \<or>
     (\<exists>s. revoking_refresh decode acc rt md (pg_sessions (w_db w)) s \<and>
        pg_sessions (w_db w') = revoke_user (rsUserID s) (pg_sessions (w_db w))) \<or>
     (\<exists>sel s newRt. valid_refresh decode acc rt md (pg_sessions (w_db w)) sel s \<and>
        refresh_rotated (stored_form srv) (main_auth srv cfg url) am sel s md newRt
          (pg_users (w_db w), pg_sessions (w_db w)) (pg_users (w_db w'), pg_sessions (w_db w')))) \<and>
    (r = Err reuse_error \<or> r = Err agent_error \<longrightarrow>
     (\<exists>s. revoking_refresh decode acc rt md (pg_sessions (w_db w)) s \<and>
        pg_sessions (w_db w') = revoke_user (rsUserID s) (pg_sessions (w_db w)))) \<and>
    (\<forall>p. r = Panic p \<longrightarrow> amRand am = Panic p)"
proof -
  note ref = auth_service.refresh [OF main_auth_service [OF assms(1)] assms(2,3)]
  show ?thesis
  proof (cases r)
    case (Ok p)
    with assms(4) [of p] show ?thesis by simp
  next
    case (Err e)
    from ref [unfolded Err outcome.case] have E: "(pg_users (w_db w'), pg_sessions (w_db w')) = (pg_users (w_db w), pg_sessions (w_db w)) \<or>
        (\<exists>s. revoking_refresh decode acc rt md (pg_sessions (w_db w)) s \<and>
          pg_sessions (w_db w') = revoke_user (rsUserID s) (pg_sessions (w_db w))) \<or>
        (\<exists>sel s newRt. valid_refresh decode acc rt md (pg_sessions (w_db w)) sel s \<and>
          refresh_rotated (stored_form srv) (main_auth srv cfg url) am sel s md newRt
            (pg_users (w_db w), pg_sessions (w_db w)) (pg_users (w_db w'), pg_sessions (w_db w')))"
      "e \<in> {reuse_error, agent_error} \<longrightarrow>
        (\<exists>s. revoking_refresh decode acc rt md (pg_sessions (w_db w)) s \<and>
          pg_sessions (w_db w') = revoke_user (rsUserID s) (pg_sessions (w_db w)))"
      by blast+
    then show ?thesis unfolding Err by blast
  next
    case (Panic p)
    with ref show ?thesis by simp
  qed
qed

theorem refresh_failure_witness:
  "\<exists>s. revoking_refresh jwt_decode ex_access ex_refresh ex_metadata (pg_sessions (w_db (ex_world ''used''))) s \<and>
    pg_sessions (w_db (snd (AuthService_RefreshTokens plain_jwt ex_auth ex_ambient ex_access ex_refresh
      ex_metadata (ex_world ''used'')))) =
      revoke_user (rsUserID s) (pg_sessions (w_db (ex_world ''used'')))"
proof -
  obtain w' where run: "AuthService_RefreshTokens plain_jwt ex_auth ex_ambient ex_access ex_refresh
      ex_metadata (ex_world ''used'') = (Err reuse_error, w')"
    by (rule main_live.replay_revokes [where w = "ex_world ''used''" and url = "''''" and cfg = ex_config,
          OF ex_healthy ex_decode ex_split, of ex_session "''used''" ex_ambient ex_metadata])
      (simp_all add: ex_sessions)
  from refresh_failure [OF jwt.jwt_laws_axioms ex_ready run] run show ?thesis by simp
qed

end
