(* ===== verification/Auth_Flows.thy ===== *)
theory Auth_Flows
  imports Auth_Contract
begin

text \<open>
  What operations of the authentication service promise about the ones that follow: the tokens an
  issue or a refresh hands out are a valid pair, and after a logout neither the access token nor
  any refresh token of the user works.
\<close>

text \<open>A UUID of printable characters and a clock that JWT dates can carry.\<close>

definition ambient_inputs :: "'r TokenService \<Rightarrow> ambient \<Rightarrow> bool" where
  "ambient_inputs ts am \<longleftrightarrow> plain_text (amUUID am) \<and>
     0 \<le> amClock am 0 \<and> amClock am 0 < 2 ^ 40 * time_Second \<and>
     0 \<le> time_Add (amClock am 0) (tsAccessTTL ts) \<and>
     time_Add (amClock am 0) (tsAccessTTL ts) < 2 ^ 40 * time_Second"

lemma token_inputs_ambient:
  "token_inputs ts i (amClock am 0) (amUUID am) \<longleftrightarrow> ambient_inputs ts am \<and> int64_range i"
  by (auto simp: token_inputs_def ambient_inputs_def)

context auth_service begin

text \<open>The freshly stored session makes the returned pair valid for the same client.\<close>

lemma new_pair_valid:
  assumes ref: "TokenService_CreateRefreshToken (amRand am) = Ok (rt, sel, vh)"
    and inp: "token_inputs (asTokenService as) i (amClock am 0) (amUUID am)"
    and acc: "TokenService_CreateAccessTokenWithJTI J (asTokenService as) i (amClock am 0)
      (amUUID am) = Ok acc"
    and m: "m sel = Some (nrm (new_session as sel vh md (amUUID am) (amClock am 0)
      \<lparr>rsID := k, rsUserID := i\<rparr>), ''active'')"
  shows "valid_refresh decode acc rt md m sel (nrm (new_session as sel vh md (amUUID am)
      (amClock am 0)\<lparr>rsID := k, rsUserID := i\<rparr>))"
proof -
  obtain ver where "strings_Split (CHR ''.'') rt = [sel, ver]"
    "vh = hex_EncodeToString (sha256_Sum256 ver)"
    using CreateRefreshToken_split [OF ref] by auto
  with create_decode [OF inp acc] m show ?thesis
    by (auto simp: valid_refresh_def new_session_def)
qed

lemma issue_then_valid:
  assumes rdy: "ready (w_db w)"
    and run: "AuthService_IssueTokens J as am guid md w = (Ok (acc, rt), w')"
    and inp: "\<And>i. usr (w_db w') i \<noteq> None \<Longrightarrow>
      token_inputs (asTokenService as) i (amClock am 0) (amUUID am)"
  obtains sel s where "valid_refresh decode acc rt md (ses (w_db w')) sel s"
    and "usr (w_db w') (rsUserID s) = gin guid" and "gin guid \<noteq> None"
    and "decode acc = Some (SigningMethodHS512_Alg,
      access_claims (asTokenService as) (rsUserID s) (amClock am 0) (amUUID am))"
proof -
  from issue_tokens [OF rdy run] obtain u sel vh
    where ref: "TokenService_CreateRefreshToken (amRand am) = Ok (rt, sel, vh)"
      and spec: "issue_spec nrm gin guid (new_session as sel vh md (amUUID am) (amClock am 0))
        (usr (w_db w), ses (w_db w)) u (usr (w_db w'), ses (w_db w'))"
      and acc: "TokenService_CreateAccessTokenWithJTI J (asTokenService as) (uID u) (amClock am 0)
        (amUUID am) = Ok acc"
    by auto
  have sel: "rsSelector (new_session as sel vh md jti now) = sel" for jti now
    by (simp add: new_session_def)
  from spec obtain k where g: "gin guid = Some (uGUID u)" "usr (w_db w') (uID u) = Some (uGUID u)"
    and s: "ses (w_db w') sel = Some (nrm (new_session as sel vh md (amUUID am) (amClock am 0)
      \<lparr>rsID := k, rsUserID := uID u\<rparr>), ''active'')"
    by (auto simp: issue_spec_def sel)
  from g inp have tin: "token_inputs (asTokenService as) (uID u) (amClock am 0) (amUUID am)" by simp
  show thesis
    by (rule that [OF new_pair_valid [where m = "ses (w_db w')" and sel = sel, OF ref tin acc s]])
      (use g create_decode [OF tin acc] in simp_all)
qed

lemma refresh_then_valid:
  assumes rdy: "ready (w_db w)"
    and run: "AuthService_RefreshTokens J as am acc rt md w = (Ok (newAcc, newRt), w')"
    and inp: "\<And>i. usr (w_db w) i \<noteq> None \<Longrightarrow>
      token_inputs (asTokenService as) i (amClock am 0) (amUUID am)"
  obtains osel os sel s where "valid_refresh decode acc rt md (ses (w_db w)) osel os"
    and "valid_refresh decode newAcc newRt md (ses (w_db w')) sel s"
    and "rsUserID s = rsUserID os" and "sel \<noteq> osel"
proof -
  obtain osel os sel vh i where v: "valid_refresh decode acc rt md (ses (w_db w)) osel os"
    and acc: "TokenService_CreateAccessTokenWithJTI J (asTokenService as) (rsUserID os) (amClock am 0)
       (amUUID am) = Ok newAcc"
    and ref: "TokenService_CreateRefreshToken (amRand am) = Ok (newRt, sel, vh)"
    and free: "ses (w_db w) sel = None"
    and w': "ses (w_db w') = (use_session osel (ses (w_db w)))(sel \<mapsto>
       (nrm (new_session as sel vh md (amUUID am) (amClock am 0)
          \<lparr>rsID := i, rsUserID := rsUserID os\<rparr>), ''active''))"
    by (rule refresh_Ok [OF rdy run])
  from v have os: "ses (w_db w) osel = Some (os, ''active'')" by (auto simp: valid_refresh_def)
  from owner_exists [OF rdy this] inp
  have tin: "token_inputs (asTokenService as) (rsUserID os) (amClock am 0) (amUUID am)" by simp
  show thesis
    by (rule that [OF v new_pair_valid [where m = "ses (w_db w')" and sel = sel, OF ref tin acc]])
      (use os free in \<open>auto simp: w'\<close>)
qed

section \<open>After a logout\<close>

lemma logout_stops_refresh:
  assumes rdy: "ready (w_db w)" and mono: "mono clk"
    and run: "AuthService_Logout J as clk tok w = (Ok u, w1)"
    and split: "strings_Split (CHR ''.'') rt = [sel, ver]"
    and s: "ses (w_db w) sel = Some (s, st)"
    and c: "decode tok = Some (alg, c)" "strconv_ParseInt (jcUserID c) = Some (rsUserID s)"
  shows "fst (AuthService_RefreshTokens J as am acc rt md w1) \<noteq> Ok x"
proof -
  from logout [OF rdy mono run] c have "ses (w_db w1) = revoke_user (rsUserID s) (ses (w_db w))"
    "ready (w_db w1)"
    by (auto simp: accepted_claims_def)
  with s show ?thesis
    by (intro inactive_never_refreshes [OF _ split]) auto
qed

lemma denied_not_authenticated:
  assumes "denied (w_redis w) (clk 0) tok"
  shows "fst (AuthService_AuthenticateAccessToken J as clk tok w) \<noteq> Ok i"
proof
  assume "fst (AuthService_AuthenticateAccessToken J as clk tok w) = Ok i"
  then obtain w' where "AuthService_AuthenticateAccessToken J as clk tok w = (Ok i, w')"
    by (cases "AuthService_AuthenticateAccessToken J as clk tok w") auto
  from authenticate [OF this] assms show False by simp
qed

lemma logout_rejects:
  assumes rdy: "ready (w_db w)" and mono: "mono clk"
    and run: "AuthService_Logout J as clk tok w = (Ok u, w1)"
    and c: "decode tok = Some (alg, c)" "jcExpiresAt c = Some ex" "int64_range (ex - clk 2)"
    and time: "clk 3 \<le> clk2 0" "clk2 0 < ex - time_Millisecond"
  shows "fst (AuthService_AuthenticateAccessToken J as clk2 tok w1) \<noteq> Ok i"
  using logout [OF rdy mono run] c time
  by (intro denied_not_authenticated) auto

text \<open>
  The denial ends with the expiry of the token, and validation accepts the token for \<open>JWTLeeWay\<close>
  longer.
\<close>

lemma logout_revives:
  assumes rdy: "ready (w_db w)" and mono: "mono clk"
    and inp: "token_inputs (asTokenService as) userID now jti"
    and tok: "TokenService_CreateAccessTokenWithJTI J (asTokenService as) userID now jti = Ok tok"
    and ex: "ex = jwt_NewNumericDate (time_Add now (tsAccessTTL (asTokenService as)))"
    and run: "AuthService_Logout J as clk tok w = (Ok u, w1)"
    and time: "int64_range (ex - clk 2)" "0 < ex - clk 2"
      "clk 3 + (ex - clk 2) + 2 * time_Millisecond \<le> clk2 0" "clk2 1 < ex + JWTLeeWay"
    and auth: "AuthService_AuthenticateAccessToken J as clk2 tok w1 = (r, w2)"
  shows "r = Ok userID \<or> (\<exists>e. r = Err e \<and> redis_error e)"
proof -
  have "\<not> denied (w_redis w1) (clk2 0) tok"
    using logout [OF rdy mono run] create_decode [OF inp tok] time by (auto simp: ex)
  from authenticate_created [OF inp tok this _ auth] time(4) show ?thesis by (simp add: ex)
qed

end

end
