(* ===== verification/Session_Properties.thy ===== *)
theory Session_Properties
  imports Examples Auth_Flows
begin

text \<open>
  The properties of issuing, authenticating and logging out on the program as \<open>main\<close> builds it,
  and of the pairs of tokens handed out: what an issue or a refresh returns works for the same
  client, and what a logout has ended does not.
\<close>

lemma main_inputs:
  assumes "ambient_inputs (asTokenService (main_auth srv cfg url)) am" and "pg_ready d"
    and "pg_users d i \<noteq> None"
  shows "token_inputs (asTokenService (main_auth srv cfg url)) i (amClock am 0) (amUUID am)"
  using assms pg_ready_user_range [of d i] by (auto simp: token_inputs_ambient)

lemma ex_ambient_inputs: "ambient_inputs (NewTokenService ex_config T) ex_ambient"
  using ex_inputs(2) [of T] by (simp add: token_inputs_ambient)

lemma ex_issue_succeeds:
  obtains acc rt w' where "AuthService_IssueTokens plain_jwt ex_auth ex_ambient ''g2'' ex_metadata
      (ex_world ''active'') = (Ok (acc, rt), w')" and "pg_healthy ex_server (w_db w')"
  by (rule main_live.issue_succeeds [where url = "''''" and cfg = ex_config and guid = "''g2''"
        and md = ex_metadata, OF ex_healthy [of "''active''"] ex_room _ _ ex_random(1)])
    (use ex_ambient_inputs in \<open>simp_all add: ex_sessions token_inputs_ambient\<close>)

lemma main_issue:
  assumes "jwt_laws J decode genuine" and "pg_ready (w_db w)"
    and "AuthService_IssueTokens J (main_auth srv cfg url) am guid md w = (Ok (acc, rt), w')"
  obtains i g sel vh k where "pg_ready (w_db w')" and "pg_uuid_in srv guid = Some g"
    and "pg_users (w_db w) i = Some g \<or> pg_users (w_db w) i = None \<and> g \<notin> ran (pg_users (w_db w))"
    and "pg_users (w_db w') = (pg_users (w_db w))(i \<mapsto> g)"
    and "TokenService_CreateRefreshToken (amRand am) = Ok (rt, sel, vh)"
    and "pg_sessions (w_db w) sel = None"
    and "pg_sessions (w_db w') = (pg_sessions (w_db w))(sel \<mapsto> (stored_form srv
        (new_session (main_auth srv cfg url) sel vh md (amUUID am) (amClock am 0)
          \<lparr>rsID := k, rsUserID := i\<rparr>), ''active''))"
    and "TokenService_CreateAccessTokenWithJTI J (asTokenService (main_auth srv cfg url)) i
        (amClock am 0) (amUUID am) = Ok acc"
proof -
  have sel: "rsSelector (new_session (main_auth srv cfg url) sel vh md jti now) = sel" for sel vh jti now
    by (simp add: new_session_def)
  from auth_service.issue_tokens [OF main_auth_service [OF assms(1)] assms(2,3)]
  obtain u sel vh where "pg_ready (w_db w')"
    "TokenService_CreateRefreshToken (amRand am) = Ok (rt, sel, vh)"
    "issue_spec (stored_form srv) (pg_uuid_in srv) guid
      (new_session (main_auth srv cfg url) sel vh md (amUUID am) (amClock am 0))
      (pg_users (w_db w), pg_sessions (w_db w)) u (pg_users (w_db w'), pg_sessions (w_db w'))"
    "TokenService_CreateAccessTokenWithJTI J (asTokenService (main_auth srv cfg url)) (uID u)
      (amClock am 0) (amUUID am) = Ok acc"
    by auto
  then show thesis unfolding issue_spec_def fst_conv snd_conv sel by (elim conjE exE) (rule that)
qed

text \<open>
  C13. An issue that succeeds registers the GUID once and stores one new active session: the user of
  the GUID exists afterwards (as it did before, or new), the session belongs to it, carries the
  client, the hash of the new verifier and the JTI of the new access token, and no other user or
  session has changed. The access token names the user.
\<close>

theorem issue_creates_session:
  assumes "jwt_laws J decode genuine" and "pg_ready (w_db w)"
    and "AuthService_IssueTokens J (main_auth srv cfg url) am guid md w = (Ok (acc, rt), w')"
  shows "\<exists>i g sel vh k. pg_uuid_in srv guid = Some g \<and>
      (pg_users (w_db w) i = Some g \<or> pg_users (w_db w) i = None \<and> g \<notin> ran (pg_users (w_db w))) \<and>
      pg_users (w_db w') = (pg_users (w_db w))(i \<mapsto> g) \<and>
      TokenService_CreateRefreshToken (amRand am) = Ok (rt, sel, vh) \<and>
      pg_sessions (w_db w) sel = None \<and>
      pg_sessions (w_db w') = (pg_sessions (w_db w))(sel \<mapsto> (stored_form srv
        (new_session (main_auth srv cfg url) sel vh md (amUUID am) (amClock am 0)
          \<lparr>rsID := k, rsUserID := i\<rparr>), ''active'')) \<and>
      TokenService_CreateAccessTokenWithJTI J (asTokenService (main_auth srv cfg url)) i
        (amClock am 0) (amUUID am) = Ok acc"
  by (rule main_issue [OF assms]) blast

theorem issue_creates_session_witness:
  "\<exists>acc rt w' i g. AuthService_IssueTokens plain_jwt ex_auth ex_ambient ''g2'' ex_metadata
      (ex_world ''active'') = (Ok (acc, rt), w') \<and> pg_users (w_db w') i = Some ''g2'' \<and>
      pg_sessions (w_db w') (random_selector ex_bytes2) \<noteq> None"
proof -
  obtain acc rt w' where run: "AuthService_IssueTokens plain_jwt ex_auth ex_ambient ''g2'' ex_metadata
      (ex_world ''active'') = (Ok (acc, rt), w')"
    by (rule ex_issue_succeeds)
  from issue_creates_session [OF jwt.jwt_laws_axioms ex_ready run] run show ?thesis
    by (fastforce simp: CreateRefreshToken_Ok ex_random)
qed

text \<open>
  C14. The pair of tokens an issue returns is a valid pair for the same client: in the state it
  leaves, the refresh token names an active session of the user registered for the GUID, and the
  access token carries its JTI, its user and the expiry \<open>now + AccessTTL\<close> under HS512.
\<close>

theorem issued_pair_valid:
  assumes "jwt_laws J decode genuine" and "pg_ready (w_db w)"
    and "ambient_inputs (asTokenService (main_auth srv cfg url)) am"
    and "AuthService_IssueTokens J (main_auth srv cfg url) am guid md w = (Ok (acc, rt), w')"
  shows "\<exists>sel s. valid_refresh decode acc rt md (pg_sessions (w_db w')) sel s \<and>
    pg_users (w_db w') (rsUserID s) = pg_uuid_in srv guid \<and> pg_uuid_in srv guid \<noteq> None \<and>
    decode acc = Some (SigningMethodHS512_Alg,
      access_claims (asTokenService (main_auth srv cfg url)) (rsUserID s) (amClock am 0) (amUUID am))"
proof -
  note main = main_auth_service [OF assms(1), where srv = srv and cfg = cfg and url = url]
  from auth_service.issue_tokens [OF main assms(2,4)] have rdy: "pg_ready (w_db w')" by simp
  show ?thesis
    by (rule auth_service.issue_then_valid [OF main assms(2,4) main_inputs [OF assms(3) rdy]])
      blast+
qed

theorem issued_pair_valid_witness:
  "\<exists>acc rt w' sel s. AuthService_IssueTokens plain_jwt ex_auth ex_ambient ''g2'' ex_metadata
      (ex_world ''active'') = (Ok (acc, rt), w') \<and>
    valid_refresh jwt_decode acc rt ex_metadata (pg_sessions (w_db w')) sel s \<and>
    pg_users (w_db w') (rsUserID s) = Some ''g2''"
proof -
  obtain acc rt w' where run: "AuthService_IssueTokens plain_jwt ex_auth ex_ambient ''g2'' ex_metadata
      (ex_world ''active'') = (Ok (acc, rt), w')"
    by (rule ex_issue_succeeds)
  have inp: "ambient_inputs (asTokenService ex_auth) ex_ambient" by (simp add: ex_ambient_inputs)
  from issued_pair_valid [OF jwt.jwt_laws_axioms ex_ready inp run] run
  show ?thesis by (simp only: ex_server_simps) metis
qed

text \<open>
  So is the pair a refresh returns, for a session of the same user: refreshing can be
  repeated from the new pair.
\<close>

theorem rotated_pair_valid:
  assumes "jwt_laws J decode genuine" and "pg_ready (w_db w)"
    and "ambient_inputs (asTokenService (main_auth srv cfg url)) am"
    and "AuthService_RefreshTokens J (main_auth srv cfg url) am acc rt md w = (Ok (newAcc, newRt), w')"
  shows "\<exists>osel os sel s. valid_refresh decode acc rt md (pg_sessions (w_db w)) osel os \<and>
    valid_refresh decode newAcc newRt md (pg_sessions (w_db w')) sel s \<and>
    rsUserID s = rsUserID os \<and> sel \<noteq> osel"
proof -
  note main = main_auth_service [OF assms(1), where srv = srv and cfg = cfg and url = url]
  show ?thesis
    by (rule auth_service.refresh_then_valid [OF main assms(2,4) main_inputs [OF assms(3,2)]])
      blast+
qed

theorem rotated_pair_valid_witness:
  "\<exists>newAcc newRt w' sel s. AuthService_RefreshTokens plain_jwt ex_auth ex_ambient ex_access ex_refresh
      ex_metadata (ex_world ''active'') = (Ok (newAcc, newRt), w') \<and>
    valid_refresh jwt_decode newAcc newRt ex_metadata (pg_sessions (w_db w')) sel s \<and> rsUserID s = 1"
proof -
  obtain newAcc w' where run: "AuthService_RefreshTokens plain_jwt ex_auth ex_ambient ex_access
      ex_refresh ex_metadata (ex_world ''active'') =
      (Ok (newAcc, random_selector ex_bytes2 @ ''.'' @ random_verifier ex_bytes2), w')"
    by (rule ex_refresh_succeeds)
  have inp: "ambient_inputs (asTokenService ex_auth) ex_ambient" by (simp add: ex_ambient_inputs)
  from rotated_pair_valid [OF jwt.jwt_laws_axioms ex_ready inp run]
  obtain osel os sel s where
    "valid_refresh jwt_decode ex_access ex_refresh ex_metadata (pg_sessions (w_db (ex_world ''active''))) osel os"
    and new: "valid_refresh jwt_decode newAcc (random_selector ex_bytes2 @ ''.'' @ random_verifier ex_bytes2)
      ex_metadata (pg_sessions (w_db w')) sel s" "rsUserID s = rsUserID os" by blast
  then have "pg_sessions (w_db (ex_world ''active'')) osel = Some (os, ''active'')"
    by (auto simp: valid_refresh_def)
  then have "rsUserID os = 1" by (auto simp: ex_sessions split: if_splits)
  with run new show ?thesis by metis
qed

text \<open>
  C15. Authentication is sound: a token that authenticates is not on the denylist, was signed with
  the service's key under HS512, is before its expiry (plus the leeway) and names the user that is
  returned; the check changes neither the sessions nor what Redis answers. Every error is one of
  the token errors or of Redis.
\<close>

theorem authentication_sound:
  assumes "jwt_laws J decode genuine"
    and "AuthService_AuthenticateAccessToken J (main_auth srv cfg url) clk tok w = (r, w')"
  shows "w_db w' = w_db w \<and> w_hooks w' = w_hooks w \<and>
    same_view (clk 0) (redis_view (w_redis w)) (redis_view (w_redis w')) \<and>
    (case r of
       Ok userID \<Rightarrow> redis_view (w_redis w) (clk 0) tok \<noteq> Some ''invalidated'' \<and>
         (\<exists>c ex. decode tok = Some (SigningMethodHS512_Alg, c) \<and>
            genuine SigningMethodHS512_Alg (cfgJwtSecretKey cfg) tok \<and>
            jcExpiresAt c = Some ex \<and> clk 1 < ex + JWTLeeWay \<and>
            strconv_ParseInt (jcUserID c) = Some userID)
     | Err e \<Rightarrow> \<not> errors_Is e ErrTokenExpired \<and> \<not> errors_Is e ErrSessionNotFound
     | Panic _ \<Rightarrow> False)"
  using auth_service.authenticate [OF main_auth_service [OF assms(1)] assms(2)]
  by (cases r) (auto simp: accepted_claims_def NewTokenService_def)

theorem authentication_sound_witness:
  "AuthService_AuthenticateAccessToken plain_jwt ex_auth ex_clock ex_access (ex_world ''active'') =
      (Ok 1, ex_world ''active'') \<and>
   redis_view (w_redis (ex_world ''active'')) (ex_clock 0) ex_access \<noteq> Some ''invalidated'' \<and>
   jwt_genuine SigningMethodHS512_Alg ''secret'' ex_access"
proof -
  have key: "cfgJwtSecretKey ex_config = ''secret''" by (simp add: ex_config_def)
  from authentication_sound [OF jwt.jwt_laws_axioms ex_authenticates [of "''active''"]] ex_authenticates [of "''active''"]
  show ?thesis by (auto simp: key)
qed

text \<open>
  C16. The access token of a successful issue authenticates as the user registered for the GUID,
  from any state in which it is not denied, until its expiry plus the leeway; only a failing Redis
  can refuse it.
\<close>

theorem issued_token_authenticates:
  assumes "jwt_laws J decode genuine" and "pg_ready (w_db w)"
    and "ambient_inputs (asTokenService (main_auth srv cfg url)) am"
    and "AuthService_IssueTokens J (main_auth srv cfg url) am guid md w = (Ok (acc, rt), w')"
    and "redis_view (w_redis v) (clk 0) acc \<noteq> Some ''invalidated''"
    and "clk 1 < jwt_NewNumericDate (time_Add (amClock am 0) (cfgAccessTTL cfg)) + JWTLeeWay"
    and "AuthService_AuthenticateAccessToken J (main_auth srv cfg url) clk acc v = (r, v')"
  shows "(\<exists>i. r = Ok i \<and> pg_users (w_db w') i = pg_uuid_in srv guid) \<or>
    (\<exists>e. r = Err e \<and> redis_error e)"
proof -
  note main = main_auth_service [OF assms(1), where srv = srv and cfg = cfg and url = url]
  obtain i where rdy: "pg_ready (w_db w')"
    and u: "pg_users (w_db w') i = pg_uuid_in srv guid" "pg_uuid_in srv guid \<noteq> None"
    and acc: "TokenService_CreateAccessTokenWithJTI J (asTokenService (main_auth srv cfg url)) i
      (amClock am 0) (amUUID am) = Ok acc"
    by (rule main_issue [OF assms(1,2,4)]) (auto intro: that)
  from u have inp: "token_inputs (asTokenService (main_auth srv cfg url)) i (amClock am 0)
      (amUUID am)"
    by (intro main_inputs [OF assms(3) rdy]) simp
  have "clk 1 < jwt_NewNumericDate (time_Add (amClock am 0)
      (tsAccessTTL (asTokenService (main_auth srv cfg url)))) + JWTLeeWay"
    using assms(6) by (simp add: NewTokenService_def)
  from auth_service.authenticate_created [OF main inp acc assms(5) this assms(7)] u show ?thesis
    by blast
qed

theorem issued_token_authenticates_witness:
  "\<exists>acc rt w'. AuthService_IssueTokens plain_jwt ex_auth ex_ambient ''g2'' ex_metadata
      (ex_world ''active'') = (Ok (acc, rt), w') \<and>
    ((\<exists>i. fst (AuthService_AuthenticateAccessToken plain_jwt ex_auth ex_clock acc
        (ex_world ''active'')) = Ok i \<and> pg_users (w_db w') i = Some ''g2'') \<or>
     (\<exists>e. fst (AuthService_AuthenticateAccessToken plain_jwt ex_auth ex_clock acc
        (ex_world ''active'')) = Err e \<and> redis_error e))"
proof -
  obtain acc rt w' where run: "AuthService_IssueTokens plain_jwt ex_auth ex_ambient ''g2'' ex_metadata
      (ex_world ''active'') = (Ok (acc, rt), w')"
    by (rule ex_issue_succeeds)
  have inp: "ambient_inputs (asTokenService ex_auth) ex_ambient" by (simp add: ex_ambient_inputs)
  have time: "ex_clock 1 < jwt_NewNumericDate (time_Add (amClock ex_ambient 0)
      (cfgAccessTTL ex_config)) + JWTLeeWay"
    by (simp add: ex_clock_def ex_ambient_def ex_now_def ex_config_def jwt_NewNumericDate_def
        time_Add_def time_units JWTLeeWay_def)
  have "redis_view (w_redis (ex_world ''active'')) (ex_clock 0) acc \<noteq> Some ''invalidated''"
    by (simp add: ex_world_def ex_redis_empty)
  from issued_token_authenticates [OF jwt.jwt_laws_axioms ex_ready inp run this time
      prod.collapse [symmetric]] run
  show ?thesis by (simp only: ex_server_simps) blast
qed

text \<open>
  C17. A logout that succeeds has validated the token, removes every session of its user and no
  other, starts no webhook, puts the token on the denylist from its last clock reading until its
  expiry (less a millisecond) and changes no other key of Redis.
\<close>

theorem logout_effect:
  assumes "jwt_laws J decode genuine" and "pg_ready (w_db w)" and "mono clk"
    and "AuthService_Logout J (main_auth srv cfg url) clk tok w = (Ok u, w')"
  shows "\<exists>c ex userID. decode tok = Some (SigningMethodHS512_Alg, c) \<and>
      genuine SigningMethodHS512_Alg (cfgJwtSecretKey cfg) tok \<and>
      redis_view (w_redis w) (clk 0) tok \<noteq> Some ''invalidated'' \<and>
      accepted_claims c (clk 1) userID \<and> jcExpiresAt c = Some ex \<and>
      (\<forall>k. pg_sessions (w_db w') k =
        (case pg_sessions (w_db w) k of
           Some (s, st) \<Rightarrow> if rsUserID s = userID then None else Some (s, st)
         | None \<Rightarrow> None)) \<and>
      pg_users (w_db w') = pg_users (w_db w) \<and> w_hooks w' = w_hooks w \<and>
      (\<forall>t k. clk 3 \<le> t \<longrightarrow> k \<noteq> tok \<longrightarrow>
        redis_view (w_redis w') t k = redis_view (w_redis w) t k) \<and>
      (\<forall>t. int64_range (ex - clk 2) \<longrightarrow> clk 3 \<le> t \<longrightarrow> t < ex - time_Millisecond \<longrightarrow>
        redis_view (w_redis w') t tok = Some ''invalidated'')"
proof -
  from auth_service.logout [OF main_auth_service [OF assms(1)] assms(2-4)]
  obtain c ex userID where "decode tok = Some (SigningMethodHS512_Alg, c)"
      "genuine SigningMethodHS512_Alg (cfgJwtSecretKey cfg) tok"
      "redis_view (w_redis w) (clk 0) tok \<noteq> Some ''invalidated''"
      "accepted_claims c (clk 1) userID" "jcExpiresAt c = Some ex"
      "pg_sessions (w_db w') = revoke_user userID (pg_sessions (w_db w))"
      "pg_users (w_db w') = pg_users (w_db w)" "w_hooks w' = w_hooks w"
      "same_but (clk 3) tok (redis_view (w_redis w)) (redis_view (w_redis w'))"
      "int64_range (ex - clk 2) \<Longrightarrow>
        \<forall>t \<ge> clk 3. t < ex - time_Millisecond \<longrightarrow> redis_view (w_redis w') t tok = Some ''invalidated''"
    by (auto simp: NewTokenService_def)
  then show ?thesis
    unfolding same_but_def
    by (intro exI [of _ c] exI [of _ ex] exI [of _ userID]) (simp add: revoke_user_def)
qed

theorem logout_effect_witness:
  "\<exists>w'. AuthService_Logout plain_jwt ex_auth ex_clock ex_access (ex_world ''active'') = (Ok (), w') \<and>
    pg_sessions (w_db w') (random_selector ex_bytes) = None \<and>
    redis_view (w_redis w') (ex_now + time_Minute) ex_access = Some ''invalidated''"
proof -
  obtain w' where run: "AuthService_Logout plain_jwt ex_auth ex_clock ex_access (ex_world ''active'') =
      (Ok (), w')" by (rule ex_logout_succeeds)
  have id: "strconv_ParseInt (strconv_FormatInt 1) = Some 1"
    by (simp add: ParseInt_FormatInt int64_range_def)
  from logout_effect [OF jwt.jwt_laws_axioms ex_ready mono_ex_clock run] run ex_decode show ?thesis
    by (auto simp: ex_sessions accepted_claims_def id ex_clock_def time_units int64_range_def)
qed

text \<open>
  After a logout no refresh token of the user works: a refresh that presents the selector of a
  session the user had fails, whatever else it presents.
\<close>

theorem logout_ends_refresh:
  assumes "jwt_laws J decode genuine" and "pg_ready (w_db w)" and "mono clk"
    and "AuthService_Logout J (main_auth srv cfg url) clk tok w = (Ok u, w')"
    and "strings_Split (CHR ''.'') rt = [sel, ver]" and "pg_sessions (w_db w) sel = Some (s, st)"
    and "decode tok = Some (alg, c)" and "strconv_ParseInt (jcUserID c) = Some (rsUserID s)"
  shows "fst (AuthService_RefreshTokens J (main_auth srv cfg url) am acc rt md w') \<noteq> Ok p"
  by (rule auth_service.logout_stops_refresh [OF main_auth_service [OF assms(1)] assms(2-8)])

theorem logout_ends_refresh_witness:
  "\<exists>w'. AuthService_Logout plain_jwt ex_auth ex_clock ex_access (ex_world ''active'') = (Ok (), w') \<and>
    (\<forall>p. fst (AuthService_RefreshTokens plain_jwt ex_auth ex_ambient ex_access ex_refresh ex_metadata
      w') \<noteq> Ok p)"
proof -
  obtain w' where run: "AuthService_Logout plain_jwt ex_auth ex_clock ex_access (ex_world ''active'') =
      (Ok (), w')" by (rule ex_logout_succeeds)
  have s: "pg_sessions (w_db (ex_world ''active'')) (random_selector ex_bytes) = Some (ex_session, ''active'')"
    by (simp add: ex_sessions)
  have id: "strconv_ParseInt (jcUserID ex_claims) = Some (rsUserID ex_session)"
    by (simp add: ParseInt_FormatInt int64_range_def)
  from logout_ends_refresh [OF jwt.jwt_laws_axioms ex_ready mono_ex_clock run ex_split s ex_decode id] run
  show ?thesis by blast
qed

text \<open>
  A logged-out access token is refused: it does not authenticate from the end of the logout
  until a millisecond before its expiry.
\<close>

theorem logged_out_token_rejected:
  assumes "jwt_laws J decode genuine" and "pg_ready (w_db w)" and "mono clk"
    and "AuthService_Logout J (main_auth srv cfg url) clk tok w = (Ok u, w')"
    and "decode tok = Some (alg, c)" and "jcExpiresAt c = Some ex" and "int64_range (ex - clk 2)"
    and "clk 3 \<le> clk2 0" and "clk2 0 < ex - time_Millisecond"
  shows "fst (AuthService_AuthenticateAccessToken J (main_auth srv cfg url) clk2 tok w') \<noteq> Ok i"
  by (rule auth_service.logout_rejects [where clk = clk and ?clk2.0 = clk2, OF main_auth_service [OF assms(1)] assms(2-9)])

theorem logged_out_token_rejected_witness:
  "\<exists>w'. AuthService_Logout plain_jwt ex_auth ex_clock ex_access (ex_world ''active'') = (Ok (), w') \<and>
    fst (AuthService_AuthenticateAccessToken plain_jwt ex_auth (\<lambda>n. ex_clock (n + 4)) ex_access w') \<noteq>
      Ok 1"
proof -
  obtain w' where run: "AuthService_Logout plain_jwt ex_auth ex_clock ex_access (ex_world ''active'') =
      (Ok (), w')" by (rule ex_logout_succeeds)
  have "int64_range (ex_now + 15 * time_Minute - ex_clock 2)" "ex_clock 3 \<le> (\<lambda>n. ex_clock (n + 4)) 0"
    "(\<lambda>n. ex_clock (n + 4)) 0 < ex_now + 15 * time_Minute - time_Millisecond"
    by (simp_all add: int64_range_def ex_clock_def time_units)
  from logged_out_token_rejected [where ?clk2.0 = "\<lambda>n. ex_clock (n + 4)" and clk = ex_clock, OF jwt.jwt_laws_axioms ex_ready mono_ex_clock run ex_decode
      ex_claims_simps(3) this] run
  show ?thesis by blast
qed

text \<open>
  C18. But it comes back: the denylist entry lives until the token's \<open>exp\<close>, while validation
  accepts the token until \<open>exp + JWTLeeWay\<close>. Between the two, a token that was logged out
  before its expiry authenticates again (unless Redis fails).
\<close>

theorem logged_out_token_revives:
  assumes "jwt_laws J decode genuine" and "pg_ready (w_db w)" and "mono clk"
    and "token_inputs (asTokenService (main_auth srv cfg url)) userID now jti"
    and "TokenService_CreateAccessTokenWithJTI J (asTokenService (main_auth srv cfg url)) userID now jti =
      Ok tok"
    and "ex = jwt_NewNumericDate (time_Add now (tsAccessTTL (asTokenService (main_auth srv cfg url))))"
    and "AuthService_Logout J (main_auth srv cfg url) clk tok w = (Ok u, w')"
    and "int64_range (ex - clk 2)" and "0 < ex - clk 2"
    and "clk 3 + (ex - clk 2) + 2 * time_Millisecond \<le> clk2 0" and "clk2 1 < ex + JWTLeeWay"
    and "AuthService_AuthenticateAccessToken J (main_auth srv cfg url) clk2 tok w' = (r, w'')"
  shows "r = Ok userID \<or> (\<exists>e. r = Err e \<and> redis_error e)"
  by (rule auth_service.logout_revives [OF main_auth_service [OF assms(1)] assms(2-12)])

theorem logged_out_token_revives_witness:
  "\<exists>w'. AuthService_Logout plain_jwt ex_auth ex_clock ex_access (ex_world ''active'') = (Ok (), w') \<and>
    (let late = (\<lambda>n. ex_now + 15 * time_Minute + (int n + 2) * time_Second);
         r = fst (AuthService_AuthenticateAccessToken plain_jwt ex_auth late ex_access w')
     in r = Ok 1 \<or> (\<exists>e. r = Err e \<and> redis_error e))"
proof -
  obtain w' where run: "AuthService_Logout plain_jwt ex_auth ex_clock ex_access (ex_world ''active'') =
      (Ok (), w')" by (rule ex_logout_succeeds)
  let ?late = "\<lambda>n. ex_now + 15 * time_Minute + (int n + 2) * time_Second"
  have inp: "token_inputs (asTokenService ex_auth) 1 ex_now ''jti-1''" by (simp add: ex_inputs)
  have tok: "TokenService_CreateAccessTokenWithJTI plain_jwt (asTokenService ex_auth) 1 ex_now ''jti-1'' =
      Ok ex_access"
    using ex_signed by (simp add: TokenService_CreateAccessTokenWithJTI_def ex_claims_def)
  have ex: "ex_now + 15 * time_Minute = jwt_NewNumericDate (time_Add ex_now
      (tsAccessTTL (asTokenService ex_auth)))"
    by (simp add: jwt_NewNumericDate_def time_Add_def ex_now_def time_units)
  have time: "int64_range (ex_now + 15 * time_Minute - ex_clock 2)"
    "0 < ex_now + 15 * time_Minute - ex_clock 2"
    "ex_clock 3 + (ex_now + 15 * time_Minute - ex_clock 2) + 2 * time_Millisecond \<le> ?late 0"
    "?late 1 < ex_now + 15 * time_Minute + JWTLeeWay"
    by (simp_all add: int64_range_def ex_clock_def time_units JWTLeeWay_def)
  from logged_out_token_revives [OF jwt.jwt_laws_axioms ex_ready mono_ex_clock inp tok ex run time
      prod.collapse [symmetric]] run
  show ?thesis by (simp add: Let_def)
qed

text \<open>
  A logout that fails has at most done its first steps: the sessions are as before or the
  user's are gone, no other Redis key has changed, and it never panics (a token without \<open>exp\<close>,
  on which \<open>InvalidateAccessToken\<close> would dereference nil, does not pass validation).
\<close>

theorem logout_failure:
  assumes "jwt_laws J decode genuine" and "pg_ready (w_db w)" and "mono clk"
    and "AuthService_Logout J (main_auth srv cfg url) clk tok w = (r, w')" and "r \<noteq> Ok ()"
  shows "\<exists>e. r = Err e \<and>
    (pg_sessions (w_db w') = pg_sessions (w_db w) \<or>
     (\<exists>c userID. decode tok = Some (SigningMethodHS512_Alg, c) \<and> accepted_claims c (clk 1) userID \<and>
        pg_sessions (w_db w') = revoke_user userID (pg_sessions (w_db w)))) \<and>
    pg_users (w_db w') = pg_users (w_db w) \<and> pg_ready (w_db w') \<and>
    same_but (clk 3) tok (redis_view (w_redis w)) (redis_view (w_redis w'))"
  using auth_service.logout [OF main_auth_service [OF assms(1)] assms(2-4)] assms(5)
  by (cases r) auto

definition ex_broken :: "(pgconn, redisconn) world" where
  "ex_broken = (ex_world ''active'')\<lparr>w_redis := \<lparr>rc_keys = (\<lambda>_. None), rc_faults = [FailBefore ''EOF'']\<rparr>\<rparr>"

theorem logout_failure_witness:
  "\<exists>e. fst (AuthService_Logout plain_jwt ex_auth ex_clock ex_access ex_broken) = Err e"
proof -
  have rdy: "pg_ready (w_db ex_broken)" using ex_ready [of "''active''"] by (simp add: ex_broken_def)
  have "fst (AuthService_Logout plain_jwt ex_auth ex_clock ex_access ex_broken) \<noteq> Ok ()"
    by (simp add: AuthService_Logout_def ex_broken_def go_try_def lift_redis_def
        TokenService_ValidateAccessTokenAndGetUserID_def TokenService_IsAccessTokenInvalidated_def
        NewTokenService_def NewTokenStorage_def TokenStorage_IsTokenInvalidated_def
        redis_Client_def redis_call_def Let_def)
  from logout_failure [OF jwt.jwt_laws_axioms rdy mono_ex_clock prod.collapse [symmetric] this]
  show ?thesis by blast
qed

text \<open>
  The public GUID is the one stored for the user: an answer is the user's, a user that does
  not exist is never answered with one, and asking changes nothing.
\<close>

theorem public_guid:
  assumes "jwt_laws J decode genuine" and "pg_ready (w_db w)"
    and "AuthService_GetPublicGUID (main_auth srv cfg url) i w = (r, w')"
  shows "pg_sessions (w_db w') = pg_sessions (w_db w) \<and> pg_users (w_db w') = pg_users (w_db w) \<and>
    w_redis w' = w_redis w \<and>
    (case r of
       Ok g \<Rightarrow> pg_users (w_db w) i = Some g
     | Err e \<Rightarrow> errors_Is e ErrUserNotFound \<longrightarrow> pg_users (w_db w) i = None
     | Panic _ \<Rightarrow> False)"
  using auth_service.get_public_guid [OF main_auth_service [OF assms(1)] assms(2,3)]
    auth_service.unchanged_def [OF main_auth_service [OF assms(1)]] by simp

theorem public_guid_witness:
  "pg_sessions (w_db (snd (AuthService_GetPublicGUID ex_auth 1 (ex_world ''active'')))) =
     pg_sessions (w_db (ex_world ''active''))"
  using public_guid [OF jwt.jwt_laws_axioms ex_ready prod.collapse [symmetric]] by blast

end
