(* ===== verification/Go_Calendar.thy ===== *)
theory Go_Calendar
  imports Go_Time "HOL-Library.Monad_Syntax"
begin

text \<open>
  Package \<open>time\<close>: the civil date of an instant in UTC, \<open>Format(time.RFC3339)\<close> and
  \<open>Parse(time.RFC3339, \<dots>)\<close>, with the algorithms of the library (cycles of 400, 100, 4 and 1
  years; the table \<open>daysBefore\<close>). The round trip at the end is what the API key service relies
  on when it stores the time of a rotation as text.
\<close>

section \<open>Dates\<close>

definition isLeap :: "int \<Rightarrow> bool" where
  "isLeap y \<longleftrightarrow> y mod 4 = 0 \<and> (y mod 100 \<noteq> 0 \<or> y mod 400 = 0)"

definition daysBefore :: "int list" where
  "daysBefore = [0, 31, 59, 90, 120, 151, 181, 212, 243, 273, 304, 334, 365]"

definition daysIn :: "int \<Rightarrow> int \<Rightarrow> int" where
  "daysIn m y =
     (if m = 2 \<and> isLeap y then 29 else daysBefore ! nat m - daysBefore ! nat (m - 1))"

text \<open>Days from 1 January of year 1 to 1 January of year \<open>y\<close>, and to 1 January 1970.\<close>

definition daysToYear :: "int \<Rightarrow> int" where
  "daysToYear y = (let n = y - 1 in 365 * n + n div 4 - n div 100 + n div 400)"

definition unixEpochDays :: int where "unixEpochDays = 719162"

definition day_number :: "int \<Rightarrow> int \<Rightarrow> int \<Rightarrow> int" where
  "day_number y m d =
     daysToYear y + daysBefore ! nat (m - 1) + (if isLeap y \<and> 3 \<le> m then 1 else 0) + (d - 1)"

definition month_day :: "bool \<Rightarrow> int \<Rightarrow> int \<times> int" where
  "month_day leap yday =
     (if leap \<and> yday = 59 then (2, 29)
      else
        let day = (if leap \<and> 59 < yday then yday - 1 else yday);
            month = day div 31;
            end' = daysBefore ! nat (month + 1)
        in if end' \<le> day then (month + 2, day - end' + 1)
           else (month + 1, day - daysBefore ! nat month + 1))"

definition civil_date :: "int \<Rightarrow> int \<times> int \<times> int" where
  "civil_date D =
     (let n400 = D div 146097; d1 = D mod 146097;
          n100 = d1 div 36524 - d1 div 36524 div 4; d2 = d1 - 36524 * n100;
          n4 = d2 div 1461; d3 = d2 mod 1461;
          n1 = d3 div 365 - d3 div 365 div 4; yday = d3 - 365 * n1;
          y = 400 * n400 + 100 * n100 + 4 * n4 + n1 + 1
      in (y, month_day (isLeap y) yday))"

section \<open>Formatting and parsing\<close>

definition append_int :: "nat \<Rightarrow> int \<Rightarrow> string" where
  "append_int w i =
     (let s = decimal (nat \<bar>i\<bar>)
      in (if i < 0 then ''-'' else '''') @ replicate (w - length s) (CHR ''0'') @ s)"

definition time_Format_RFC3339 :: "gotime \<Rightarrow> string" where
  "time_Format_RFC3339 t =
     (let secs = t div time_Second; rem' = secs mod 86400;
          (y, m, d) = civil_date (secs div 86400 + unixEpochDays)
      in append_int 4 y @ ''-'' @ append_int 2 m @ ''-'' @ append_int 2 d @ ''T'' @
         append_int 2 (rem' div 3600) @ '':'' @ append_int 2 (rem' mod 3600 div 60) @ '':'' @
         append_int 2 (rem' mod 60) @ ''Z'')"

definition digit_val :: "char \<Rightarrow> int" where
  "digit_val c = int (of_char c) - 48"

definition skip_char :: "char \<Rightarrow> string \<Rightarrow> string option" where
  "skip_char c s = (case s of x # xs \<Rightarrow> if x = c then Some xs else None | [] \<Rightarrow> None)"

text \<open>One or two digits; \<open>fixed\<close> requires two.\<close>

definition getnum :: "bool \<Rightarrow> string \<Rightarrow> (int \<times> string) option" where
  "getnum fixed s =
     (case s of
        [] \<Rightarrow> None
      | a # r \<Rightarrow>
          if \<not> is_digit a then None
          else (case r of
                  b # r' \<Rightarrow>
                    if is_digit b then Some (10 * digit_val a + digit_val b, r')
                    else if fixed then None else Some (digit_val a, r)
                | [] \<Rightarrow> if fixed then None else Some (digit_val a, [])))"

definition get_year :: "string \<Rightarrow> (int \<times> string) option" where
  "get_year s =
     (if length s < 4 \<or> \<not> (\<forall>c \<in> set (take 4 s). is_digit c) then None
      else Some (int (the (parse_digits 0 (take 4 s))), drop 4 s))"

text \<open>An optional fraction, of which nine digits count.\<close>

definition get_fraction :: "string \<Rightarrow> int \<times> string" where
  "get_fraction s =
     (case s of
        p # c # r \<Rightarrow>
          if (p = CHR ''.'' \<or> p = CHR '','') \<and> is_digit c
          then let ds = takeWhile is_digit (c # r); used = take 9 ds
               in (int (the (parse_digits 0 used)) * 10 ^ (9 - length used),
                   dropWhile is_digit (c # r))
          else (0, s)
      | _ \<Rightarrow> (0, s))"

text \<open>\<open>Z\<close> or an offset; the result is the offset in seconds.\<close>

definition get_zone :: "string \<Rightarrow> (int \<times> string) option" where
  "get_zone s =
     (if s \<noteq> [] \<and> hd s = CHR ''Z'' then Some (0, tl s)
      else if length s < 6 \<or> s ! 3 \<noteq> CHR '':'' then None
      else do {
        (hr, _) \<leftarrow> getnum True (take 2 (drop 1 s));
        (mm, _) \<leftarrow> getnum True (take 2 (drop 4 s));
        if 24 < hr \<or> 60 < mm then None
        else if hd s = CHR ''+'' then Some ((hr * 60 + mm) * 60, drop 6 s)
        else if hd s = CHR ''-'' then Some (- ((hr * 60 + mm) * 60), drop 6 s)
        else None })"

definition time_Parse_RFC3339 :: "string \<Rightarrow> gotime option" where
  "time_Parse_RFC3339 s0 =
     do {
       (y, s1) \<leftarrow> get_year s0;
       s2 \<leftarrow> skip_char (CHR ''-'') s1;
       (m, s3) \<leftarrow> getnum True s2;
       s4 \<leftarrow> skip_char (CHR ''-'') s3;
       (d, s5) \<leftarrow> getnum True s4;
       s6 \<leftarrow> skip_char (CHR ''T'') s5;
       (h, s7) \<leftarrow> getnum False s6;
       s8 \<leftarrow> skip_char (CHR '':'') s7;
       (mi, s9) \<leftarrow> getnum True s8;
       s10 \<leftarrow> skip_char (CHR '':'') s9;
       (sec, s11) \<leftarrow> getnum True s10;
       let (ns, s12) = get_fraction s11;
       (off, s13) \<leftarrow> get_zone s12;
       if s13 \<noteq> [] \<or> m < 1 \<or> 12 < m \<or> 24 \<le> h \<or> 60 \<le> mi \<or> 60 \<le> sec \<or> d < 1 \<or> daysIn m y < d
       then None
       else Some (((day_number y m d - unixEpochDays) * 86400 + h * 3600 + mi * 60 + sec - off)
                    * time_Second + ns) }"

section \<open>The date of a day number is inverse to the day number\<close>

lemma mod_top: "1 \<le> v \<Longrightarrow> v \<le> k \<Longrightarrow> v mod k = 0 \<longleftrightarrow> v = k" for v k :: int
  by (cases "v = k") (auto simp: mod_pos_pos_trivial)

text \<open>Four cycles of \<open>k\<close> days of which the last has one more.\<close>

lemma last_cycle_longer:
  fixes d k :: int
  assumes "0 \<le> d" "d \<le> 4 * k" "0 < k" and n: "n = d div k - d div k div 4"
  shows "0 \<le> n \<and> n \<le> 3 \<and> 0 \<le> d - k * n \<and> d - k * n < k + (if n = 3 then 1 else 0)"
proof (cases "d = 4 * k")
  case True
  with assms(3) n have "n = 3" by simp
  with True assms(3) show ?thesis by simp
next
  case False
  have "d div k < 4"
  proof (rule ccontr)
    assume "\<not> d div k < 4"
    then have "4 * k \<le> (d div k) * k" using assms(3) by (intro mult_right_mono) simp_all
    also have "\<dots> \<le> d" 
      using pos_mod_sign [OF assms(3), of d] div_mult_mod_eq [of d k] by linarith
    finally show False using False assms(2) by simp
  qed
  moreover have "0 \<le> d div k" using assms by (simp add: pos_imp_zdiv_nonneg_iff)
  ultimately have "n = d div k" "0 \<le> n" "n \<le> 3" unfolding n by auto
  moreover have "d - k * (d div k) = d mod k" by (simp add: minus_mult_div_eq_mod)
  ultimately show ?thesis
    using pos_mod_bound [OF assms(3), of d] assms(3) by (simp add: less_imp_le)
qed

lemma daysToYear_cycles:
  assumes "0 \<le> b" "b \<le> 3" "0 \<le> c" "c \<le> 24" "0 \<le> e" "e \<le> 3"
  shows "daysToYear (400 * a + 100 * b + 4 * c + e + 1) = 146097 * a + 36524 * b + 1461 * c + 365 * e"
proof -
  have "(400 * a + 100 * b + 4 * c + e) div 4 = 100 * a + 25 * b + c" using assms by linarith
  moreover have "(400 * a + 100 * b + 4 * c + e) div 100 = 4 * a + b" using assms by linarith
  moreover have "(400 * a + 100 * b + 4 * c + e) div 400 = a" using assms by linarith
  ultimately show ?thesis by (simp add: daysToYear_def Let_def)
qed

text \<open>Only leap years have a day 365.\<close>

lemma isLeap_cycles:
  assumes "0 \<le> b" "b \<le> 3" "0 \<le> c" "c \<le> 24" "0 \<le> e" "e \<le> 3"
  shows "isLeap (400 * a + 100 * b + 4 * c + e + 1) \<longleftrightarrow> e = 3 \<and> (c \<noteq> 24 \<or> b = 3)"
proof -
  let ?y = "400 * a + 100 * b + 4 * c + e + 1"
  have "?y = (e + 1) + 4 * (100 * a + 25 * b + c)" "?y = (4 * c + e + 1) + 100 * (4 * a + b)"
    "?y = (100 * b + 4 * c + e + 1) + 400 * a" by simp_all
  then have m: "?y mod 4 = (e + 1) mod 4" "?y mod 100 = (4 * c + e + 1) mod 100"
    "?y mod 400 = (100 * b + 4 * c + e + 1) mod 400"
    by (metis mod_mult_self2)+
  have "(e + 1) mod 4 = 0 \<longleftrightarrow> e = 3"
    using assms(5,6) by (subst mod_top) auto
  moreover have "(4 * c + e + 1) mod 100 = 0 \<longleftrightarrow> c = 24 \<and> e = 3"
    using assms(3-6) by (subst mod_top) presburger+
  moreover have "(100 * b + 4 * c + e + 1) mod 400 = 0 \<longleftrightarrow> b = 3 \<and> c = 24 \<and> e = 3"
  proof -
    have "(100 * b + 4 * c + e + 1) mod 400 = 0 \<longleftrightarrow> 100 * b + 4 * c + e + 1 = 400"
      using assms by (intro mod_top) linarith+
    moreover have "b = 3 \<and> c = 24 \<and> e = 3" if v: "100 * b + 4 * c + e + 1 = 400"
    proof -
      from v assms have "\<not> b \<le> 2" by linarith
      with assms(2) have b: "b = 3" by simp
      with v assms have "\<not> c \<le> 23" by linarith
      with assms(4) have "c = 24" by simp
      with b v show ?thesis by simp
    qed
    ultimately show ?thesis by auto
  qed
  ultimately show ?thesis unfolding isLeap_def m by auto
qed

definition month_day_ok :: "bool \<Rightarrow> int \<Rightarrow> bool" where
  "month_day_ok leap yday =
     (case month_day leap yday of (m, d) \<Rightarrow>
        1 \<le> m \<and> m \<le> 12 \<and> 1 \<le> d \<and> d \<le> 31 \<and>
        daysBefore ! nat (m - 1) + (if leap \<and> 3 \<le> m then 1 else 0) + (d - 1) = yday \<and>
        d \<le> (if m = 2 \<and> leap then 29 else daysBefore ! nat m - daysBefore ! nat (m - 1)))"

lemma month_days_ok: "\<forall>yday \<in> set [0..364]. month_day_ok False yday \<and> month_day_ok True yday"
  by code_simp

lemma month_day_ok_365: "month_day_ok True 365"
  by code_simp

lemma month_day_correct:
  assumes "0 \<le> yday" "yday \<le> 365" "yday = 365 \<longrightarrow> leap"
  shows "month_day_ok leap yday"
proof (cases "yday = 365")
  case True
  with assms(3) month_day_ok_365 show ?thesis by simp
next
  case False
  with assms have "yday \<in> set [0..364]" by simp
  from bspec [OF month_days_ok this] show ?thesis by (cases leap) simp_all
qed

lemma civil_date_correct:
  assumes "civil_date D = (y, m, d)"
  shows "day_number y m d = D \<and> 1 \<le> m \<and> m \<le> 12 \<and> 1 \<le> d \<and> d \<le> 31 \<and> d \<le> daysIn m y \<and>
    daysToYear y \<le> D \<and> 400 * (D div 146097) < y \<and> y \<le> 400 * (D div 146097) + 400"
proof -
  define a d1 where "a = D div 146097" and "d1 = D mod 146097"
  have D: "D = 146097 * a + d1" "0 \<le> d1" "d1 < 146097" by (simp_all add: a_def d1_def)
  define b where "b = d1 div 36524 - d1 div 36524 div 4"
  have b: "0 \<le> b" "b \<le> 3" "0 \<le> d1 - 36524 * b" "d1 - 36524 * b < 36524 + (if b = 3 then 1 else 0)"
    using last_cycle_longer [OF D(2) _ _ b_def] D(3) by auto
  define d2 where "d2 = d1 - 36524 * b"
  define c d3 where "c = d2 div 1461" and "d3 = d2 mod 1461"
  have d3: "d2 = 1461 * c + d3" "0 \<le> d3" "d3 < 1461" by (simp_all add: c_def d3_def)
  have c: "0 \<le> c" "c \<le> 24" "c = 24 \<Longrightarrow> b \<noteq> 3 \<Longrightarrow> d3 < 1460"
    using b d3 unfolding d2_def [symmetric] by (auto split: if_splits; linarith)+
  define e where "e = d3 div 365 - d3 div 365 div 4"
  have e: "0 \<le> e" "e \<le> 3" "0 \<le> d3 - 365 * e" "d3 - 365 * e \<le> 365"
    "d3 - 365 * e = 365 \<Longrightarrow> e = 3 \<and> d3 = 1460"
    using last_cycle_longer [OF d3(2) _ _ e_def] d3(3) by (auto split: if_splits)
  let ?yd = "d3 - 365 * e"
  have y: "y = 400 * a + 100 * b + 4 * c + e + 1" and md: "month_day (isLeap y) ?yd = (m, d)"
    using assms
    unfolding civil_date_def Let_def a_def [symmetric] d1_def [symmetric] b_def [symmetric]
      d2_def [symmetric] c_def [symmetric] d3_def [symmetric] e_def [symmetric] by auto
  have leap: "isLeap y \<longleftrightarrow> e = 3 \<and> (c \<noteq> 24 \<or> b = 3)"
    unfolding y by (rule isLeap_cycles [OF b(1,2) c(1,2) e(1,2)])
  have "?yd = 365 \<longrightarrow> isLeap y" using e(5) c(3) leap by auto
  from month_day_correct [OF e(3,4) this] md
  have ok: "1 \<le> m" "m \<le> 12" "1 \<le> d" "d \<le> 31"
    "daysBefore ! nat (m - 1) + (if isLeap y \<and> 3 \<le> m then 1 else 0) + (d - 1) = ?yd"
    "d \<le> (if m = 2 \<and> isLeap y then 29 else daysBefore ! nat m - daysBefore ! nat (m - 1))"
    by (simp_all add: month_day_ok_def)
  have "daysToYear y = 146097 * a + 36524 * b + 1461 * c + 365 * e"
    unfolding y by (rule daysToYear_cycles [OF b(1,2) c(1,2) e(1,2)])
  moreover have "400 * a < y" "y \<le> 400 * a + 400" using b(1,2) c(1,2) e(1,2) by (simp_all add: y)
  moreover from calculation(1) ok(5) have "day_number y m d = D"
    unfolding day_number_def using D(1) d3(1) d2_def by linarith
  moreover from calculation(1) have "daysToYear y \<le> D" using D(1) d3(1) d2_def e(3) by linarith
  moreover have "d \<le> daysIn m y" using ok(6) by (simp add: daysIn_def)
  ultimately show ?thesis using ok(1-4) by (simp add: a_def)
qed

section \<open>What Format writes, Parse reads\<close>

lemma digit_val_digit_char [simp]: "d < 10 \<Longrightarrow> digit_val (digit_char d) = int d"
  by (simp add: digit_val_def of_char_digit_char)

lemma digit_char_0: "digit_char 0 = CHR ''0''"
  by code_simp

lemma append_int_2:
  assumes "0 \<le> i" "i < 100"
  shows "append_int 2 i = [digit_char (nat i div 10), digit_char (nat i mod 10)]"
proof (cases "nat i < 10")
  case True
  with assms show ?thesis
    by (simp add: append_int_def decimal.simps [of "nat i"] digit_char_0)
next
  case False
  with assms have "nat i div 10 < 10" by linarith
  with False assms show ?thesis
    by (simp add: append_int_def decimal.simps [of "nat i"] decimal.simps [of "nat i div 10"])
qed

lemma getnum_append_int:
  assumes "0 \<le> i" "i < 100"
  shows "getnum fixed (append_int 2 i @ s) = Some (i, s)"
proof -
  have "nat i div 10 < 10" "nat i mod 10 < 10" using assms by auto
  moreover have "int (10 * (nat i div 10) + nat i mod 10) = i" using assms by simp
  then have "10 * int (nat i div 10) + int (nat i mod 10) = i" by (simp only: of_nat_simps of_nat_mult of_nat_numeral)
  ultimately show ?thesis using assms by (simp add: append_int_2 getnum_def is_digit_digit_char)
qed

lemma length_decimal: "n < 10 ^ k \<Longrightarrow> 0 < k \<Longrightarrow> length (decimal n) \<le> k"
proof (induction n arbitrary: k rule: decimal.induct)
  case (1 n)
  show ?case
  proof (cases "n < 10")
    case True
    with 1 show ?thesis by (simp add: decimal.simps [of n])
  next
    case False
    with 1(2,3) obtain k' where k: "k = Suc k'" "0 < k'"
      by (cases k; cases "k - 1") auto
    with 1(2) have "n div 10 < 10 ^ k'" by (simp add: less_mult_imp_div_less mult.commute)
    with 1(1) [OF False this k(2)] False k show ?thesis by (simp add: decimal.simps [of n])
  qed
qed

lemma parse_digits_zeros: "parse_digits 0 (replicate k (CHR ''0'') @ s) = parse_digits 0 s"
  by (induction k) (simp_all add: is_digit_def)

lemma get_year_append_int:
  assumes "0 \<le> y" "y < 10000"
  shows "get_year (append_int 4 y @ s) = Some (y, s)"
proof -
  let ?d = "append_int 4 y"
  have "length (decimal (nat y)) \<le> 4" using assms by (intro length_decimal) auto
  then have len: "length ?d = 4" using assms by (simp add: append_int_def Let_def)
  have "\<forall>c \<in> set ?d. is_digit c"
    using assms decimal_digits by (auto simp: append_int_def Let_def is_digit_def)
  moreover have "parse_digits 0 ?d = Some (nat y)"
    using assms by (simp add: append_int_def Let_def parse_digits_zeros parse_digits_decimal)
  ultimately show ?thesis using assms len by (simp add: get_year_def)
qed

lemma civil_year_range:
  assumes "civil_date D = (y, m, d)" "0 \<le> D" "D < daysToYear 10000"
  shows "1 \<le> y \<and> y < 10000"
proof -
  have ten: "daysToYear 10000 = 3652059" by code_simp
  with assms(2,3) have "0 \<le> D div 146097" "D div 146097 \<le> 24" by auto
  with civil_date_correct [OF assms(1)] have y: "1 \<le> y" "y \<le> 10000" "daysToYear y \<le> D" by auto
  with assms(3) have "y \<noteq> 10000" by auto
  with y show ?thesis by simp
qed

definition representable :: "gotime \<Rightarrow> bool" where
  "representable t \<longleftrightarrow> 0 \<le> t \<and> t < (daysToYear 10000 - unixEpochDays) * 86400 * time_Second"

lemma skip_char_Cons [simp]: "skip_char c (c # s) = Some s"
  by (simp add: skip_char_def)

lemma Parse_fields:
  assumes "1 \<le> y" "y < 10000" "1 \<le> m" "m \<le> 12" "1 \<le> d" "d \<le> 31" "d \<le> daysIn m y"
    and "0 \<le> h" "h < 24" "0 \<le> mi" "mi < 60" "0 \<le> sec" "sec < 60"
  shows "time_Parse_RFC3339 (append_int 4 y @ ''-'' @ append_int 2 m @ ''-'' @ append_int 2 d @ ''T'' @
      append_int 2 h @ '':'' @ append_int 2 mi @ '':'' @ append_int 2 sec @ ''Z'') =
    Some (((day_number y m d - unixEpochDays) * 86400 + h * 3600 + mi * 60 + sec) * time_Second)"
  using assms
  by (simp add: time_Parse_RFC3339_def get_year_append_int getnum_append_int get_fraction_def
      get_zone_def)

lemma Parse_Format_RFC3339:
  assumes "representable t"
  shows "time_Parse_RFC3339 (time_Format_RFC3339 t) = Some (t div time_Second * time_Second)"
proof -
  define secs where "secs = t div time_Second"
  define r where "r = secs mod 86400"
  obtain y m d where civ: "civil_date (secs div 86400 + unixEpochDays) = (y, m, d)"
    by (rule prod_cases3)
  have "0 \<le> secs" "secs < (daysToYear 10000 - unixEpochDays) * 86400"
    using assms unfolding secs_def representable_def time_units by (auto simp: pos_imp_zdiv_nonneg_iff)
  then have D: "0 \<le> secs div 86400" "secs div 86400 < daysToYear 10000 - unixEpochDays" by auto
  from civil_date_correct [OF civ]
  have n: "day_number y m d = secs div 86400 + unixEpochDays" "1 \<le> m" "m \<le> 12" "1 \<le> d" "d \<le> 31"
    "d \<le> daysIn m y" by simp_all
  have y: "1 \<le> y" "y < 10000"
    using civil_year_range [OF civ] D by (simp_all add: unixEpochDays_def)
  have r: "0 \<le> r" "r < 86400" "secs = secs div 86400 * 86400 + r" by (simp_all add: r_def)
  have h: "0 \<le> r div 3600" "r div 3600 < 24" "0 \<le> r mod 3600 div 60" "r mod 3600 div 60 < 60"
    "0 \<le> r mod 60" "r mod 60 < 60"
    using r(1,2) by (simp_all add: pos_imp_zdiv_nonneg_iff)
  have "r div 3600 * 3600 + r mod 3600 = r" "r mod 3600 div 60 * 60 + r mod 3600 mod 60 = r mod 3600"
    by (rule div_mult_mod_eq)+
  moreover have "r mod 3600 mod 60 = r mod 60" by (rule mod_mod_cancel) simp
  ultimately have total: "secs div 86400 * 86400 + r div 3600 * 3600 + r mod 3600 div 60 * 60 +
      r mod 60 = secs"
    using r(3) by linarith
  have fmt: "time_Format_RFC3339 t = append_int 4 y @ ''-'' @ append_int 2 m @ ''-'' @
      append_int 2 d @ ''T'' @ append_int 2 (r div 3600) @ '':'' @
      append_int 2 (r mod 3600 div 60) @ '':'' @ append_int 2 (r mod 60) @ ''Z''"
    by (simp only: time_Format_RFC3339_def Let_def secs_def [symmetric] r_def [symmetric] civ prod.case)
  have "((day_number y m d - unixEpochDays) * 86400 + r div 3600 * 3600 + r mod 3600 div 60 * 60 +
      r mod 60) = secs"
    unfolding n(1) using total by simp
  then show ?thesis
    unfolding fmt Parse_fields [OF y n(2-6) h] by (simp add: secs_def)
qed

end
