(* ===== verification/Api_Key.thy ===== *)
theory Api_Key
  imports Redis_Client Config Go_Calendar Go_Encoding Go_Sha256
begin

text \<open>
  \<open>internal/service/apikey.go\<close>: the key of the API gateway. Redis holds the hash of the current
  key, of the one before it (for 24 hours) and the time of the last rotation. The operations run
  on any go-redis client; their clock readings are numbered in the order they are taken.
\<close>

definition CurrentAPIKeyRedisKey :: string where "CurrentAPIKeyRedisKey = ''apikey:current''"
definition OldAPIKeyRedisKey :: string where "OldAPIKeyRedisKey = ''apikey:old''"
definition APIKeyRotationTimeRedisKey :: string where
  "APIKeyRotationTimeRedisKey = ''apikey:rotation_time''"
definition defaultAPIKeyRedisTTL :: duration where "defaultAPIKeyRedisTTL = 24 * time_Hour"

record 'r APIKeyService =
  aksRdb :: "'r RedisClient"

definition NewAPIKeyService :: "'r RedisClient \<Rightarrow> 'r APIKeyService" where
  "NewAPIKeyService rdb = \<lparr>aksRdb = rdb\<rparr>"

definition APIKeyService_hashAPIKey :: "string \<Rightarrow> string" where
  "APIKeyService_hashAPIKey key = hex_EncodeToString (sha256_Sum256 key)"

text \<open>The comparison of two hashes as it is written in both operations.\<close>

definition hashes_equal :: "string \<Rightarrow> string \<Rightarrow> bool" where
  "hashes_equal a b \<longleftrightarrow> length a = length b \<and> subtle_ConstantTimeCompare a b = 1"

text \<open>Clock readings: 1 \<open>time.Now\<close>, 2 the pipeline.\<close>

definition APIKeyService_setInitialAPIKey ::
  "'r APIKeyService \<Rightarrow> environ \<Rightarrow> clock \<Rightarrow> ('r, unit) go" where
  "APIKeyService_setInitialAPIKey s env clk =
     (let apiKey = env ''AUTH_SERVICE_API_KEY'' in
      if apiKey = '''' then go_fail (ErrorsNew ''AUTH_SERVICE_API_KEY environment variable not set'')
      else
        let hashedKey = APIKeyService_hashAPIKey apiKey in
        go_try (Redis_PipelineExec (aksRdb s) (clk 2)
                  [(CurrentAPIKeyRedisKey, hashedKey, 0),
                   (APIKeyRotationTimeRedisKey, time_Format_RFC3339 (clk 1), 0)])
          (go_wrap ''init API key: '') (\<lambda>_. go_ret ()))"

text \<open>Clock readings: 0 the \<open>GET\<close>, 1 \<open>time.Now\<close>, 2 the pipeline.\<close>

definition APIKeyService_SyncAPIKey ::
  "'r APIKeyService \<Rightarrow> environ \<Rightarrow> clock \<Rightarrow> ('r, unit) go" where
  "APIKeyService_SyncAPIKey s env clk =
     (let newKey = env ''AUTH_SERVICE_API_KEY'' in
      if newKey = ''''
      then go_fail (ErrorsNew ''AUTH_SERVICE_API_KEY is empty during sync attempt'')
      else
        let hashedNewKey = APIKeyService_hashAPIKey newKey in
        go_try (Redis_Get (aksRdb s) (clk 0) CurrentAPIKeyRedisKey)
          (\<lambda>err. if errors_Is err RedisNil then APIKeyService_setInitialAPIKey s env clk
                 else go_wrap ''failed to get current API key from Redis: '' err)
          (\<lambda>currentHashedKey.
             if hashes_equal hashedNewKey currentHashedKey then go_ret ()
             else
               go_try (Redis_PipelineExec (aksRdb s) (clk 2)
                         [(OldAPIKeyRedisKey, currentHashedKey, defaultAPIKeyRedisTTL),
                          (CurrentAPIKeyRedisKey, hashedNewKey, 0),
                          (APIKeyRotationTimeRedisKey, time_Format_RFC3339 (clk 1), 0)])
                 (go_wrap ''failed to sync API key in Redis: '') (\<lambda>_. go_ret ())))"

text \<open>
  \<open>Get(...).Result()\<close> gives the empty string with \<open>redis.Nil\<close>; \<open>get_or_empty\<close> is the pattern
  \<^verbatim>\<open>v, err := Get(k); if err != nil && !errors.Is(err, redis.Nil) { return wrap(err) }\<close>.
\<close>

definition get_or_empty :: "'r APIKeyService \<Rightarrow> gotime \<Rightarrow> string \<Rightarrow> string \<Rightarrow> ('r, string) go" where
  "get_or_empty s now key msg =
     go_try (Redis_Get (aksRdb s) now key)
       (\<lambda>err. if \<not> errors_Is err RedisNil then go_wrap msg err else go_ret '''') go_ret"

text \<open>Clock readings: 0, 1, 2 the three \<open>GET\<close>s, 3 \<open>time.Since\<close>.\<close>

definition APIKeyService_IsValidAPIKey ::
  "'r APIKeyService \<Rightarrow> clock \<Rightarrow> string \<Rightarrow> ('r, bool) go" where
  "APIKeyService_IsValidAPIKey s clk key =
     (if key = '''' then go_ret False
      else
        let hashedKey = APIKeyService_hashAPIKey key in
        go_try (get_or_empty s (clk 0) CurrentAPIKeyRedisKey
                  ''failed to get current API key from Redis: '') go_fail
          (\<lambda>currentHashedKey.
             if hashes_equal hashedKey currentHashedKey then go_ret True
             else
               go_try (get_or_empty s (clk 1) OldAPIKeyRedisKey
                         ''failed to get old API key from Redis: '') go_fail
                 (\<lambda>oldHashedKey.
                    if oldHashedKey \<noteq> '''' \<and> hashes_equal hashedKey oldHashedKey
                    then
                      go_try (Redis_Get (aksRdb s) (clk 2) APIKeyRotationTimeRedisKey)
                        (go_wrap ''failed to get key rotation time from Redis: '')
                        (\<lambda>rotationTimeStr.
                           case time_Parse_RFC3339 rotationTimeStr of
                             None \<Rightarrow> go_wrap ''failed to parse key rotation time: ''
                                       (ExtError ''parsing time'')
                           | Some rotationTime \<Rightarrow>
                               go_ret (time_Since (clk 3) rotationTime \<le> 24 * time_Hour))
                    else go_ret False)))"

end
