(* ===== verification/Api_Key_Contract.thy ===== *)
theory Api_Key_Contract
  imports Api_Key Token_Storage
begin

text \<open>
  What the API key service promises, on any client that keeps the laws of \<open>redis_client\<close>: which
  keys are valid in terms of the three entries of Redis, what a synchronisation makes of them, and
  how long the previous key stays valid.
\<close>

lemmas api_key_names =
  CurrentAPIKeyRedisKey_def OldAPIKeyRedisKey_def APIKeyRotationTimeRedisKey_def

lemma api_keys_distinct [simp]:
  "CurrentAPIKeyRedisKey \<noteq> OldAPIKeyRedisKey" "OldAPIKeyRedisKey \<noteq> CurrentAPIKeyRedisKey"
  "CurrentAPIKeyRedisKey \<noteq> APIKeyRotationTimeRedisKey"
  "APIKeyRotationTimeRedisKey \<noteq> CurrentAPIKeyRedisKey"
  "OldAPIKeyRedisKey \<noteq> APIKeyRotationTimeRedisKey" "APIKeyRotationTimeRedisKey \<noteq> OldAPIKeyRedisKey"
  by (simp_all add: api_key_names)

lemma hashes_equal_iff [simp]: "hashes_equal a b \<longleftrightarrow> a = b"
  by (auto simp: hashes_equal_def)

lemma hash_not_Nil [simp]: "APIKeyService_hashAPIKey k \<noteq> []"
  by (simp add: APIKeyService_hashAPIKey_def flip: length_0_conv)

section \<open>Specifications\<close>

definition rotation_recent :: "string \<Rightarrow> gotime \<Rightarrow> bool" where
  "rotation_recent text now \<longleftrightarrow>
     (\<exists>t. time_Parse_RFC3339 text = Some t \<and> time_Since now t \<le> 24 * time_Hour)"

definition key_accepted :: "view \<Rightarrow> clock \<Rightarrow> string \<Rightarrow> bool" where
  "key_accepted m clk key \<longleftrightarrow> key \<noteq> '''' \<and>
     (m (clk 0) CurrentAPIKeyRedisKey = Some (APIKeyService_hashAPIKey key) \<or>
      m (clk 1) OldAPIKeyRedisKey = Some (APIKeyService_hashAPIKey key) \<and>
      (\<exists>text. m (clk 2) APIKeyRotationTimeRedisKey = Some text \<and> rotation_recent text (clk 3)))"

text \<open>
  The entries from an instant on: the current hash and the rotation time stay as they are (they
  are stored without expiry).
\<close>

definition lasting :: "gotime \<Rightarrow> view \<Rightarrow> bool" where
  "lasting now m \<longleftrightarrow>
     (\<forall>t \<ge> now. m t CurrentAPIKeyRedisKey = m now CurrentAPIKeyRedisKey \<and>
        m t APIKeyRotationTimeRedisKey = m now APIKeyRotationTimeRedisKey)"

definition synced :: "view \<Rightarrow> clock \<Rightarrow> string \<Rightarrow> view \<Rightarrow> bool" where
  "synced m clk key m' \<longleftrightarrow>
     (let h = APIKeyService_hashAPIKey key in
      case m (clk 0) CurrentAPIKeyRedisKey of
        None \<Rightarrow> sets_effect (clk 2)
          [(CurrentAPIKeyRedisKey, h, 0),
           (APIKeyRotationTimeRedisKey, time_Format_RFC3339 (clk 1), 0)] m m'
      | Some cur \<Rightarrow>
          if h = cur then same_view (clk 0) m m'
          else sets_effect (clk 2)
            [(OldAPIKeyRedisKey, cur, defaultAPIKeyRedisTTL), (CurrentAPIKeyRedisKey, h, 0),
             (APIKeyRotationTimeRedisKey, time_Format_RFC3339 (clk 1), 0)] m m')"

section \<open>Effects of the pipelines\<close>

lemma no_expiry_0 [simp]: "no_expiry 0"
  by (simp add: no_expiry_def KeepTTL_def)

lemma sets_frame:
  "sets_effect now cmds m m' \<Longrightarrow> k \<notin> fst ` set cmds \<Longrightarrow> now \<le> t \<Longrightarrow> m' t k = m t k"
proof (induction cmds arbitrary: m)
  case Nil
  then show ?case by (simp add: same_view_def)
next
  case (Cons c cmds)
  obtain key v d where c: "c = (key, v, d)" by (rule prod_cases3)
  from Cons.prems obtain m1 where m1: "set_effect now c m m1" "sets_effect now cmds m1 m'" by auto
  have "m' t k = m1 t k" using Cons.IH [OF m1(2)] Cons.prems by simp
  also have "\<dots> = m t k" using m1(1) Cons.prems by (auto simp: c intro: set_effect_other)
  finally show ?case .
qed

lemma sets_last:
  assumes "sets_effect now (cs @ (k, v, d) # cs') m m'" and "k \<notin> fst ` set cs'"
  shows "\<exists>m1 m2. set_effect now (k, v, d) m1 m2 \<and> (\<forall>t \<ge> now. m' t k = m2 t k)"
  using assms
proof (induction cs arbitrary: m)
  case Nil
  then obtain m2 where "set_effect now (k, v, d) m m2" "sets_effect now cs' m2 m'" by auto
  with sets_frame [OF this(2) Nil(2)] show ?case by blast
qed auto

lemma rotated_effect:
  assumes "sets_effect now [(OldAPIKeyRedisKey, cur, defaultAPIKeyRedisTTL),
      (CurrentAPIKeyRedisKey, h, 0), (APIKeyRotationTimeRedisKey, text, 0)] m m'"
  shows "now \<le> t \<Longrightarrow> m' t CurrentAPIKeyRedisKey = Some h"
    and "now \<le> t \<Longrightarrow> m' t APIKeyRotationTimeRedisKey = Some text"
    and "now \<le> t \<Longrightarrow> t < now + defaultAPIKeyRedisTTL - time_Millisecond \<Longrightarrow>
      m' t OldAPIKeyRedisKey = Some cur"
    and "now \<le> t \<Longrightarrow> m' t OldAPIKeyRedisKey = Some cur \<or> m' t OldAPIKeyRedisKey = None"
    and "now \<le> t \<Longrightarrow> k \<notin> {OldAPIKeyRedisKey, CurrentAPIKeyRedisKey, APIKeyRotationTimeRedisKey} \<Longrightarrow>
      m' t k = m t k"
proof -
  let ?o = "(OldAPIKeyRedisKey, cur, defaultAPIKeyRedisTTL)"
  let ?c = "(CurrentAPIKeyRedisKey, h, 0 :: duration)"
  let ?r = "(APIKeyRotationTimeRedisKey, text, 0 :: duration)"
  have pos: "0 < defaultAPIKeyRedisTTL" by (simp add: defaultAPIKeyRedisTTL_def time_units)
  show "m' t CurrentAPIKeyRedisKey = Some h" if "now \<le> t"
    using sets_last [of now "[?o]" _ _ _ "[?r]" m m'] assms that by (fastforce dest: set_effect_same)
  show "m' t APIKeyRotationTimeRedisKey = Some text" if "now \<le> t"
    using sets_last [of now "[?o, ?c]" _ _ _ "[]" m m'] assms that by (fastforce dest: set_effect_same)
  from sets_last [of now "[]" OldAPIKeyRedisKey cur defaultAPIKeyRedisTTL "[?c, ?r]" m m'] assms
  obtain m1 m2 where o: "set_effect now ?o m1 m2"
    "\<forall>t \<ge> now. m' t OldAPIKeyRedisKey = m2 t OldAPIKeyRedisKey" by auto
  show "m' t OldAPIKeyRedisKey = Some cur"
    if "now \<le> t" "t < now + defaultAPIKeyRedisTTL - time_Millisecond"
    using set_effect_live [OF o(1) pos that] o(2) that(1) by simp
  show "m' t OldAPIKeyRedisKey = Some cur \<or> m' t OldAPIKeyRedisKey = None" if "now \<le> t"
    using o pos that by (auto simp: set_effect_def holds_for_def KeepTTL_def)
  show "m' t k = m t k"
    if "now \<le> t" "k \<notin> {OldAPIKeyRedisKey, CurrentAPIKeyRedisKey, APIKeyRotationTimeRedisKey}"
    using sets_frame [OF assms _ that(1)] that(2) by auto
qed

lemma initial_effect:
  assumes "sets_effect now [(CurrentAPIKeyRedisKey, h, 0), (APIKeyRotationTimeRedisKey, text, 0)] m m'"
  shows "now \<le> t \<Longrightarrow> m' t CurrentAPIKeyRedisKey = Some h"
    and "now \<le> t \<Longrightarrow> m' t APIKeyRotationTimeRedisKey = Some text"
    and "now \<le> t \<Longrightarrow> k \<notin> {CurrentAPIKeyRedisKey, APIKeyRotationTimeRedisKey} \<Longrightarrow> m' t k = m t k"
proof -
  let ?c = "(CurrentAPIKeyRedisKey, h, 0 :: duration)"
  let ?r = "(APIKeyRotationTimeRedisKey, text, 0 :: duration)"
  show "m' t CurrentAPIKeyRedisKey = Some h" if "now \<le> t"
    using sets_last [of now "[]" _ _ _ "[?r]" m m'] assms that by (fastforce dest: set_effect_same)
  show "m' t APIKeyRotationTimeRedisKey = Some text" if "now \<le> t"
    using sets_last [of now "[?c]" _ _ _ "[]" m m'] assms that by (fastforce dest: set_effect_same)
  show "m' t k = m t k" if "now \<le> t" "k \<notin> {CurrentAPIKeyRedisKey, APIKeyRotationTimeRedisKey}"
    using sets_frame [OF assms _ that(1)] that(2) by auto
qed

text \<open>The entries that last.\<close>

lemma same_view_lasting:
  assumes "same_view now m m'" and "lasting now m"
  shows "lasting now m'"
  using assms unfolding lasting_def same_view_def by (metis order_refl)

lemma lasting_later:
  assumes "lasting now m" and "now \<le> t"
  shows "lasting t m"
  using assms unfolding lasting_def by (metis order_trans)

lemma lasting_current:
  assumes "lasting now m" and "now \<le> t"
  shows "m t CurrentAPIKeyRedisKey = m now CurrentAPIKeyRedisKey"
  using assms unfolding lasting_def by blast

text \<open>No command of the service gives the current hash or the rotation time an expiry.\<close>

lemma sets_lasting:
  assumes "sets_effect now cmds m m'" and "lasting now m"
    and "\<forall>(k, v, d) \<in> set cmds. k \<noteq> OldAPIKeyRedisKey \<longrightarrow> d = 0"
  shows "lasting now m'"
  using assms
proof (induction cmds arbitrary: m)
  case Nil
  then show ?case using same_view_lasting [of now m m'] by simp
next
  case (Cons c cmds)
  obtain k v d where c: "c = (k, v, d)" by (rule prod_cases3)
  from Cons.prems obtain m1 where m1: "set_effect now (k, v, d) m m1" "sets_effect now cmds m1 m'"
    by (auto simp: c)
  have "m1 t j = m1 now j"
    if t: "now \<le> t" and j: "j = CurrentAPIKeyRedisKey \<or> j = APIKeyRotationTimeRedisKey" for t j
  proof (cases "j = k")
    case True
    with j Cons.prems(3) have "d = 0" by (auto simp: c)
    then have d: "no_expiry d" by simp
    show ?thesis
      unfolding True set_effect_same [OF m1(1) d t] set_effect_same [OF m1(1) d order_refl] ..
  next
    case False
    have "m t j = m now j" using Cons.prems(2) t j unfolding lasting_def by blast
    then show ?thesis
      unfolding set_effect_other [OF m1(1) False t] set_effect_other [OF m1(1) False order_refl] .
  qed
  then have "lasting now m1" unfolding lasting_def by blast
  with Cons.IH [OF m1(2)] Cons.prems(3) show ?case by simp
qed

text \<open>A rotation is recent for 24 hours, up to the second the time is stored with.\<close>

lemma rotation_recent_iff:
  assumes "representable t"
  shows "rotation_recent (time_Format_RFC3339 t) now \<longleftrightarrow>
    now - t div time_Second * time_Second \<le> 24 * time_Hour"
proof -
  have "duration_clamp d \<le> 24 * time_Hour \<longleftrightarrow> d \<le> 24 * time_Hour" for d
    by (rule duration_clamp_le) (simp_all add: time_units)
  then show ?thesis
    by (simp only: rotation_recent_def Parse_Format_RFC3339 [OF assms] time_Since_def) simp
qed

lemma second_below: "t - time_Second < t div time_Second * time_Second"
  "t div time_Second * time_Second \<le> t"
proof -
  have "0 < time_Second" by (simp add: time_units)
  from pos_mod_sign [OF this, of t] pos_mod_bound [OF this, of t] div_mult_mod_eq [of t time_Second]
  show "t - time_Second < t div time_Second * time_Second" "t div time_Second * time_Second \<le> t"
    by linarith+
qed

section \<open>The operations on a client that keeps its laws\<close>

context redis_client begin

abbreviation "Sync \<equiv> APIKeyService_SyncAPIKey (NewAPIKeyService R)"
abbreviation "Valid \<equiv> APIKeyService_IsValidAPIKey (NewAPIKeyService R)"

lemma rdb [simp]: "aksRdb (NewAPIKeyService R) = R"
  by (simp add: NewAPIKeyService_def)

lemma get_or_empty_spec:
  assumes "get_or_empty (NewAPIKeyService R) now k msg s = (r, s')"
  shows "same_view now (view s) (view s') \<and>
    (case r of
       Ok v \<Rightarrow> view s now k = Some v \<or> view s now k = None \<and> v = ''''
     | Err e \<Rightarrow> redis_error e
     | Panic _ \<Rightarrow> False)"
  using assms unfolding get_or_empty_def rdb
proof (cases rule: go_try_cases)
  case (Ok v s1)
  with get [OF Ok(1)] show ?thesis by auto
next
  case (Err e s1)
  with get [OF Err(1)] show ?thesis by (auto simp: redis_error_def split: if_splits)
next
  case (Panic p)
  with get [OF Panic(1)] show ?thesis by simp
qed

text \<open>
  The rest of the check, once the current key has not matched: a key is valid if it is the old one
  and the rotation is recent.
\<close>

lemma is_valid_old:
  assumes clk: "clk 1 \<le> clk 2"
    and run: "go_try (get_or_empty (NewAPIKeyService R) (clk 1) OldAPIKeyRedisKey msg) go_fail
      (\<lambda>oldHashedKey.
         if oldHashedKey \<noteq> '''' \<and> h = oldHashedKey
         then go_try (Redis_Get R (clk 2) APIKeyRotationTimeRedisKey) (go_wrap p)
           (\<lambda>text. case time_Parse_RFC3339 text of
              None \<Rightarrow> go_wrap q (ExtError x)
            | Some t \<Rightarrow> go_ret (time_Since (clk 3) t \<le> 24 * time_Hour))
         else go_ret False) s = (r, s')"
    and h: "h \<noteq> ''''"
  shows "same_view (clk 2) (view s) (view s') \<and>
    (case r of
       Ok b \<Rightarrow> b = (view s (clk 1) OldAPIKeyRedisKey = Some h \<and>
         (\<exists>text. view s (clk 2) APIKeyRotationTimeRedisKey = Some text \<and> rotation_recent text (clk 3)))
     | Err e \<Rightarrow> redis_error e \<or> view s (clk 1) OldAPIKeyRedisKey = Some h \<and>
         (case view s (clk 2) APIKeyRotationTimeRedisKey of
            None \<Rightarrow> True | Some text \<Rightarrow> time_Parse_RFC3339 text = None)
     | Panic _ \<Rightarrow> False)"
  using run
proof (cases rule: go_try_cases)
  case (Err e s2)
  with get_or_empty_spec [OF Err(1)] clk show ?thesis by (auto simp: same_view_def)
next
  case (Panic p)
  with get_or_empty_spec [OF Panic(1)] show ?thesis by simp
next
  case (Ok old s2)
  note old = get_or_empty_spec [OF Ok(1), simplified]
  have view2: "view s2 (clk 2) = view s (clk 2)" "same_view (clk 2) (view s) (view s2)"
    using old clk by (auto simp: same_view_def)
  show ?thesis
  proof (cases "h = old")
    case False
    with Ok(2) old view2 show ?thesis by auto
  next
    case True
    with old h have oldkey: "view s (clk 1) OldAPIKeyRedisKey = Some h" by auto
    from Ok(2) True [symmetric] h have "go_try (Redis_Get R (clk 2) APIKeyRotationTimeRedisKey) (go_wrap p)
           (\<lambda>text. case time_Parse_RFC3339 text of
              None \<Rightarrow> go_wrap q (ExtError x)
            | Some t \<Rightarrow> go_ret (time_Since (clk 3) t \<le> 24 * time_Hour)) s2 = (r, s')" by simp
    then show ?thesis
    proof (cases rule: go_try_cases)
      case (Ok rotated s3)
      with get [OF Ok(1)] oldkey view2 show ?thesis
        by (auto simp: rotation_recent_def same_view_def split: option.splits)
    next
      case (Err e s3)
      with get [OF Err(1)] oldkey view2 show ?thesis by (auto simp: same_view_def redis_error_def)
    next
      case (Panic p)
      with get [OF Panic(1)] show ?thesis by simp
    qed
  qed
qed

text \<open>The whole check.\<close>

lemma is_valid:
  assumes mono: "mono clk" and run: "Valid clk key s = (r, s')"
  shows "same_view (clk 2) (view s) (view s') \<and>
    (case r of
       Ok b \<Rightarrow> b = key_accepted (view s) clk key
     | Err e \<Rightarrow> redis_error e \<or>
         view s (clk 0) CurrentAPIKeyRedisKey \<noteq> Some (APIKeyService_hashAPIKey key) \<and>
         view s (clk 1) OldAPIKeyRedisKey = Some (APIKeyService_hashAPIKey key) \<and>
         (case view s (clk 2) APIKeyRotationTimeRedisKey of
            None \<Rightarrow> True | Some text \<Rightarrow> time_Parse_RFC3339 text = None)
     | Panic _ \<Rightarrow> False)"
proof (cases "key = ''''")
  case True
  with run show ?thesis by (auto simp: APIKeyService_IsValidAPIKey_def key_accepted_def)
next
  case False
  have clk: "clk 0 \<le> clk 1" "clk 1 \<le> clk 2" using mono by (simp_all add: monoD)
  let ?h = "APIKeyService_hashAPIKey key"
  from run show ?thesis
    unfolding APIKeyService_IsValidAPIKey_def Let_def if_not_P [OF False] rdb
  proof (cases rule: go_try_cases)
    case (Err e s1)
    with get_or_empty_spec [OF Err(1)] clk show ?thesis by (auto simp: same_view_def)
  next
    case (Panic p)
    with get_or_empty_spec [OF Panic(1)] show ?thesis by simp
  next
    case (Ok cur s1)
    note cur = get_or_empty_spec [OF Ok(1), simplified]
    then have view1: "view s1 (clk 1) = view s (clk 1)" "view s1 (clk 2) = view s (clk 2)"
      "same_view (clk 2) (view s) (view s1)"
      using clk by (auto simp: same_view_def)
    show ?thesis
    proof (cases "?h = cur")
      case True
      with Ok(2) cur False view1 show ?thesis by (auto simp: key_accepted_def)
    next
      case other: False
      with cur have "view s (clk 0) CurrentAPIKeyRedisKey \<noteq> Some ?h" by auto
      moreover note is_valid_old [OF clk(2) Ok(2) [unfolded hashes_equal_iff if_not_P [OF other]]
          hash_not_Nil]
      ultimately show ?thesis
        using view1 False by (cases r) (auto simp: key_accepted_def same_view_def)
    qed
  qed
qed

text \<open>A synchronisation, on every outcome.\<close>

lemma sets_effect_view:
  "same_view now m m1 \<Longrightarrow> sets_effect now cmds m1 m' \<Longrightarrow> sets_effect now cmds m m'"
proof (cases cmds)
  case Nil
  then show "same_view now m m1 \<Longrightarrow> sets_effect now cmds m1 m' \<Longrightarrow> ?thesis"
    by (simp add: same_view_def)
next
  case (Cons c cs)
  then show "same_view now m m1 \<Longrightarrow> sets_effect now cmds m1 m' \<Longrightarrow> ?thesis"
    by (auto simp: set_effect_def same_view_def same_but_def split: prod.splits)
qed

lemma sync:
  assumes mono: "mono clk" and run: "Sync env clk s = (r, s')"
  shows "case r of
      Ok _ \<Rightarrow> env ''AUTH_SERVICE_API_KEY'' \<noteq> '''' \<and>
        synced (view s) clk (env ''AUTH_SERVICE_API_KEY'') (view s')
    | Err e \<Rightarrow> (env ''AUTH_SERVICE_API_KEY'' = '''' \<and> s' = s \<or> redis_error e) \<and>
        (same_view (clk 0) (view s) (view s') \<or>
         (\<exists>sent. sets_effect (clk 2) sent (view s) (view s') \<and>
            subseq sent [(OldAPIKeyRedisKey, the (view s (clk 0) CurrentAPIKeyRedisKey),
                defaultAPIKeyRedisTTL),
              (CurrentAPIKeyRedisKey, APIKeyService_hashAPIKey (env ''AUTH_SERVICE_API_KEY''), 0),
              (APIKeyRotationTimeRedisKey, time_Format_RFC3339 (clk 1), 0)]))
    | Panic _ \<Rightarrow> False"
proof (cases "env ''AUTH_SERVICE_API_KEY'' = ''''")
  case True
  with run show ?thesis by (auto simp: APIKeyService_SyncAPIKey_def)
next
  case False
  let ?h = "APIKeyService_hashAPIKey (env ''AUTH_SERVICE_API_KEY'')"
  have clk: "clk 0 \<le> clk 2" using mono by (simp add: monoD)
  note exec = pipeline [of "clk 2"]
  from run show ?thesis
    unfolding APIKeyService_SyncAPIKey_def Let_def if_not_P [OF False] rdb
  proof (cases rule: go_try_cases)
    case (Err e s1)
    show ?thesis
    proof (cases "errors_Is e RedisNil")
      case True
      with get [OF Err(1)] have none: "view s (clk 0) CurrentAPIKeyRedisKey = None"
        and view1: "same_view (clk 2) (view s) (view s1)"
        using clk by (auto simp: redis_error_def same_view_def)
      from Err(2) True False have "go_try (Redis_PipelineExec R (clk 2)
          [(CurrentAPIKeyRedisKey, ?h, 0), (APIKeyRotationTimeRedisKey, time_Format_RFC3339 (clk 1), 0)])
          (go_wrap ''init API key: '') (\<lambda>_. go_ret ()) s1 = (r, s')"
        by (simp add: APIKeyService_setInitialAPIKey_def Let_def)
      then show ?thesis
      proof (cases rule: go_try_cases)
        case (Ok u s2)
        with exec [OF Ok(1)] none False sets_effect_view [OF view1] show ?thesis
          by (auto simp: synced_def simp del: sets_effect.simps)
      next
        case (Err e' s2)
        from exec [OF Err(1)] obtain sent where sent: "redis_error e'"
          "sets_effect (clk 2) sent (view s1) (view s2)"
          "subseq sent [(CurrentAPIKeyRedisKey, ?h, 0),
            (APIKeyRotationTimeRedisKey, time_Format_RFC3339 (clk 1), 0)]" by auto
        from sets_effect_view [OF view1 sent(2)] list_emb_Cons [OF sent(3),
            of "(OldAPIKeyRedisKey, the (view s (clk 0) CurrentAPIKeyRedisKey), defaultAPIKeyRedisTTL)"]
        have "\<exists>sent. sets_effect (clk 2) sent (view s) (view s2) \<and>
            subseq sent [(OldAPIKeyRedisKey, the (view s (clk 0) CurrentAPIKeyRedisKey),
                defaultAPIKeyRedisTTL),
              (CurrentAPIKeyRedisKey, ?h, 0), (APIKeyRotationTimeRedisKey, time_Format_RFC3339 (clk 1), 0)]"
          by blast
        with Err(2) sent(1) show ?thesis by auto
      next
        case (Panic p)
        with exec [OF Panic(1)] show ?thesis by simp
      qed
    next
      case other: False
      with Err get [OF Err(1)] show ?thesis by auto
    qed
  next
    case (Panic p)
    with get [OF Panic(1)] show ?thesis by simp
  next
    case (Ok cur s1)
    with get [OF Ok(1)] have cur: "view s (clk 0) CurrentAPIKeyRedisKey = Some cur"
      and view0: "same_view (clk 0) (view s) (view s1)" by auto
    with clk have view1: "same_view (clk 2) (view s) (view s1)" by (simp add: same_view_def)
    show ?thesis
    proof (cases "?h = cur")
      case True
      with Ok(2) cur view0 False show ?thesis by (auto simp: synced_def)
    next
      case new: False
      from Ok(2) show ?thesis
        unfolding hashes_equal_iff if_not_P [OF new]
      proof (cases rule: go_try_cases)
        case (Ok u s2)
        with exec [OF Ok(1)] cur new False sets_effect_view [OF view1] show ?thesis
          by (auto simp: synced_def simp del: sets_effect.simps)
      next
        case (Err e' s2)
        with exec [OF Err(1)] cur False sets_effect_view [OF view1] show ?thesis
          by (auto simp del: sets_effect.simps)
      next
        case (Panic p)
        with exec [OF Panic(1)] show ?thesis by simp
      qed
    qed
  qed
qed

lemma sync_lasting:
  assumes "mono clk" and "Sync env clk s = (r, s')" and "lasting (clk 0) (view s)"
  shows "lasting (clk 2) (view s')"
proof -
  have clk: "clk 0 \<le> clk 2" using assms(1) by (simp add: monoD)
  have same: "lasting (clk 2) (view s')" if "same_view (clk 0) (view s) (view s')"
    using same_view_lasting [OF that assms(3)] clk by (rule lasting_later)
  have cmds: "lasting (clk 2) (view s')" if "sets_effect (clk 2) sent (view s) (view s')"
    and "subseq sent [(OldAPIKeyRedisKey, x, defaultAPIKeyRedisTTL), (CurrentAPIKeyRedisKey, h, 0),
      (APIKeyRotationTimeRedisKey, y, 0)]" for sent x h y
    by (rule sets_lasting [OF that(1) lasting_later [OF assms(3) clk]])
      (use that(2) in \<open>auto elim!: list_emb_set\<close>)
  show ?thesis
  proof (cases r)
    case (Ok u)
    with sync [OF assms(1,2)] show ?thesis
      using same cmds [OF _ list_emb_refl] cmds [OF _ list_emb_Cons [OF list_emb_refl]]
      by (auto simp: synced_def Let_def simp del: sets_effect.simps split: option.splits if_splits)
  next
    case (Err e)
    with sync [OF assms(1,2)] same cmds show ?thesis by auto
  next
    case (Panic p)
    with sync [OF assms(1,2)] show ?thesis by simp
  qed
qed

text \<open>The new key is valid from the end of the synchronisation on.\<close>

lemma sync_current:
  assumes "mono clk" and "Sync env clk s = (Ok u, s')" and "lasting (clk 0) (view s)" and "clk 2 \<le> t"
  shows "view s' t CurrentAPIKeyRedisKey =
    Some (APIKeyService_hashAPIKey (env ''AUTH_SERVICE_API_KEY''))"
proof -
  have "clk 0 \<le> clk 2" using assms(1) by (simp add: monoD)
  with assms(4) have t: "clk 0 \<le> t" by simp
  from sync [OF assms(1,2)] have sy: "synced (view s) clk (env ''AUTH_SERVICE_API_KEY'') (view s')"
    by simp
  show ?thesis
  proof (cases "view s (clk 0) CurrentAPIKeyRedisKey")
    case None
    with sy show ?thesis
      by (simp add: synced_def Let_def initial_effect(1) [OF _ assms(4)] del: sets_effect.simps)
  next
    case (Some cur)
    show ?thesis
    proof (cases "APIKeyService_hashAPIKey (env ''AUTH_SERVICE_API_KEY'') = cur")
      case True
      with sy Some have "view s' t = view s t" using t by (simp add: synced_def Let_def same_view_def)
      with lasting_current [OF assms(3) t] Some True show ?thesis by simp
    next
      case False
      with sy Some show ?thesis
        by (simp add: synced_def Let_def rotated_effect(1) [OF _ assms(4)] del: sets_effect.simps)
    qed
  qed
qed

lemma sync_new_valid:
  assumes "mono clk" and "Sync env clk s = (Ok u, s')" and "lasting (clk 0) (view s)"
    and "mono clk2" and "clk 2 \<le> clk2 0"
    and "Valid clk2 (env ''AUTH_SERVICE_API_KEY'') s' = (r, s'')"
  shows "r = Ok True \<or> (\<exists>e. r = Err e \<and> redis_error e)"
  using is_valid [OF assms(4,6)] sync_current [OF assms(1-3,5)] sync [OF assms(1,2)]
  by (cases r) (auto simp: key_accepted_def)

text \<open>What a rotation leaves for the keys that are not the new one.\<close>

lemma rotation_others:
  assumes "mono clk" and "Sync env clk s = (Ok u, s')"
    and "view s (clk 0) CurrentAPIKeyRedisKey = Some cur"
    and "APIKeyService_hashAPIKey (env ''AUTH_SERVICE_API_KEY'') \<noteq> cur"
    and "mono clk2" and "clk 2 \<le> clk2 0" and "representable (clk 1)"
    and "Valid clk2 key s' = (r, s'')" and "key \<noteq> ''''"
    and "APIKeyService_hashAPIKey key \<noteq> APIKeyService_hashAPIKey (env ''AUTH_SERVICE_API_KEY'')"
  shows "(\<exists>e. r = Err e \<and> redis_error e) \<or>
    r = Ok (view s' (clk2 1) OldAPIKeyRedisKey = Some (APIKeyService_hashAPIKey key) \<and>
      clk2 3 - clk 1 div time_Second * time_Second \<le> 24 * time_Hour)"
proof -
  have clk2: "clk 2 \<le> clk2 2" using assms(5,6) by (meson monoD order_trans zero_le)
  from sync [OF assms(1,2)] assms(3,4)
  have eff: "sets_effect (clk 2)
      [(OldAPIKeyRedisKey, cur, defaultAPIKeyRedisTTL),
       (CurrentAPIKeyRedisKey, APIKeyService_hashAPIKey (env ''AUTH_SERVICE_API_KEY''), 0),
       (APIKeyRotationTimeRedisKey, time_Format_RFC3339 (clk 1), 0)] (view s) (view s')"
    by (simp add: synced_def Let_def del: sets_effect.simps)
  have cur: "view s' (clk2 0) CurrentAPIKeyRedisKey \<noteq> Some (APIKeyService_hashAPIKey key)"
    using rotated_effect(1) [OF eff assms(6)] assms(10) by simp
  have rot: "view s' (clk2 2) APIKeyRotationTimeRedisKey = Some (time_Format_RFC3339 (clk 1))"
    by (rule rotated_effect(2) [OF eff clk2])
  from is_valid [OF assms(5,8)] cur rot assms(9) show ?thesis
    by (cases r) (auto simp: key_accepted_def rotation_recent_iff [OF assms(7) [unfolded One_nat_def]]
        Parse_Format_RFC3339 [OF assms(7) [unfolded One_nat_def]])
qed

text \<open>The previous key stays valid for 24 hours, less the second the rotation time is cut by.\<close>

lemma previous_valid:
  assumes "mono clk" and "Sync env clk s = (Ok u, s')" and "lasting (clk 0) (view s)"
    and "view s (clk 0) CurrentAPIKeyRedisKey = Some (APIKeyService_hashAPIKey key)" and "key \<noteq> ''''"
    and "representable (clk 1)"
    and "mono clk2" and "clk 2 \<le> clk2 0" and "clk2 3 \<le> clk 1 + 24 * time_Hour - time_Second"
    and "Valid clk2 key s' = (r, s'')"
  shows "r = Ok True \<or> (\<exists>e. r = Err e \<and> redis_error e)"
proof (cases "APIKeyService_hashAPIKey (env ''AUTH_SERVICE_API_KEY'') = APIKeyService_hashAPIKey key")
  case True
  with is_valid [OF assms(7,10)] sync_current [OF assms(1-3,8)] assms(5) show ?thesis
    by (cases r) (auto simp: key_accepted_def)
next
  case False
  have clk: "clk 2 \<le> clk2 1" "clk2 1 \<le> clk2 3" "clk 1 \<le> clk 2"
    using assms(1,7,8) by (simp_all add: monoD order_trans [OF assms(8)])
  from sync [OF assms(1,2)] assms(4) False
  have eff: "sets_effect (clk 2)
      [(OldAPIKeyRedisKey, APIKeyService_hashAPIKey key, defaultAPIKeyRedisTTL),
       (CurrentAPIKeyRedisKey, APIKeyService_hashAPIKey (env ''AUTH_SERVICE_API_KEY''), 0),
       (APIKeyRotationTimeRedisKey, time_Format_RFC3339 (clk 1), 0)] (view s) (view s')"
    by (simp add: synced_def Let_def del: sets_effect.simps)
  have "clk2 1 < clk 2 + defaultAPIKeyRedisTTL - time_Millisecond"
    using clk assms(9) by (simp add: defaultAPIKeyRedisTTL_def time_units)
  from rotated_effect(3) [OF eff clk(1) this]
  have "view s' (clk2 1) OldAPIKeyRedisKey = Some (APIKeyService_hashAPIKey key)" .
  moreover have "clk2 3 - clk 1 div time_Second * time_Second \<le> 24 * time_Hour"
    using second_below(1) [of "clk 1"] assms(9) by linarith
  moreover note rotation_others [OF assms(1,2,4) False assms(7,8,6,10,5) not_sym [OF False]]
  ultimately show ?thesis by auto
qed

text \<open>No other key is ever valid, and the previous one not after the 24 hours.\<close>

lemma only_two_keys:
  assumes "mono clk" and "Sync env clk s = (Ok u, s')"
    and "view s (clk 0) CurrentAPIKeyRedisKey = Some cur"
    and "APIKeyService_hashAPIKey (env ''AUTH_SERVICE_API_KEY'') \<noteq> cur"
    and "mono clk2" and "clk 2 \<le> clk2 0" and "representable (clk 1)"
    and "Valid clk2 key s' = (Ok True, s'')"
  shows "APIKeyService_hashAPIKey key = APIKeyService_hashAPIKey (env ''AUTH_SERVICE_API_KEY'') \<or>
    APIKeyService_hashAPIKey key = cur \<and> clk2 3 \<le> clk 1 + 24 * time_Hour"
proof (cases "APIKeyService_hashAPIKey key = APIKeyService_hashAPIKey (env ''AUTH_SERVICE_API_KEY'')")
  case False
  have clk2: "clk 2 \<le> clk2 1" using assms(5) by (simp add: monoD order_trans [OF assms(6)])
  from is_valid [OF assms(5,8)] have "key \<noteq> ''''" by (simp add: key_accepted_def)
  from rotation_others [OF assms(1-8) this False]
  have old: "view s' (clk2 1) OldAPIKeyRedisKey = Some (APIKeyService_hashAPIKey key)"
    and time: "clk2 3 - clk 1 div time_Second * time_Second \<le> 24 * time_Hour" by auto
  from sync [OF assms(1,2)] assms(3,4)
  have eff: "sets_effect (clk 2)
      [(OldAPIKeyRedisKey, cur, defaultAPIKeyRedisTTL),
       (CurrentAPIKeyRedisKey, APIKeyService_hashAPIKey (env ''AUTH_SERVICE_API_KEY''), 0),
       (APIKeyRotationTimeRedisKey, time_Format_RFC3339 (clk 1), 0)] (view s) (view s')"
    by (simp add: synced_def Let_def del: sets_effect.simps)
  from rotated_effect(4) [OF eff clk2] old have "APIKeyService_hashAPIKey key = cur" by auto
  with time second_below(2) [of "clk 1"] show ?thesis by linarith
qed simp

end

end
