(* ===== verification/Api_Key_Properties.thy ===== *)
theory Api_Key_Properties
  imports Api_Key_Contract Redis_Engine
begin

text \<open>
  The properties of the API key on the service as \<open>main\<close> builds it, on the Redis engine under any
  failures of its calls. An operation's clock readings never go back (\<open>mono\<close>), and the current
  hash and the rotation time are stored without expiry (\<open>lasting\<close>), which every synchronisation
  preserves.
\<close>

abbreviation main_keys :: "redisconn APIKeyService" where
  "main_keys \<equiv> NewAPIKeyService redis_Client"

abbreviation hash_of :: "string \<Rightarrow> string" where
  "hash_of \<equiv> APIKeyService_hashAPIKey"

text \<open>
  C19. A key is accepted exactly if it is not empty and its hash is the stored current one, or the
  stored old one while the stored time of the last rotation is at most 24 hours ago. The check
  changes no entry; its errors are those of Redis, or a missing or malformed rotation time.
\<close>

theorem api_key_decision:
  assumes "mono clk" and "APIKeyService_IsValidAPIKey main_keys clk key s = (r, s')"
  shows "same_view (clk 2) (redis_view s) (redis_view s') \<and>
    (case r of
       Ok b \<Rightarrow> b \<longleftrightarrow> key \<noteq> '''' \<and>
         (redis_view s (clk 0) ''apikey:current'' = Some (hash_of key) \<or>
          redis_view s (clk 1) ''apikey:old'' = Some (hash_of key) \<and>
          (\<exists>text t. redis_view s (clk 2) ''apikey:rotation_time'' = Some text \<and>
             time_Parse_RFC3339 text = Some t \<and> time_Since (clk 3) t \<le> 24 * time_Hour))
     | Err e \<Rightarrow> redis_error e \<or>
         redis_view s (clk 0) ''apikey:current'' \<noteq> Some (hash_of key) \<and>
         redis_view s (clk 1) ''apikey:old'' = Some (hash_of key) \<and>
         (case redis_view s (clk 2) ''apikey:rotation_time'' of
            None \<Rightarrow> True | Some text \<Rightarrow> time_Parse_RFC3339 text = None)
     | Panic _ \<Rightarrow> False)"
  using redis.is_valid [OF assms]
  by (cases r) (auto simp: key_accepted_def rotation_recent_def api_key_names)

definition ex_keys :: redisconn where
  "ex_keys = \<lparr>rc_keys = [''apikey:current'' \<mapsto> (hash_of ''k1'', None)], rc_faults = []\<rparr>"

definition ex_key_clock :: clock where
  "ex_key_clock n = 1700000000 * time_Second + int n * time_Second"

lemma mono_ex_key_clock: "mono ex_key_clock"
  by (simp add: mono_def ex_key_clock_def time_units)

theorem api_key_decision_witness:
  "fst (APIKeyService_IsValidAPIKey main_keys ex_key_clock ''k1'' ex_keys) = Ok True \<and>
   same_view (ex_key_clock 2) (redis_view ex_keys)
     (redis_view (snd (APIKeyService_IsValidAPIKey main_keys ex_key_clock ''k1'' ex_keys)))"
proof
  show "fst (APIKeyService_IsValidAPIKey main_keys ex_key_clock ''k1'' ex_keys) = Ok True"
    by (simp add: APIKeyService_IsValidAPIKey_def Let_def get_or_empty_def go_try_def redis_calm
        ex_keys_def redis_view_def server_GET_def CurrentAPIKeyRedisKey_def NewAPIKeyService_def)
  show "same_view (ex_key_clock 2) (redis_view ex_keys)
     (redis_view (snd (APIKeyService_IsValidAPIKey main_keys ex_key_clock ''k1'' ex_keys)))"
    using api_key_decision [OF mono_ex_key_clock prod.collapse [symmetric]] by blast
qed

text \<open>
  Zero downtime, the new key: from the end of a successful synchronisation on, the key of the
  environment is accepted, whatever was stored before; only a failing Redis can refuse it.
\<close>

theorem synced_key_valid:
  assumes "mono clk" and "APIKeyService_SyncAPIKey main_keys env clk s = (Ok u, s')"
    and "lasting (clk 0) (redis_view s)" and "mono clk2" and "clk 2 \<le> clk2 0"
    and "APIKeyService_IsValidAPIKey main_keys clk2 (env ''AUTH_SERVICE_API_KEY'') s' = (r, s'')"
  shows "r = Ok True \<or> (\<exists>e. r = Err e \<and> redis_error e)"
  by (rule redis.sync_new_valid [OF assms])

definition ex_env :: environ where
  "ex_env name = (if name = ''AUTH_SERVICE_API_KEY'' then ''k2'' else '''')"

lemma ex_keys_lasting: "lasting t (redis_view ex_keys)"
  by (simp add: lasting_def redis_view_def server_GET_def ex_keys_def)

lemma ex_sync:
  assumes "rc_faults s = []"
  shows "\<exists>s'. APIKeyService_SyncAPIKey main_keys ex_env ex_key_clock s = (Ok (), s')"
  using assms
  by (cases "hash_of ''k2'' = the (redis_view s (ex_key_clock 0) CurrentAPIKeyRedisKey)")
    (auto simp: APIKeyService_SyncAPIKey_def APIKeyService_setInitialAPIKey_def Let_def go_try_def
      redis_calm ex_env_def NewAPIKeyService_def split: option.splits)

theorem synced_key_valid_witness:
  "\<exists>s' r. APIKeyService_SyncAPIKey main_keys ex_env ex_key_clock ex_keys = (Ok (), s') \<and>
     fst (APIKeyService_IsValidAPIKey main_keys (\<lambda>n. ex_key_clock (n + 2)) ''k2'' s') = r \<and>
     (r = Ok True \<or> (\<exists>e. r = Err e \<and> redis_error e))"
proof -
  have calm: "rc_faults ex_keys = []" by (simp add: ex_keys_def)
  obtain s' where run: "APIKeyService_SyncAPIKey main_keys ex_env ex_key_clock ex_keys = (Ok (), s')"
    using ex_sync calm by metis
  have mono2: "mono (\<lambda>n. ex_key_clock (n + 2))" "ex_key_clock 2 \<le> (\<lambda>n. ex_key_clock (n + 2)) 0"
    by (simp_all add: mono_def ex_key_clock_def time_units)
  have key: "ex_env ''AUTH_SERVICE_API_KEY'' = ''k2''" by (simp add: ex_env_def)
  from synced_key_valid [OF mono_ex_key_clock run ex_keys_lasting mono2 prod.collapse [symmetric]] run
  show ?thesis unfolding key by blast
qed

text \<open>
  C20. Zero downtime, the previous key: the key that was current before a successful
  synchronisation is accepted until a second before 24 hours have passed since (the rotation time
  is stored in whole seconds).
\<close>

theorem previous_key_grace:
  assumes "mono clk" and "APIKeyService_SyncAPIKey main_keys env clk s = (Ok u, s')"
    and "lasting (clk 0) (redis_view s)"
    and "redis_view s (clk 0) CurrentAPIKeyRedisKey = Some (hash_of key)" and "key \<noteq> ''''"
    and "representable (clk 1)" and "mono clk2" and "clk 2 \<le> clk2 0"
    and "clk2 3 \<le> clk 1 + 24 * time_Hour - time_Second"
    and "APIKeyService_IsValidAPIKey main_keys clk2 key s' = (r, s'')"
  shows "r = Ok True \<or> (\<exists>e. r = Err e \<and> redis_error e)"
  by (rule redis.previous_valid [OF assms])

lemma ex_clock_representable: "representable (ex_key_clock n)" if "n \<le> 100"
  using that by (simp add: representable_def ex_key_clock_def unixEpochDays_def time_units daysToYear_def)

theorem previous_key_grace_witness:
  "\<exists>s' r. APIKeyService_SyncAPIKey main_keys ex_env ex_key_clock ex_keys = (Ok (), s') \<and>
     fst (APIKeyService_IsValidAPIKey main_keys (\<lambda>n. ex_key_clock 0 + 23 * time_Hour) ''k1'' s') = r \<and>
     (r = Ok True \<or> (\<exists>e. r = Err e \<and> redis_error e))"
proof -
  have calm: "rc_faults ex_keys = []" by (simp add: ex_keys_def)
  obtain s' where run: "APIKeyService_SyncAPIKey main_keys ex_env ex_key_clock ex_keys = (Ok (), s')"
    using ex_sync calm by metis
  let ?late = "\<lambda>n :: nat. ex_key_clock 0 + 23 * time_Hour"
  have time: "mono ?late" "ex_key_clock 2 \<le> ?late 0"
    "?late 3 \<le> ex_key_clock 1 + 24 * time_Hour - time_Second"
    by (simp_all add: mono_def ex_key_clock_def time_units)
  have cur: "redis_view ex_keys (ex_key_clock 0) CurrentAPIKeyRedisKey = Some (hash_of ''k1'')"
    by (simp add: redis_view_def server_GET_def ex_keys_def CurrentAPIKeyRedisKey_def)
  from previous_key_grace [OF mono_ex_key_clock run ex_keys_lasting cur _ _ time
      prod.collapse [symmetric]] run ex_clock_representable [of 1]
  show ?thesis by simp
qed

text \<open>
  C21. After a synchronisation that rotated, an accepted key is the new one, or the previous one
  and then no more than 24 hours after the rotation: every other key is refused, keys of earlier
  rotations included.
\<close>

theorem only_new_and_previous_key:
  assumes "mono clk" and "APIKeyService_SyncAPIKey main_keys env clk s = (Ok u, s')"
    and "redis_view s (clk 0) CurrentAPIKeyRedisKey = Some cur"
    and "hash_of (env ''AUTH_SERVICE_API_KEY'') \<noteq> cur"
    and "mono clk2" and "clk 2 \<le> clk2 0" and "representable (clk 1)"
    and "APIKeyService_IsValidAPIKey main_keys clk2 key s' = (Ok True, s'')"
  shows "hash_of key = hash_of (env ''AUTH_SERVICE_API_KEY'') \<or>
    hash_of key = cur \<and> clk2 3 \<le> clk 1 + 24 * time_Hour"
  by (rule redis.only_two_keys [OF assms])

definition ex_stale :: redisconn where
  "ex_stale = \<lparr>rc_keys = [''apikey:current'' \<mapsto> (''stale'', None)], rc_faults = []\<rparr>"

lemma length_hash_of: "length (hash_of k) = 64"
  by (simp add: APIKeyService_hashAPIKey_def length_hex_Encode)

lemma ex_valid_after:
  assumes "rc_faults s = []" and "redis_view s (clk 0) CurrentAPIKeyRedisKey = Some (hash_of key)"
    and "key \<noteq> ''''"
  shows "APIKeyService_IsValidAPIKey main_keys clk key s = (Ok True, s)"
  using assms by (simp add: APIKeyService_IsValidAPIKey_def Let_def get_or_empty_def go_try_def
      redis_calm NewAPIKeyService_def)

lemma hash_not_stale: "hash_of x \<noteq> ''stale''" "''stale'' \<noteq> hash_of x"
proof -
  have "length ''stale'' \<noteq> length (hash_of x)" unfolding length_hash_of by simp
  then show "hash_of x \<noteq> ''stale''" "''stale'' \<noteq> hash_of x" by metis+
qed

theorem only_new_and_previous_key_witness:
  "\<exists>s' s''. APIKeyService_SyncAPIKey main_keys ex_env ex_key_clock ex_stale = (Ok (), s') \<and>
     APIKeyService_IsValidAPIKey main_keys (\<lambda>n. ex_key_clock (n + 2)) ''k2'' s' = (Ok True, s'') \<and>
     (hash_of ''k2'' = hash_of (ex_env ''AUTH_SERVICE_API_KEY'') \<or> hash_of ''k2'' = ''stale'')"
proof -
  let ?later = "\<lambda>n. ex_key_clock (n + 2)"
  have cur: "redis_view ex_stale (ex_key_clock 0) CurrentAPIKeyRedisKey = Some ''stale''"
    by (simp add: redis_view_def server_GET_def ex_stale_def CurrentAPIKeyRedisKey_def)
  note other = hash_not_stale(1)
  obtain s' where run: "APIKeyService_SyncAPIKey main_keys ex_env ex_key_clock ex_stale = (Ok (), s')"
    and calm: "rc_faults s' = []"
    using other cur by (simp add: APIKeyService_SyncAPIKey_def Let_def go_try_def redis_calm ex_env_def
        NewAPIKeyService_def ex_stale_def)
  have "lasting (ex_key_clock 0) (redis_view ex_stale)"
    by (simp add: lasting_def redis_view_def server_GET_def ex_stale_def)
  from redis.sync_current [OF mono_ex_key_clock run this, of "?later 0"]
  have "redis_view s' (?later 0) CurrentAPIKeyRedisKey = Some (hash_of ''k2'')"
    by (simp add: ex_key_clock_def ex_env_def)
  from ex_valid_after [where clk = ?later, OF calm this]
  have valid: "APIKeyService_IsValidAPIKey main_keys ?later ''k2'' s' = (Ok True, s')" by simp
  have mono2: "mono ?later" "ex_key_clock 2 \<le> ?later 0"
    by (simp_all add: mono_def ex_key_clock_def time_units)
  from only_new_and_previous_key [OF mono_ex_key_clock run cur other mono2 _ valid]
    ex_clock_representable [of 1] run valid
  show ?thesis by auto
qed

text \<open>
  Whatever the outcome of a synchronisation and whatever commands of its pipeline were
  executed, the current hash and the rotation time still have no expiry afterwards.
\<close>

theorem sync_keeps_entries:
  assumes "mono clk" and "APIKeyService_SyncAPIKey main_keys env clk s = (r, s')"
    and "lasting (clk 0) (redis_view s)"
  shows "lasting (clk 2) (redis_view s')"
  by (rule redis.sync_lasting [OF assms])

theorem sync_keeps_entries_witness:
  "lasting (ex_key_clock 2)
     (redis_view (snd (APIKeyService_SyncAPIKey main_keys ex_env ex_key_clock ex_keys)))"
  by (rule sync_keeps_entries [OF mono_ex_key_clock prod.collapse [symmetric] ex_keys_lasting])

text \<open>
  C22. The rotation time survives its round trip through Redis: after a synchronisation that wrote
  it, the stored text parses to the instant of the rotation, cut to the second.
\<close>

theorem rotation_time_roundtrip:
  assumes "mono clk" and "APIKeyService_SyncAPIKey main_keys env clk s = (Ok u, s')"
    and "redis_view s (clk 0) CurrentAPIKeyRedisKey \<noteq> Some (hash_of (env ''AUTH_SERVICE_API_KEY''))"
    and "representable (clk 1)" and "clk 2 \<le> t"
  shows "\<exists>text. redis_view s' t APIKeyRotationTimeRedisKey = Some text \<and>
    time_Parse_RFC3339 text = Some (clk 1 div time_Second * time_Second)"
proof -
  have "redis_view s' t APIKeyRotationTimeRedisKey = Some (time_Format_RFC3339 (clk 1))"
    using redis.sync [OF assms(1,2)] assms(3)
    by (cases "redis_view s (clk 0) CurrentAPIKeyRedisKey")
      (auto simp: synced_def Let_def initial_effect(2) [OF _ assms(5)] rotated_effect(2) [OF _ assms(5)]
        simp del: sets_effect.simps)
  then show ?thesis using Parse_Format_RFC3339 [OF assms(4)] by blast
qed

theorem rotation_time_roundtrip_witness:
  "\<exists>s' text. APIKeyService_SyncAPIKey main_keys ex_env ex_key_clock ex_stale = (Ok (), s') \<and>
     redis_view s' (ex_key_clock 2) APIKeyRotationTimeRedisKey = Some text \<and>
     time_Parse_RFC3339 text = Some (ex_key_clock 1)"
proof -
  have calm: "rc_faults ex_stale = []" by (simp add: ex_stale_def)
  obtain s' where run: "APIKeyService_SyncAPIKey main_keys ex_env ex_key_clock ex_stale = (Ok (), s')"
    using ex_sync [OF calm] by blast
  have "redis_view ex_stale (ex_key_clock 0) CurrentAPIKeyRedisKey \<noteq>
      Some (hash_of (ex_env ''AUTH_SERVICE_API_KEY''))"
    by (simp add: hash_not_stale redis_view_def server_GET_def ex_stale_def CurrentAPIKeyRedisKey_def)
  from rotation_time_roundtrip [OF mono_ex_key_clock run this _ order_refl]
    ex_clock_representable [of 1] run
  show ?thesis by (auto simp: ex_key_clock_def time_units)
qed

end
