(* ===== verification/Echo.thy ===== *)
theory Echo
  imports Redis_Client
begin

text \<open>
  The \<open>echo.Context\<close> of a request, as the record of the calls the program makes on it, with the
  data it carries: the values handlers leave for each other, cookies, JSON bodies. The locale
  \<open>echo_context\<close> states the documented behaviour of those calls on what they read (\<open>req\<close>, which
  nothing changes) and on the response under construction (\<open>resp\<close>).
\<close>

section \<open>Data\<close>

datatype ctx_value = CtxString string | CtxInt64 int | CtxStrings "string list"

text \<open>\<open>controller.gen.go\<close>: the bodies of the answers; \<open>{"reason": ...}\<close> is a map in the code.\<close>

record TokensResponse = AccessToken :: string
record UserGUIDResponse = UserId :: string
record IssueTokensParams = Guid :: string

datatype body =
    TokensBody TokensResponse
  | UserGUIDBody UserGUIDResponse
  | ReasonBody string

datatype same_site = SameSiteDefault | SameSiteStrict

record cookie =
  ckName :: string
  ckValue :: string
  ckHttpOnly :: bool
  ckPath :: string
  ckSecure :: bool
  ckSameSite :: same_site
  ckExpires :: "gotime option"

definition new_cookie :: cookie where
  "new_cookie = \<lparr>ckName = '''', ckValue = '''', ckHttpOnly = False, ckPath = '''', ckSecure = False,
     ckSameSite = SameSiteDefault, ckExpires = None\<rparr>"

definition StatusOK :: int where "StatusOK = 200"
definition StatusNoContent :: int where "StatusNoContent = 204"
definition StatusBadRequest :: int where "StatusBadRequest = 400"
definition StatusUnauthorized :: int where "StatusUnauthorized = 401"
definition StatusForbidden :: int where "StatusForbidden = 403"
definition StatusTooManyRequests :: int where "StatusTooManyRequests = 429"
definition StatusInternalServerError :: int where "StatusInternalServerError = 500"

lemmas http_status =
  StatusOK_def StatusNoContent_def StatusBadRequest_def StatusUnauthorized_def
  StatusForbidden_def StatusTooManyRequests_def StatusInternalServerError_def

abbreviation echo_NewHTTPError :: "int \<Rightarrow> string \<Rightarrow> gerror" where
  "echo_NewHTTPError code msg \<equiv> HTTPError code (StringMessage msg)"

record response =
  rpStatus :: "int option"
  rpBody :: "body option"
  rpCookies :: "cookie list"
  rpHeaders :: "(string \<times> string) list"

section \<open>The calls\<close>

record 'c EchoContext =
  Ctx_RealIP :: "'c \<Rightarrow> string"
  Ctx_Header :: "'c \<Rightarrow> string \<Rightarrow> string"
  Ctx_Path :: "'c \<Rightarrow> string"
  Ctx_Cookie :: "'c \<Rightarrow> string \<Rightarrow> string outcome"
  Ctx_BindGuid :: "'c \<Rightarrow> string outcome"
  Ctx_Get :: "'c \<Rightarrow> string \<Rightarrow> ctx_value option"
  Ctx_Set :: "string \<Rightarrow> ctx_value \<Rightarrow> 'c \<Rightarrow> 'c"
  Ctx_SetCookie :: "cookie \<Rightarrow> 'c \<Rightarrow> 'c"
  Ctx_SetHeader :: "string \<Rightarrow> string \<Rightarrow> 'c \<Rightarrow> 'c"
  Ctx_JSON :: "int \<Rightarrow> body \<Rightarrow> ('c, unit) go"
  Ctx_NoContent :: "int \<Rightarrow> ('c, unit) go"
  Ctx_Committed :: "'c \<Rightarrow> bool"

text \<open>\<open>req.UserAgent()\<close> of net/http.\<close>

definition Ctx_UserAgent :: "'c EchoContext \<Rightarrow> 'c \<Rightarrow> string" where
  "Ctx_UserAgent E c = Ctx_Header E c ''User-Agent''"

text \<open>What the client sees of a request that was answered with a status.\<close>

definition answers :: "(unit outcome \<times> 'c) \<Rightarrow> ('c \<Rightarrow> response) \<Rightarrow> 'c \<Rightarrow> int \<Rightarrow> body option \<Rightarrow> bool" where
  "answers res resp c code b \<longleftrightarrow>
     (case res of
        (Ok _, c') \<Rightarrow> resp c' = (resp c)\<lparr>rpStatus := Some code, rpBody := b\<rparr>
      | (Err e, c') \<Rightarrow> (\<forall>st. \<not> errors_Is e st) \<and> errors_As_HTTPError e = None \<and>
          (resp c' = resp c \<or> (\<exists>b'. (b' = None \<or> b' = b) \<and> resp c' = (resp c)\<lparr>rpStatus := Some code, rpBody := b'\<rparr>))
      | (Panic _, _) \<Rightarrow> False)"

locale echo_context =
  fixes E :: "'c EchoContext"
    and req :: "'c \<Rightarrow> 'q"
    and resp :: "'c \<Rightarrow> response"
  assumes req_reads: "req c = req c' \<Longrightarrow>
      Ctx_RealIP E c = Ctx_RealIP E c' \<and> Ctx_Header E c = Ctx_Header E c' \<and>
      Ctx_Path E c = Ctx_Path E c' \<and> Ctx_Cookie E c = Ctx_Cookie E c' \<and>
      Ctx_BindGuid E c = Ctx_BindGuid E c'"
    and cookie_error: "Ctx_Cookie E c n = Err e \<Longrightarrow> errors_Is e HttpErrNoCookie"
    and cookie_no_panic: "Ctx_Cookie E c n \<noteq> Panic p"
    and bind_no_panic: "Ctx_BindGuid E c \<noteq> Panic p"
    and set: "Ctx_Get E (Ctx_Set E k v c) k' = (if k' = k then Some v else Ctx_Get E c k')"
    and set_frame: "req (Ctx_Set E k v c) = req c \<and> resp (Ctx_Set E k v c) = resp c"
    and committed: "Ctx_Committed E c \<longleftrightarrow> rpStatus (resp c) \<noteq> None"
    and set_cookie: "req (Ctx_SetCookie E ck c) = req c \<and>
      Ctx_Get E (Ctx_SetCookie E ck c) = Ctx_Get E c \<and>
      (rpStatus (resp c) = None \<longrightarrow>
         resp (Ctx_SetCookie E ck c) = (resp c)\<lparr>rpCookies := rpCookies (resp c) @ [ck]\<rparr>)"
    and set_header: "req (Ctx_SetHeader E h x c) = req c \<and>
      Ctx_Get E (Ctx_SetHeader E h x c) = Ctx_Get E c \<and>
      (rpStatus (resp c) = None \<longrightarrow>
         resp (Ctx_SetHeader E h x c) = (resp c)\<lparr>rpHeaders := rpHeaders (resp c) @ [(h, x)]\<rparr>)"
    and json: "rpStatus (resp c) = None \<Longrightarrow>
      answers (Ctx_JSON E code b c) resp c code (Some b) \<and>
      req (snd (Ctx_JSON E code b c)) = req c \<and>
      Ctx_Get E (snd (Ctx_JSON E code b c)) = Ctx_Get E c"
    and no_content: "rpStatus (resp c) = None \<Longrightarrow>
      answers (Ctx_NoContent E code c) resp c code None \<and>
      req (snd (Ctx_NoContent E code c)) = req c \<and>
      Ctx_Get E (snd (Ctx_NoContent E code c)) = Ctx_Get E c"

section \<open>A context\<close>

text \<open>A request with its headers and cookies; the client may be gone when the answer is written.\<close>

record request =
  rqIP :: string
  rqHeaders :: "string \<Rightarrow> string"
  rqPath :: string
  rqCookies :: "(string \<times> string) list"
  rqGuid :: "string option"

record reqctx =
  cxRequest :: request
  cxValues :: "string \<Rightarrow> ctx_value option"
  cxResponse :: response
  cxGone :: bool

definition ctx_write :: "int \<Rightarrow> body option \<Rightarrow> (reqctx, unit) go" where
  "ctx_write code b c =
     (let c' = c\<lparr>cxResponse := (cxResponse c)\<lparr>rpStatus := Some code, rpBody := b\<rparr>\<rparr>
      in if cxGone c then (Err (ExtError ''write: broken pipe''), c') else (Ok (), c'))"

definition echo_Context :: "reqctx EchoContext" where
  "echo_Context =
     \<lparr>Ctx_RealIP = (\<lambda>c. rqIP (cxRequest c)),
      Ctx_Header = (\<lambda>c. rqHeaders (cxRequest c)),
      Ctx_Path = (\<lambda>c. rqPath (cxRequest c)),
      Ctx_Cookie = (\<lambda>c n. case map_of (rqCookies (cxRequest c)) n of
         None \<Rightarrow> Err (Sentinel HttpErrNoCookie) | Some v \<Rightarrow> Ok v),
      Ctx_BindGuid = (\<lambda>c. case rqGuid (cxRequest c) of
         None \<Rightarrow> Err (ExtError ''query parameter guid is required'') | Some g \<Rightarrow> Ok g),
      Ctx_Get = cxValues,
      Ctx_Set = (\<lambda>k v c. c\<lparr>cxValues := (cxValues c)(k \<mapsto> v)\<rparr>),
      Ctx_SetCookie = (\<lambda>ck c. c\<lparr>cxResponse :=
         (cxResponse c)\<lparr>rpCookies := rpCookies (cxResponse c) @ [ck]\<rparr>\<rparr>),
      Ctx_SetHeader = (\<lambda>h x c. c\<lparr>cxResponse :=
         (cxResponse c)\<lparr>rpHeaders := rpHeaders (cxResponse c) @ [(h, x)]\<rparr>\<rparr>),
      Ctx_JSON = (\<lambda>code b. ctx_write code (Some b)),
      Ctx_NoContent = (\<lambda>code. ctx_write code None),
      Ctx_Committed = (\<lambda>c. rpStatus (cxResponse c) \<noteq> None)\<rparr>"

definition new_context :: "request \<Rightarrow> reqctx" where
  "new_context r = \<lparr>cxRequest = r, cxValues = (\<lambda>_. None),
     cxResponse = \<lparr>rpStatus = None, rpBody = None, rpCookies = [], rpHeaders = []\<rparr>, cxGone = False\<rparr>"

interpretation echo: echo_context echo_Context cxRequest cxResponse
  by unfold_locales
    (auto simp: echo_Context_def ctx_write_def answers_def Let_def split: option.splits if_splits)

end
