(* ===== verification/Middleware.thy ===== *)
theory Middleware
  imports Auth_Service Api_Key Echo
begin

text \<open>
  \<open>internal/api/middleware.go\<close>: the authenticator the OpenAPI validator calls, and the rate limiter
  with its Lua script. Handlers and middleware act on the services' world and on the echo context
  of their request.
\<close>

section \<open>Handlers\<close>

record ('d, 'r, 'c) http =
  ht_world :: "('d, 'r) world"
  ht_ctx :: 'c

type_synonym ('d, 'r, 'c) handler = "(('d, 'r, 'c) http, unit) go"

definition lift_world :: "(('d, 'r) world, 'a) go \<Rightarrow> (('d, 'r, 'c) http, 'a) go" where
  "lift_world m h = (case m (ht_world h) of (r, w) \<Rightarrow> (r, h\<lparr>ht_world := w\<rparr>))"

definition lift_ctx :: "('c, 'a) go \<Rightarrow> (('d, 'r, 'c) http, 'a) go" where
  "lift_ctx m h = (case m (ht_ctx h) of (r, c) \<Rightarrow> (r, h\<lparr>ht_ctx := c\<rparr>))"

definition ctx_do :: "('c \<Rightarrow> 'c) \<Rightarrow> (('d, 'r, 'c) http, unit) go" where
  "ctx_do f h = (Ok (), h\<lparr>ht_ctx := f (ht_ctx h)\<rparr>)"

definition with_ctx :: "('c \<Rightarrow> (('d, 'r, 'c) http, 'a) go) \<Rightarrow> (('d, 'r, 'c) http, 'a) go" where
  "with_ctx f h = f (ht_ctx h) h"

section \<open>The authenticator\<close>

definition bearerPrefix :: string where "bearerPrefix = ''Bearer ''"

definition NewAuthenticator ::
  "jwt_lib \<Rightarrow> 'c EchoContext \<Rightarrow> ('d, 'r) AuthService \<Rightarrow> 'r APIKeyService \<Rightarrow>
   clock \<Rightarrow> string \<Rightarrow> ('d, 'r, 'c) handler" where
  "NewAuthenticator J E authService apiKeyService clk schemeName =
     with_ctx (\<lambda>echoCtx.
       if schemeName = MwSchemeAPIKeyAuth then
         let apiKey = Ctx_Header E echoCtx MwAPIKeyHeader in
         if apiKey = ''''
         then go_fail (echo_NewHTTPError StatusUnauthorized ''API key is missing'')
         else
           go_try (lift_world (lift_redis (APIKeyService_IsValidAPIKey apiKeyService clk apiKey)))
             (go_wrap ''failed during api key validation: '')
             (\<lambda>valid. if \<not> valid
                then go_fail (echo_NewHTTPError StatusUnauthorized ''invalid API key'')
                else go_ret ())
       else if schemeName = MwSchemeBearerAuth then
         if strings_HasSuffix (Ctx_Path E echoCtx) ''/auth/tokens/refresh'' then go_ret ()
         else
           let authHeader = Ctx_Header E echoCtx ''Authorization'' in
           if authHeader = ''''
           then go_fail (echo_NewHTTPError StatusUnauthorized ''Authorization header is missing'')
           else if \<not> strings_HasPrefix authHeader bearerPrefix
           then go_fail (echo_NewHTTPError StatusUnauthorized
                  ''Authorization header format must be Bearer {token}'')
           else
             let token = strings_TrimPrefix authHeader bearerPrefix in
             go_try (ctx_do (Ctx_Set E MwTokenKey (CtxString token))) go_fail
               (\<lambda>_. go_try (lift_world (AuthService_AuthenticateAccessToken J authService clk token))
                  (\<lambda>err. go_fail (echo_NewHTTPError StatusUnauthorized (error_text err)))
                  (\<lambda>userID. ctx_do (Ctx_Set E MwUserIDKey (CtxInt64 userID))))
       else go_fail (ErrorsNew (''unknown security scheme: '' @ schemeName)))"

section \<open>The rate limiter\<close>

text \<open>
  The script. A missing key replies \<open>false\<close>, and \<open>current and tonumber(current) or 0\<close> is 0 for a
  missing key and for text that is no number.
\<close>

definition rate_script :: "string \<Rightarrow> int \<Rightarrow> int \<Rightarrow> int \<Rightarrow> lua" where
  "rate_script count_key limit interval block_time =
     Lua_GET count_key (\<lambda>reply.
       let current = (case reply of None \<Rightarrow> 0
                      | Some v \<Rightarrow> (case lua_tonumber v of None \<Rightarrow> 0 | Some n \<Rightarrow> n))
       in if limit \<le> current then
            let block_key = count_key @ '':block'' in
            Lua_GET block_key (\<lambda>blocked.
              if blocked = None then Lua_SETEX block_key block_time ''1'' (Lua_Return 0)
              else Lua_Return 0)
          else
            Lua_INCR count_key
              (if current = 0 then Lua_EXPIRE count_key interval (Lua_Return 1) else Lua_Return 1))"

definition rate_key :: "string \<Rightarrow> string" where
  "rate_key ipAddress = ''rate_limit:'' @ ipAddress"

definition RateLimiter_allow ::
  "'r RedisClient \<Rightarrow> RateLimiterConfig \<Rightarrow> gotime \<Rightarrow> string \<Rightarrow> ('r, int) go" where
  "RateLimiter_allow redisClient config now ipAddress =
     Redis_ScriptRun redisClient now
       (rate_script (rate_key ipAddress) (Limit config) (int_Seconds (Interval config))
          (int_Seconds (BlockTime config)))"

definition RateLimiter ::
  "'c EchoContext \<Rightarrow> 'r RedisClient \<Rightarrow> RateLimiterConfig \<Rightarrow> gotime \<Rightarrow>
   ('d, 'r, 'c) handler \<Rightarrow> ('d, 'r, 'c) handler" where
  "RateLimiter E redisClient config now next' =
     with_ctx (\<lambda>c.
       go_try (lift_world (lift_redis (RateLimiter_allow redisClient config now (Ctx_RealIP E c))))
         (\<lambda>_. next')
         (\<lambda>result.
            if result = 0 then
              go_try (ctx_do (Ctx_SetHeader E ''Retry-After''
                        (strconv_FormatInt (int_Seconds (BlockTime config))))) go_fail
                (\<lambda>_. go_fail (echo_NewHTTPError StatusTooManyRequests ''Too many requests''))
            else next'))"

end
