(* ===== verification/Controller.thy ===== *)
theory Controller
  imports Middleware
begin

text \<open>
  \<open>internal/controller/controller.go\<close> and the generated wrappers and routes of
  \<open>controller.gen.go\<close>, and \<open>internal/api/error_handler.go\<close>. A handler gets what the call draws
  from its surroundings as \<open>ambient\<close>; the parser of \<open>google/uuid\<close> is a parameter.
\<close>

section \<open>Cookies\<close>

definition refresh_cookie :: "string \<Rightarrow> cookie" where
  "refresh_cookie token =
     new_cookie\<lparr>ckName := ''refresh_token'', ckValue := token, ckHttpOnly := True,
       ckPath := ''/api/v1/auth'', ckSecure := False, ckSameSite := SameSiteStrict\<rparr>"

definition setRefreshCookie :: "'c EchoContext \<Rightarrow> string \<Rightarrow> ('d, 'r, 'c) handler" where
  "setRefreshCookie E token = ctx_do (Ctx_SetCookie E (refresh_cookie token))"

definition cleared_cookie :: cookie where
  "cleared_cookie =
     new_cookie\<lparr>ckName := ''refresh_token'', ckValue := '''', ckExpires := Some 0,
       ckHttpOnly := True, ckPath := ''/api/v1/auth''\<rparr>"

definition clearRefreshCookie :: "'c EchoContext \<Rightarrow> ('d, 'r, 'c) handler" where
  "clearRefreshCookie E = ctx_do (Ctx_SetCookie E cleared_cookie)"

section \<open>The handlers\<close>

record ('d, 'r) Controller = ctlAuthService :: "('d, 'r) AuthService"

definition NewController :: "('d, 'r) AuthService \<Rightarrow> ('d, 'r) Controller" where
  "NewController as = \<lparr>ctlAuthService = as\<rparr>"

definition request_metadata :: "'c EchoContext \<Rightarrow> 'c \<Rightarrow> UserMetadata" where
  "request_metadata E c = \<lparr>umUserAgent = Ctx_UserAgent E c, umIPAddress = Ctx_RealIP E c\<rparr>"

definition Controller_IssueTokens ::
  "jwt_lib \<Rightarrow> 'c EchoContext \<Rightarrow> ('d, 'r) Controller \<Rightarrow> ambient \<Rightarrow> IssueTokensParams \<Rightarrow>
   ('d, 'r, 'c) handler" where
  "Controller_IssueTokens J E ctl am params =
     with_ctx (\<lambda>c.
       go_try (lift_world (AuthService_IssueTokens J (ctlAuthService ctl) am (Guid params)
                 (request_metadata E c)))
         (go_wrap ''issue tokens: '')
         (\<lambda>(access, refresh).
            go_try (setRefreshCookie E refresh) go_fail
              (\<lambda>_. go_try (lift_ctx (Ctx_JSON E StatusOK (TokensBody \<lparr>AccessToken = access\<rparr>)))
                 (go_wrap ''json: '') go_ret)))"

definition Controller_RefreshTokens ::
  "jwt_lib \<Rightarrow> 'c EchoContext \<Rightarrow> ('d, 'r) Controller \<Rightarrow> ambient \<Rightarrow> ('d, 'r, 'c) handler" where
  "Controller_RefreshTokens J E ctl am =
     with_ctx (\<lambda>c.
       go_try (go_pure (Ctx_Cookie E c ''refresh_token''))
         (\<lambda>_. go_fail (echo_NewHTTPError StatusUnauthorized ''refresh token not found''))
         (\<lambda>refreshToken.
            if refreshToken = '''' \<or> refreshToken = ''null''
            then go_fail (echo_NewHTTPError StatusUnauthorized
                   ''invalid or empty refresh token from cookie'')
            else
              let authHeader = Ctx_Header E c ''Authorization'' in
              if authHeader = ''''
              then go_fail (echo_NewHTTPError StatusUnauthorized ''Authorization header is missing'')
              else if \<not> strings_HasPrefix authHeader bearerPrefix
              then go_fail (echo_NewHTTPError StatusUnauthorized
                     ''Authorization header format must be Bearer {token}'')
              else
                let accessToken = strings_TrimPrefix authHeader bearerPrefix in
                go_try (lift_world (AuthService_RefreshTokens J (ctlAuthService ctl) am accessToken
                          refreshToken (request_metadata E c)))
                  (\<lambda>err.
                     if errors_Is err ErrSessionNotFound \<or> errors_Is err ErrTokenExpired
                     then go_fail (echo_NewHTTPError StatusUnauthorized
                            ''invalid or expired refresh token'')
                     else go_fail (echo_NewHTTPError StatusUnauthorized (error_text err)))
                  (\<lambda>(newAccess, newRefresh).
                     go_try (setRefreshCookie E newRefresh) go_fail
                       (\<lambda>_. go_try (lift_ctx (Ctx_JSON E StatusOK
                                (TokensBody \<lparr>AccessToken = newAccess\<rparr>)))
                          (go_wrap ''json: '') go_ret))))"

definition Controller_Logout ::
  "jwt_lib \<Rightarrow> 'c EchoContext \<Rightarrow> ('d, 'r) Controller \<Rightarrow> ambient \<Rightarrow> ('d, 'r, 'c) handler" where
  "Controller_Logout J E ctl am =
     with_ctx (\<lambda>c.
       case Ctx_Get E c MwTokenKey of
         Some (CtxString token) \<Rightarrow>
           if token = ''''
           then go_fail (echo_NewHTTPError StatusUnauthorized ''access token not found in context'')
           else
             go_try (lift_world (AuthService_Logout J (ctlAuthService ctl) (amClock am) token))
               (go_wrap ''logout: '')
               (\<lambda>_. go_try (clearRefreshCookie E) go_fail
                  (\<lambda>_. go_try (lift_ctx (Ctx_NoContent E StatusNoContent))
                     (go_wrap ''no content: '') go_ret))
       | _ \<Rightarrow> go_fail (echo_NewHTTPError StatusUnauthorized ''access token not found in context''))"

definition Controller_GetUserGUID ::
  "(string \<Rightarrow> string option) \<Rightarrow> 'c EchoContext \<Rightarrow> ('d, 'r) Controller \<Rightarrow> ambient \<Rightarrow>
   ('d, 'r, 'c) handler" where
  "Controller_GetUserGUID uuid_Parse E ctl am =
     with_ctx (\<lambda>c.
       case Ctx_Get E c MwUserIDKey of
         Some (CtxInt64 userID) \<Rightarrow>
           go_try (lift_world (AuthService_GetPublicGUID (ctlAuthService ctl) userID))
             (go_wrap ''get public GUID: '')
             (\<lambda>guid.
                case uuid_Parse guid of
                  None \<Rightarrow> go_panic ''uuid: Parse''
                | Some id' \<Rightarrow>
                    go_try (lift_ctx (Ctx_JSON E StatusOK (UserGUIDBody \<lparr>UserId = id'\<rparr>)))
                      (go_wrap ''json: '') go_ret)
       | _ \<Rightarrow> go_fail (echo_NewHTTPError StatusInternalServerError ''user ID not found in context''))"

section \<open>The generated server interface\<close>

definition ApiKeyAuthScopes :: string where "ApiKeyAuthScopes = ''ApiKeyAuth.Scopes''"
definition BearerAuthScopes :: string where "BearerAuthScopes = ''BearerAuth.Scopes''"

record ('d, 'r, 'c) ServerInterface =
  SI_Logout :: "ambient \<Rightarrow> ('d, 'r, 'c) handler"
  SI_IssueTokens :: "ambient \<Rightarrow> IssueTokensParams \<Rightarrow> ('d, 'r, 'c) handler"
  SI_RefreshTokens :: "ambient \<Rightarrow> ('d, 'r, 'c) handler"
  SI_GetUserGUID :: "ambient \<Rightarrow> ('d, 'r, 'c) handler"

definition controller_interface ::
  "jwt_lib \<Rightarrow> (string \<Rightarrow> string option) \<Rightarrow> 'c EchoContext \<Rightarrow> ('d, 'r) Controller \<Rightarrow>
   ('d, 'r, 'c) ServerInterface" where
  "controller_interface J uuid_Parse E ctl =
     \<lparr>SI_Logout = Controller_Logout J E ctl, SI_IssueTokens = Controller_IssueTokens J E ctl,
      SI_RefreshTokens = Controller_RefreshTokens J E ctl,
      SI_GetUserGUID = Controller_GetUserGUID uuid_Parse E ctl\<rparr>"

definition Wrapper_Logout ::
  "'c EchoContext \<Rightarrow> ('d, 'r, 'c) ServerInterface \<Rightarrow> ambient \<Rightarrow> ('d, 'r, 'c) handler" where
  "Wrapper_Logout E w am =
     go_try (ctx_do (Ctx_Set E BearerAuthScopes (CtxStrings []))) go_fail (\<lambda>_. SI_Logout w am)"

definition Wrapper_IssueTokens ::
  "'c EchoContext \<Rightarrow> ('d, 'r, 'c) ServerInterface \<Rightarrow> ambient \<Rightarrow> ('d, 'r, 'c) handler" where
  "Wrapper_IssueTokens E w am =
     go_try (ctx_do (Ctx_Set E ApiKeyAuthScopes (CtxStrings []))) go_fail
       (\<lambda>_. go_try (with_ctx (\<lambda>c. go_pure (Ctx_BindGuid E c)))
          (\<lambda>err. go_fail (echo_NewHTTPError StatusBadRequest
             (''Invalid format for parameter guid: '' @ error_text err)))
          (\<lambda>guid. SI_IssueTokens w am \<lparr>Guid = guid\<rparr>))"

definition Wrapper_RefreshTokens ::
  "'c EchoContext \<Rightarrow> ('d, 'r, 'c) ServerInterface \<Rightarrow> ambient \<Rightarrow> ('d, 'r, 'c) handler" where
  "Wrapper_RefreshTokens E w am =
     go_try (ctx_do (Ctx_Set E BearerAuthScopes (CtxStrings []))) go_fail (\<lambda>_. SI_RefreshTokens w am)"

definition Wrapper_GetUserGUID ::
  "'c EchoContext \<Rightarrow> ('d, 'r, 'c) ServerInterface \<Rightarrow> ambient \<Rightarrow> ('d, 'r, 'c) handler" where
  "Wrapper_GetUserGUID E w am =
     go_try (ctx_do (Ctx_Set E BearerAuthScopes (CtxStrings []))) go_fail (\<lambda>_. SI_GetUserGUID w am)"

type_synonym ('d, 'r, 'c) route = "string \<times> string \<times> (ambient \<Rightarrow> ('d, 'r, 'c) handler)"

definition RegisterHandlersWithBaseURL ::
  "'c EchoContext \<Rightarrow> ('d, 'r, 'c) ServerInterface \<Rightarrow> string \<Rightarrow> ('d, 'r, 'c) route list" where
  "RegisterHandlersWithBaseURL E si baseURL =
     [(''POST'', baseURL @ ''/auth/logout'', Wrapper_Logout E si),
      (''POST'', baseURL @ ''/auth/tokens'', Wrapper_IssueTokens E si),
      (''POST'', baseURL @ ''/auth/tokens/refresh'', Wrapper_RefreshTokens E si),
      (''GET'', baseURL @ ''/auth/user/guid'', Wrapper_GetUserGUID E si)]"

definition RegisterHandlers ::
  "'c EchoContext \<Rightarrow> ('d, 'r, 'c) ServerInterface \<Rightarrow> ('d, 'r, 'c) route list" where
  "RegisterHandlers E si = RegisterHandlersWithBaseURL E si ''''"

section \<open>The error handler\<close>

definition isUnauthorizedTokenError :: "gerror \<Rightarrow> bool" where
  "isUnauthorizedTokenError err \<longleftrightarrow>
     errors_Is err ErrTokenExpired \<or> errors_Is err ErrTokenInvalid \<or> errors_Is err ErrSessionNotFound"

text \<open>The errors of writing the answer are dropped; \<open>he.Message.(string)\<close> may panic.\<close>

definition ErrorHandler :: "'c EchoContext \<Rightarrow> gerror \<Rightarrow> ('c, unit) go" where
  "ErrorHandler E err =
     (\<lambda>c.
        if Ctx_Committed E c then (Ok (), c)
        else if isUnauthorizedTokenError err
        then go_try (Ctx_JSON E StatusUnauthorized (ReasonBody (error_text err)))
               (\<lambda>_. go_ret ()) go_ret c
        else (case errors_As_HTTPError err of
            Some (code, StringMessage msg) \<Rightarrow>
              go_try (Ctx_JSON E code (ReasonBody msg)) (\<lambda>_. go_ret ()) go_ret c
          | Some (code, OtherMessage) \<Rightarrow> (Panic ''interface conversion'', c)
          | None \<Rightarrow>
              go_try (Ctx_JSON E StatusInternalServerError (ReasonBody ''internal server error''))
                (\<lambda>_. go_ret ()) go_ret c))"

end
