(* ===== verification/Server.thy ===== *)
theory Server
  imports Controller Postgres
begin

text \<open>
  \<open>internal/api/api.go\<close>: how a request goes through the parts. It passes the
  rate limiter, then (inside the group \<open>/api/v1\<close>) the OpenAPI validator with the authenticator,
  then the handler of its route; an error that comes back is answered by \<open>ErrorHandler\<close>. The
  request logger only logs. The validator is a parameter with the documented law \<open>openapi_validator\<close>;
  which route a request matches is echo's choice, so the operation is an argument.
\<close>

section \<open>The OpenAPI validator\<close>

text \<open>
  \<open>OapiRequestValidatorWithOptions\<close> first calls the authentication function with the security
  scheme of the operation. An \<open>*echo.HTTPError\<close> of it is passed on, any other error becomes 403;
  then the parameters are validated, which may give 400.
\<close>

type_synonym ('d, 'r, 'c) validator =
  "(string \<Rightarrow> ('d, 'r, 'c) handler) \<Rightarrow> string \<Rightarrow> ('d, 'r, 'c) handler"

definition forbidden :: "gerror \<Rightarrow> gerror \<Rightarrow> bool" where
  "forbidden e e' \<longleftrightarrow>
     (case e of HTTPError c m \<Rightarrow> e' = e
      | _ \<Rightarrow> (\<exists>m. e' = HTTPError StatusForbidden (StringMessage m)))"

locale openapi_validator =
  fixes V :: "('d, 'r, 'c) validator"
  assumes validates: "V auth scheme h = (r, h') \<Longrightarrow>
      \<exists>r1. auth scheme h = (r1, h') \<and>
        (case r1 of
           Ok _ \<Rightarrow> r = Ok () \<or> (\<exists>m. r = Err (HTTPError StatusBadRequest (StringMessage m)))
         | Err e \<Rightarrow> \<exists>e'. r = Err e' \<and> forbidden e e'
         | Panic p \<Rightarrow> r = Panic p)"

begin

lemma validator_cases:
  assumes "V auth scheme h = (r, h')"
  obtains (Accepted) "auth scheme h = (Ok (), h')" and "r = Ok ()"
  | (Invalid) m where "auth scheme h = (Ok (), h')"
      and "r = Err (HTTPError StatusBadRequest (StringMessage m))"
  | (Denied) e e' where "auth scheme h = (Err e, h')" and "r = Err e'" and "forbidden e e'"
  | (Panicked) p where "auth scheme h = (Panic p, h')" and "r = Panic p"
proof -
  from validates [OF assms] obtain r1 where a: "auth scheme h = (r1, h')"
    and c: "case r1 of
        Ok _ \<Rightarrow> r = Ok () \<or> (\<exists>m. r = Err (HTTPError StatusBadRequest (StringMessage m)))
      | Err e \<Rightarrow> \<exists>e'. r = Err e' \<and> forbidden e e'
      | Panic p \<Rightarrow> r = Panic p" by (rule exE) simp
  from a c that show thesis by (cases r1) auto
qed

end

text \<open>An instance that accepts the parameters of every request.\<close>

definition plain_validator :: "('d, 'r, 'c) validator" where
  "plain_validator auth scheme =
     go_try (auth scheme)
       (\<lambda>e. go_fail (case e of HTTPError c m \<Rightarrow> e
                      | _ \<Rightarrow> HTTPError StatusForbidden (StringMessage ''security requirements failed'')))
       go_ret"

interpretation plain: openapi_validator plain_validator
proof (unfold_locales, goal_cases)
  case (1 auth scheme h r h')
  then show ?case
    unfolding plain_validator_def
  proof (cases rule: go_try_cases)
    case (Err e s)
    then show ?thesis by (cases e) (auto simp: forbidden_def)
  qed auto
qed

section \<open>The operations and their security schemes\<close>

datatype operation = LogoutOp | IssueTokensOp | RefreshTokensOp | GetUserGUIDOp

definition operation_security :: "operation \<Rightarrow> string" where
  "operation_security op = (case op of IssueTokensOp \<Rightarrow> ''ApiKeyAuth'' | _ \<Rightarrow> ''BearerAuth'')"

definition operation_path :: "operation \<Rightarrow> string" where
  "operation_path op =
     (case op of
        LogoutOp \<Rightarrow> ''/auth/logout'' | IssueTokensOp \<Rightarrow> ''/auth/tokens''
      | RefreshTokensOp \<Rightarrow> ''/auth/tokens/refresh'' | GetUserGUIDOp \<Rightarrow> ''/auth/user/guid'')"

section \<open>The server\<close>

definition operation_handler ::
  "'c EchoContext \<Rightarrow> ('d, 'r, 'c) ServerInterface \<Rightarrow> operation \<Rightarrow> ambient \<Rightarrow> ('d, 'r, 'c) handler" where
  "operation_handler E w op =
     (case op of
        LogoutOp \<Rightarrow> Wrapper_Logout E w | IssueTokensOp \<Rightarrow> Wrapper_IssueTokens E w
      | RefreshTokensOp \<Rightarrow> Wrapper_RefreshTokens E w | GetUserGUIDOp \<Rightarrow> Wrapper_GetUserGUID E w)"

text \<open>A shutdown function: it closes a connection and at most logs that this failed.\<close>

type_synonym ('d, 'r) cleanup = "(('d, 'r) world, unit) go"

record ('d, 'r) API =
  apiServer :: ServerConfig
  apiController :: "('d, 'r) Controller"
  apiAuthService :: "('d, 'r) AuthService"
  apiApiKeyService :: "'r APIKeyService"
  apiRdb :: "'r RedisClient"
  apiGracefulTimeout :: duration
  apiShutdownFuncs :: "('d, 'r) cleanup list"

definition NewAPI ::
  "('d, 'r) Controller \<Rightarrow> ('d, 'r) AuthService \<Rightarrow> 'r APIKeyService \<Rightarrow> 'r RedisClient \<Rightarrow>
   ServerConfig \<Rightarrow> ('d, 'r) cleanup list \<Rightarrow> ('d, 'r) API" where
  "NewAPI c authService aks rdb sc shutdownFuncs =
     \<lparr>apiServer = sc, apiController = c, apiAuthService = authService, apiApiKeyService = aks,
      apiRdb = rdb, apiGracefulTimeout = GracefulTimeout sc, apiShutdownFuncs = shutdownFuncs\<rparr>"

text \<open>What one request draws: the limiter's instant, the authenticator's clock, the handler's.\<close>

record call =
  clLimiter :: gotime
  clAuth :: clock
  clHandler :: ambient

definition API_Run ::
  "jwt_lib \<Rightarrow> (string \<Rightarrow> string option) \<Rightarrow> 'c EchoContext \<Rightarrow> ('d, 'r, 'c) validator \<Rightarrow>
   RateLimiterConfig \<Rightarrow> ('d, 'r) API \<Rightarrow> call \<Rightarrow> operation \<Rightarrow> ('d, 'r, 'c) handler" where
  "API_Run J uuid_Parse E V rateLimiterConfig a cl op =
     (let openAPIWrapper = controller_interface J uuid_Parse E (apiController a);
          authenticator = NewAuthenticator J E (apiAuthService a) (apiApiKeyService a) (clAuth cl);
          validator = V authenticator;
          handler = operation_handler E openAPIWrapper op
      in RateLimiter E (apiRdb a) rateLimiterConfig (clLimiter cl)
           (go_try (validator (operation_security op)) go_fail (\<lambda>_. handler (clHandler cl))))"

text \<open>The answer to a request: an error of the chain goes to the error handler.\<close>

definition API_answer ::
  "jwt_lib \<Rightarrow> (string \<Rightarrow> string option) \<Rightarrow> 'c EchoContext \<Rightarrow> ('d, 'r, 'c) validator \<Rightarrow>
   RateLimiterConfig \<Rightarrow> ('d, 'r) API \<Rightarrow> call \<Rightarrow> operation \<Rightarrow> ('d, 'r, 'c) handler" where
  "API_answer J uuid_Parse E V rlc a cl op =
     go_try (API_Run J uuid_Parse E V rlc a cl op) (\<lambda>err. lift_ctx (ErrorHandler E err)) go_ret"

text \<open>Every operation is routed where its path says, below \<open>/api/v1\<close>.\<close>

definition registered :: "('d, 'r, 'c) route list \<Rightarrow> string \<Rightarrow> (ambient \<Rightarrow> ('d, 'r, 'c) handler) option" where
  "registered routes path = map_of (map snd routes) path"

lemma registered_operations:
  "registered (RegisterHandlers E w) (operation_path op) = Some (operation_handler E w op)"
  by (cases op) (simp_all add: registered_def operation_path_def operation_handler_def
      RegisterHandlers_def RegisterHandlersWithBaseURL_def)

end
