(* ===== verification/Rate_Limiter.thy ===== *)
theory Rate_Limiter
  imports Middleware Redis_Engine
begin

text \<open>
  What the rate limiter does: its script and the counter over a window on any client that keeps the
  laws of \<open>redis_client\<close>; and on the engine, where a call may fail, the decision of the middleware
  for one request and the number of requests that pass it in a window.
\<close>

section \<open>The script on a view\<close>

definition request_count :: "view \<Rightarrow> gotime \<Rightarrow> string \<Rightarrow> int" where
  "request_count m now ip =
     (case m now (rate_key ip) of
        None \<Rightarrow> 0
      | Some v \<Rightarrow> (case strconv_ParseInt v of None \<Rightarrow> 0 | Some n \<Rightarrow> n))"

definition block_key :: "string \<Rightarrow> string" where
  "block_key ip = rate_key ip @ '':block''"

lemma block_key_neq [simp]: "block_key ip \<noteq> rate_key ip" "rate_key ip \<noteq> block_key ip"
  by (auto simp: block_key_def)

abbreviation limiter_script :: "RateLimiterConfig \<Rightarrow> string \<Rightarrow> lua" where
  "limiter_script cfg ip \<equiv>
     rate_script (rate_key ip) (Limit cfg) (int_Seconds (Interval cfg)) (int_Seconds (BlockTime cfg))"

text \<open>Over the limit: the counter is not touched; the block key may be written.\<close>

lemma script_over:
  assumes "script_effect now (limiter_script cfg ip) m x m'"
    and "Limit cfg \<le> request_count m now ip"
  shows "same_but now (block_key ip) m m' \<and>
    (if m now (block_key ip) \<noteq> None \<or> 0 < int_Seconds (BlockTime cfg) then x = Some 0 else x = None)"
proof -
  from assms have "script_effect now
      (if m now (block_key ip) = None
       then Lua_SETEX (block_key ip) (int_Seconds (BlockTime cfg)) ''1'' (Lua_Return 0)
       else Lua_Return 0) m x m'"
    unfolding rate_script_def
    by (auto elim!: script_GetE simp: request_count_def block_key_def Let_def lua_tonumber_def
        split: option.splits if_splits)
  then show ?thesis
    by (auto elim!: script_SetexE script_ReturnE split: if_splits
        simp: same_view_def same_but_def set_effect_def)
qed

text \<open>
  Under the limit: the counter is incremented and a fresh one gets the interval as its deadline,
  unless it cannot be incremented.
\<close>

lemma script_under:
  assumes "script_effect now (limiter_script cfg ip) m x m'"
    and "request_count m now ip < Limit cfg"
  shows "(x = None \<and> same_view now m m' \<and>
      (case counter_of (m now (rate_key ip)) of None \<Rightarrow> True | Some n \<Rightarrow> \<not> int64_range (n + 1))) \<or>
    (x = Some 1 \<and> counter_of (m now (rate_key ip)) = Some (request_count m now ip) \<and>
     (\<exists>m1. incr_effect now (rate_key ip) (request_count m now ip + 1) m m1 \<and>
        (if request_count m now ip = 0
         then \<exists>m2. expire_effect now (rate_key ip) (int_Seconds (Interval cfg)) m1 m2 \<and>
           same_view now m2 m'
         else same_view now m1 m')))"
proof -
  from assms have "script_effect now (Lua_INCR (rate_key ip)
      (if request_count m now ip = 0
       then Lua_EXPIRE (rate_key ip) (int_Seconds (Interval cfg)) (Lua_Return 1)
       else Lua_Return 1)) m x m'"
    unfolding rate_script_def
    by (auto elim!: script_GetE simp: request_count_def Let_def lua_tonumber_def
        split: option.splits if_splits)
  then consider (incr) n m1 where "counter_of (m now (rate_key ip)) = Some n"
      "incr_effect now (rate_key ip) (n + 1) m m1"
      "script_effect now (if request_count m now ip = 0
       then Lua_EXPIRE (rate_key ip) (int_Seconds (Interval cfg)) (Lua_Return 1)
       else Lua_Return 1) m1 x m'"
    | (error) "x = None" "same_view now m m'"
        "case counter_of (m now (rate_key ip)) of None \<Rightarrow> True | Some n \<Rightarrow> \<not> int64_range (n + 1)"
    by (rule script_IncrE) blast+
  then show ?thesis
  proof cases
    case incr
    then have n: "request_count m now ip = n"
      by (auto simp: counter_of_def request_count_def split: option.splits)
    with incr show ?thesis
      by (auto elim!: script_ExpireE script_ReturnE split: if_splits)
  next
    case error
    then show ?thesis by simp
  qed
qed

section \<open>The limiter's footprint\<close>

text \<open>What a pass through the limiter leaves: only the two keys of the address may have changed.\<close>

definition limiter_keys :: "string \<Rightarrow> string set" where
  "limiter_keys ip = {rate_key ip, block_key ip}"

definition same_off :: "string set \<Rightarrow> gotime \<Rightarrow> view \<Rightarrow> view \<Rightarrow> bool" where
  "same_off K now m m' \<longleftrightarrow> (\<forall>t \<ge> now. \<forall>k. k \<notin> K \<longrightarrow> m' t k = m t k)"

lemma same_off_refl [simp]: "same_off K now m m"
  by (simp add: same_off_def)

lemma same_off_view: "same_view now m m' \<Longrightarrow> same_off K now m m'"
  by (simp add: same_view_def same_off_def)

lemma same_off_but: "same_but now k m m' \<Longrightarrow> k \<in> K \<Longrightarrow> same_off K now m m'"
  by (auto simp: same_but_def same_off_def)

lemma same_off_trans:
  "same_off K now m m1 \<Longrightarrow> same_off K now m1 m2 \<Longrightarrow> same_off K now m m2"
  by (simp add: same_off_def)

lemma limiter_frame:
  assumes run: "script_effect now (limiter_script cfg ip) m x m'"
  shows "same_off (limiter_keys ip) now m m'"
proof (cases "Limit cfg \<le> request_count m now ip")
  case True
  from script_over [OF run this] show ?thesis
    by (intro same_off_but [where k = "block_key ip"]) (simp_all add: limiter_keys_def)
next
  case False
  have incr: "same_off (limiter_keys ip) now m m1" if "incr_effect now (rate_key ip) n m m1" for n m1
    using that by (intro same_off_but [where k = "rate_key ip"])
      (simp_all add: limiter_keys_def incr_effect_def)
  have expire: "same_off (limiter_keys ip) now m1 m2"
    if "expire_effect now (rate_key ip) n m1 m2" for n m1 m2
    using that by (intro same_off_but [where k = "rate_key ip"])
      (simp_all add: limiter_keys_def expire_effect_def)
  from script_under [OF run] False show ?thesis
    by (auto split: if_splits intro: same_off_trans [OF incr] same_off_trans [OF expire] same_off_view)
qed

text \<open>The script replies 0 exactly when the counter has reached the limit.\<close>

lemma limiter_reply:
  assumes "script_effect now (limiter_script cfg ip) m (Some n) m'"
  shows "n = (if Limit cfg \<le> request_count m now ip then 0 else 1)"
  using script_over [OF assms] script_under [OF assms] by (auto split: if_splits)

section \<open>A window of requests\<close>

text \<open>From \<open>now\<close> to the end of the window the counter is \<open>n\<close>, or absent for 0.\<close>

definition window_state :: "string \<Rightarrow> gotime \<Rightarrow> gotime \<Rightarrow> int \<Rightarrow> view \<Rightarrow> bool" where
  "window_state ip now end' n m \<longleftrightarrow> 0 \<le> n \<and>
     (\<forall>t. now \<le> t \<and> t < end' \<longrightarrow>
        m t (rate_key ip) = (if n = 0 then None else Some (strconv_FormatInt n)))"

lemma window_later: "window_state ip now end' n m \<Longrightarrow> now \<le> t \<Longrightarrow> window_state ip t end' n m"
  by (simp add: window_state_def)

lemma window_same_but:
  "same_but now k m m' \<Longrightarrow> k \<noteq> rate_key ip \<Longrightarrow> window_state ip now end' n m \<Longrightarrow>
   window_state ip now end' n m'"
  by (simp add: window_state_def same_but_def)

lemma window_count:
  "window_state ip now end' n m \<Longrightarrow> now < end' \<Longrightarrow> int64_range n \<Longrightarrow>
   request_count m now ip = n \<and> counter_of (m now (rate_key ip)) = Some n"
  by (auto simp: window_state_def request_count_def counter_of_def ParseInt_FormatInt)

lemma window_step:
  assumes run: "script_effect now (limiter_script cfg ip) m x m'"
    and win: "window_state ip now end' n m" and now: "now < end'"
    and fits: "end' \<le> now + int_Seconds (Interval cfg) * time_Second - time_Millisecond"
    and range: "int64_range n" "int64_range (Limit cfg)"
  shows "if n < Limit cfg then x = Some 1 \<and> window_state ip now end' (n + 1) m'
    else x \<noteq> Some 1 \<and> window_state ip now end' n m'"
proof (cases "n < Limit cfg")
  case False
  with window_count [OF win now range(1)] have "Limit cfg \<le> request_count m now ip" by simp
  from script_over [OF run this] window_same_but [OF _ _ win] False show ?thesis
    by (auto split: if_splits)
next
  case True
  note cnt = window_count [OF win now range(1)]
  have n0: "0 \<le> n" using win by (simp add: window_state_def)
  from True n0 range(2) have "int64_range (n + 1)" by (simp add: int64_range_def)
  with script_under [OF run] cnt True obtain m1 where x: "x = Some 1"
    and m1: "incr_effect now (rate_key ip) (n + 1) m m1"
    and rest: "if n = 0 then \<exists>m2. expire_effect now (rate_key ip) (int_Seconds (Interval cfg)) m1 m2 \<and>
        same_view now m2 m' else same_view now m1 m'"
    by auto
  have w1: "m1 t (rate_key ip) = Some (strconv_FormatInt (n + 1))" if "now \<le> t" "t < end'" for t
    using m1 win now that by (auto simp: incr_effect_def window_state_def)
  have pos: "0 < int_Seconds (Interval cfg)"
  proof (rule ccontr)
    assume "\<not> 0 < int_Seconds (Interval cfg)"
    then have "int_Seconds (Interval cfg) * time_Second \<le> 0" by (simp add: time_units mult_le_0_iff)
    with fits now show False by (simp add: time_units)
  qed
  have "m' t (rate_key ip) = Some (strconv_FormatInt (n + 1))" if t: "now \<le> t" "t < end'" for t
  proof (cases "n = 0")
    case False
    with rest w1 [OF t] t show ?thesis by (simp add: same_view_def)
  next
    case zero: True
    with rest obtain m2 where "expire_effect now (rate_key ip) (int_Seconds (Interval cfg)) m1 m2"
      "same_view now m2 m'" by auto
    with w1 [OF order_refl now] pos have "holds_for now (rate_key ip) (strconv_FormatInt (n + 1))
        (int_Seconds (Interval cfg) * time_Second) m2" and "m' t = m2 t"
      using t by (simp_all add: expire_effect_def same_view_def)
    with t fits pos show ?thesis by (auto simp: holds_for_def time_units)
  qed
  with x True n0 show ?thesis by (simp add: window_state_def)
qed

section \<open>A sequence of requests\<close>

text \<open>
  Requests of any clients through the middleware, each at its time; the next handler counts those
  of one address (in the place of the database). Whoever gets to it has passed the limiter,
  whether Redis allowed the request or a call of Redis failed.
\<close>

definition count_passed ::
  "'c EchoContext \<Rightarrow> string \<Rightarrow> (nat, 'r, 'c) handler" where
  "count_passed E ip h =
     (Ok (), if Ctx_RealIP E (ht_ctx h) = ip
             then h\<lparr>ht_world := (ht_world h)\<lparr>w_db := Suc (w_db (ht_world h))\<rparr>\<rparr> else h)"

primrec limited ::
  "'c EchoContext \<Rightarrow> 'r RedisClient \<Rightarrow> RateLimiterConfig \<Rightarrow> string \<Rightarrow> (gotime \<times> 'c) list \<Rightarrow>
   (nat, 'r) world \<Rightarrow> (nat, 'r) world" where
  "limited E R cfg ip [] w = w"
| "limited E R cfg ip (q # qs) w =
     limited E R cfg ip qs (ht_world (snd (RateLimiter E R cfg (fst q) (count_passed E ip)
       \<lparr>ht_world = w, ht_ctx = snd q\<rparr>)))"

lemma limiter_world:
  "ht_world (snd (RateLimiter E R cfg t (count_passed E ip) \<lparr>ht_world = w, ht_ctx = c\<rparr>)) =
   (case RateLimiter_allow R cfg t (Ctx_RealIP E c) (w_redis w) of
      (r, s) \<Rightarrow> w\<lparr>w_redis := s, w_db :=
        if Ctx_RealIP E c = ip \<and> (case r of Ok n \<Rightarrow> n \<noteq> 0 | Err _ \<Rightarrow> True | Panic _ \<Rightarrow> False)
        then Suc (w_db w) else w_db w\<rparr>)"
  by (auto simp: RateLimiter_def count_passed_def go_try_def lift_world_def lift_redis_def with_ctx_def
      ctx_do_def Let_def split: outcome.splits prod.splits)

context redis_client begin

lemma allow_effect:
  assumes "RateLimiter_allow R cfg now ip s = (r, s')"
  shows "case r of
      Ok n \<Rightarrow> script_effect now (limiter_script cfg ip) (view s) (Some n) (view s')
    | Err e \<Rightarrow> redis_error e \<and>
        (same_view now (view s) (view s') \<or>
         (\<exists>x. script_effect now (limiter_script cfg ip) (view s) x (view s')))
    | Panic _ \<Rightarrow> False"
  using script [of now "limiter_script cfg ip" s r s'] assms by (simp add: RateLimiter_allow_def)

lemma allow_frame:
  assumes "RateLimiter_allow R cfg now ip s = (r, s')"
  shows "same_off (limiter_keys ip) now (view s) (view s')"
  using allow_effect [OF assms]
  by (auto split: outcome.splits intro: limiter_frame same_off_view)

text \<open>
  What one request does to the counter of a window: an allowed one of the address uses up one of
  the limit, a refused one none, a failed one at most one; other addresses do not touch it.
\<close>

lemma window_next:
  assumes run: "RateLimiter_allow R cfg t ip' s = (r, s')"
    and win: "window_state ip t end' n (view s)" and t: "t < end'"
    and fits: "end' \<le> t + int_Seconds (Interval cfg) * time_Second - time_Millisecond"
    and range: "int64_range n" "int64_range (Limit cfg)"
    and other: "ip' \<noteq> ip \<Longrightarrow> rate_key ip \<notin> limiter_keys ip'"
  obtains n' where "window_state ip t end' n' (view s')" and "int64_range n'"
    and "n' = n \<or> n < Limit cfg \<and> n' = n + 1"
    and "ip' = ip \<longrightarrow> (case r of Ok v \<Rightarrow> if v = 0 then n' = n else n < Limit cfg \<and> n' = n + 1 | _ \<Rightarrow> True)"
proof (cases "ip' = ip")
  case False
  from allow_frame [OF run] other [OF False] win have "window_state ip t end' n (view s')"
    by (simp add: window_state_def same_off_def)
  with False range(1) show thesis by (intro that [of n]) simp_all
next
  case True
  have up: "int64_range (n + 1)" if "n < Limit cfg"
    using that win range(2) by (simp add: int64_range_def window_state_def)
  have eff: "(if n < Limit cfg then x = Some 1 \<and> window_state ip t end' (n + 1) (view s')
      else x \<noteq> Some 1 \<and> window_state ip t end' n (view s'))"
    if "script_effect t (limiter_script cfg ip) (view s) x (view s')" for x
    by (rule window_step [OF that win t fits range])
  show thesis
  proof (cases r)
    case (Ok v)
    with allow_effect [OF run] True have sc: "script_effect t (limiter_script cfg ip) (view s) (Some v) (view s')"
      by simp
    have "v = 0 \<longleftrightarrow> \<not> n < Limit cfg"
      using eff [OF sc] limiter_reply [OF sc] by (auto split: if_splits)
    with eff [OF sc] up range(1) Ok show thesis
      by (intro that [of "if n < Limit cfg then n + 1 else n"]) (auto split: if_splits)
  next
    case (Err e)
    have same: "window_state ip t end' n (view s')" if "same_view t (view s) (view s')"
      using that win by (simp add: same_view_def window_state_def)
    from allow_effect [OF run] Err True consider "same_view t (view s) (view s')"
      | x where "script_effect t (limiter_script cfg ip) (view s) x (view s')" by auto
    then have "window_state ip t end' n (view s') \<or>
        n < Limit cfg \<and> window_state ip t end' (n + 1) (view s')"
    proof cases
      case 1
      then show ?thesis by (simp add: same)
    next
      case (2 x)
      from eff [OF this] show ?thesis by (simp split: if_splits)
    qed
    with up range(1) Err that [of n] that [of "n + 1"] show thesis by auto
  next
    case (Panic p)
    with allow_effect [OF run] show thesis by simp
  qed
qed

end

section \<open>The limiter on the Redis engine\<close>

text \<open>Whether the next call of Redis is to fail, with or without effect.\<close>

definition call_fails :: "redisconn \<Rightarrow> bool" where
  "call_fails s \<longleftrightarrow> (case rc_faults s of [] \<Rightarrow> False | f # _ \<Rightarrow> f \<noteq> NoFault)"

lemma engine_script:
  "Redis_ScriptRun redis_Client now l s = (r, s') \<Longrightarrow> rc_faults s' = tl (rc_faults s) \<and>
   (if call_fails s then \<exists>e. r = Err e else server_EVAL l now (rc_keys s) = (r, rc_keys s'))"
  by (auto simp: redis_Client_def redis_call_def call_fails_def Let_def
      split: list.splits fault.splits prod.splits)

text \<open>
  The reply of the script, for every state of Redis: it fails when the call fails, over the limit
  when there is no block entry to be found and none can be written, and when the counter cannot be
  incremented.
\<close>

lemma engine_allow:
  assumes "RateLimiter_allow redis_Client cfg now ip s = (r, s')"
  shows "rc_faults s' = tl (rc_faults s) \<and>
    (if call_fails s then \<exists>e. r = Err e
     else if Limit cfg \<le> request_count (redis_view s) now ip
     then (if redis_view s now (block_key ip) \<noteq> None \<or> 0 < int_Seconds (BlockTime cfg)
           then r = Ok 0 else \<exists>e. r = Err e)
     else r = Ok 1 \<or> (\<exists>e. r = Err e) \<and>
       (case counter_of (redis_view s now (rate_key ip)) of
          None \<Rightarrow> True | Some n \<Rightarrow> \<not> int64_range (n + 1)))"
proof -
  note run = engine_script [OF assms [unfolded RateLimiter_allow_def]]
  show ?thesis
  proof (cases "call_fails s")
    case True
    with run show ?thesis by simp
  next
    case False
    with run have ev: "server_EVAL (limiter_script cfg ip) now (rc_keys s) = (r, rc_keys s')" by simp
    define x where "x = (case r of Ok n \<Rightarrow> Some n | _ \<Rightarrow> None)"
    have eff: "script_effect now (limiter_script cfg ip) (redis_view s) x (redis_view s')"
      and r: "r = (case x of Some n \<Rightarrow> Ok n | None \<Rightarrow> r)" "x = None \<Longrightarrow> \<exists>e. r = Err e"
      using server_EVAL_effect [OF ev] by (auto simp: x_def redis_view_def split: outcome.splits)
    show ?thesis
    proof (cases "Limit cfg \<le> request_count (redis_view s) now ip")
      case True
      from script_over [OF eff True] r run False True show ?thesis by (auto split: if_splits)
    next
      case under: False
      then have "request_count (redis_view s) now ip < Limit cfg" by simp
      from script_under [OF eff this] r run False under show ?thesis by auto
    qed
  qed
qed

text \<open>The middleware around it.\<close>

lemma rate_limiter_engine:
  "RateLimiter E redis_Client cfg now next' h =
    (let ip = Ctx_RealIP E (ht_ctx h); s = w_redis (ht_world h);
         h1 = h\<lparr>ht_world := (ht_world h)\<lparr>w_redis := snd (RateLimiter_allow redis_Client cfg now ip s)\<rparr>\<rparr> in
     if \<not> call_fails s \<and> Limit cfg \<le> request_count (redis_view s) now ip \<and>
        (redis_view s now (block_key ip) \<noteq> None \<or> 0 < int_Seconds (BlockTime cfg))
     then (Err (HTTPError StatusTooManyRequests (StringMessage ''Too many requests'')),
       h1\<lparr>ht_ctx := Ctx_SetHeader E ''Retry-After'' (strconv_FormatInt (int_Seconds (BlockTime cfg)))
         (ht_ctx h)\<rparr>)
     else next' h1)"
proof -
  obtain r s' where run: "RateLimiter_allow redis_Client cfg now (Ctx_RealIP E (ht_ctx h))
      (w_redis (ht_world h)) = (r, s')" by fastforce
  from engine_allow [OF run] run show ?thesis
    by (auto simp: RateLimiter_def go_try_def lift_world_def lift_redis_def with_ctx_def ctx_do_def
        Let_def split: if_splits)
qed

text \<open>
  In one window at most the rest of the limit passes, and besides only requests whose call of
  Redis failed.
\<close>

lemma engine_window_bound:
  assumes "window_state ip now end' n (redis_view (w_redis w))"
    and "sorted (now # map fst qs)" and "\<forall>q \<in> set qs. fst q < end'"
    and "end' \<le> now + int_Seconds (Interval cfg) * time_Second - time_Millisecond"
    and "int64_range n" and "int64_range (Limit cfg)" and block: "0 < int_Seconds (BlockTime cfg)"
    and "\<forall>q \<in> set qs. Ctx_RealIP E (snd q) \<noteq> ip \<longrightarrow> rate_key ip \<notin> limiter_keys (Ctx_RealIP E (snd q))"
  shows "w_db (limited E redis_Client cfg ip qs w) \<le> w_db w + nat (Limit cfg - n) +
    length (filter (\<lambda>(q, f). Ctx_RealIP E (snd q) = ip \<and> f \<noteq> NoFault) (zip qs (rc_faults (w_redis w))))"
  using assms(1-6,8)
proof (induction qs arbitrary: w n now)
  case (Cons q qs)
  obtain t c where q: "q = (t, c)" by (cases q)
  let ?s = "w_redis w" and ?own = "Ctx_RealIP E c = ip"
  let ?failed = "\<lambda>qs s. length (filter (\<lambda>(q, f). Ctx_RealIP E (snd q) = ip \<and> f \<noteq> NoFault) (zip qs (rc_faults s)))"
  obtain r s' where run: "RateLimiter_allow redis_Client cfg t (Ctx_RealIP E c) ?s = (r, s')" by fastforce
  have t: "now \<le> t" "t < end'" "sorted (t # map fst qs)" using Cons.prems by (auto simp: q)
  have fits: "end' \<le> t + int_Seconds (Interval cfg) * time_Second - time_Millisecond"
    using Cons.prems(4) t(1) by simp
  have win: "window_state ip t end' n (redis_view ?s)" using window_later [OF Cons.prems(1) t(1)] .
  have other: "Ctx_RealIP E c \<noteq> ip \<Longrightarrow> rate_key ip \<notin> limiter_keys (Ctx_RealIP E c)"
    using Cons.prems(7) by (simp add: q)
  obtain n' where n': "window_state ip t end' n' (redis_view s')" "int64_range n'"
    "n' = n \<or> n < Limit cfg \<and> n' = n + 1"
    "?own \<longrightarrow> (case r of Ok v \<Rightarrow> if v = 0 then n' = n else n < Limit cfg \<and> n' = n + 1 | _ \<Rightarrow> True)"
    by (rule redis.window_next [OF run win t(2) fits Cons.prems(5,6) other])
  let ?pass = "?own \<and> (case r of Ok n \<Rightarrow> n \<noteq> 0 | Err _ \<Rightarrow> True | Panic _ \<Rightarrow> False)"
  let ?w = "w\<lparr>w_redis := s', w_db := if ?pass then Suc (w_db w) else w_db w\<rparr>"
  have "w_db (limited E redis_Client cfg ip qs ?w) \<le> w_db ?w + nat (Limit cfg - n') + ?failed qs s'"
    using Cons.IH [of t n' ?w, OF _ t(3) _ fits n'(2) Cons.prems(6)] n'(1) Cons.prems(3,7) by simp
  moreover have "w_db (limited E redis_Client cfg ip (q # qs) w) = w_db (limited E redis_Client cfg ip qs ?w)"
    by (simp add: q limiter_world run)
  moreover have "w_db ?w = w_db w + (if ?pass then 1 else 0)" "w_redis ?w = s'" by simp_all
  moreover have "?failed (q # qs) ?s = (if ?own \<and> call_fails ?s then 1 else 0) + ?failed qs s'"
    using engine_allow [OF run] by (cases "rc_faults ?s") (simp_all add: q call_fails_def)
  moreover have "(if ?pass then 1 else 0) + nat (Limit cfg - n') \<le>
      nat (Limit cfg - n) + (if ?own \<and> call_fails ?s then 1 else 0)"
  proof (cases "?own \<and> call_fails ?s")
    case True
    with n'(3) show ?thesis by auto
  next
    case False
    have "n < Limit cfg \<and> n' = n + 1" if pass: ?pass
    proof -
      from pass False have own: ?own and up: "\<not> call_fails ?s" by simp_all
      have cnt: "request_count (redis_view ?s) t ip = n \<and> counter_of (redis_view ?s t (rate_key ip)) = Some n"
        by (rule window_count [OF win t(2) Cons.prems(5)])
      have "0 \<le> n" using win by (simp add: window_state_def)
      then have range: "int64_range (n + 1)" if "n < Limit cfg"
        using that Cons.prems(6) by (simp add: int64_range_def)
      from engine_allow [OF run] up cnt own block range pass have "r = Ok 1"
        by (auto split: if_splits)
      with n'(4) own show ?thesis by fastforce
    qed
    with n'(3) False show ?thesis by auto
  qed
  ultimately show ?case by linarith
qed simp

end
