(* ===== verification/Gateway.thy ===== *)
theory Gateway
  imports Server Auth_Flows Api_Key_Contract Rate_Limiter
begin

text \<open>
  What a request to the server can do, on any providers that keep their contracts: the locale
  \<open>gateway\<close> joins the contracts of the authentication service, of the Redis client behind the rate
  limiter and the API key, of the echo context and of the OpenAPI validator.
\<close>

section \<open>Lifted calls\<close>

lemma lift_world_run:
  "lift_world m h = (r, h') \<longleftrightarrow> (\<exists>w. m (ht_world h) = (r, w) \<and> h' = h\<lparr>ht_world := w\<rparr>)"
  by (auto simp: lift_world_def split: prod.splits)

lemma lift_ctx_run:
  "lift_ctx m h = (r, h') \<longleftrightarrow> (\<exists>c. m (ht_ctx h) = (r, c) \<and> h' = h\<lparr>ht_ctx := c\<rparr>)"
  by (auto simp: lift_ctx_def split: prod.splits)

lemma ctx_do_eq [simp]: "ctx_do f h = (Ok (), h\<lparr>ht_ctx := f (ht_ctx h)\<rparr>)"
  by (simp add: ctx_do_def)

lemma with_ctx_eq [simp]: "with_ctx f h = f (ht_ctx h) h"
  by (simp add: with_ctx_def)

lemma go_try_ctx_do [simp]: "go_try (ctx_do f) e k h = k () (h\<lparr>ht_ctx := f (ht_ctx h)\<rparr>)"
  by (simp add: go_try_def)

section \<open>The API keys and the limiter's keys\<close>

lemma api_keys_not_limiter [simp]:
  "CurrentAPIKeyRedisKey \<notin> limiter_keys ip" "OldAPIKeyRedisKey \<notin> limiter_keys ip"
  "APIKeyRotationTimeRedisKey \<notin> limiter_keys ip"
  by (simp_all add: api_key_names rate_key_def block_key_def limiter_keys_def)

lemma key_accepted_same_off:
  assumes "same_off (limiter_keys ip) now m m'" and "mono clk" and "now \<le> clk 0"
  shows "key_accepted m' clk key \<longleftrightarrow> key_accepted m clk key"
proof -
  from assms(2,3) have "now \<le> clk n" for n by (meson le0 monoD order_trans)
  with assms(1) show ?thesis by (simp add: key_accepted_def same_off_def)
qed

section \<open>The contract of a gateway\<close>

abbreviation redis_denials :: "('r \<Rightarrow> view) \<Rightarrow> 'r \<Rightarrow> denylist" where
  "redis_denials store \<equiv> \<lambda>s t k. store s t k = Some ''invalidated''"

locale gateway =
  auth_service as ready usr ses nrm gin "redis_denials store" store J decode genuine +
  rd: redis_client R store +
  ec: echo_context E req resp +
  openapi_validator V
  for as :: "('d, 'r) AuthService"
    and ready usr ses nrm gin store J decode genuine
    and R :: "'r RedisClient" and E :: "'c EchoContext" and req :: "'c \<Rightarrow> 'q" and resp
    and V :: "('d, 'r, 'c) validator"
begin

abbreviation "Authenticator \<equiv> NewAuthenticator J E as (NewAPIKeyService R)"

definition quiet :: "gotime \<Rightarrow> string \<Rightarrow> ('d, 'r) world \<Rightarrow> ('d, 'r) world \<Rightarrow> bool" where
  "quiet now ip w w' \<longleftrightarrow> w_db w' = w_db w \<and> w_hooks w' = w_hooks w \<and>
     same_off (limiter_keys ip) now (store (w_redis w)) (store (w_redis w'))"

lemma rate_limiter:
  assumes run: "RateLimiter E R cfg now next' h = (r, h')"
  obtains (Rejected) w where "r = Err (HTTPError StatusTooManyRequests (StringMessage ''Too many requests''))"
    and "h' = h\<lparr>ht_world := w, ht_ctx := Ctx_SetHeader E ''Retry-After''
      (strconv_FormatInt (int_Seconds (BlockTime cfg))) (ht_ctx h)\<rparr>"
    and "quiet now (Ctx_RealIP E (ht_ctx h)) (ht_world h) w"
    and "Limit cfg \<le> request_count (store (w_redis (ht_world h))) now (Ctx_RealIP E (ht_ctx h))"
  | (Passed) w where "next' (h\<lparr>ht_world := w\<rparr>) = (r, h')"
    and "quiet now (Ctx_RealIP E (ht_ctx h)) (ht_world h) w"
    and "Limit cfg \<le> request_count (store (w_redis (ht_world h))) now (Ctx_RealIP E (ht_ctx h)) \<longrightarrow>
      (\<exists>e. fst (RateLimiter_allow R cfg now (Ctx_RealIP E (ht_ctx h)) (w_redis (ht_world h))) = Err e)"
proof -
  let ?ip = "Ctx_RealIP E (ht_ctx h)"
  note run [unfolded RateLimiter_def with_ctx_eq]
  then show thesis
  proof (cases rule: go_try_cases)
    case (Ok n h1)
    from Ok(1) obtain s where s: "RateLimiter_allow R cfg now ?ip (w_redis (ht_world h)) = (Ok n, s)"
      "h1 = h\<lparr>ht_world := (ht_world h)\<lparr>w_redis := s\<rparr>\<rparr>"
      by (auto simp: lift_world_run lift_redis_run)
    from rd.allow_effect [OF s(1)] have eff: "script_effect now (limiter_script cfg ?ip)
      (store (w_redis (ht_world h))) (Some n) (store s)" by simp
    have q: "quiet now ?ip (ht_world h) ((ht_world h)\<lparr>w_redis := s\<rparr>)"
      using limiter_frame [OF eff] by (simp add: quiet_def)
    show thesis
    proof (cases "n = 0")
      case True
      with Ok(2) have "r = Err (HTTPError StatusTooManyRequests (StringMessage ''Too many requests''))"
        "h' = h\<lparr>ht_world := (ht_world h)\<lparr>w_redis := s\<rparr>, ht_ctx := Ctx_SetHeader E ''Retry-After''
          (strconv_FormatInt (int_Seconds (BlockTime cfg))) (ht_ctx h)\<rparr>"
        by (simp_all add: s(2))
      from Rejected [OF this q] limiter_reply [OF eff] True show thesis by (auto split: if_splits)
    next
      case False
      with Ok(2) Passed [OF _ q] limiter_reply [OF eff] show thesis by (auto simp: s split: if_splits)
    qed
  next
    case (Err e h1)
    from Err(1) obtain s where s: "RateLimiter_allow R cfg now ?ip (w_redis (ht_world h)) = (Err e, s)"
      "h1 = h\<lparr>ht_world := (ht_world h)\<lparr>w_redis := s\<rparr>\<rparr>"
      by (auto simp: lift_world_run lift_redis_run)
    from rd.allow_effect [OF s(1)] have "same_off (limiter_keys ?ip) now
      (store (w_redis (ht_world h))) (store s)" by (auto intro: same_off_view limiter_frame)
    with Passed [of "(ht_world h)\<lparr>w_redis := s\<rparr>"] Err(2) show thesis by (simp add: quiet_def s)
  next
    case (Panic p)
    then obtain s where "RateLimiter_allow R cfg now ?ip (w_redis (ht_world h)) = (Panic p, s)"
      by (auto simp: lift_world_run lift_redis_run)
    from rd.allow_effect [OF this] show thesis by simp
  qed
qed

section \<open>The authenticator\<close>

lemma bearer:
  assumes run: "Authenticator clk MwSchemeBearerAuth h = (r, h')"
    and path: "\<not> strings_HasSuffix (Ctx_Path E (ht_ctx h)) ''/auth/tokens/refresh''"
  shows "w_db (ht_world h') = w_db (ht_world h) \<and> w_hooks (ht_world h') = w_hooks (ht_world h) \<and>
    req (ht_ctx h') = req (ht_ctx h) \<and> resp (ht_ctx h') = resp (ht_ctx h) \<and>
    (case r of
       Ok _ \<Rightarrow> \<exists>tok uid c. Ctx_Header E (ht_ctx h) ''Authorization'' = ''Bearer '' @ tok \<and>
         Ctx_Get E (ht_ctx h') MwTokenKey = Some (CtxString tok) \<and>
         Ctx_Get E (ht_ctx h') MwUserIDKey = Some (CtxInt64 uid) \<and>
         store (w_redis (ht_world h)) (clk 0) tok \<noteq> Some ''invalidated'' \<and>
         decode tok = Some (SigningMethodHS512_Alg, c) \<and>
         genuine SigningMethodHS512_Alg (tsJwtSecretKey (asTokenService as)) tok \<and>
         accepted_claims c (clk 1) uid
     | Err e \<Rightarrow> \<exists>m. e = HTTPError StatusUnauthorized (StringMessage m)
     | Panic _ \<Rightarrow> False)"
proof -
  let ?hdr = "Ctx_Header E (ht_ctx h) ''Authorization''"
  have schemes: "MwSchemeBearerAuth \<noteq> MwSchemeAPIKeyAuth"
    by (simp add: MwSchemeBearerAuth_def MwSchemeAPIKeyAuth_def)
  show ?thesis
  proof (cases "?hdr = '''' \<or> \<not> strings_HasPrefix ?hdr bearerPrefix")
    case True
    with run path schemes show ?thesis
      by (auto simp: NewAuthenticator_def Let_def split: if_splits)
  next
    case False
    then obtain tok where tok: "?hdr = ''Bearer '' @ tok"
      by (auto simp: strings_HasPrefix_iff bearerPrefix_def)
    then have trim: "strings_TrimPrefix ?hdr bearerPrefix = tok"
      using strings_TrimPrefix_append [of bearerPrefix tok] by (simp add: bearerPrefix_def)
    let ?h1 = "h\<lparr>ht_ctx := Ctx_Set E MwTokenKey (CtxString tok) (ht_ctx h)\<rparr>"
    from run path schemes False have
      "go_try (lift_world (AuthService_AuthenticateAccessToken J as clk tok))
         (\<lambda>err. go_fail (echo_NewHTTPError StatusUnauthorized (error_text err)))
         (\<lambda>userID. ctx_do (Ctx_Set E MwUserIDKey (CtxInt64 userID))) ?h1 = (r, h')"
      by (simp add: NewAuthenticator_def Let_def trim)
    then show ?thesis
    proof (cases rule: go_try_cases)
      case (Ok uid h2)
      from Ok(1) obtain w where w: "AuthService_AuthenticateAccessToken J as clk tok (ht_world h) = (Ok uid, w)"
        "h2 = ?h1\<lparr>ht_world := w\<rparr>" by (auto simp: lift_world_run)
      have keys: "MwTokenKey \<noteq> MwUserIDKey" by (simp add: MwTokenKey_def MwUserIDKey_def)
      from authenticate [OF w(1)] Ok(2) tok keys show ?thesis
        by (auto simp: w(2) ec.set ec.set_frame)
    next
      case (Err e h2)
      from Err(1) obtain w where w: "AuthService_AuthenticateAccessToken J as clk tok (ht_world h) = (Err e, w)"
        "h2 = ?h1\<lparr>ht_world := w\<rparr>" by (auto simp: lift_world_run)
      from authenticate [OF w(1)] Err(2) show ?thesis by (auto simp: w(2) ec.set_frame)
    next
      case (Panic p)
      then obtain w where "AuthService_AuthenticateAccessToken J as clk tok (ht_world h) = (Panic p, w)"
        by (auto simp: lift_world_run)
      from authenticate [OF this] show ?thesis by simp
    qed
  qed
qed

lemma refresh_unauthenticated:
  assumes "strings_HasSuffix (Ctx_Path E (ht_ctx h)) ''/auth/tokens/refresh''"
  shows "Authenticator clk MwSchemeBearerAuth h = (Ok (), h)"
  using assms by (simp add: NewAuthenticator_def MwSchemeBearerAuth_def MwSchemeAPIKeyAuth_def)

lemma api_key:
  assumes run: "Authenticator clk MwSchemeAPIKeyAuth h = (r, h')" and mono: "mono clk"
  shows "w_db (ht_world h') = w_db (ht_world h) \<and> w_hooks (ht_world h') = w_hooks (ht_world h) \<and>
    ht_ctx h' = ht_ctx h \<and>
    (case r of
       Ok _ \<Rightarrow> key_accepted (store (w_redis (ht_world h))) clk (Ctx_Header E (ht_ctx h) MwAPIKeyHeader)
     | Err e \<Rightarrow> (\<exists>m. e = HTTPError StatusUnauthorized (StringMessage m)) \<or> (\<exists>p e'. e = Errorf p e')
     | Panic _ \<Rightarrow> False)"
proof -
  let ?key = "Ctx_Header E (ht_ctx h) MwAPIKeyHeader"
  show ?thesis
  proof (cases "?key = ''''")
    case True
    with run show ?thesis by (auto simp: NewAuthenticator_def)
  next
    case False
    with run have "go_try (lift_world (lift_redis (APIKeyService_IsValidAPIKey (NewAPIKeyService R) clk ?key)))
        (go_wrap ''failed during api key validation: '')
        (\<lambda>valid. if \<not> valid then go_fail (echo_NewHTTPError StatusUnauthorized ''invalid API key'')
           else go_ret ()) h = (r, h')"
      by (simp add: NewAuthenticator_def Let_def)
    then show ?thesis
    proof (cases rule: go_try_cases)
      case (Ok valid h1)
      then obtain s where "APIKeyService_IsValidAPIKey (NewAPIKeyService R) clk ?key (w_redis (ht_world h)) = (Ok valid, s)"
        "h1 = h\<lparr>ht_world := (ht_world h)\<lparr>w_redis := s\<rparr>\<rparr>"
        by (auto simp: lift_world_run lift_redis_run)
      with rd.is_valid [OF mono this(1)] Ok(2) show ?thesis by (auto split: if_splits)
    next
      case (Err e h1)
      then show ?thesis by (auto simp: lift_world_run lift_redis_run)
    next
      case (Panic p)
      then obtain s where "APIKeyService_IsValidAPIKey (NewAPIKeyService R) clk ?key (w_redis (ht_world h)) = (Panic p, s)"
        by (auto simp: lift_world_run lift_redis_run)
      from rd.is_valid [OF mono this] show ?thesis by simp
    qed
  qed
qed

end

end
