(* ===== verification/Endpoints.thy ===== *)
theory Endpoints
  imports Gateway
begin

text \<open>
  The four endpoints end to end, in the locale \<open>gateway\<close>: the error handler, the handlers behind
  their wrappers, and what a whole request does to users, sessions and its answer.
\<close>

lemma ctx_keys_distinct [simp]:
  "MwTokenKey \<noteq> BearerAuthScopes" "MwUserIDKey \<noteq> BearerAuthScopes"
  "MwTokenKey \<noteq> MwUserIDKey" "MwUserIDKey \<noteq> MwTokenKey"
  by (simp_all add: MwTokenKey_def MwUserIDKey_def BearerAuthScopes_def)

lemma NewController_simps [simp]: "ctlAuthService (NewController x) = x"
  by (simp add: NewController_def)

text \<open>A response that may only have got a status and an error message.\<close>

definition error_only :: "response \<Rightarrow> response \<Rightarrow> bool" where
  "error_only rp rp' \<longleftrightarrow> rp' = rp \<or>
     (\<exists>code b. rp' = rp\<lparr>rpStatus := Some code, rpBody := b\<rparr> \<and> (\<forall>x. b = Some x \<longrightarrow> (\<exists>m. x = ReasonBody m)))"

lemma error_only_refl [simp]: "error_only rp rp"
  by (simp add: error_only_def)

text \<open>What the error handler owes the client for an error.\<close>

definition error_reply :: "gerror \<Rightarrow> int \<times> http_message" where
  "error_reply err =
     (if isUnauthorizedTokenError err then (401, StringMessage (error_text err))
      else (case errors_As_HTTPError err of
              Some he \<Rightarrow> he
            | None \<Rightarrow> (500, StringMessage ''internal server error'')))"

context echo_context begin

lemma same_reads:
  assumes "req c = req c'"
  shows "Ctx_RealIP E c = Ctx_RealIP E c'" "Ctx_Header E c = Ctx_Header E c'"
    "Ctx_Path E c = Ctx_Path E c'" "Ctx_Cookie E c = Ctx_Cookie E c'"
    "Ctx_BindGuid E c = Ctx_BindGuid E c'" "request_metadata E c = request_metadata E c'"
  using req_reads [OF assms] by (simp_all add: request_metadata_def Ctx_UserAgent_def)

text \<open>A JSON answer, for every outcome of writing it.\<close>

lemma json_run:
  assumes "rpStatus (resp c) = None" and "Ctx_JSON E code b c = (r, c')"
  shows "req c' = req c" and "r \<noteq> Panic p"
    and "resp c' = resp c \<or>
      (\<exists>b'. (b' = None \<or> b' = Some b) \<and> resp c' = (resp c)\<lparr>rpStatus := Some code, rpBody := b'\<rparr>)"
    and "r = Ok u \<Longrightarrow> resp c' = (resp c)\<lparr>rpStatus := Some code, rpBody := Some b\<rparr>"
  using json [OF assms(1), of code b] assms(2)
  by (auto simp: answers_def split: outcome.splits)

lemma no_content_run:
  assumes "rpStatus (resp c) = None" and "Ctx_NoContent E code c = (r, c')"
  shows "req c' = req c" and "r \<noteq> Panic p"
    and "resp c' = resp c \<or> resp c' = (resp c)\<lparr>rpStatus := Some code, rpBody := None\<rparr>"
    and "r = Ok u \<Longrightarrow> resp c' = (resp c)\<lparr>rpStatus := Some code, rpBody := None\<rparr>"
  using no_content [OF assms(1), of code] assms(2)
  by (auto simp: answers_def split: outcome.splits)

text \<open>The error handler, by the error it gets.\<close>

lemma error_handler_writes:
  assumes "go_try (Ctx_JSON E code (ReasonBody msg)) (\<lambda>_. go_ret ()) go_ret c = (r, c')"
    and "rpStatus (resp c) = None"
  shows "r = Ok () \<and> req c' = req c \<and> error_only (resp c) (resp c')"
proof -
  obtain r1 c1 where j: "Ctx_JSON E code (ReasonBody msg) c = (r1, c1)" by fastforce
  with json_run [OF assms(2) j] assms(1) show ?thesis
    by (cases r1) (auto simp: go_try_def error_only_def)
qed

text \<open>Every error but one is answered with a reason, over no answer that is under way.\<close>

lemma reason_written:
  assumes "rpStatus (resp c) = None"
  shows "\<exists>w c'. go_try (Ctx_JSON E code (ReasonBody msg)) (\<lambda>_. go_ret ()) go_ret c = (Ok (), c') \<and>
    Ctx_JSON E code (ReasonBody msg) c = (w, c') \<and> req c' = req c \<and>
    (case w of
       Ok _ \<Rightarrow> resp c' = (resp c)\<lparr>rpStatus := Some code, rpBody := Some (ReasonBody msg)\<rparr>
     | Err _ \<Rightarrow> resp c' = resp c \<or>
         (\<exists>b. (b = None \<or> b = Some (ReasonBody msg)) \<and> resp c' = (resp c)\<lparr>rpStatus := Some code, rpBody := b\<rparr>)
     | Panic _ \<Rightarrow> False)"
proof -
  obtain w c' where j: "Ctx_JSON E code (ReasonBody msg) c = (w, c')" by fastforce
  with json_run [OF assms j] show ?thesis by (cases w) (auto simp: go_try_def)
qed

lemma error_handler_replies:
  assumes new: "rpStatus (resp c) = None"
  shows "case error_reply err of
      (code, StringMessage msg) \<Rightarrow>
        \<exists>w c'. ErrorHandler E err c = (Ok (), c') \<and> Ctx_JSON E code (ReasonBody msg) c = (w, c') \<and>
          req c' = req c \<and>
          (case w of
             Ok _ \<Rightarrow> resp c' = (resp c)\<lparr>rpStatus := Some code, rpBody := Some (ReasonBody msg)\<rparr>
           | Err _ \<Rightarrow> resp c' = resp c \<or>
               (\<exists>b. (b = None \<or> b = Some (ReasonBody msg)) \<and>
                  resp c' = (resp c)\<lparr>rpStatus := Some code, rpBody := b\<rparr>)
           | Panic _ \<Rightarrow> False)
    | (code, OtherMessage) \<Rightarrow> \<exists>m. ErrorHandler E err c = (Panic m, c)"
proof -
  have unc: "\<not> Ctx_Committed E c" by (simp add: committed new)
  show ?thesis
  proof (cases "isUnauthorizedTokenError err")
    case True
    then have "ErrorHandler E err c = go_try (Ctx_JSON E 401 (ReasonBody (error_text err))) (\<lambda>_. go_ret ()) go_ret c"
      by (simp add: ErrorHandler_def unc StatusUnauthorized_def)
    with True show ?thesis
      using reason_written [OF new, of 401 "error_text err"] by (simp add: error_reply_def)
  next
    case tok: False
    show ?thesis
    proof (cases "errors_As_HTTPError err")
      case None
      with tok have "ErrorHandler E err c =
          go_try (Ctx_JSON E 500 (ReasonBody ''internal server error'')) (\<lambda>_. go_ret ()) go_ret c"
        by (simp add: ErrorHandler_def unc StatusInternalServerError_def)
      with tok None show ?thesis
        using reason_written [OF new, of 500 "''internal server error''"] by (simp add: error_reply_def)
    next
      case (Some he)
      obtain code m where he: "he = (code, m)" by (cases he)
      show ?thesis
      proof (cases m)
        case (StringMessage msg)
        with tok Some have "ErrorHandler E err c = go_try (Ctx_JSON E code (ReasonBody msg)) (\<lambda>_. go_ret ()) go_ret c"
          by (simp add: ErrorHandler_def unc he)
        with tok Some StringMessage show ?thesis
          using reason_written [OF new, of code msg] by (simp add: error_reply_def he)
      next
        case OtherMessage
        with tok Some show ?thesis by (simp add: ErrorHandler_def unc he error_reply_def)
      qed
    qed
  qed
qed

lemma error_handler:
  assumes "ErrorHandler E err c = (r, c')"
  shows "error_only (resp c) (resp c') \<and> req c' = req c \<and>
    (case r of Ok _ \<Rightarrow> True | Err _ \<Rightarrow> False | Panic _ \<Rightarrow> \<exists>code. errors_As_HTTPError err = Some (code, OtherMessage))"
proof (cases "Ctx_Committed E c")
  case True
  with assms show ?thesis by (auto simp: ErrorHandler_def)
next
  case False
  then have "rpStatus (resp c) = None" by (simp add: committed)
  with assms False show ?thesis
    by (auto simp: ErrorHandler_def split: if_splits option.splits http_message.splits
        dest!: error_handler_writes)
qed

end

section \<open>The handlers\<close>

context gateway begin

abbreviation "Interface up \<equiv> controller_interface J up E (NewController as)"

lemma scope_set:
  "go_try (ctx_do (Ctx_Set E k v)) go_fail (\<lambda>_. m) h = (r, h') \<Longrightarrow>
   \<exists>h1. m h1 = (r, h') \<and> ht_world h1 = ht_world h \<and> req (ht_ctx h1) = req (ht_ctx h) \<and>
     resp (ht_ctx h1) = resp (ht_ctx h) \<and>
     (\<forall>j. j \<noteq> k \<longrightarrow> Ctx_Get E (ht_ctx h1) j = Ctx_Get E (ht_ctx h) j)"
  by (auto simp: ec.set ec.set_frame intro!: exI [of _ "h\<lparr>ht_ctx := Ctx_Set E k v (ht_ctx h)\<rparr>"])

lemma guid_handler:
  assumes run: "Wrapper_GetUserGUID E (Interface up) am h = (r, h')"
    and rdy: "ready (w_db (ht_world h))" and new: "rpStatus (resp (ht_ctx h)) = None"
    and uid: "Ctx_Get E (ht_ctx h) MwUserIDKey = Some (CtxInt64 i)"
  shows "unchanged (ht_world h) (ht_world h') \<and>
    (\<forall>b. rpBody (resp (ht_ctx h')) = Some b \<longrightarrow> rpBody (resp (ht_ctx h)) = Some b \<or>
       (\<exists>g g'. usr (w_db (ht_world h)) i = Some g \<and> up g = Some g' \<and>
          b = UserGUIDBody \<lparr>UserId = g'\<rparr>)) \<and>
    (case r of
       Ok _ \<Rightarrow> \<exists>g g'. usr (w_db (ht_world h)) i = Some g \<and> up g = Some g' \<and>
         resp (ht_ctx h') = (resp (ht_ctx h))\<lparr>rpStatus := Some StatusOK,
           rpBody := Some (UserGUIDBody \<lparr>UserId = g'\<rparr>)\<rparr>
     | Err _ \<Rightarrow> True
     | Panic _ \<Rightarrow> \<exists>g. usr (w_db (ht_world h)) i = Some g \<and> up g = None)"
proof -
  from scope_set [OF run [unfolded Wrapper_GetUserGUID_def]] obtain h1
    where h1: "ht_world h1 = ht_world h" "resp (ht_ctx h1) = resp (ht_ctx h)"
      "Ctx_Get E (ht_ctx h1) MwUserIDKey = Some (CtxInt64 i)"
      and run1: "Controller_GetUserGUID up E (NewController as) am h1 = (r, h')"
    using uid by (auto simp: controller_interface_def)
  from run1 h1(3) have "go_try (lift_world (AuthService_GetPublicGUID as i)) (go_wrap ''get public GUID: '')
      (\<lambda>guid. case up guid of None \<Rightarrow> go_panic ''uuid: Parse''
        | Some id' \<Rightarrow> go_try (lift_ctx (Ctx_JSON E StatusOK (UserGUIDBody \<lparr>UserId = id'\<rparr>)))
            (go_wrap ''json: '') go_ret) h1 = (r, h')"
    by (simp add: Controller_GetUserGUID_def)
  then show ?thesis
  proof (cases rule: go_try_cases)
    case (Ok g h2)
    then obtain w where w: "AuthService_GetPublicGUID as i (ht_world h) = (Ok g, w)"
      "h2 = h1\<lparr>ht_world := w\<rparr>" by (auto simp: lift_world_run h1(1))
    note guid = get_public_guid [OF rdy w(1)]
    show ?thesis
    proof (cases "up g")
      case None
      with Ok(2) guid show ?thesis by (auto simp: w h1)
    next
      case (Some g')
      with Ok(2) have "go_try (lift_ctx (Ctx_JSON E StatusOK (UserGUIDBody \<lparr>UserId = g'\<rparr>)))
            (go_wrap ''json: '') go_ret h2 = (r, h')" by simp
      then obtain r1 c where c: "Ctx_JSON E StatusOK (UserGUIDBody \<lparr>UserId = g'\<rparr>) (ht_ctx h1) = (r1, c)"
        and r: "h' = h2\<lparr>ht_ctx := c\<rparr>" "r = r1 \<or> (\<exists>e e'. r1 = Err e \<and> r = Err e')"
        by (cases rule: go_try_cases) (auto simp: lift_ctx_run w)
      have new1: "rpStatus (resp (ht_ctx h1)) = None" using new h1 by simp
      from ec.json_run [OF new1 c] r guid Some show ?thesis
        by (auto simp: w h1 split: outcome.splits)
    qed
  next
    case (Err e h2)
    then obtain w where w: "AuthService_GetPublicGUID as i (ht_world h) = (Err e, w)"
      "h2 = h1\<lparr>ht_world := w\<rparr>" by (auto simp: lift_world_run h1(1))
    from get_public_guid [OF rdy w(1)] Err(2) show ?thesis by (auto simp: w h1)
  next
    case (Panic p)
    then obtain w where "AuthService_GetPublicGUID as i (ht_world h) = (Panic p, w)"
      by (auto simp: lift_world_run h1(1))
    from get_public_guid [OF rdy this] show ?thesis by simp
  qed
qed

lemma logout_handler:
  assumes run: "Wrapper_Logout E (Interface up) am h = (r, h')"
    and rdy: "ready (w_db (ht_world h))" and new: "rpStatus (resp (ht_ctx h)) = None"
    and mono: "mono (amClock am)"
    and tok: "Ctx_Get E (ht_ctx h) MwTokenKey = Some (CtxString tok)"
  shows "(rpBody (resp (ht_ctx h')) = rpBody (resp (ht_ctx h)) \<or> rpBody (resp (ht_ctx h')) = None) \<and>
    req (ht_ctx h') = req (ht_ctx h) \<and>
    (case r of
       Ok _ \<Rightarrow> (\<exists>u. AuthService_Logout J as (amClock am) tok (ht_world h) = (Ok u, ht_world h')) \<and>
         resp (ht_ctx h') = (resp (ht_ctx h))\<lparr>rpCookies := rpCookies (resp (ht_ctx h)) @ [cleared_cookie],
           rpStatus := Some StatusNoContent, rpBody := None\<rparr>
     | Err _ \<Rightarrow> ht_world h' = ht_world h \<or>
         (\<exists>r1. AuthService_Logout J as (amClock am) tok (ht_world h) = (r1, ht_world h'))
     | Panic _ \<Rightarrow> False)"
proof -
  from scope_set [OF run [unfolded Wrapper_Logout_def]] obtain h1
    where h1: "ht_world h1 = ht_world h" "req (ht_ctx h1) = req (ht_ctx h)"
      "resp (ht_ctx h1) = resp (ht_ctx h)"
      "Ctx_Get E (ht_ctx h1) MwTokenKey = Some (CtxString tok)"
      and run1: "Controller_Logout J E (NewController as) am h1 = (r, h')"
    using tok by (auto simp: controller_interface_def)
  show ?thesis
  proof (cases "tok = ''''")
    case True
    with run1 h1 show ?thesis by (auto simp: Controller_Logout_def)
  next
    case False
    with run1 h1(4) have "go_try (lift_world (AuthService_Logout J as (amClock am) tok))
        (go_wrap ''logout: '')
        (\<lambda>_. go_try (clearRefreshCookie E) go_fail
          (\<lambda>_. go_try (lift_ctx (Ctx_NoContent E StatusNoContent)) (go_wrap ''no content: '') go_ret))
        h1 = (r, h')"
      by (simp add: Controller_Logout_def)
    then show ?thesis
    proof (cases rule: go_try_cases)
      case (Ok u h2)
      then obtain w where w: "AuthService_Logout J as (amClock am) tok (ht_world h) = (Ok u, w)"
        "h2 = h1\<lparr>ht_world := w\<rparr>" by (auto simp: lift_world_run h1(1))
      let ?c = "Ctx_SetCookie E cleared_cookie (ht_ctx h1)"
      from Ok(2) have "go_try (lift_ctx (Ctx_NoContent E StatusNoContent)) (go_wrap ''no content: '')
          go_ret (h2\<lparr>ht_ctx := ?c\<rparr>) = (r, h')"
        by (simp add: clearRefreshCookie_def w)
      then obtain r1 c where c: "Ctx_NoContent E StatusNoContent ?c = (r1, c)"
        and r: "h' = h2\<lparr>ht_ctx := c\<rparr>" "r = r1 \<or> (\<exists>e e'. r1 = Err e \<and> r = Err e')"
        by (cases rule: go_try_cases) (auto simp: lift_ctx_run w)
      have ck: "resp ?c = (resp (ht_ctx h))\<lparr>rpCookies := rpCookies (resp (ht_ctx h)) @ [cleared_cookie]\<rparr>"
        "req ?c = req (ht_ctx h)" "rpStatus (resp ?c) = None"
        using ec.set_cookie new by (simp_all add: h1)
      from ec.no_content_run [OF ck(3) c] r w(1) ck(1,2) show ?thesis
        by (auto simp: w(2) split: outcome.splits)
    next
      case (Err e h2)
      then obtain w where w: "AuthService_Logout J as (amClock am) tok (ht_world h) = (Err e, w)"
        "h2 = h1\<lparr>ht_world := w\<rparr>" by (auto simp: lift_world_run h1(1))
      from w(1) Err(2) show ?thesis by (auto simp: w(2) h1)
    next
      case (Panic p)
      then obtain w where "AuthService_Logout J as (amClock am) tok (ht_world h) = (Panic p, w)"
        by (auto simp: lift_world_run h1(1))
      from logout [OF rdy mono this] show ?thesis by simp
    qed
  qed
qed

text \<open>Both handlers that hand out tokens end alike: the cookie, then the access token as JSON.\<close>

lemma tokens_answer:
  assumes run: "go_try (setRefreshCookie E rt) go_fail
      (\<lambda>_. go_try (lift_ctx (Ctx_JSON E StatusOK (TokensBody \<lparr>AccessToken = acc\<rparr>)))
        (go_wrap ''json: '') go_ret) h = (r, h')"
    and new: "rpStatus (resp (ht_ctx h)) = None"
  shows "ht_world h' = ht_world h \<and> req (ht_ctx h') = req (ht_ctx h) \<and>
    rpCookies (resp (ht_ctx h')) = rpCookies (resp (ht_ctx h)) @ [refresh_cookie rt] \<and>
    (\<forall>b. rpBody (resp (ht_ctx h')) = Some b \<longrightarrow> rpBody (resp (ht_ctx h)) = Some b \<or>
       b = TokensBody \<lparr>AccessToken = acc\<rparr>) \<and>
    (case r of
       Ok _ \<Rightarrow> resp (ht_ctx h') = (resp (ht_ctx h))\<lparr>rpCookies := rpCookies (resp (ht_ctx h)) @ [refresh_cookie rt],
         rpStatus := Some StatusOK, rpBody := Some (TokensBody \<lparr>AccessToken = acc\<rparr>)\<rparr>
     | Err _ \<Rightarrow> True
     | Panic _ \<Rightarrow> False)"
proof -
  let ?c = "Ctx_SetCookie E (refresh_cookie rt) (ht_ctx h)"
  from run have "go_try (lift_ctx (Ctx_JSON E StatusOK (TokensBody \<lparr>AccessToken = acc\<rparr>)))
      (go_wrap ''json: '') go_ret (h\<lparr>ht_ctx := ?c\<rparr>) = (r, h')"
    by (simp add: setRefreshCookie_def)
  then obtain r1 c where c: "Ctx_JSON E StatusOK (TokensBody \<lparr>AccessToken = acc\<rparr>) ?c = (r1, c)"
    and r: "h' = h\<lparr>ht_ctx := c\<rparr>" "r = r1 \<or> (\<exists>e e'. r1 = Err e \<and> r = Err e')"
    by (cases rule: go_try_cases) (auto simp: lift_ctx_run)
  have ck: "resp ?c = (resp (ht_ctx h))\<lparr>rpCookies := rpCookies (resp (ht_ctx h)) @ [refresh_cookie rt]\<rparr>"
    "req ?c = req (ht_ctx h)" "rpStatus (resp ?c) = None"
    using ec.set_cookie new by simp_all
  from ec.json_run [OF ck(3) c] r ck(1,2) show ?thesis
    by (auto split: outcome.splits)
qed

lemma issue_handler:
  assumes run: "Wrapper_IssueTokens E (Interface up) am h = (r, h')"
    and rdy: "ready (w_db (ht_world h))" and new: "rpStatus (resp (ht_ctx h)) = None"
  shows "(ht_world h' = ht_world h \<or>
      (\<exists>guid r1. Ctx_BindGuid E (ht_ctx h) = Ok guid \<and>
         AuthService_IssueTokens J as am guid (request_metadata E (ht_ctx h)) (ht_world h) =
           (r1, ht_world h'))) \<and>
    (\<forall>b. rpBody (resp (ht_ctx h')) = Some b \<longrightarrow> rpBody (resp (ht_ctx h)) = Some b \<or>
       (\<exists>guid acc rt. Ctx_BindGuid E (ht_ctx h) = Ok guid \<and> b = TokensBody \<lparr>AccessToken = acc\<rparr> \<and>
          AuthService_IssueTokens J as am guid (request_metadata E (ht_ctx h)) (ht_world h) =
            (Ok (acc, rt), ht_world h') \<and>
          rpCookies (resp (ht_ctx h')) = rpCookies (resp (ht_ctx h)) @ [refresh_cookie rt])) \<and>
    (case r of
       Ok _ \<Rightarrow> \<exists>guid acc rt. Ctx_BindGuid E (ht_ctx h) = Ok guid \<and>
         AuthService_IssueTokens J as am guid (request_metadata E (ht_ctx h)) (ht_world h) =
           (Ok (acc, rt), ht_world h') \<and>
         resp (ht_ctx h') = (resp (ht_ctx h))\<lparr>rpCookies := rpCookies (resp (ht_ctx h)) @ [refresh_cookie rt],
           rpStatus := Some StatusOK, rpBody := Some (TokensBody \<lparr>AccessToken = acc\<rparr>)\<rparr>
     | Err _ \<Rightarrow> True
     | Panic p \<Rightarrow> amRand am = Panic p)"
proof -
  from scope_set [OF run [unfolded Wrapper_IssueTokens_def]] obtain h1
    where w1: "ht_world h1 = ht_world h" and rq: "req (ht_ctx h1) = req (ht_ctx h)"
      and rp: "resp (ht_ctx h1) = resp (ht_ctx h)"
      and run1: "go_try (with_ctx (\<lambda>c. go_pure (Ctx_BindGuid E c)))
          (\<lambda>err. go_fail (echo_NewHTTPError StatusBadRequest
             (''Invalid format for parameter guid: '' @ error_text err)))
          (\<lambda>guid. Controller_IssueTokens J E (NewController as) am \<lparr>Guid = guid\<rparr>) h1 = (r, h')"
    by (auto simp: controller_interface_def)
  note rd1 = ec.same_reads [OF rq]
  from run1 show ?thesis
  proof (cases rule: go_try_cases)
    case (Err e h2)
    then have "h' = h1" "r = Err (echo_NewHTTPError StatusBadRequest
        (''Invalid format for parameter guid: '' @ error_text e))" by simp_all
    then show ?thesis by (simp add: w1 rp)
  next
    case (Panic p)
    then show ?thesis by (simp add: ec.bind_no_panic)
  next
    case (Ok guid h2)
    then have guid: "Ctx_BindGuid E (ht_ctx h) = Ok guid" and h2: "h2 = h1"
      by (simp_all add: rd1)
    let ?issue = "AuthService_IssueTokens J as am guid (request_metadata E (ht_ctx h))"
    from Ok(2) have "go_try (lift_world ?issue) (go_wrap ''issue tokens: '')
         (\<lambda>(access, refresh).
            go_try (setRefreshCookie E refresh) go_fail
              (\<lambda>_. go_try (lift_ctx (Ctx_JSON E StatusOK (TokensBody \<lparr>AccessToken = access\<rparr>)))
                 (go_wrap ''json: '') go_ret)) h1 = (r, h')"
      by (simp add: Controller_IssueTokens_def h2 rd1)
    then show ?thesis
    proof (cases rule: go_try_cases)
      case (Ok p h3)
      then obtain acc rt w where w: "?issue (ht_world h) = (Ok (acc, rt), w)"
        "h3 = h1\<lparr>ht_world := w\<rparr>" "p = (acc, rt)" by (cases p) (auto simp: lift_world_run w1)
      from Ok(2) have fin: "go_try (setRefreshCookie E rt) go_fail
        (\<lambda>_. go_try (lift_ctx (Ctx_JSON E StatusOK (TokensBody \<lparr>AccessToken = acc\<rparr>)))
          (go_wrap ''json: '') go_ret) h3 = (r, h')" by (simp add: w)
      have "rpStatus (resp (ht_ctx h3)) = None" using new by (simp add: w rp)
      from tokens_answer [OF fin this] guid w(1) show ?thesis
        by (cases r) (auto simp: w(2) rp)
    next
      case (Err e h3)
      then obtain w where w: "?issue (ht_world h) = (Err e, w)"
        "h3 = h1\<lparr>ht_world := w\<rparr>" by (auto simp: lift_world_run w1)
      from Err(2) w(1) guid show ?thesis by (auto simp: w(2) rp)
    next
      case (Panic p)
      then obtain w where w: "?issue (ht_world h) = (Panic p, w)" "h' = h1\<lparr>ht_world := w\<rparr>"
        by (auto simp: lift_world_run w1)
      from issue_tokens [OF rdy w(1)] w guid Panic(2) show ?thesis by (auto simp: rp)
    qed
  qed
qed

text \<open>The refresh endpoint: what the cookie and the header must be, and the three ways it ends.\<close>

lemma refresh_handler:
  assumes run: "Wrapper_RefreshTokens E (Interface up) am h = (r, h')"
    and rdy: "ready (w_db (ht_world h))" and new: "rpStatus (resp (ht_ctx h)) = None"
  obtains (Refused) m where "ht_world h' = ht_world h" and "resp (ht_ctx h') = resp (ht_ctx h)"
      and "r = Err (HTTPError StatusUnauthorized (StringMessage m))"
  | (Ran) rt acc r1 where "Ctx_Cookie E (ht_ctx h) ''refresh_token'' = Ok rt"
      and "rt \<noteq> ''''" and "rt \<noteq> ''null''"
      and "Ctx_Header E (ht_ctx h) ''Authorization'' = bearerPrefix @ acc"
      and "AuthService_RefreshTokens J as am acc rt (request_metadata E (ht_ctx h)) (ht_world h) =
        (r1, ht_world h')"
      and "case r1 of
          Ok (newAcc, newRt) \<Rightarrow>
            rpCookies (resp (ht_ctx h')) = rpCookies (resp (ht_ctx h)) @ [refresh_cookie newRt] \<and>
            (\<forall>b. rpBody (resp (ht_ctx h')) = Some b \<longrightarrow> rpBody (resp (ht_ctx h)) = Some b \<or>
               b = TokensBody \<lparr>AccessToken = newAcc\<rparr>) \<and>
            (case r of
               Ok _ \<Rightarrow> resp (ht_ctx h') = (resp (ht_ctx h))
                 \<lparr>rpCookies := rpCookies (resp (ht_ctx h)) @ [refresh_cookie newRt],
                  rpStatus := Some StatusOK, rpBody := Some (TokensBody \<lparr>AccessToken = newAcc\<rparr>)\<rparr>
             | Err _ \<Rightarrow> True
             | Panic _ \<Rightarrow> False)
        | Err e \<Rightarrow> resp (ht_ctx h') = resp (ht_ctx h) \<and>
            (\<exists>m. r = Err (HTTPError StatusUnauthorized (StringMessage m)))
        | Panic p \<Rightarrow> r = Panic p \<and> resp (ht_ctx h') = resp (ht_ctx h)"
proof -
  from scope_set [OF run [unfolded Wrapper_RefreshTokens_def]] obtain h1
    where w1: "ht_world h1 = ht_world h" and rq: "req (ht_ctx h1) = req (ht_ctx h)"
      and rp: "resp (ht_ctx h1) = resp (ht_ctx h)"
      and run1: "Controller_RefreshTokens J E (NewController as) am h1 = (r, h')"
    by (auto simp: controller_interface_def)
  note rd1 = ec.same_reads [OF rq]
  let ?hdr = "Ctx_Header E (ht_ctx h) ''Authorization''"
  note run2 = run1 [unfolded Controller_RefreshTokens_def with_ctx_eq rd1 NewController_simps]
  have refused: thesis if "r = Err (echo_NewHTTPError StatusUnauthorized m)" "h' = h1" for m
    using Refused [of m] that by (simp add: w1 rp)
  from run2 show thesis
  proof (cases rule: go_try_cases)
    case (Err e h2)
    then show thesis by (auto intro: refused)
  next
    case (Panic p)
    then show thesis by (simp add: ec.cookie_no_panic)
  next
    case (Ok rt h2)
    then have ck: "Ctx_Cookie E (ht_ctx h) ''refresh_token'' = Ok rt" and h2: "h2 = h1" by simp_all
    show thesis
    proof (cases "rt = '''' \<or> rt = ''null'' \<or> ?hdr = '''' \<or> \<not> strings_HasPrefix ?hdr bearerPrefix")
      case True
      with Ok(2) show thesis by (auto intro: refused simp: h2 Let_def split: if_splits)
    next
      case False
      then obtain acc where acc: "?hdr = bearerPrefix @ acc" by (auto simp: strings_HasPrefix_iff)
      then have trim: "strings_TrimPrefix ?hdr bearerPrefix = acc"
        by (simp add: strings_TrimPrefix_append)
      let ?refresh = "AuthService_RefreshTokens J as am acc rt (request_metadata E (ht_ctx h))"
      from False have ne: "rt \<noteq> ''''" "rt \<noteq> ''null''" by simp_all
      from Ok(2) False have "go_try (lift_world ?refresh)
          (\<lambda>err. if errors_Is err ErrSessionNotFound \<or> errors_Is err ErrTokenExpired
             then go_fail (echo_NewHTTPError StatusUnauthorized ''invalid or expired refresh token'')
             else go_fail (echo_NewHTTPError StatusUnauthorized (error_text err)))
          (\<lambda>(newAccess, newRefresh). go_try (setRefreshCookie E newRefresh) go_fail
             (\<lambda>_. go_try (lift_ctx (Ctx_JSON E StatusOK (TokensBody \<lparr>AccessToken = newAccess\<rparr>)))
                (go_wrap ''json: '') go_ret)) h1 = (r, h')"
        by (simp add: h2 Let_def trim)
      then show thesis
      proof (cases rule: go_try_cases)
        case (Ok p h3)
        then obtain nacc nrt w where w: "?refresh (ht_world h) = (Ok (nacc, nrt), w)"
          "h3 = h1\<lparr>ht_world := w\<rparr>" "p = (nacc, nrt)" by (cases p) (auto simp: lift_world_run w1)
        from Ok(2) have fin: "go_try (setRefreshCookie E nrt) go_fail
          (\<lambda>_. go_try (lift_ctx (Ctx_JSON E StatusOK (TokensBody \<lparr>AccessToken = nacc\<rparr>)))
            (go_wrap ''json: '') go_ret) h3 = (r, h')" by (simp add: w)
        have "rpStatus (resp (ht_ctx h3)) = None" using new by (simp add: w rp)
        from tokens_answer [OF fin this] w(1)
        show thesis by (intro Ran [OF ck ne acc]) (cases r; auto simp: w(2) rp)+
      next
        case (Err e h3)
        then obtain w where w: "?refresh (ht_world h) = (Err e, w)"
          "h3 = h1\<lparr>ht_world := w\<rparr>" by (auto simp: lift_world_run w1)
        from Err(2) w(1) show thesis
          by (intro Ran [OF ck ne acc]) (auto simp: w(2) rp split: if_splits)
      next
        case (Panic p)
        then obtain w where "?refresh (ht_world h) = (Panic p, w)" "h' = h1\<lparr>ht_world := w\<rparr>"
          by (auto simp: lift_world_run w1)
        with Panic(2) show thesis by (intro Ran [OF ck ne acc]) (auto simp: rp)
      qed
    qed
  qed
qed

end

section \<open>Whole requests\<close>

text \<open>What the authenticator has to have seen before an operation runs.\<close>

definition accepted_bearer ::
  "(string \<Rightarrow> (string \<times> jwtClaims) option) \<Rightarrow> (string \<Rightarrow> string \<Rightarrow> string \<Rightarrow> bool) \<Rightarrow> string \<Rightarrow>
   view \<Rightarrow> clock \<Rightarrow> string \<Rightarrow> int \<Rightarrow> bool" where
  "accepted_bearer decode genuine key m clk tok userID \<longleftrightarrow>
     m (clk 0) tok \<noteq> Some ''invalidated'' \<and>
     (\<exists>c. decode tok = Some (SigningMethodHS512_Alg, c) \<and> genuine SigningMethodHS512_Alg key tok \<and>
        accepted_claims c (clk 1) userID)"

text \<open>The limiter runs first, and no clock goes backwards.\<close>

definition timely :: "call \<Rightarrow> bool" where
  "timely cl \<longleftrightarrow> mono (clAuth cl) \<and> mono (amClock (clHandler cl)) \<and> clLimiter cl \<le> clAuth cl 0"

definition routed :: "'c EchoContext \<Rightarrow> operation \<Rightarrow> 'c \<Rightarrow> bool" where
  "routed E op c \<longleftrightarrow> Ctx_Path E c = ''/api/v1'' @ operation_path op"

lemma routed_refresh:
  "routed E op c \<Longrightarrow> strings_HasSuffix (Ctx_Path E c) ''/auth/tokens/refresh'' \<longleftrightarrow> op = RefreshTokensOp"
  by (cases op) (simp_all add: routed_def operation_path_def strings_HasSuffix_def)

lemma operation_security_names:
  "operation_security op = (if op = IssueTokensOp then MwSchemeAPIKeyAuth else MwSchemeBearerAuth)"
  by (cases op) (simp_all add: operation_security_def MwSchemeAPIKeyAuth_def MwSchemeBearerAuth_def)

lemma NewAPI_simps [simp]:
  "apiController (NewAPI c a k R sc fs) = c" "apiAuthService (NewAPI c a k R sc fs) = a"
  "apiApiKeyService (NewAPI c a k R sc fs) = k" "apiRdb (NewAPI c a k R sc fs) = R"
  by (simp_all add: NewAPI_def)

abbreviation new_server ::
  "('d, 'r) AuthService \<Rightarrow> 'r RedisClient \<Rightarrow> ServerConfig \<Rightarrow> ('d, 'r) cleanup list \<Rightarrow> ('d, 'r) API" where
  "new_server as R sc fs \<equiv> NewAPI (NewController as) as (NewAPIKeyService R) R sc fs"

context gateway begin

lemma authenticator_run:
  assumes run: "Authenticator clk (operation_security op) h = (r, h')" and mono: "mono clk"
    and path: "routed E op (ht_ctx h)"
  shows "w_db (ht_world h') = w_db (ht_world h) \<and> w_hooks (ht_world h') = w_hooks (ht_world h) \<and>
    req (ht_ctx h') = req (ht_ctx h) \<and> resp (ht_ctx h') = resp (ht_ctx h) \<and>
    (case r of
       Ok _ \<Rightarrow>
         (case op of
            IssueTokensOp \<Rightarrow>
              key_accepted (store (w_redis (ht_world h))) clk (Ctx_Header E (ht_ctx h) MwAPIKeyHeader)
          | RefreshTokensOp \<Rightarrow> h' = h
          | _ \<Rightarrow> \<exists>tok uid. Ctx_Header E (ht_ctx h) ''Authorization'' = ''Bearer '' @ tok \<and>
              Ctx_Get E (ht_ctx h') MwTokenKey = Some (CtxString tok) \<and>
              Ctx_Get E (ht_ctx h') MwUserIDKey = Some (CtxInt64 uid) \<and>
              accepted_bearer decode genuine (tsJwtSecretKey (asTokenService as))
                (store (w_redis (ht_world h))) clk tok uid)
     | Err e \<Rightarrow> (\<exists>m. e = HTTPError StatusUnauthorized (StringMessage m)) \<or> (\<exists>p e'. e = Errorf p e')
     | Panic _ \<Rightarrow> False)"
proof (cases "op = IssueTokensOp")
  case True
  with run have "Authenticator clk MwSchemeAPIKeyAuth h = (r, h')"
    by (simp add: operation_security_names)
  from api_key [OF this mono] True show ?thesis by (auto split: outcome.splits)
next
  case notissue: False
  then have run': "Authenticator clk MwSchemeBearerAuth h = (r, h')"
    using run by (simp add: operation_security_names)
  show ?thesis
  proof (cases "op = RefreshTokensOp")
    case True
    with refresh_unauthenticated [of h clk] run' path show ?thesis by (auto simp: routed_refresh)
  next
    case False
    with path have "\<not> strings_HasSuffix (Ctx_Path E (ht_ctx h)) ''/auth/tokens/refresh''"
      by (simp add: routed_refresh)
    from bearer [OF run' this] show ?thesis
      using notissue False by (auto simp: accepted_bearer_def split: outcome.splits operation.splits)
  qed
qed

text \<open>A whole request: it is stopped before its handler, or authenticated and handled.\<close>

lemma api_run:
  assumes run: "API_Run J up E V rlc (new_server as R sc fs) cl op h = (r, h')"
    and new: "rpStatus (resp (ht_ctx h)) = None" and path: "routed E op (ht_ctx h)"
    and time: "timely cl"
  obtains (Stopped) code m where "r = Err (HTTPError code (StringMessage m))"
      and "code \<in> {400, 401, 403, 429}"
      and "w_db (ht_world h') = w_db (ht_world h)" and "w_hooks (ht_world h') = w_hooks (ht_world h)"
      and "rpStatus (resp (ht_ctx h')) = None" and "rpBody (resp (ht_ctx h')) = rpBody (resp (ht_ctx h))"
      and "rpCookies (resp (ht_ctx h')) = rpCookies (resp (ht_ctx h))"
  | (Handled) h1 s where "operation_handler E (Interface up) op (clHandler cl) h1 = (r, h')"
      and "w_db (ht_world h1) = w_db (ht_world h)" and "w_hooks (ht_world h1) = w_hooks (ht_world h)"
      and "req (ht_ctx h1) = req (ht_ctx h)" and "resp (ht_ctx h1) = resp (ht_ctx h)"
      and "same_off (limiter_keys (Ctx_RealIP E (ht_ctx h))) (clAuth cl 0)
        (store (w_redis (ht_world h))) (store s)"
      and "case op of
          IssueTokensOp \<Rightarrow>
            key_accepted (store (w_redis (ht_world h))) (clAuth cl) (Ctx_Header E (ht_ctx h) MwAPIKeyHeader)
        | RefreshTokensOp \<Rightarrow> True
        | _ \<Rightarrow> \<exists>tok uid. Ctx_Header E (ht_ctx h) ''Authorization'' = ''Bearer '' @ tok \<and>
            Ctx_Get E (ht_ctx h1) MwTokenKey = Some (CtxString tok) \<and>
            Ctx_Get E (ht_ctx h1) MwUserIDKey = Some (CtxInt64 uid) \<and>
            accepted_bearer decode genuine (tsJwtSecretKey (asTokenService as))
              (store s) (clAuth cl) tok uid"
proof -
  let ?ip = "Ctx_RealIP E (ht_ctx h)"
  let ?auth = "Authenticator (clAuth cl)"
  let ?h = "\<lambda>w. h\<lparr>ht_world := w\<rparr>"
  from time have mono: "mono (clAuth cl)" and first: "clLimiter cl \<le> clAuth cl 0"
    by (simp_all add: timely_def)
  from run have "RateLimiter E R rlc (clLimiter cl)
      (go_try (V ?auth (operation_security op)) go_fail
        (\<lambda>_. operation_handler E (Interface up) op (clHandler cl))) h = (r, h')"
    by (simp add: API_Run_def)
  then show thesis
  proof (cases rule: rate_limiter)
    case (Rejected w)
    with new ec.set_header show thesis
      by (intro Stopped [of 429]) (auto simp: quiet_def StatusTooManyRequests_def)
  next
    case (Passed w)
    from Passed(2) first have q: "same_off (limiter_keys ?ip) (clAuth cl 0)
        (store (w_redis (ht_world h))) (store (w_redis w))"
      "w_db w = w_db (ht_world h)" "w_hooks w = w_hooks (ht_world h)"
      by (auto simp: quiet_def same_off_def)
    have routed: "routed E op (ht_ctx (?h w))" using path by simp
    have stop: thesis if v: "V ?auth (operation_security op) (?h w) = (Err e, h1)"
      and r: "r = Err e" "h' = h1" for e h1
      using v
    proof (cases rule: validator_cases)
      case (Invalid m)
      with authenticator_run [OF Invalid(1) mono routed] r q new show thesis
        by (intro Stopped) (auto simp: http_status)
    next
      case (Denied e1 e')
      from authenticator_run [OF Denied(1) mono routed] Denied(2,3) obtain code m
        where "e = HTTPError code (StringMessage m)" "code \<in> {400, 401, 403, 429}"
        by (auto simp: http_status forbidden_def)
      with authenticator_run [OF Denied(1) mono routed] r q new show thesis
        by (intro Stopped) auto
    qed simp_all
    from Passed(1) show thesis
    proof (cases rule: go_try_cases)
      case (Err e h1)
      then show thesis by (intro stop) auto
    next
      case (Panic p)
      from Panic(1) show thesis
      proof (cases rule: validator_cases)
        case (Panicked q)
        with authenticator_run [OF Panicked(1) mono routed] show thesis by simp
      qed simp_all
    next
      case (Ok u h1)
      from Ok(1) have a: "?auth (operation_security op) (?h w) = (Ok (), h1)"
        by (cases rule: validator_cases) auto
      from authenticator_run [OF a mono routed] have f: "w_db (ht_world h1) = w_db (ht_world h)"
        "w_hooks (ht_world h1) = w_hooks (ht_world h)" "req (ht_ctx h1) = req (ht_ctx h)"
        "resp (ht_ctx h1) = resp (ht_ctx h)" using q by simp_all
      show thesis
        by (rule Handled [OF Ok(2) f q(1)])
          (use authenticator_run [OF a mono routed] key_accepted_same_off [OF q(1) mono order_refl]
            in \<open>auto split: operation.splits\<close>)
    qed
  qed
qed

text \<open>The error handler changes nothing but the status and an error message.\<close>

lemma api_answer:
  assumes "API_answer J up E V rlc a cl op h = (r, h')"
  obtains r1 h1 where "API_Run J up E V rlc a cl op h = (r1, h1)" and "ht_world h' = ht_world h1"
    and "error_only (resp (ht_ctx h1)) (resp (ht_ctx h'))"
  using assms unfolding API_answer_def
proof (cases rule: go_try_cases)
  case (Err e h1)
  then obtain c where "ErrorHandler E e (ht_ctx h1) = (r, c)" "h' = h1\<lparr>ht_ctx := c\<rparr>"
    by (auto simp: lift_ctx_run)
  with ec.error_handler [OF this(1)] Err(1) show thesis by (auto intro: that)
qed (auto intro: that)

end

end
