(* ===== verification/Requests.thy ===== *)
theory Requests
  imports Endpoints Auth_Instance
begin

text \<open>
  What each request to the server may do, from the outside: which credentials it takes to get a
  GUID or tokens out of the answer, and which it takes to change users and sessions. Proved in
  \<open>gateway\<close> for any providers, and interpreted at the end on the program's own.
\<close>

text \<open>The keys of the limiter are no access tokens, so the limiter cannot hide a denial.\<close>

lemma accepted_bearer_same_off:
  assumes "accepted_bearer decode genuine key m' clk tok uid"
    and "same_off K (clk 0) m m'" and "\<forall>k \<in> K. decode k = None"
  shows "accepted_bearer decode genuine key m clk tok uid"
proof -
  from assms(1,3) have "tok \<notin> K" by (auto simp: accepted_bearer_def)
  with assms(1,2) show ?thesis by (simp add: accepted_bearer_def same_off_def)
qed

lemma error_only_body:
  "error_only rp rp' \<Longrightarrow> rpBody rp' = Some b \<Longrightarrow> rpBody rp = Some b \<or> (\<exists>m. b = ReasonBody m)"
  by (auto simp: error_only_def)

lemma error_only_cookies: "error_only rp rp' \<Longrightarrow> rpCookies rp' = rpCookies rp"
  by (auto simp: error_only_def)

definition empty_answer :: "response \<Rightarrow> bool" where
  "empty_answer rp \<longleftrightarrow> rpStatus rp = None \<and> rpBody rp = None"

context gateway begin

abbreviation "limits c \<equiv> limiter_keys (Ctx_RealIP E c)"

abbreviation "accepted m cl tok uid \<equiv>
  accepted_bearer decode genuine (tsJwtSecretKey (asTokenService as)) m (clAuth cl) tok uid"

lemma guid_request:
  assumes run: "API_answer J up E V rlc (new_server as R sc fs) cl GetUserGUIDOp h = (r, h')"
    and rdy: "ready (w_db (ht_world h))" and new: "empty_answer (resp (ht_ctx h))"
    and path: "routed E GetUserGUIDOp (ht_ctx h)" and time: "timely cl"
    and keys: "\<forall>k \<in> limits (ht_ctx h). decode k = None"
  shows "usr (w_db (ht_world h')) = usr (w_db (ht_world h)) \<and>
    ses (w_db (ht_world h')) = ses (w_db (ht_world h)) \<and>
    (\<forall>b. rpBody (resp (ht_ctx h')) = Some b \<longrightarrow> (\<exists>m. b = ReasonBody m) \<or>
       (\<exists>tok uid g g'. Ctx_Header E (ht_ctx h) ''Authorization'' = ''Bearer '' @ tok \<and>
          accepted (store (w_redis (ht_world h))) cl tok uid \<and>
          usr (w_db (ht_world h)) uid = Some g \<and> up g = Some g' \<and>
          b = UserGUIDBody \<lparr>UserId = g'\<rparr>))"
proof -
  from run obtain r1 h1 where r1: "API_Run J up E V rlc (new_server as R sc fs) cl GetUserGUIDOp h = (r1, h1)"
    and fin: "ht_world h' = ht_world h1" "error_only (resp (ht_ctx h1)) (resp (ht_ctx h'))"
    by (rule api_answer)
  from new have "rpStatus (resp (ht_ctx h)) = None" and nobody: "rpBody (resp (ht_ctx h)) = None"
    by (simp_all add: empty_answer_def)
  from r1 this(1) path time show ?thesis
  proof (cases rule: api_run)
    case (Stopped code m)
    with fin nobody show ?thesis by (auto dest: error_only_body)
  next
    case (Handled h2 s)
    from Handled(7) obtain tok uid where tok: "Ctx_Header E (ht_ctx h) ''Authorization'' = ''Bearer '' @ tok"
      "Ctx_Get E (ht_ctx h2) MwUserIDKey = Some (CtxInt64 uid)" "accepted (store s) cl tok uid"
      by auto
    have acc: "accepted (store (w_redis (ht_world h))) cl tok uid"
      by (rule accepted_bearer_same_off [OF tok(3) Handled(6) keys])
    have run2: "Wrapper_GetUserGUID E (Interface up) (clHandler cl) h2 = (r1, h1)"
      using Handled(1) by (simp add: operation_handler_def)
    have "ready (w_db (ht_world h2))" "rpStatus (resp (ht_ctx h2)) = None"
      using rdy new by (simp_all add: Handled empty_answer_def)
    from guid_handler [OF run2 this tok(2)] fin nobody tok(1) acc show ?thesis
      by (fastforce simp: Handled unchanged_def dest: error_only_body)
  qed
qed

lemma logout_request:
  assumes run: "API_answer J up E V rlc (new_server as R sc fs) cl LogoutOp h = (r, h')"
    and rdy: "ready (w_db (ht_world h))" and new: "empty_answer (resp (ht_ctx h))"
    and path: "routed E LogoutOp (ht_ctx h)" and time: "timely cl"
    and keys: "\<forall>k \<in> limits (ht_ctx h). decode k = None"
  shows "usr (w_db (ht_world h')) = usr (w_db (ht_world h)) \<and>
    (ses (w_db (ht_world h')) = ses (w_db (ht_world h)) \<or>
     (\<exists>tok uid. Ctx_Header E (ht_ctx h) ''Authorization'' = ''Bearer '' @ tok \<and>
        accepted (store (w_redis (ht_world h))) cl tok uid \<and>
        ses (w_db (ht_world h')) = revoke_user uid (ses (w_db (ht_world h)))))"
proof -
  from run obtain r1 h1 where r1: "API_Run J up E V rlc (new_server as R sc fs) cl LogoutOp h = (r1, h1)"
    and fin: "ht_world h' = ht_world h1" by (rule api_answer)
  from new have "rpStatus (resp (ht_ctx h)) = None" by (simp add: empty_answer_def)
  from r1 this path time show ?thesis
  proof (cases rule: api_run)
    case (Stopped code m)
    with fin show ?thesis by simp
  next
    case (Handled h2 s)
    from Handled(7) obtain tok uid where tok: "Ctx_Header E (ht_ctx h) ''Authorization'' = ''Bearer '' @ tok"
      "Ctx_Get E (ht_ctx h2) MwTokenKey = Some (CtxString tok)" "accepted (store s) cl tok uid"
      by auto
    have acc: "accepted (store (w_redis (ht_world h))) cl tok uid"
      by (rule accepted_bearer_same_off [OF tok(3) Handled(6) keys])
    from acc have same_user: "uid' = uid" if "decode tok = Some (a, c)" "accepted_claims c t uid'" for a c t uid'
      using that by (auto simp: accepted_bearer_def accepted_claims_def)
    have run2: "Wrapper_Logout E (Interface up) (clHandler cl) h2 = (r1, h1)"
      using Handled(1) by (simp add: operation_handler_def)
    have rdy2: "ready (w_db (ht_world h2))" and new2: "rpStatus (resp (ht_ctx h2)) = None"
      and mono: "mono (amClock (clHandler cl))"
      using rdy new time by (simp_all add: Handled empty_answer_def timely_def)
    from logout_handler [OF run2 rdy2 new2 mono tok(2)]
    have "ht_world h1 = ht_world h2 \<or>
      (\<exists>r2. AuthService_Logout J as (amClock (clHandler cl)) tok (ht_world h2) = (r2, ht_world h1))"
      by (auto split: outcome.splits)
    then show ?thesis
    proof (elim disjE exE)
      fix r2
      assume "AuthService_Logout J as (amClock (clHandler cl)) tok (ht_world h2) = (r2, ht_world h1)"
      from logout [OF rdy2 mono this] same_user tok(1) acc show ?thesis
        by (auto simp: fin Handled(2,3) split: outcome.splits)
    qed (simp add: fin Handled)
  qed
qed

text \<open>A logout that succeeds: the cookie is cleared, the sessions are gone, the token is denied.\<close>

lemma logout_done:
  assumes run: "API_Run J up E V rlc (new_server as R sc fs) cl LogoutOp h = (Ok u, h')"
    and rdy: "ready (w_db (ht_world h))" and new: "empty_answer (resp (ht_ctx h))"
    and path: "routed E LogoutOp (ht_ctx h)" and time: "timely cl"
  obtains tok uid c ex where "Ctx_Header E (ht_ctx h) ''Authorization'' = ''Bearer '' @ tok"
    and "decode tok = Some (SigningMethodHS512_Alg, c)" and "jcExpiresAt c = Some ex"
    and "strconv_ParseInt (jcUserID c) = Some uid"
    and "ready (w_db (ht_world h'))"
    and "ses (w_db (ht_world h')) = revoke_user uid (ses (w_db (ht_world h)))"
    and "resp (ht_ctx h') = (resp (ht_ctx h))\<lparr>rpCookies := rpCookies (resp (ht_ctx h)) @ [cleared_cookie],
      rpStatus := Some StatusNoContent, rpBody := None\<rparr>"
    and "\<And>t. int64_range (ex - amClock (clHandler cl) 2) \<Longrightarrow> amClock (clHandler cl) 3 \<le> t \<Longrightarrow>
      t < ex - time_Millisecond \<Longrightarrow> store (w_redis (ht_world h')) t tok = Some ''invalidated''"
proof -
  from new have "rpStatus (resp (ht_ctx h)) = None" by (simp add: empty_answer_def)
  from run this path time show thesis
  proof (cases rule: api_run)
    case (Handled h2 s)
    from Handled(7) obtain tok where tok: "Ctx_Header E (ht_ctx h) ''Authorization'' = ''Bearer '' @ tok"
      "Ctx_Get E (ht_ctx h2) MwTokenKey = Some (CtxString tok)" by auto
    have run2: "Wrapper_Logout E (Interface up) (clHandler cl) h2 = (Ok u, h')"
      using Handled(1) by (simp add: operation_handler_def)
    have rdy2: "ready (w_db (ht_world h2))" and new2: "rpStatus (resp (ht_ctx h2)) = None"
      and mono: "mono (amClock (clHandler cl))"
      using rdy new time by (simp_all add: Handled empty_answer_def timely_def)
    from logout_handler [OF run2 rdy2 new2 mono tok(2)] obtain v
      where lo: "AuthService_Logout J as (amClock (clHandler cl)) tok (ht_world h2) = (Ok v, ht_world h')"
      and rp: "resp (ht_ctx h') = (resp (ht_ctx h))\<lparr>rpCookies := rpCookies (resp (ht_ctx h)) @ [cleared_cookie],
        rpStatus := Some StatusNoContent, rpBody := None\<rparr>"
      by (auto simp: Handled)
    from logout [OF rdy2 mono lo] obtain c ex uid
      where "decode tok = Some (SigningMethodHS512_Alg, c)" "accepted_claims c (amClock (clHandler cl) 1) uid"
        "jcExpiresAt c = Some ex" "ready (w_db (ht_world h'))"
        "ses (w_db (ht_world h')) = revoke_user uid (ses (w_db (ht_world h)))"
        "int64_range (ex - amClock (clHandler cl) 2) \<longrightarrow> (\<forall>t \<ge> amClock (clHandler cl) 3.
           t < ex - time_Millisecond \<longrightarrow> store (w_redis (ht_world h')) t tok = Some ''invalidated'')"
      by (auto simp: Handled)
    then show thesis
      by (intro that [OF tok(1) _ _ _ _ _ rp]) (auto simp: accepted_claims_def)
  qed simp
qed

text \<open>After that the two operations that authenticate by the token refuse it until it expires.\<close>

lemma logout_locks_out:
  assumes run: "API_Run J up E V rlc (new_server as R sc fs) cl LogoutOp h = (Ok u, h1)"
    and rdy: "ready (w_db (ht_world h))" and new: "empty_answer (resp (ht_ctx h))"
    and path: "routed E LogoutOp (ht_ctx h)" and time: "timely cl"
    and hdr: "Ctx_Header E (ht_ctx h) ''Authorization'' = ''Bearer '' @ tok"
    and exp: "decode tok = Some (alg, c)" "jcExpiresAt c = Some ex"
      "int64_range (ex - amClock (clHandler cl) 2)"
    and later: "amClock (clHandler cl) 3 \<le> clAuth cl2 0" "clAuth cl2 0 < ex - time_Millisecond"
      "timely cl2"
    and op: "op \<in> {GetUserGUIDOp, LogoutOp}"
    and next2: "store (w_redis (ht_world h2)) (clAuth cl2 0) tok = store (w_redis (ht_world h1)) (clAuth cl2 0) tok"
      "empty_answer (resp (ht_ctx h2))"
      "routed E op (ht_ctx h2)" "Ctx_Header E (ht_ctx h2) ''Authorization'' = ''Bearer '' @ tok"
      "\<forall>k \<in> limits (ht_ctx h2). decode k = None"
    and run2: "API_Run J up E V rlc (new_server as R sc fs) cl2 op h2 = (r, h')"
  shows "(\<exists>code m. r = Err (HTTPError code (StringMessage m)) \<and> code \<in> {400, 401, 403, 429}) \<and>
    w_db (ht_world h') = w_db (ht_world h2) \<and> w_hooks (ht_world h') = w_hooks (ht_world h2)"
proof -
  obtain tok1 c1 ex1 where t1: "Ctx_Header E (ht_ctx h) ''Authorization'' = ''Bearer '' @ tok1"
    "decode tok1 = Some (SigningMethodHS512_Alg, c1)" "jcExpiresAt c1 = Some ex1"
    and den: "\<And>t. int64_range (ex1 - amClock (clHandler cl) 2) \<Longrightarrow> amClock (clHandler cl) 3 \<le> t \<Longrightarrow>
      t < ex1 - time_Millisecond \<Longrightarrow> store (w_redis (ht_world h1)) t tok1 = Some ''invalidated''"
    by (rule logout_done [OF run rdy new path time]) blast
  have "tok1 = tok" "ex1 = ex" using t1 hdr exp by auto
  with den [of "clAuth cl2 0"] exp(3) later next2(1)
  have denied: "store (w_redis (ht_world h2)) (clAuth cl2 0) tok = Some ''invalidated''" by simp
  from next2(2) have "rpStatus (resp (ht_ctx h2)) = None" by (simp add: empty_answer_def)
  from run2 this next2(3) later(3) show ?thesis
  proof (cases rule: api_run)
    case (Stopped code m)
    then show ?thesis by auto
  next
    case (Handled h3 s)
    from Handled(7) op next2(4) obtain uid where "accepted (store s) cl2 tok uid" by auto
    from accepted_bearer_same_off [OF this Handled(6) next2(5)] denied show ?thesis
      by (simp add: accepted_bearer_def)
  qed
qed

text \<open>The store stays ready.\<close>

lemma issue_ready:
  assumes run: "API_answer J up E V rlc (new_server as R sc fs) cl IssueTokensOp h = (r, h')"
    and rdy: "ready (w_db (ht_world h))" and new: "empty_answer (resp (ht_ctx h))"
    and path: "routed E IssueTokensOp (ht_ctx h)" and time: "timely cl"
  shows "ready (w_db (ht_world h'))"
proof -
  from run obtain r1 h1 where r1: "API_Run J up E V rlc (new_server as R sc fs) cl IssueTokensOp h = (r1, h1)"
    and fin: "ht_world h' = ht_world h1" by (rule api_answer)
  from new have "rpStatus (resp (ht_ctx h)) = None" by (simp add: empty_answer_def)
  from r1 this path time show ?thesis
  proof (cases rule: api_run)
    case (Handled h2 s)
    have run2: "Wrapper_IssueTokens E (Interface up) (clHandler cl) h2 = (r1, h1)"
      using Handled(1) by (simp add: operation_handler_def)
    have rdy2: "ready (w_db (ht_world h2))" and new2: "rpStatus (resp (ht_ctx h2)) = None"
      using rdy new by (simp_all add: Handled empty_answer_def)
    from issue_handler [OF run2 rdy2 new2] issue_tokens [OF rdy2] rdy2 show ?thesis
      unfolding fin by metis
  qed (use fin rdy in simp)
qed

text \<open>Issuing: nothing without an accepted API key; what is sent is a fresh, valid pair.\<close>

lemma issue_request:
  assumes run: "API_answer J up E V rlc (new_server as R sc fs) cl IssueTokensOp h = (r, h')"
    and rdy: "ready (w_db (ht_world h))" and new: "empty_answer (resp (ht_ctx h))"
    and path: "routed E IssueTokensOp (ht_ctx h)" and time: "timely cl"
    and inp: "\<And>i. usr (w_db (ht_world h')) i \<noteq> None \<Longrightarrow>
      token_inputs (asTokenService as) i (amClock (clHandler cl) 0) (amUUID (clHandler cl))"
  shows "(pair (w_db (ht_world h')) = pair (w_db (ht_world h)) \<or>
      key_accepted (store (w_redis (ht_world h))) (clAuth cl) (Ctx_Header E (ht_ctx h) MwAPIKeyHeader)) \<and>
    (\<forall>b. rpBody (resp (ht_ctx h')) = Some b \<longrightarrow> (\<exists>m. b = ReasonBody m) \<or>
       key_accepted (store (w_redis (ht_world h))) (clAuth cl) (Ctx_Header E (ht_ctx h) MwAPIKeyHeader) \<and>
       (\<exists>guid acc rt sel s. Ctx_BindGuid E (ht_ctx h) = Ok guid \<and> b = TokensBody \<lparr>AccessToken = acc\<rparr> \<and>
          rpCookies (resp (ht_ctx h')) = rpCookies (resp (ht_ctx h)) @ [refresh_cookie rt] \<and>
          valid_refresh decode acc rt (request_metadata E (ht_ctx h))
            (ses (w_db (ht_world h'))) sel s \<and>
          usr (w_db (ht_world h')) (rsUserID s) = gin guid \<and> gin guid \<noteq> None))"
proof -
  let ?md = "request_metadata E (ht_ctx h)"
  from run obtain r1 h1 where r1: "API_Run J up E V rlc (new_server as R sc fs) cl IssueTokensOp h = (r1, h1)"
    and fin: "ht_world h' = ht_world h1" "error_only (resp (ht_ctx h1)) (resp (ht_ctx h'))"
    by (rule api_answer)
  from new have "rpStatus (resp (ht_ctx h)) = None" and nobody: "rpBody (resp (ht_ctx h)) = None"
    by (simp_all add: empty_answer_def)
  from r1 this(1) path time show ?thesis
  proof (cases rule: api_run)
    case (Stopped code m)
    with fin nobody show ?thesis by (auto dest: error_only_body)
  next
    case (Handled h2 s)
    then have key: "key_accepted (store (w_redis (ht_world h))) (clAuth cl) (Ctx_Header E (ht_ctx h) MwAPIKeyHeader)"
      by simp
    note reads = ec.same_reads [OF Handled(4)]
    have run2: "Wrapper_IssueTokens E (Interface up) (clHandler cl) h2 = (r1, h1)"
      using Handled(1) by (simp add: operation_handler_def)
    have rdy2: "ready (w_db (ht_world h2))" and new2: "rpStatus (resp (ht_ctx h2)) = None"
      using rdy new by (simp_all add: Handled empty_answer_def)
    note hd = issue_handler [OF run2 rdy2 new2]
    have "\<exists>guid acc rt sel s. Ctx_BindGuid E (ht_ctx h) = Ok guid \<and> b = TokensBody \<lparr>AccessToken = acc\<rparr> \<and>
          rpCookies (resp (ht_ctx h')) = rpCookies (resp (ht_ctx h)) @ [refresh_cookie rt] \<and>
          valid_refresh decode acc rt ?md (ses (w_db (ht_world h'))) sel s \<and>
          usr (w_db (ht_world h')) (rsUserID s) = gin guid \<and> gin guid \<noteq> None"
      if b: "rpBody (resp (ht_ctx h')) = Some b" "\<nexists>m. b = ReasonBody m" for b
    proof -
      from error_only_body [OF fin(2) b(1)] b(2) have "rpBody (resp (ht_ctx h1)) = Some b" by simp
      with hd nobody obtain guid acc rt
        where guid: "Ctx_BindGuid E (ht_ctx h) = Ok guid" "b = TokensBody \<lparr>AccessToken = acc\<rparr>"
          and iss: "AuthService_IssueTokens J as (clHandler cl) guid ?md (ht_world h2) = (Ok (acc, rt), ht_world h1)"
          and ck: "rpCookies (resp (ht_ctx h1)) = rpCookies (resp (ht_ctx h)) @ [refresh_cookie rt]"
        by (auto simp: Handled(5) reads)
      have inp1: "usr (w_db (ht_world h1)) i \<noteq> None \<Longrightarrow>
        token_inputs (asTokenService as) i (amClock (clHandler cl) 0) (amUUID (clHandler cl))" for i
        using inp by (simp add: fin)
      obtain sel s where "valid_refresh decode acc rt ?md (ses (w_db (ht_world h1))) sel s"
        "usr (w_db (ht_world h1)) (rsUserID s) = gin guid" "gin guid \<noteq> None"
        by (rule issue_then_valid [OF rdy2 iss inp1])
      with guid ck error_only_cookies [OF fin(2)] show ?thesis by (auto simp: fin(1))
    qed
    with key show ?thesis by blast
  qed
qed

text \<open>
  Refreshing: tokens are only sent to the holder of a valid pair, and sessions only change by a
  valid refresh or by one that revokes.
\<close>

lemma refresh_request:
  assumes run: "API_answer J up E V rlc (new_server as R sc fs) cl RefreshTokensOp h = (r, h')"
    and rdy: "ready (w_db (ht_world h))" and new: "empty_answer (resp (ht_ctx h))"
    and path: "routed E RefreshTokensOp (ht_ctx h)" and time: "timely cl"
  shows "usr (w_db (ht_world h')) = usr (w_db (ht_world h)) \<and>
    (ses (w_db (ht_world h')) = ses (w_db (ht_world h)) \<or>
     (\<exists>rt acc. Ctx_Cookie E (ht_ctx h) ''refresh_token'' = Ok rt \<and>
        Ctx_Header E (ht_ctx h) ''Authorization'' = ''Bearer '' @ acc \<and>
        ((\<exists>sel s. valid_refresh decode acc rt (request_metadata E (ht_ctx h))
            (ses (w_db (ht_world h))) sel s) \<or>
         (\<exists>s. revoking_refresh decode acc rt (request_metadata E (ht_ctx h))
            (ses (w_db (ht_world h))) s \<and>
            ses (w_db (ht_world h')) = revoke_user (rsUserID s) (ses (w_db (ht_world h))))))) \<and>
    (\<forall>b. rpBody (resp (ht_ctx h')) = Some b \<longrightarrow> (\<exists>m. b = ReasonBody m) \<or>
       (\<exists>rt acc sel s newAcc newRt. Ctx_Cookie E (ht_ctx h) ''refresh_token'' = Ok rt \<and>
          Ctx_Header E (ht_ctx h) ''Authorization'' = ''Bearer '' @ acc \<and>
          valid_refresh decode acc rt (request_metadata E (ht_ctx h)) (ses (w_db (ht_world h))) sel s \<and>
          b = TokensBody \<lparr>AccessToken = newAcc\<rparr> \<and>
          rpCookies (resp (ht_ctx h')) = rpCookies (resp (ht_ctx h)) @ [refresh_cookie newRt] \<and>
          refresh_rotated nrm as (clHandler cl) sel s (request_metadata E (ht_ctx h)) newRt
            (pair (w_db (ht_world h))) (pair (w_db (ht_world h')))))"
proof -
  let ?md = "request_metadata E (ht_ctx h)"
  from run obtain r1 h1 where r1: "API_Run J up E V rlc (new_server as R sc fs) cl RefreshTokensOp h = (r1, h1)"
    and fin: "ht_world h' = ht_world h1" "error_only (resp (ht_ctx h1)) (resp (ht_ctx h'))"
    by (rule api_answer)
  from new have "rpStatus (resp (ht_ctx h)) = None" and nobody: "rpBody (resp (ht_ctx h)) = None"
    by (simp_all add: empty_answer_def)
  from r1 this(1) path time show ?thesis
  proof (cases rule: api_run)
    case (Stopped code m)
    with fin nobody show ?thesis by (auto dest: error_only_body)
  next
    case (Handled h2 s)
    note reads = ec.same_reads [OF Handled(4)]
    have run2: "Wrapper_RefreshTokens E (Interface up) (clHandler cl) h2 = (r1, h1)"
      using Handled(1) by (simp add: operation_handler_def)
    have rdy2: "ready (w_db (ht_world h2))" and new2: "rpStatus (resp (ht_ctx h2)) = None"
      using rdy new by (simp_all add: Handled empty_answer_def)
    from run2 rdy2 new2 show ?thesis
    proof (cases rule: refresh_handler)
      case (Refused m)
      with fin nobody show ?thesis by (auto simp: Handled dest: error_only_body)
    next
      case (Ran rt acc r2)
      then have cred: "Ctx_Cookie E (ht_ctx h) ''refresh_token'' = Ok rt"
        "Ctx_Header E (ht_ctx h) ''Authorization'' = ''Bearer '' @ acc"
        and rf: "AuthService_RefreshTokens J as (clHandler cl) acc rt ?md (ht_world h2) = (r2, ht_world h1)"
        by (simp_all add: reads bearerPrefix_def)
      note contract = refresh [OF rdy2 rf, unfolded Handled(2)]
      show ?thesis
      proof (cases r2)
        case (Ok p)
        obtain newAcc newRt where p: "p = (newAcc, newRt)" by (cases p)
        from contract Ok p obtain sel s where v: "valid_refresh decode acc rt ?md (ses (w_db (ht_world h))) sel s"
          "refresh_rotated nrm as (clHandler cl) sel s ?md newRt (pair (w_db (ht_world h))) (pair (w_db (ht_world h1)))"
          by auto
        from Ran(6) Ok p have ck: "rpCookies (resp (ht_ctx h')) = rpCookies (resp (ht_ctx h)) @ [refresh_cookie newRt]"
          using error_only_cookies [OF fin(2)] by (simp add: Handled)
        have "b = TokensBody \<lparr>AccessToken = newAcc\<rparr> \<or> (\<exists>m. b = ReasonBody m)"
          if "rpBody (resp (ht_ctx h')) = Some b" for b
          using error_only_body [OF fin(2) that] Ran(6) Ok p nobody by (auto simp: Handled)
        with v ck cred contract show ?thesis by (simp add: fin(1)) blast
      next
        case (Err e)
        with Ran(6) have "resp (ht_ctx h1) = resp (ht_ctx h)" by (simp add: Handled)
        with error_only_body [OF fin(2)] nobody
        have "\<exists>m. b = ReasonBody m" if "rpBody (resp (ht_ctx h')) = Some b" for b using that by auto
        with contract Err cred show ?thesis by (auto simp: fin(1))
      next
        case (Panic q)
        with Ran(6) have "resp (ht_ctx h1) = resp (ht_ctx h)" by (simp add: Handled)
        with error_only_body [OF fin(2)] nobody
        have "\<exists>m. b = ReasonBody m" if "rpBody (resp (ht_ctx h')) = Some b" for b using that by auto
        with contract Panic show ?thesis by (simp add: fin(1))
      qed
    qed
  qed
qed

end

end
