(* ===== verification/Server_Instance.thy ===== *)
theory Server_Instance
  imports Requests Session_Properties Api_Key_Properties
begin

text \<open>
  The server as \<open>cmd/main.go\<close> builds it, as an instance of \<open>gateway\<close>, and concrete requests to it:
  contexts, a limiter, the state of Redis, and lemmas that run the middleware on them.
\<close>

lemma main_gateway:
  assumes "jwt_laws J decode genuine" and "echo_context E req resp" and "openapi_validator V"
  shows "gateway (main_auth srv cfg url) pg_ready pg_users pg_sessions (stored_form srv)
    (pg_uuid_in srv) redis_view J decode genuine redis_Client E req resp V"
  unfolding gateway_def
  using main_auth_service [OF assms(1), where srv = srv and cfg = cfg and url = url] redis.redis_client_axioms assms(2,3) by simp

interpretation main_gateway: gateway "main_auth srv cfg url" pg_ready pg_users pg_sessions
  "stored_form srv" "pg_uuid_in srv" redis_view plain_jwt jwt_decode jwt_genuine redis_Client
  echo_Context cxRequest cxResponse plain_validator
  for srv cfg url
  by (rule main_gateway [OF jwt.jwt_laws_axioms echo.echo_context_axioms plain.openapi_validator_axioms])

abbreviation main_server ::
  "pg_server \<Rightarrow> TokenConfig \<Rightarrow> string \<Rightarrow> ServerConfig \<Rightarrow> (pgconn, redisconn) cleanup list \<Rightarrow>
   (pgconn, redisconn) API" where
  "main_server srv cfg url sc fs \<equiv> new_server (main_auth srv cfg url) redis_Client sc fs"

section \<open>Concrete requests\<close>

definition ex_limits :: RateLimiterConfig where
  "ex_limits = \<lparr>Limit = 3, Interval = time_Minute, BlockTime = time_Minute\<rparr>"

definition ex_call :: call where
  "ex_call = \<lparr>clLimiter = ex_now, clAuth = ex_clock, clHandler = ex_ambient\<rparr>"

definition ex_request :: "operation \<Rightarrow> (string \<Rightarrow> string) \<Rightarrow> request" where
  "ex_request op hdr = \<lparr>rqIP = ''10.0.0.1'', rqHeaders = hdr(''User-Agent'' := ''curl''),
     rqPath = ''/api/v1'' @ operation_path op, rqCookies = [(''refresh_token'', ex_refresh)],
     rqGuid = Some ''g2''\<rparr>"

definition ex_bearer :: "string \<Rightarrow> string" where
  "ex_bearer n = (if n = ''Authorization'' then ''Bearer '' @ ex_access else '''')"

definition ex_http :: "redisconn \<Rightarrow> request \<Rightarrow> (pgconn, redisconn, reqctx) http" where
  "ex_http s rq = \<lparr>ht_world = (ex_world ''active'')\<lparr>w_redis := s\<rparr>, ht_ctx = new_context rq\<rparr>"

text \<open>Redis after the first request of the address has passed the limiter.\<close>

definition ex_counted :: "redisconn \<Rightarrow> redisconn" where
  "ex_counted s = s\<lparr>rc_keys := (rc_keys s)(rate_key ''10.0.0.1'' \<mapsto>
     (''1'', Some (server_ms ex_now + 60000)))\<rparr>"

lemma ex_allow:
  assumes "rc_faults s = []" and "rc_keys s (rate_key ''10.0.0.1'') = None"
  shows "RateLimiter_allow redis_Client ex_limits ex_now ''10.0.0.1'' s = (Ok 1, ex_counted s)"
proof -
  have one: "strconv_FormatInt 1 = ''1''" by code_simp
  have none: "server_GET (rc_keys s) t (rate_key ''10.0.0.1'') = None" for t
    using assms(2) by (simp add: server_GET_def)
  have secs: "int_Seconds time_Minute = 60" by code_simp
  show ?thesis
    by (simp add: RateLimiter_allow_def redis_calm(4) assms rate_script_def Let_def none ex_limits_def
        secs counter_of_def int64_range_def one server_EXPIRE_def server_GET_def key_deadline_def
        ex_counted_def)
qed

lemma ex_http_simps [simp]:
  "ht_ctx (ex_http s rq) = new_context rq" "w_redis (ht_world (ex_http s rq)) = s"
  "w_db (ht_world (ex_http s rq)) = w_db (ex_world ''active'')"
  by (simp_all add: ex_http_def)

lemma new_context_simps [simp]:
  "cxRequest (new_context rq) = rq" "cxResponse (new_context rq) =
     \<lparr>rpStatus = None, rpBody = None, rpCookies = [], rpHeaders = []\<rparr>"
  by (simp_all add: new_context_def)

lemma echo_Context_simps [simp]:
  "Ctx_RealIP echo_Context c = rqIP (cxRequest c)"
  "Ctx_Header echo_Context c = rqHeaders (cxRequest c)"
  "Ctx_Path echo_Context c = rqPath (cxRequest c)"
  by (simp_all add: echo_Context_def)

lemma ex_request_simps [simp]:
  "rqIP (ex_request op hdr) = ''10.0.0.1''"
  "rqHeaders (ex_request op hdr) = hdr(''User-Agent'' := ''curl'')"
  "rqPath (ex_request op hdr) = ''/api/v1'' @ operation_path op"
  by (simp_all add: ex_request_def)

lemma ex_new: "empty_answer (cxResponse (new_context rq))"
  by (simp add: empty_answer_def)

lemma ex_routed: "routed echo_Context op (new_context (ex_request op hdr))"
  by (simp add: routed_def)

lemma ex_timely: "timely ex_call"
  using mono_ex_clock by (auto simp: timely_def ex_call_def ex_ambient_def mono_def ex_clock_def time_units)

lemma ex_no_jwt: "\<forall>k \<in> limiter_keys ''10.0.0.1''. jwt_decode k = None"
proof -
  have "jwt_decode (rate_key ''10.0.0.1'') = None" by code_simp
  moreover have "jwt_decode (block_key ''10.0.0.1'') = None" by code_simp
  ultimately show ?thesis by (simp add: limiter_keys_def)
qed

lemma ex_access_key: "ex_access \<noteq> rate_key ''10.0.0.1''"
  using ex_no_jwt ex_decode by (auto simp: limiter_keys_def)

section \<open>Running the middleware\<close>

lemma ex_limiter:
  assumes "rc_faults s = []" and "rc_keys s (rate_key ''10.0.0.1'') = None"
  shows "RateLimiter echo_Context redis_Client ex_limits ex_now m (ex_http s (ex_request op hdr)) =
    m (ex_http (ex_counted s) (ex_request op hdr))"
  using ex_allow [OF assms]
  by (simp add: RateLimiter_def go_try_def lift_world_def lift_redis_def ex_http_def)

text \<open>The context after a bearer token was accepted.\<close>

definition ex_authenticated :: "request \<Rightarrow> reqctx" where
  "ex_authenticated rq = Ctx_Set echo_Context MwUserIDKey (CtxInt64 1)
     (Ctx_Set echo_Context MwTokenKey (CtxString ex_access) (new_context rq))"

lemma ex_authenticates_on:
  assumes "rc_faults s = []" and "redis_view s (ex_clock 0) ex_access = None"
    and "op \<noteq> IssueTokensOp" and "op \<noteq> RefreshTokensOp"
  shows "NewAuthenticator plain_jwt echo_Context ex_auth main_keys ex_clock (operation_security op)
      (ex_http s (ex_request op ex_bearer)) =
    (Ok (), (ex_http s (ex_request op ex_bearer))\<lparr>ht_ctx := ex_authenticated (ex_request op ex_bearer)\<rparr>)"
proof -
  have path: "\<not> strings_HasSuffix (''/api/v1'' @ operation_path op) ''/auth/tokens/refresh''"
    using assms(4) by (cases op) (simp_all add: operation_path_def strings_HasSuffix_def)
  have hdr: "ex_bearer ''Authorization'' = bearerPrefix @ ex_access"
    by (simp add: ex_bearer_def bearerPrefix_def)
  have pre: "strings_HasPrefix (bearerPrefix @ ex_access) bearerPrefix" "bearerPrefix @ ex_access \<noteq> ''''"
    "MwSchemeBearerAuth \<noteq> MwSchemeAPIKeyAuth"
    by (auto simp: strings_HasPrefix_iff bearerPrefix_def MwSchemeBearerAuth_def MwSchemeAPIKeyAuth_def)
  have auth: "AuthService_AuthenticateAccessToken plain_jwt ex_auth ex_clock ex_access
      ((ex_world ''active'')\<lparr>w_redis := s\<rparr>) = (Ok 1, (ex_world ''active'')\<lparr>w_redis := s\<rparr>)"
    using ex_validates_on [OF assms(1,2)]
    by (simp add: AuthService_AuthenticateAccessToken_def go_try_def lift_redis_def)
  show ?thesis
    using assms(3) path pre auth
    by (simp add: NewAuthenticator_def operation_security_names hdr Let_def strings_TrimPrefix_append
        go_try_def lift_world_def ex_authenticated_def ex_http_def)
qed

lemma ex_counted_simps [simp]: "rc_faults (ex_counted s) = rc_faults s"
  by (simp add: ex_counted_def)

lemma ex_counted_view:
  "k \<noteq> rate_key ''10.0.0.1'' \<Longrightarrow> redis_view (ex_counted s) t k = redis_view s t k"
  by (simp add: ex_counted_def redis_view_def server_GET_def)

definition ex_server_config :: ServerConfig where
  "ex_server_config = NewServerConfig (\<lambda>_ _ _. 0) (\<lambda>_. '''')"

abbreviation ex_api :: "(pgconn, redisconn) API" where
  "ex_api \<equiv> main_server ex_server ex_config '''' ex_server_config []"

lemma ex_run_bearer:
  assumes "op \<noteq> IssueTokensOp" and "op \<noteq> RefreshTokensOp"
  shows "API_Run plain_jwt up echo_Context plain_validator ex_limits ex_api ex_call op
      (ex_http ex_redis (ex_request op ex_bearer)) =
    operation_handler echo_Context (controller_interface plain_jwt up echo_Context (NewController ex_auth)) op
      ex_ambient ((ex_http (ex_counted ex_redis) (ex_request op ex_bearer))
        \<lparr>ht_ctx := ex_authenticated (ex_request op ex_bearer)\<rparr>)"
proof -
  have calm: "rc_faults ex_redis = []" "rc_keys ex_redis (rate_key ''10.0.0.1'') = None"
    by (simp_all add: ex_redis_def)
  have "redis_view (ex_counted ex_redis) (ex_clock 0) ex_access = None"
    by (simp add: ex_counted_view ex_access_key ex_redis_empty)
  from ex_authenticates_on [OF _ this assms] calm
  show ?thesis
    by (simp add: API_Run_def ex_call_def ex_limiter plain_validator_def go_try_def)
qed

lemma ex_run_refresh:
  "API_Run plain_jwt up echo_Context plain_validator ex_limits ex_api ex_call RefreshTokensOp
      (ex_http ex_redis (ex_request RefreshTokensOp ex_bearer)) =
    operation_handler echo_Context (controller_interface plain_jwt up echo_Context (NewController ex_auth))
      RefreshTokensOp ex_ambient (ex_http (ex_counted ex_redis) (ex_request RefreshTokensOp ex_bearer))"
proof -
  have calm: "rc_faults ex_redis = []" "rc_keys ex_redis (rate_key ''10.0.0.1'') = None"
    by (simp_all add: ex_redis_def)
  have "strings_HasSuffix (''/api/v1'' @ operation_path RefreshTokensOp) ''/auth/tokens/refresh''"
    by (simp add: operation_path_def strings_HasSuffix_def)
  then have "NewAuthenticator plain_jwt echo_Context ex_auth main_keys ex_clock
      (operation_security RefreshTokensOp) h = (Ok (), h)"
    if "h = ex_http (ex_counted ex_redis) (ex_request RefreshTokensOp ex_bearer)" for h
    using main_gateway.refresh_unauthenticated [where h = h and clk = ex_clock and srv = ex_server
        and cfg = ex_config and url = "''''"] that
    by (simp add: operation_security_names)
  with calm show ?thesis
    by (simp add: API_Run_def ex_call_def ex_limiter plain_validator_def go_try_def)
qed

text \<open>The issue request carries the API key whose hash is current.\<close>

definition ex_api_key :: "string \<Rightarrow> string" where
  "ex_api_key n = (if n = MwAPIKeyHeader then ''k1'' else '''')"

lemma ex_run_issue:
  "API_Run plain_jwt up echo_Context plain_validator ex_limits ex_api ex_call IssueTokensOp
      (ex_http ex_keys (ex_request IssueTokensOp ex_api_key)) =
    operation_handler echo_Context (controller_interface plain_jwt up echo_Context (NewController ex_auth))
      IssueTokensOp ex_ambient (ex_http (ex_counted ex_keys) (ex_request IssueTokensOp ex_api_key))"
proof -
  have calm: "rc_faults ex_keys = []" "rc_keys ex_keys (rate_key ''10.0.0.1'') = None"
    by (simp_all add: ex_keys_def rate_key_def)
  have "redis_view (ex_counted ex_keys) (ex_clock 0) CurrentAPIKeyRedisKey = Some (hash_of ''k1'')"
    by (simp add: ex_counted_def redis_view_def server_GET_def ex_keys_def CurrentAPIKeyRedisKey_def
        rate_key_def)
  from ex_valid_after [where clk = ex_clock, OF _ this] calm(1)
  have valid: "APIKeyService_IsValidAPIKey main_keys ex_clock ''k1'' (ex_counted ex_keys) =
      (Ok True, ex_counted ex_keys)" by simp
  have hdr: "(ex_api_key(''User-Agent'' := ''curl'')) MwAPIKeyHeader = ''k1''"
    by (simp add: ex_api_key_def MwAPIKeyHeader_def)
  have "NewAuthenticator plain_jwt echo_Context ex_auth main_keys ex_clock
      (operation_security IssueTokensOp) (ex_http (ex_counted ex_keys) (ex_request IssueTokensOp ex_api_key)) =
      (Ok (), ex_http (ex_counted ex_keys) (ex_request IssueTokensOp ex_api_key))"
    using valid
    by (simp add: NewAuthenticator_def operation_security_names Let_def hdr go_try_def lift_world_def
        lift_redis_def ex_http_def del: fun_upd_apply)
  with calm show ?thesis
    by (simp add: API_Run_def ex_call_def ex_limiter plain_validator_def go_try_def)
qed

text \<open>The metadata the handlers see, and the answers that carry tokens.\<close>

lemma ex_request_metadata: "request_metadata echo_Context (new_context (ex_request op hdr)) = ex_metadata"
  by (simp add: request_metadata_def Ctx_UserAgent_def ex_metadata_def)

lemma ex_Set_simps [simp]:
  "cxRequest (Ctx_Set echo_Context k v c) = cxRequest c"
  "cxResponse (Ctx_Set echo_Context k v c) = cxResponse c"
  "cxGone (Ctx_Set echo_Context k v c) = cxGone c"
  by (simp_all add: echo_Context_def)

lemma ex_context_simps [simp]:
  "Ctx_JSON echo_Context code b c = ctx_write code (Some b) c"
  "Ctx_NoContent echo_Context code c = ctx_write code None c"
  "cxGone (new_context rq) = False"
  "cxGone (Ctx_SetCookie echo_Context ck c) = cxGone c"
  "cxResponse (Ctx_SetCookie echo_Context ck c) =
     (cxResponse c)\<lparr>rpCookies := rpCookies (cxResponse c) @ [ck]\<rparr>"
  by (simp_all add: echo_Context_def new_context_def)

lemma ex_issue_on:
  assumes "w_db w = w_db (ex_world ''active'')"
  obtains acc rt w' where "AuthService_IssueTokens plain_jwt ex_auth ex_ambient ''g2'' ex_metadata w =
      (Ok (acc, rt), w')"
proof -
  have "pg_healthy ex_server (w_db w)" "pg_room (w_db w)" using ex_healthy ex_room assms by simp_all
  then show thesis
    by (rule main_live.issue_succeeds [where url = "''''" and am = ex_ambient and md = ex_metadata
          and guid = "''g2''" and cfg = ex_config, OF _ _ _ _ ex_random(1)])
      (use ex_ambient_inputs assms that in \<open>simp_all add: ex_sessions token_inputs_ambient\<close>)
qed

lemma ex_refresh_on:
  assumes "w_db w = w_db (ex_world ''active'')"
  obtains acc rt w' where "AuthService_RefreshTokens plain_jwt ex_auth ex_ambient ex_access ex_refresh
      ex_metadata w = (Ok (acc, rt), w')"
proof -
  have "pg_healthy ex_server (w_db w)" "pg_room (w_db w)" using ex_healthy ex_room assms by simp_all
  then show thesis
    by (rule main_live.refresh_succeeds [where url = "''''" and cfg = ex_config and am = ex_ambient
          and md = ex_metadata and acc = ex_access and rt = ex_refresh and sel = "random_selector ex_bytes"
          and s = ex_session, OF _ _ _ _ _ ex_random(1)])
      (use ex_inputs(2) [of "NewTokenStorage redis_Client"] ex_valid assms that
        in \<open>simp_all add: ex_sessions\<close>)
qed

end
