(* ===== verification/Server_Properties.thy ===== *)
theory Server_Properties
  imports Server_Instance
begin

text \<open>
  The properties of the server as \<open>main\<close> builds it, from the request to the answer: behind the
  rate limiter, the validator and the error handler, under any failures of the database and of
  Redis, for any JWT library, echo context and validator that keep their documented behaviour.
\<close>

text \<open>The example's answer to \<open>GET /auth/user/guid\<close>.\<close>

lemma ex_authenticated_simps [simp]:
  "cxRequest (ex_authenticated rq) = rq" "cxResponse (ex_authenticated rq) = cxResponse (new_context rq)"
  "cxGone (ex_authenticated rq) = False"
  "Ctx_Get echo_Context (ex_authenticated rq) MwUserIDKey = Some (CtxInt64 1)"
  "Ctx_Get echo_Context (ex_authenticated rq) MwTokenKey = Some (CtxString ex_access)"
  by (simp_all add: ex_authenticated_def echo_Context_def new_context_def)

lemma ex_world_redis_db [simp]: "w_db (ht_world ((ex_http s rq)\<lparr>ht_ctx := c\<rparr>)) = w_db (ex_world ''active'')"
  by (simp add: ex_http_def)

lemma ex_guid_answer:
  obtains h' where "API_answer plain_jwt Some echo_Context plain_validator ex_limits ex_api ex_call
      GetUserGUIDOp (ex_http ex_redis (ex_request GetUserGUIDOp ex_bearer)) = (Ok (), h')"
    and "rpBody (cxResponse (ht_ctx h')) = Some (UserGUIDBody \<lparr>UserId = ''g1''\<rparr>)"
proof -
  let ?rq = "ex_request GetUserGUIDOp ex_bearer"
  let ?w = "ht_world (ex_http (ex_counted ex_redis) ?rq)"
  have h: "pg_healthy ex_server (w_db ?w)" using ex_healthy by simp
  obtain r d where get: "GetUserByID (Users (asStorage ex_auth)) 1 (w_db ?w) = (r, d)" by fastforce
  obtain u where "r = Ok u" "uGUID u = ''g1''"
    using main_live.user_found [OF h _ get] by (auto simp: ex_users)
  with get have guid: "AuthService_GetPublicGUID ex_auth 1 ?w = (Ok ''g1'', ?w\<lparr>w_db := d\<rparr>)"
    by (simp add: AuthService_GetPublicGUID_def go_try_def lift_db_def)
  have get_user: "Ctx_Get echo_Context (Ctx_Set echo_Context BearerAuthScopes v (ex_authenticated ?rq))
      MwUserIDKey = Some (CtxInt64 1)" for v
    by (simp add: echo.set)
  have "\<exists>h'. API_answer plain_jwt Some echo_Context plain_validator ex_limits ex_api ex_call
      GetUserGUIDOp (ex_http ex_redis ?rq) = (Ok (), h') \<and>
      rpBody (cxResponse (ht_ctx h')) = Some (UserGUIDBody \<lparr>UserId = ''g1''\<rparr>)"
    using guid get_user
    by (simp add: API_answer_def ex_run_bearer operation_handler_def
        Wrapper_GetUserGUID_def Controller_GetUserGUID_def controller_interface_def go_try_def
        lift_world_def lift_ctx_def ctx_write_def Let_def)
  then show thesis using that by blast
qed

text \<open>
  C23. A GUID is only sent to its owner: if the body of an answer to \<open>GET /auth/user/guid\<close> is a
  GUID, the request carried an access token that is signed with the service's key under HS512, is
  not denied and not expired (but for the leeway), and the GUID is that of the user the token
  names. The request changes no user and no session.
\<close>

theorem guid_needs_bearer:
  assumes "jwt_laws J decode genuine" and "echo_context E req resp" and "openapi_validator V"
    and "API_answer J up E V rlc (main_server srv cfg url sc fs) cl GetUserGUIDOp h = (r, h')"
    and "pg_ready (w_db (ht_world h))" and "empty_answer (resp (ht_ctx h))"
    and "routed E GetUserGUIDOp (ht_ctx h)" and "timely cl"
    and "\<forall>k \<in> limiter_keys (Ctx_RealIP E (ht_ctx h)). decode k = None"
  shows "pg_users (w_db (ht_world h')) = pg_users (w_db (ht_world h)) \<and>
    pg_sessions (w_db (ht_world h')) = pg_sessions (w_db (ht_world h)) \<and>
    (\<forall>b. rpBody (resp (ht_ctx h')) = Some b \<longrightarrow> (\<exists>m. b = ReasonBody m) \<or>
       (\<exists>tok uid g g'. Ctx_Header E (ht_ctx h) ''Authorization'' = ''Bearer '' @ tok \<and>
          accepted_bearer decode genuine (cfgJwtSecretKey cfg) (redis_view (w_redis (ht_world h)))
            (clAuth cl) tok uid \<and>
          pg_users (w_db (ht_world h)) uid = Some g \<and> up g = Some g' \<and>
          b = UserGUIDBody \<lparr>UserId = g'\<rparr>))"
  using gateway.guid_request [OF main_gateway [OF assms(1-3)] assms(4-9)]
  by (simp add: NewTokenService_def)

theorem guid_needs_bearer_witness:
  "\<exists>h'. API_answer plain_jwt Some echo_Context plain_validator ex_limits ex_api ex_call
      GetUserGUIDOp (ex_http ex_redis (ex_request GetUserGUIDOp ex_bearer)) = (Ok (), h') \<and>
    rpBody (cxResponse (ht_ctx h')) = Some (UserGUIDBody \<lparr>UserId = ''g1''\<rparr>) \<and>
    (\<exists>tok uid. accepted_bearer jwt_decode jwt_genuine ''secret'' (redis_view ex_redis) ex_clock tok uid \<and>
       pg_users (w_db (ex_world ''active'')) uid = Some ''g1'')"
proof -
  let ?h = "ex_http ex_redis (ex_request GetUserGUIDOp ex_bearer)"
  obtain h' where run: "API_answer plain_jwt Some echo_Context plain_validator ex_limits ex_api ex_call
      GetUserGUIDOp ?h = (Ok (), h')"
    and body: "rpBody (cxResponse (ht_ctx h')) = Some (UserGUIDBody \<lparr>UserId = ''g1''\<rparr>)"
    by (rule ex_guid_answer)
  have "pg_ready (w_db (ht_world ?h))" "empty_answer (cxResponse (ht_ctx ?h))"
    "routed echo_Context GetUserGUIDOp (ht_ctx ?h)"
    "\<forall>k \<in> limiter_keys (Ctx_RealIP echo_Context (ht_ctx ?h)). jwt_decode k = None"
    using ex_ready ex_new ex_routed ex_no_jwt by simp_all
  from guid_needs_bearer [OF jwt.jwt_laws_axioms echo.echo_context_axioms plain.openapi_validator_axioms
      run this(1-3) ex_timely this(4)] body run
  show ?thesis by (auto simp: ex_config_def ex_call_def)
qed

text \<open>
  C25. \<open>POST /auth/logout\<close> ends sessions only on a valid access token: whatever the answer, either
  the sessions are as before, or the request carried an access token that is signed with the
  service's key under HS512, is not denied and not expired (but for the leeway), and exactly the sessions of the token's user are gone. No user changes.
\<close>

theorem logout_needs_bearer:
  assumes "jwt_laws J decode genuine" and "echo_context E req resp" and "openapi_validator V"
    and "API_answer J up E V rlc (main_server srv cfg url sc fs) cl LogoutOp h = (r, h')"
    and "pg_ready (w_db (ht_world h))" and "empty_answer (resp (ht_ctx h))"
    and "routed E LogoutOp (ht_ctx h)" and "timely cl"
    and "\<forall>k \<in> limiter_keys (Ctx_RealIP E (ht_ctx h)). decode k = None"
  shows "pg_users (w_db (ht_world h')) = pg_users (w_db (ht_world h)) \<and>
    (pg_sessions (w_db (ht_world h')) = pg_sessions (w_db (ht_world h)) \<or>
     (\<exists>tok uid. Ctx_Header E (ht_ctx h) ''Authorization'' = ''Bearer '' @ tok \<and>
        accepted_bearer decode genuine (cfgJwtSecretKey cfg) (redis_view (w_redis (ht_world h)))
          (clAuth cl) tok uid \<and>
        pg_sessions (w_db (ht_world h')) = revoke_user uid (pg_sessions (w_db (ht_world h)))))"
  using gateway.logout_request [OF main_gateway [OF assms(1-3)] assms(4-9)]
  by (simp add: NewTokenService_def)

lemma ex_logout_run:
  obtains h1 where "API_Run plain_jwt up echo_Context plain_validator ex_limits ex_api ex_call
      LogoutOp (ex_http ex_redis (ex_request LogoutOp ex_bearer)) = (Ok (), h1)"
proof -
  let ?rq = "ex_request LogoutOp ex_bearer"
  let ?w = "ht_world (ex_http (ex_counted ex_redis) ?rq)"
  have absent: "redis_view (ex_counted ex_redis) (ex_clock 0) ex_access = None"
    by (simp add: ex_counted_view ex_access_key ex_redis_empty)
  obtain w' where lo: "AuthService_Logout plain_jwt ex_auth ex_clock ex_access ?w = (Ok (), w')"
    by (rule ex_logout_on [OF _ absent, of ?w "''active''"]) (simp_all add: ex_redis_empty)
  have clock: "amClock ex_ambient = ex_clock" by (simp add: ex_ambient_def ex_clock_def fun_eq_iff)
  have nonempty: "ex_access \<noteq> ''''" using ex_decode by (auto simp: jwt_decode_def)
  have get_token: "Ctx_Get echo_Context (Ctx_Set echo_Context BearerAuthScopes v (ex_authenticated ?rq))
      MwTokenKey = Some (CtxString ex_access)" for v
    by (simp add: echo.set)
  have "\<exists>h1. API_Run plain_jwt up echo_Context plain_validator ex_limits ex_api ex_call
      LogoutOp (ex_http ex_redis ?rq) = (Ok (), h1)"
    using lo get_token
    by (simp add: ex_run_bearer operation_handler_def Wrapper_Logout_def Controller_Logout_def
        controller_interface_def go_try_def lift_world_def lift_ctx_def clearRefreshCookie_def
        nonempty clock ctx_write_def Let_def)
  then show thesis using that by blast
qed

theorem logout_needs_bearer_witness:
  "\<exists>h'. API_answer plain_jwt Some echo_Context plain_validator ex_limits ex_api ex_call
      LogoutOp (ex_http ex_redis (ex_request LogoutOp ex_bearer)) = (Ok (), h') \<and>
    (pg_sessions (w_db (ht_world h')) = pg_sessions (w_db (ex_world ''active'')) \<or>
     (\<exists>uid. pg_sessions (w_db (ht_world h')) = revoke_user uid (pg_sessions (w_db (ex_world ''active'')))))"
proof -
  let ?h = "ex_http ex_redis (ex_request LogoutOp ex_bearer)"
  obtain h' where "API_Run plain_jwt Some echo_Context plain_validator ex_limits ex_api ex_call
      LogoutOp ?h = (Ok (), h')" by (rule ex_logout_run)
  then have run: "API_answer plain_jwt Some echo_Context plain_validator ex_limits ex_api ex_call
      LogoutOp ?h = (Ok (), h')" by (simp add: API_answer_def go_try_def)
  have "pg_ready (w_db (ht_world ?h))" "empty_answer (cxResponse (ht_ctx ?h))"
    "routed echo_Context LogoutOp (ht_ctx ?h)"
    "\<forall>k \<in> limiter_keys (Ctx_RealIP echo_Context (ht_ctx ?h)). jwt_decode k = None"
    using ex_ready ex_new ex_routed ex_no_jwt by simp_all
  from logout_needs_bearer [OF jwt.jwt_laws_axioms echo.echo_context_axioms plain.openapi_validator_axioms
      run this(1-3) ex_timely this(4)] run
  show ?thesis by auto
qed

text \<open>
  C24. A logout locks the access token out of the two endpoints that authenticate by it: after a
  logout that succeeded, a request with the same access token to the GUID or logout endpoint is
  refused before its handler (by the limiter with 429, or with 400, 401 or 403), touches no table
  and starts no notification, from the end of the logout until a millisecond before the token's
  expiry. The request may come in any later state of the database and of Redis in which Redis
  still has the entry the logout left for the token. The third endpoint that takes an access
  token, the refresh, never looks at the denylist; there the logout works by the sessions it ends.
\<close>

theorem logout_locks_token_out:
  assumes "jwt_laws J decode genuine" and "echo_context E req resp" and "openapi_validator V"
    and "API_Run J up E V rlc (main_server srv cfg url sc fs) cl LogoutOp h = (Ok u, h1)"
    and "pg_ready (w_db (ht_world h))" and "empty_answer (resp (ht_ctx h))"
    and "routed E LogoutOp (ht_ctx h)" and "timely cl"
    and "Ctx_Header E (ht_ctx h) ''Authorization'' = ''Bearer '' @ tok"
    and "decode tok = Some (alg, c)" and "jcExpiresAt c = Some ex"
    and "int64_range (ex - amClock (clHandler cl) 2)"
    and "amClock (clHandler cl) 3 \<le> clAuth cl2 0" and "clAuth cl2 0 < ex - time_Millisecond"
    and "timely cl2" and "op \<in> {GetUserGUIDOp, LogoutOp}"
    and "redis_view (w_redis (ht_world h2)) (clAuth cl2 0) tok =
      redis_view (w_redis (ht_world h1)) (clAuth cl2 0) tok"
    and "empty_answer (resp (ht_ctx h2))"
    and "routed E op (ht_ctx h2)" and "Ctx_Header E (ht_ctx h2) ''Authorization'' = ''Bearer '' @ tok"
    and "\<forall>k \<in> limiter_keys (Ctx_RealIP E (ht_ctx h2)). decode k = None"
    and "API_Run J up E V rlc (main_server srv cfg url sc fs) cl2 op h2 = (r, h')"
  shows "(\<exists>code m. r = Err (HTTPError code (StringMessage m)) \<and> code \<in> {400, 401, 403, 429}) \<and>
    w_db (ht_world h') = w_db (ht_world h2) \<and> w_hooks (ht_world h') = w_hooks (ht_world h2)"
  by (rule gateway.logout_locks_out [where ?cl2.0 = cl2, OF main_gateway [OF assms(1-3)] assms(4-22)])

theorem logout_locks_token_out_witness:
  "\<exists>h1 code m. API_Run plain_jwt Some echo_Context plain_validator ex_limits ex_api ex_call
      LogoutOp (ex_http ex_redis (ex_request LogoutOp ex_bearer)) = (Ok (), h1) \<and>
    fst (API_Run plain_jwt Some echo_Context plain_validator ex_limits ex_api
      (ex_call\<lparr>clLimiter := ex_now + time_Minute, clAuth := (\<lambda>n. ex_clock (n + 100))\<rparr>) GetUserGUIDOp
      (h1\<lparr>ht_ctx := new_context (ex_request GetUserGUIDOp ex_bearer)\<rparr>)) =
      Err (HTTPError code (StringMessage m)) \<and> code \<in> {400, 401, 403, 429}"
proof -
  let ?h = "ex_http ex_redis (ex_request LogoutOp ex_bearer)"
  let ?cl = "ex_call\<lparr>clLimiter := ex_now + time_Minute, clAuth := (\<lambda>n. ex_clock (n + 100))\<rparr>"
  obtain h1 where run: "API_Run plain_jwt Some echo_Context plain_validator ex_limits ex_api ex_call
      LogoutOp ?h = (Ok (), h1)" by (rule ex_logout_run)
  let ?h2 = "h1\<lparr>ht_ctx := new_context (ex_request GetUserGUIDOp ex_bearer)\<rparr>"
  have first: "pg_ready (w_db (ht_world ?h))" "empty_answer (cxResponse (ht_ctx ?h))"
    "routed echo_Context LogoutOp (ht_ctx ?h)"
    "Ctx_Header echo_Context (ht_ctx ?h) ''Authorization'' = ''Bearer '' @ ex_access"
    using ex_ready ex_new ex_routed by (simp_all add: ex_bearer_def)
  have time: "int64_range (ex_now + 15 * time_Minute - amClock (clHandler ex_call) 2)"
    "amClock (clHandler ex_call) 3 \<le> clAuth ?cl 0" "clAuth ?cl 0 < ex_now + 15 * time_Minute - time_Millisecond"
    by (simp_all add: int64_range_def ex_call_def ex_ambient_def ex_clock_def time_units)
  have timely: "timely ?cl"
    using ex_timely by (auto simp: timely_def ex_call_def ex_clock_def time_units mono_def)
  have second: "GetUserGUIDOp \<in> {GetUserGUIDOp, LogoutOp}"
    "redis_view (w_redis (ht_world ?h2)) (clAuth ?cl 0) ex_access =
      redis_view (w_redis (ht_world h1)) (clAuth ?cl 0) ex_access"
    "empty_answer (cxResponse (ht_ctx ?h2))" "routed echo_Context GetUserGUIDOp (ht_ctx ?h2)"
    "Ctx_Header echo_Context (ht_ctx ?h2) ''Authorization'' = ''Bearer '' @ ex_access"
    "\<forall>k \<in> limiter_keys (Ctx_RealIP echo_Context (ht_ctx ?h2)). jwt_decode k = None"
    using ex_new ex_routed ex_no_jwt by (simp_all add: ex_bearer_def)
  from logout_locks_token_out [where ?cl2.0 = ?cl, OF jwt.jwt_laws_axioms echo.echo_context_axioms
      plain.openapi_validator_axioms run first(1-3) ex_timely first(4) ex_decode ex_claims_simps(3)
      time timely second prod.collapse [symmetric]] run
  show ?thesis by blast
qed

text \<open>
  C26. \<open>POST /auth/tokens\<close> needs the API key: without a key that \<open>IsValidAPIKey\<close> accepts no user
  or session changes and the body of the answer is an error. When the body is an access token, it
  and the refresh cookie of the same answer are a valid pair for the client that asked, in a new
  session of the user registered for the GUID of the query.
\<close>

theorem tokens_need_api_key:
  assumes "jwt_laws J decode genuine" and "echo_context E req resp" and "openapi_validator V"
    and run: "API_answer J up E V rlc (main_server srv cfg url sc fs) cl IssueTokensOp h = (r, h')"
    and rdy: "pg_ready (w_db (ht_world h))" and "empty_answer (resp (ht_ctx h))"
    and "routed E IssueTokensOp (ht_ctx h)" and "timely cl"
    and "ambient_inputs (asTokenService (main_auth srv cfg url)) (clHandler cl)"
  shows "(pg_users (w_db (ht_world h')) = pg_users (w_db (ht_world h)) \<and>
        pg_sessions (w_db (ht_world h')) = pg_sessions (w_db (ht_world h)) \<or>
      key_accepted (redis_view (w_redis (ht_world h))) (clAuth cl) (Ctx_Header E (ht_ctx h) MwAPIKeyHeader)) \<and>
    (\<forall>b. rpBody (resp (ht_ctx h')) = Some b \<longrightarrow> (\<exists>m. b = ReasonBody m) \<or>
       key_accepted (redis_view (w_redis (ht_world h))) (clAuth cl) (Ctx_Header E (ht_ctx h) MwAPIKeyHeader) \<and>
       (\<exists>guid acc rt sel s. Ctx_BindGuid E (ht_ctx h) = Ok guid \<and> b = TokensBody \<lparr>AccessToken = acc\<rparr> \<and>
          rpCookies (resp (ht_ctx h')) = rpCookies (resp (ht_ctx h)) @ [refresh_cookie rt] \<and>
          valid_refresh decode acc rt (request_metadata E (ht_ctx h))
            (pg_sessions (w_db (ht_world h'))) sel s \<and>
          pg_users (w_db (ht_world h')) (rsUserID s) = pg_uuid_in srv guid \<and> pg_uuid_in srv guid \<noteq> None))"
proof -
  note gw = main_gateway [OF assms(1-3), where srv = srv and cfg = cfg and url = url]
  have rdy': "pg_ready (w_db (ht_world h'))"
    by (rule gateway.issue_ready [OF gw run rdy assms(6-8)])
  from gateway.issue_request [OF gw run rdy assms(6-8) main_inputs [OF assms(9) rdy']]
  show ?thesis by simp
qed

lemma ex_issue_answer:
  obtains h' acc where "API_answer plain_jwt Some echo_Context plain_validator ex_limits ex_api ex_call
      IssueTokensOp (ex_http ex_keys (ex_request IssueTokensOp ex_api_key)) = (Ok (), h')"
    and "rpBody (cxResponse (ht_ctx h')) = Some (TokensBody \<lparr>AccessToken = acc\<rparr>)"
proof -
  let ?rq = "ex_request IssueTokensOp ex_api_key"
  obtain acc rt w' where iss: "AuthService_IssueTokens plain_jwt ex_auth ex_ambient ''g2'' ex_metadata
      (ht_world (ex_http (ex_counted ex_keys) ?rq)) = (Ok (acc, rt), w')"
    by (rule ex_issue_on [of "ht_world (ex_http (ex_counted ex_keys) ?rq)"]) simp
  have md: "request_metadata echo_Context (Ctx_Set echo_Context k v (new_context ?rq)) = ex_metadata" for k v
    using ex_request_metadata [of IssueTokensOp ex_api_key]
    by (simp add: request_metadata_def Ctx_UserAgent_def)
  have guid: "Ctx_BindGuid echo_Context (Ctx_Set echo_Context k v (new_context ?rq)) = Ok ''g2''" for k v
    by (simp add: echo_Context_def ex_request_def new_context_def)
  have "\<exists>h' acc. API_answer plain_jwt Some echo_Context plain_validator ex_limits ex_api ex_call
      IssueTokensOp (ex_http ex_keys ?rq) = (Ok (), h') \<and>
      rpBody (cxResponse (ht_ctx h')) = Some (TokensBody \<lparr>AccessToken = acc\<rparr>)"
    using iss
    by (simp add: API_answer_def ex_run_issue operation_handler_def Wrapper_IssueTokens_def guid md
        Controller_IssueTokens_def controller_interface_def go_try_def lift_world_def lift_ctx_def
        setRefreshCookie_def ctx_write_def Let_def)
  then show thesis using that by blast
qed

theorem tokens_need_api_key_witness:
  "\<exists>h' acc. API_answer plain_jwt Some echo_Context plain_validator ex_limits ex_api ex_call
      IssueTokensOp (ex_http ex_keys (ex_request IssueTokensOp ex_api_key)) = (Ok (), h') \<and>
    rpBody (cxResponse (ht_ctx h')) = Some (TokensBody \<lparr>AccessToken = acc\<rparr>) \<and>
    (\<exists>rt sel s. rpCookies (cxResponse (ht_ctx h')) = [refresh_cookie rt] \<and>
       valid_refresh jwt_decode acc rt ex_metadata (pg_sessions (w_db (ht_world h'))) sel s \<and>
       pg_users (w_db (ht_world h')) (rsUserID s) = Some ''g2'')"
proof -
  let ?h = "ex_http ex_keys (ex_request IssueTokensOp ex_api_key)"
  obtain h' acc where run: "API_answer plain_jwt Some echo_Context plain_validator ex_limits ex_api ex_call
      IssueTokensOp ?h = (Ok (), h')"
    and body: "rpBody (cxResponse (ht_ctx h')) = Some (TokensBody \<lparr>AccessToken = acc\<rparr>)"
    by (rule ex_issue_answer)
  have pre: "pg_ready (w_db (ht_world ?h))" "empty_answer (cxResponse (ht_ctx ?h))"
    "routed echo_Context IssueTokensOp (ht_ctx ?h)"
    "ambient_inputs (asTokenService ex_auth) (clHandler ex_call)"
    using ex_ready ex_new ex_routed ex_ambient_inputs by (simp_all add: ex_call_def)
  have guid: "Ctx_BindGuid echo_Context (ht_ctx ?h) = Ok ''g2''"
    by (simp add: echo_Context_def ex_request_def new_context_def)
  from tokens_need_api_key [OF jwt.jwt_laws_axioms echo.echo_context_axioms plain.openapi_validator_axioms
      run pre(1-3) ex_timely pre(4)] body run guid
  show ?thesis by (simp add: ex_request_metadata)
qed


lemma ex_refresh_answer:
  obtains h' acc where "API_answer plain_jwt Some echo_Context plain_validator ex_limits ex_api ex_call
      RefreshTokensOp (ex_http ex_redis (ex_request RefreshTokensOp ex_bearer)) = (Ok (), h')"
    and "rpBody (cxResponse (ht_ctx h')) = Some (TokensBody \<lparr>AccessToken = acc\<rparr>)"
proof -
  let ?rq = "ex_request RefreshTokensOp ex_bearer"
  obtain acc rt w' where rf: "AuthService_RefreshTokens plain_jwt ex_auth ex_ambient ex_access ex_refresh
      ex_metadata (ht_world (ex_http (ex_counted ex_redis) ?rq)) = (Ok (acc, rt), w')"
    by (rule ex_refresh_on [of "ht_world (ex_http (ex_counted ex_redis) ?rq)"]) simp
  have md: "request_metadata echo_Context (Ctx_Set echo_Context k v (new_context ?rq)) = ex_metadata" for k v
    using ex_request_metadata [of RefreshTokensOp ex_bearer]
    by (simp add: request_metadata_def Ctx_UserAgent_def)
  have ck: "Ctx_Cookie echo_Context (Ctx_Set echo_Context k v (new_context ?rq)) ''refresh_token'' =
      Ok ex_refresh" for k v
    by (simp add: echo_Context_def ex_request_def new_context_def)
  have "CHR ''.'' \<in> set ex_refresh" "CHR ''.'' \<notin> set ''null''" by (simp_all add: ex_refresh_def)
  then have ne: "ex_refresh \<noteq> ''''" "ex_refresh \<noteq> ''null''" by fastforce+
  have hdr: "ex_bearer ''Authorization'' = bearerPrefix @ ex_access"
    "bearerPrefix \<noteq> ''''" "strings_HasPrefix (bearerPrefix @ ex_access) bearerPrefix"
    by (auto simp: ex_bearer_def bearerPrefix_def strings_HasPrefix_iff)
  have "\<exists>h' acc. API_answer plain_jwt Some echo_Context plain_validator ex_limits ex_api ex_call
      RefreshTokensOp (ex_http ex_redis ?rq) = (Ok (), h') \<and>
      rpBody (cxResponse (ht_ctx h')) = Some (TokensBody \<lparr>AccessToken = acc\<rparr>)"
    using rf ne hdr
    by (simp add: API_answer_def ex_run_refresh operation_handler_def Wrapper_RefreshTokens_def ck md
        Controller_RefreshTokens_def controller_interface_def go_try_def lift_world_def lift_ctx_def
        setRefreshCookie_def ctx_write_def Let_def strings_TrimPrefix_append)
  then show thesis using that by blast
qed


text \<open>
  C28. What an error tells the client: \<open>ErrorHandler\<close> leaves an answer that is under way alone, and
  otherwise answers every error once, with a reason as JSON: a session or token error with 401 and
  its text, an \<open>HTTPError\<close> with its code and message, and everything else with 500 and a fixed
  reason, so that no text of an internal error gets out by it. Unless writing fails the client has
  that status and that reason, and a failed write leaves no other. Only on an \<open>HTTPError\<close> whose
  message is not a string it panics, having written nothing.
\<close>

theorem error_handler_reply:
  assumes "echo_context E req resp"
  shows "if rpStatus (resp c) \<noteq> None then ErrorHandler E err c = (Ok (), c)
    else (case if isUnauthorizedTokenError err then (401, StringMessage (error_text err))
            else (case errors_As_HTTPError err of
                    Some he \<Rightarrow> he | None \<Rightarrow> (500, StringMessage ''internal server error'')) of
        (code, StringMessage msg) \<Rightarrow>
          \<exists>w c'. ErrorHandler E err c = (Ok (), c') \<and> Ctx_JSON E code (ReasonBody msg) c = (w, c') \<and>
            req c' = req c \<and>
            (case w of
               Ok _ \<Rightarrow> resp c' = (resp c)\<lparr>rpStatus := Some code, rpBody := Some (ReasonBody msg)\<rparr>
             | Err _ \<Rightarrow> resp c' = resp c \<or>
                 (\<exists>b. (b = None \<or> b = Some (ReasonBody msg)) \<and>
                    resp c' = (resp c)\<lparr>rpStatus := Some code, rpBody := b\<rparr>)
             | Panic _ \<Rightarrow> False)
      | (code, OtherMessage) \<Rightarrow> \<exists>m. ErrorHandler E err c = (Panic m, c))"
proof (cases "rpStatus (resp c) = None")
  case True
  with echo_context.error_handler_replies [OF assms True, of err] show ?thesis
    by (simp add: error_reply_def)
next
  case False
  then show ?thesis by (simp add: ErrorHandler_def echo_context.committed [OF assms])
qed

theorem error_handler_reply_witness:
  "\<exists>c'. ErrorHandler echo_Context (Errorf ''get user: '' (ExtError ''pq: secret''))
      (new_context (ex_request LogoutOp ex_bearer)) = (Ok (), c') \<and>
    rpStatus (cxResponse c') = Some 500 \<and>
    rpBody (cxResponse c') = Some (ReasonBody ''internal server error'')"
proof -
  let ?e = "Errorf ''get user: '' (ExtError ''pq: secret'')" and ?c = "new_context (ex_request LogoutOp ex_bearer)"
  have "fst (Ctx_JSON echo_Context 500 (ReasonBody ''internal server error'') ?c) = Ok ()"
    by (simp add: echo_Context_def ctx_write_def new_context_def)
  moreover have "rpStatus (cxResponse ?c) = None" by (simp add: new_context_def)
  ultimately show ?thesis
    using error_handler_reply [OF echo.echo_context_axioms, of ?c ?e]
    by (fastforce simp: isUnauthorizedTokenError_def)
qed

end
