(* ===== verification/Limiter_Properties.thy ===== *)
theory Limiter_Properties
  imports Server_Instance
begin

text \<open>
  The properties of the rate limiter on the Redis engine, under any failures of its calls: how many
  requests of an address pass in a window, which single request is refused, and when no request is.
\<close>

text \<open>
  C29. In one window no more requests of an address pass than the limit, and those whose call of
  Redis failed: from a counter of \<open>n\<close> that lives until \<open>end'\<close>, with a block time of at least a
  second, the requests of the address that get to the next handler before \<open>end'\<close> are at most
  \<open>Limit - n\<close>, plus one for each of them whose own call fails (with or without having counted it).
  Requests of other addresses may come in between, except from an address whose keys are those of
  this one's counter (\<open>ip:block\<close> and the like).
\<close>

theorem limiter_bound:
  assumes "window_state ip now end' n (redis_view (w_redis w))"
    and "sorted (now # map fst qs)" and "\<forall>q \<in> set qs. fst q < end'"
    and "end' \<le> now + int_Seconds (Interval cfg) * time_Second - time_Millisecond"
    and "int64_range n" and "int64_range (Limit cfg)" and "0 < int_Seconds (BlockTime cfg)"
    and "\<forall>q \<in> set qs. Ctx_RealIP E (snd q) \<noteq> ip \<longrightarrow> rate_key ip \<notin> limiter_keys (Ctx_RealIP E (snd q))"
  shows "w_db (limited E redis_Client cfg ip qs w) \<le> w_db w + nat (Limit cfg - n) +
    length (filter (\<lambda>(q, f). Ctx_RealIP E (snd q) = ip \<and> f \<noteq> NoFault) (zip qs (rc_faults (w_redis w))))"
  by (rule engine_window_bound [OF assms])

definition ex_burst :: "(gotime \<times> reqctx) list" where
  "ex_burst = map (\<lambda>i. (ex_now + i * time_Second, new_context (ex_request LogoutOp ex_bearer))) [0..4]"

text \<open>Of five requests, one with a lost call, at most four pass a limit of three.\<close>

theorem limiter_bound_witness:
  "w_db (limited echo_Context redis_Client ex_limits ''10.0.0.1'' ex_burst
     \<lparr>w_db = 0, w_redis = ex_redis\<lparr>rc_faults := [NoFault, FailAfter ''timeout'']\<rparr>, w_hooks = []\<rparr>) \<le> 4"
proof -
  let ?w = "\<lparr>w_db = 0, w_redis = ex_redis\<lparr>rc_faults := [NoFault, FailAfter ''timeout'']\<rparr>, w_hooks = []\<rparr>"
  have win: "window_state ''10.0.0.1'' ex_now (ex_now + 59 * time_Second) 0 (redis_view (w_redis ?w))"
    by (simp add: window_state_def redis_view_def ex_redis_def server_GET_def)
  have "[0..4] = [0, 1, 2, 3, 4::int]" by (simp add: upto_rec1)
  then have burst: "sorted (ex_now # map fst ex_burst)" "\<forall>q \<in> set ex_burst. fst q < ex_now + 59 * time_Second"
    and faults: "length (filter (\<lambda>(q, f). Ctx_RealIP echo_Context (snd q) = ''10.0.0.1'' \<and> f \<noteq> NoFault)
      (zip ex_burst (rc_faults (w_redis ?w)))) \<le> 1"
    by (simp_all add: ex_burst_def time_units)
  have fits: "ex_now + 59 * time_Second \<le>
      ex_now + int_Seconds (Interval ex_limits) * time_Second - time_Millisecond"
    "int64_range 0" "int64_range (Limit ex_limits)" "0 < int_Seconds (BlockTime ex_limits)"
    by (simp_all add: ex_limits_def int_Seconds_def time_units int64_range_def)
  have own: "\<forall>q \<in> set ex_burst. Ctx_RealIP echo_Context (snd q) \<noteq> ''10.0.0.1'' \<longrightarrow>
      rate_key ''10.0.0.1'' \<notin> limiter_keys (Ctx_RealIP echo_Context (snd q))"
    by (auto simp: ex_burst_def)
  from limiter_bound [OF win burst fits own] faults show ?thesis by (simp add: ex_limits_def)
qed

text \<open>
  C30. A single request, for every state of Redis: the middleware refuses it with 429 and
  \<open>Retry-After\<close> exactly when the call of Redis does not fail, the address's counter has reached the
  limit, and the address is marked as blocked already or the block time is at least a second;
  every other request gets to the next handler. So with a block time of a second or more only the
  counter decides and the block entry is never needed.
\<close>

theorem limiter_decision:
  "RateLimiter E redis_Client cfg now next' h =
    (let ip = Ctx_RealIP E (ht_ctx h); s = w_redis (ht_world h);
         h1 = h\<lparr>ht_world := (ht_world h)\<lparr>w_redis := snd (RateLimiter_allow redis_Client cfg now ip s)\<rparr>\<rparr> in
     if \<not> call_fails s \<and> Limit cfg \<le> request_count (redis_view s) now ip \<and>
        (redis_view s now (block_key ip) \<noteq> None \<or> 0 < int_Seconds (BlockTime cfg))
     then (Err (HTTPError StatusTooManyRequests (StringMessage ''Too many requests'')),
       h1\<lparr>ht_ctx := Ctx_SetHeader E ''Retry-After'' (strconv_FormatInt (int_Seconds (BlockTime cfg)))
         (ht_ctx h)\<rparr>)
     else next' h1)"
  by (rule rate_limiter_engine)

text \<open>The limit is reached and the address is marked as blocked.\<close>

definition ex_full :: redisconn where
  "ex_full = \<lparr>rc_keys = [rate_key ''10.0.0.1'' \<mapsto> (''3'', None), block_key ''10.0.0.1'' \<mapsto> (''1'', None)],
     rc_faults = []\<rparr>"

lemma ex_three: "strconv_ParseInt ''3'' = Some 3"
proof -
  have "strconv_FormatInt 3 = ''3''" by code_simp
  with ParseInt_FormatInt [of 3] show ?thesis by (simp add: int64_range_def)
qed

theorem limiter_decision_witness:
  "fst (RateLimiter echo_Context redis_Client ex_limits ex_now (go_ret ())
      (ex_http ex_full (ex_request LogoutOp ex_bearer))) =
    Err (HTTPError StatusTooManyRequests (StringMessage ''Too many requests''))"
proof -
  have "request_count (redis_view ex_full) ex_now ''10.0.0.1'' = 3"
    using ex_three by (simp add: request_count_def redis_view_def server_GET_def ex_full_def)
  moreover have "\<not> call_fails ex_full" by (simp add: call_fails_def ex_full_def)
  moreover have "0 < int_Seconds (BlockTime ex_limits)"
    by (simp add: ex_limits_def int_Seconds_def time_units)
  ultimately show ?thesis
    unfolding limiter_decision by (simp add: Let_def ex_limits_def)
qed



end
