(* ===== verification/Concurrency.thy ===== *)
theory Concurrency
  imports Session_Properties
begin

text \<open>
  Requests of one refresh token at the same time. \<open>RefreshTokens\<close> reads the session, decides, and
  only then opens the transaction that marks it as used; nothing in between holds the row, and the
  transaction does not look at the status again.
\<close>

text \<open>Two requests whose checks both come before both rotations.\<close>

definition racing_refreshes ::
  "jwt_lib \<Rightarrow> ('d, 'r) AuthService \<Rightarrow> ambient \<Rightarrow> ambient \<Rightarrow> string \<Rightarrow> string \<Rightarrow> UserMetadata \<Rightarrow>
   ('d, 'r) world \<Rightarrow> ((string \<times> string) outcome \<times> (string \<times> string) outcome \<times> ('d, 'r) world) option" where
  "racing_refreshes J as am1 am2 acc rt md w =
     (case AuthService_RefreshTokens_checks J as acc rt md w of
        (Ok (Inr (sel1, s1)), w1) \<Rightarrow>
          (case AuthService_RefreshTokens_checks J as acc rt md w1 of
             (Ok (Inr (sel2, s2)), w2) \<Rightarrow>
               (case AuthService_RefreshTokens_rotation J as am1 sel1 s1 md w2 of
                  (r1, w3) \<Rightarrow>
                    (case AuthService_RefreshTokens_rotation J as am2 sel2 s2 md w3 of
                       (r2, w4) \<Rightarrow> Some (r1, r2, w4)))
           | _ \<Rightarrow> None)
      | _ \<Rightarrow> None)"

lemma rotation_room:
  assumes rdy: "pg_ready (w_db w)" and space: "pg_space (Suc 0) (w_db w)"
    and run: "AuthService_RefreshTokens_rotation J (main_auth srv cfg url) am sel s md w = (Ok p, w')"
  shows "pg_room (w_db w')"
  using run pg_rotate_room [OF rdy space]
  by (auto simp: AuthService_RefreshTokens_rotation_def Let_def lift_db_run split: prod.splits)

lemma main_auth_space:
  assumes "jwt_laws J decode genuine"
  shows "auth_live (main_auth srv cfg url) pg_ready pg_users pg_sessions (stored_form srv)
    (pg_uuid_in srv) redis_denied redis_view J decode genuine (pg_healthy srv) (pg_space n)
    (pg_text_ok srv)"
  unfolding auth_live_def
  using main_auth_service [OF assms, where srv = srv and cfg = cfg and url = url] pg_space_live [of srv n]
  by (simp add: NewAuthService_def)

text \<open>The sessions after a rotation with known random bytes.\<close>

lemma rotation_sessions:
  assumes "jwt_laws J decode genuine" and "pg_ready (w_db w)" and "amRand am = Ok f"
    and "AuthService_RefreshTokens_rotation J (main_auth srv cfg url) am sel s md w = (Ok p, w')"
  obtains new where "pg_sessions (w_db w') =
      (use_session sel (pg_sessions (w_db w)))(random_selector f \<mapsto> (new, ''active''))"
    and "rsUserID new = rsUserID s"
proof -
  from auth_service.rotation [OF main_auth_service [OF assms(1)] assms(2,4)] assms(3)
  show thesis
    by (auto simp: refresh_rotated_def rotate_spec_def CreateRefreshToken_Ok new_session_def
        pg.nrm_simps(2) intro!: that split: prod.splits)
qed

text \<open>
  Rotation is not serialised: while the database answers, two requests with the same valid
  pair whose checks both precede the rotations both succeed, and leave two active sessions with two
  different refresh tokens, although the token was good for one. (The second rotation marks a
  session that is used already, and no reuse is detected.)
\<close>

lemma concurrent_refreshes_both_succeed:
  assumes "jwt_laws J decode genuine" and h: "pg_healthy srv (w_db w)" and sp: "pg_space 1 (w_db w)"
    and sel: "pg_text_ok srv sel" and v: "valid_refresh decode acc rt md (pg_sessions (w_db w)) sel s"
    and inp1: "token_inputs (asTokenService (main_auth srv cfg url)) (rsUserID s) (amClock am1 0) (amUUID am1)"
    and inp2: "token_inputs (asTokenService (main_auth srv cfg url)) (rsUserID s) (amClock am2 0) (amUUID am2)"
    and rnd: "amRand am1 = Ok f1" "amRand am2 = Ok f2" "random_selector f1 \<noteq> random_selector f2"
    and fresh: "pg_sessions (w_db w) (random_selector f1) = None" "pg_sessions (w_db w) (random_selector f2) = None"
    and texts: "session_texts (pg_text_ok srv) (new_session (main_auth srv cfg url) (random_selector f1)
      (hex_EncodeToString (sha256_Sum256 (random_verifier f1))) md (amUUID am1) (amClock am1 0))"
      "session_texts (pg_text_ok srv) (new_session (main_auth srv cfg url) (random_selector f2)
      (hex_EncodeToString (sha256_Sum256 (random_verifier f2))) md (amUUID am2) (amClock am2 0))"
  shows "\<exists>acc1 acc2 w' s1 s2. racing_refreshes J (main_auth srv cfg url) am1 am2 acc rt md w =
      Some (Ok (acc1, random_selector f1 @ ''.'' @ random_verifier f1),
            Ok (acc2, random_selector f2 @ ''.'' @ random_verifier f2), w') \<and>
    pg_sessions (w_db w') (random_selector f1) = Some (s1, ''active'') \<and>
    pg_sessions (w_db w') (random_selector f2) = Some (s2, ''active'') \<and>
    rsUserID s1 = rsUserID s \<and> rsUserID s2 = rsUserID s"
proof -
  note live = main_auth_space [OF assms(1), where srv = srv and cfg = cfg and url = url and n = 1]
  note live0 = main_auth_live [OF assms(1), where srv = srv and cfg = cfg and url = url]
  let ?chk = "AuthService_RefreshTokens_checks J (main_auth srv cfg url) acc rt md"
  let ?rot = "\<lambda>am. AuthService_RefreshTokens_rotation J (main_auth srv cfg url) am sel s md"
  obtain d1 where c1: "?chk w = (Ok (Inr (sel, s)), w\<lparr>w_db := d1, w_hooks := w_hooks w @ notified s md\<rparr>)"
    (is "_ = (_, ?w1)") "pg_healthy srv d1" "pg_sessions d1 = pg_sessions (w_db w)" "pg_space 1 d1"
    using auth_live.checks_pass [OF live h sel v] sp by metis
  have h1: "pg_healthy srv (w_db ?w1)" "pg_space 1 (w_db ?w1)" and ses1: "pg_sessions (w_db ?w1) = pg_sessions (w_db w)"
    using c1 by simp_all
  have v1: "valid_refresh decode acc rt md (pg_sessions (w_db ?w1)) sel s" using v by (simp only: ses1)
  obtain d2 where d2: "?chk ?w1 = (Ok (Inr (sel, s)), ?w1\<lparr>w_db := d2, w_hooks := w_hooks ?w1 @ notified s md\<rparr>)"
    "pg_healthy srv d2" "pg_sessions d2 = pg_sessions (w_db ?w1)" "pg_space 1 d2"
    using auth_live.checks_pass [OF live h1(1) sel v1] h1(2) by metis
  obtain w2 where c2: "?chk ?w1 = (Ok (Inr (sel, s)), w2)" "pg_healthy srv (w_db w2)"
    "pg_sessions (w_db w2) = pg_sessions (w_db w)" "pg_space 1 (w_db w2)"
    by (rule that [OF d2(1)]) (use d2 ses1 in simp_all)
  have act: "pg_sessions (w_db w2) sel = Some (s, ''active'')" using v by (auto simp: valid_refresh_def c2(3))
  obtain acc1 w3 where r1: "?rot am1 w2 = (Ok (acc1, random_selector f1 @ ''.'' @ random_verifier f1), w3)"
    "pg_healthy srv (w_db w3)"
    by (rule auth_live.rotation_succeeds [OF live c2(2,4) sel act inp1 rnd(1) _ texts(1)])
      (use fresh in \<open>simp_all add: c2(3)\<close>)
  have rdy: "pg_ready (w_db w2)" "pg_ready (w_db w3)" using c2(2) r1(2) by (simp_all add: pg_healthy_def)
  have room3: "pg_room (w_db w3)" using rotation_room [OF rdy(1) _ r1(1)] c2(4) by simp
  obtain s1 where ses3: "pg_sessions (w_db w3) =
      (use_session sel (pg_sessions (w_db w2)))(random_selector f1 \<mapsto> (s1, ''active''))"
    "rsUserID s1 = rsUserID s"
    by (rule rotation_sessions [OF assms(1) rdy(1) rnd(1) r1(1)])
  have neq: "sel \<noteq> random_selector f1" "sel \<noteq> random_selector f2" using act fresh by (auto simp: c2(3))
  have used: "pg_sessions (w_db w3) sel = Some (s, ''used'')"
    using neq act by (simp add: ses3 use_session_same c2(3))
  have fresh3: "pg_sessions (w_db w3) (random_selector f2) = None"
    using rnd(3) fresh(2) neq by (simp add: ses3 use_session_other c2(3))
  obtain acc2 w4 where r2: "?rot am2 w3 = (Ok (acc2, random_selector f2 @ ''.'' @ random_verifier f2), w4)"
    by (rule auth_live.rotation_succeeds [OF live0 r1(2) room3 sel used inp2 rnd(2) fresh3 texts(2)])
  obtain s2 where ses4: "pg_sessions (w_db w4) =
      (use_session sel (pg_sessions (w_db w3)))(random_selector f2 \<mapsto> (s2, ''active''))"
    "rsUserID s2 = rsUserID s"
    by (rule rotation_sessions [OF assms(1) rdy(2) rnd(2) r2])
  have "racing_refreshes J (main_auth srv cfg url) am1 am2 acc rt md w =
      Some (Ok (acc1, random_selector f1 @ ''.'' @ random_verifier f1),
            Ok (acc2, random_selector f2 @ ''.'' @ random_verifier f2), w4)"
    by (simp add: racing_refreshes_def c1(1) c2(1) r1(1) r2)
  then show ?thesis
    using neq rnd(3) by (simp add: ses4 ses3 use_session_other)
qed

section \<open>A refresh against a logout\<close>

text \<open>A logout of the user between the checks and the rotation of a refresh.\<close>

definition racing_logout ::
  "jwt_lib \<Rightarrow> ('d, 'r) AuthService \<Rightarrow> ambient \<Rightarrow> clock \<Rightarrow> string \<Rightarrow> string \<Rightarrow> string \<Rightarrow> UserMetadata \<Rightarrow>
   ('d, 'r) world \<Rightarrow> (unit outcome \<times> (string \<times> string) outcome \<times> ('d, 'r) world) option" where
  "racing_logout J as am clk acc rt tok md w =
     (case AuthService_RefreshTokens_checks J as acc rt md w of
        (Ok (Inr (sel, s)), w1) \<Rightarrow>
          (case AuthService_Logout J as clk tok w1 of
             (r1, w2) \<Rightarrow>
               (case AuthService_RefreshTokens_rotation J as am sel s md w2 of
                  (r2, w3) \<Rightarrow> Some (r1, r2, w3)))
      | _ \<Rightarrow> None)"

text \<open>What a successful logout does to the database.\<close>

lemma validated_range:
  assumes "TokenService_ValidateAccessTokenAndGetUserID J ts clk tok s = (Ok i, s')"
  shows "int64_range i"
proof -
  from assms obtain claims :: jwtClaims where "strconv_ParseInt (jcUserID claims) = Some i"
    unfolding TokenService_ValidateAccessTokenAndGetUserID_def go_try_def
    by (auto split: prod.split_asm outcome.split_asm if_split_asm option.split_asm claims_value.split_asm)
  then show ?thesis by (rule ParseInt_range)
qed

lemma logout_database:
  assumes "AuthService_Logout J as clk tok w = (Ok u, w')"
  obtains i where "DeleteAllUserSessions (Sessions (asStorage as)) i (w_db w) = (Ok (), w_db w')"
    and "int64_range i"
  using assms by (auto simp: AuthService_Logout_def lift_db_run lift_redis_run dest: validated_range)

lemma logout_healthy:
  assumes "pg_healthy srv (w_db w)" and "pg_room (w_db w)"
    and "AuthService_Logout J (main_auth srv cfg url) clk tok w = (Ok u, w')"
  shows "pg_healthy srv (w_db w')" and "pg_room (w_db w')"
proof -
  obtain i where d: "DeleteAllUserSessions (Sessions (pg_storage srv)) i (w_db w) = (Ok (), w_db w')"
    and i: "int64_range i"
    by (rule logout_database [OF assms(3)]) (simp add: NewAuthService_def)
  from pg_users_live(1) [OF assms(1) i d] show "pg_healthy srv (w_db w')" by simp
  from pg_delete_all_seqs [OF _ d] assms(1,2) show "pg_room (w_db w')"
    by (simp add: pg_healthy_def same_seqs_def pg_room_def)
qed

text \<open>
  A logout does not reach a refresh that is under way: when a successful logout comes between
  the checks of a valid refresh and its rotation, the refresh still succeeds while the database
  answers, and leaves an active session of the user, with a refresh token the client gets, after
  the logout has deleted all of them.
\<close>

lemma logout_misses_running_refresh:
  assumes "jwt_laws J decode genuine" and h: "pg_healthy srv (w_db w)" and room: "pg_room (w_db w)"
    and sel: "pg_text_ok srv sel" and v: "valid_refresh decode acc rt md (pg_sessions (w_db w)) sel s"
    and inp: "token_inputs (asTokenService (main_auth srv cfg url)) (rsUserID s) (amClock am 0) (amUUID am)"
    and rnd: "amRand am = Ok f" and fresh: "pg_sessions (w_db w) (random_selector f) = None"
    and texts: "session_texts (pg_text_ok srv) (new_session (main_auth srv cfg url) (random_selector f)
      (hex_EncodeToString (sha256_Sum256 (random_verifier f))) md (amUUID am) (amClock am 0))"
    and mono: "mono clk"
    and race: "racing_logout J (main_auth srv cfg url) am clk acc rt tok md w = Some (Ok (), r, w')"
  shows "\<exists>newAccess new. r = Ok (newAccess, random_selector f @ ''.'' @ random_verifier f) \<and>
    pg_sessions (w_db w') (random_selector f) = Some (new, ''active'') \<and> rsUserID new = rsUserID s"
proof -
  note live = main_auth_live [OF assms(1), where srv = srv and cfg = cfg and url = url]
  obtain d1 where c: "AuthService_RefreshTokens_checks J (main_auth srv cfg url) acc rt md w =
      (Ok (Inr (sel, s)), w\<lparr>w_db := d1, w_hooks := w_hooks w @ notified s md\<rparr>)" (is "_ = (_, ?w1)")
    and d1: "pg_healthy srv d1" "pg_sessions d1 = pg_sessions (w_db w)" "pg_room d1"
    using auth_live.checks_pass [OF live h sel v] room by metis
  obtain w2 where out: "AuthService_Logout J (main_auth srv cfg url) clk tok ?w1 = (Ok (), w2)"
    and rot: "AuthService_RefreshTokens_rotation J (main_auth srv cfg url) am sel s md w2 = (r, w')"
    using race by (auto simp: racing_logout_def c split: prod.splits)
  have rdy1: "pg_ready (w_db ?w1)" using d1(1) by (simp add: pg_healthy_def)
  have h2: "pg_healthy srv (w_db w2)" "pg_room (w_db w2)"
    by (rule logout_healthy [OF _ _ out]; simp add: d1)+
  obtain uid where eff: "pg_users (w_db w2) = pg_users d1"
    "pg_sessions (w_db w2) = revoke_user uid (pg_sessions d1)"
    using auth_service.logout [OF main_auth_service [OF assms(1)] rdy1 mono out] by auto
  have user: "pg_users (w_db w2) (rsUserID s) \<noteq> None"
    using pg_owner_exists [of d1 sel s] rdy1 v d1(2) by (simp add: eff(1) valid_refresh_def) blast
  have fresh2: "pg_sessions (w_db w2) (random_selector f) = None"
    using fresh by (simp add: eff(2) d1(2) revoke_user_def)
  obtain na w3 where run: "AuthService_RefreshTokens_rotation J (main_auth srv cfg url) am sel s md w2 =
      (Ok (na, random_selector f @ ''.'' @ random_verifier f), w3)"
    by (rule auth_live.rotation_succeeds_user [OF live h2 sel user inp rnd fresh2 texts])
  have "pg_ready (w_db w2)" using h2(1) by (simp add: pg_healthy_def)
  from rotation_sessions [OF assms(1) this rnd run] obtain new where
    "pg_sessions (w_db w3) = (use_session sel (pg_sessions (w_db w2)))(random_selector f \<mapsto> (new, ''active''))"
    "rsUserID new = rsUserID s" .
  with run rot show ?thesis by simp
qed

end
