(* ===== verification/System.thy ===== *)
theory System
  imports Server_Instance Concurrency
begin

text \<open>
  The running server as a step relation: requests one after the other, with whatever happens to
  Redis in between (entries expire, other programs write). What every request keeps is proved in
  \<open>gateway\<close>; the invariants of all reachable states follow by rule induction.
\<close>

section \<open>How sessions evolve\<close>

text \<open>
  A session may go, may become used, and is otherwise as it was; new ones have selectors of \<open>N\<close>.
\<close>

definition evolves :: "string set \<Rightarrow> session_store \<Rightarrow> session_store \<Rightarrow> bool" where
  "evolves N m m' \<longleftrightarrow> (\<forall>sel.
     case m sel of
       None \<Rightarrow> m' sel = None \<or> sel \<in> N
     | Some (s, st) \<Rightarrow> m' sel \<in> {None, Some (s, st), Some (s, ''used'')})"

lemma evolves_refl [simp]: "evolves N m m"
  by (auto simp: evolves_def split: option.splits)

lemma evolves_revoke [simp]: "evolves N m (revoke_user i m)"
  by (auto simp: evolves_def revoke_user_def split: option.splits)

lemma evolves_use: "evolves N m (use_session sel m)"
  by (auto simp: evolves_def use_session_def split: option.splits)

lemma evolves_new: "evolves N m m' \<Longrightarrow> m sel = None \<Longrightarrow> sel \<in> N \<Longrightarrow> evolves N m (m'(sel \<mapsto> x))"
  unfolding evolves_def
proof
  fix k
  assume m: "\<forall>sel. case m sel of None \<Rightarrow> m' sel = None \<or> sel \<in> N
      | Some (s, st) \<Rightarrow> m' sel \<in> {None, Some (s, st), Some (s, ''used'')}"
    and new: "m sel = None" "sel \<in> N"
  from m [rule_format, of k] new show "case m k of None \<Rightarrow> (m'(sel \<mapsto> x)) k = None \<or> k \<in> N
      | Some (s, st) \<Rightarrow> (m'(sel \<mapsto> x)) k \<in> {None, Some (s, st), Some (s, ''used'')}"
    by (cases "k = sel") (auto split: option.splits)
qed

text \<open>The selectors a call may draw.\<close>

definition drawn :: "call \<Rightarrow> string set" where
  "drawn cl = {sel. \<exists>rt vh. TokenService_CreateRefreshToken (amRand (clHandler cl)) = Ok (rt, sel, vh)}"

lemma new_session_selector [simp]: "rsSelector (new_session as sel vh md jti now) = sel"
  by (simp add: new_session_def)

lemma evolves_rotated:
  "refresh_rotated nrm as (clHandler cl) sel s md rt st st' \<Longrightarrow>
   fst st' = fst st \<and> evolves (drawn cl) (snd st) (snd st')"
  by (auto simp: refresh_rotated_def rotate_spec_def drawn_def intro!: evolves_new evolves_use)

lemma evolves_issued:
  assumes "TokenService_CreateRefreshToken (amRand (clHandler cl)) = Ok (rt, sel, vh)"
    and "issue_spec nrm gin guid (new_session as sel vh md jti now) st u st'"
  shows "fst st \<subseteq>\<^sub>m fst st' \<and> evolves (drawn cl) (snd st) (snd st')"
  using assms by (auto simp: issue_spec_def drawn_def map_le_def intro!: evolves_new)

section \<open>Every request keeps the store in order\<close>

context gateway begin

lemma request_step:
  assumes run: "API_answer J up E V rlc (new_server as R sc fs) cl op h = (r, h')"
    and rdy: "ready (w_db (ht_world h))" and new: "empty_answer (resp (ht_ctx h))"
    and path: "routed E op (ht_ctx h)" and time: "timely cl"
  shows "ready (w_db (ht_world h')) \<and> usr (w_db (ht_world h)) \<subseteq>\<^sub>m usr (w_db (ht_world h')) \<and>
    evolves (drawn cl) (ses (w_db (ht_world h))) (ses (w_db (ht_world h')))"
proof -
  from run obtain r1 h1 where r1: "API_Run J up E V rlc (new_server as R sc fs) cl op h = (r1, h1)"
    and fin: "ht_world h' = ht_world h1" by (rule api_answer)
  from new have "rpStatus (resp (ht_ctx h)) = None" by (simp add: empty_answer_def)
  from r1 this path time show ?thesis
  proof (cases rule: api_run)
    case (Stopped code m)
    with fin rdy show ?thesis by simp
  next
    case (Handled h2 s)
    have rdy2: "ready (w_db (ht_world h2))" and new2: "rpStatus (resp (ht_ctx h2)) = None"
      and mono: "mono (amClock (clHandler cl))"
      using rdy new time by (simp_all add: Handled empty_answer_def timely_def)
    show ?thesis
    proof (cases op)
      case LogoutOp
      with Handled(1) have run2: "Wrapper_Logout E (Interface up) (clHandler cl) h2 = (r1, h1)"
        by (simp add: operation_handler_def)
      from Handled(7) LogoutOp obtain tok where "Ctx_Get E (ht_ctx h2) MwTokenKey = Some (CtxString tok)"
        by auto
      from logout_handler [OF run2 rdy2 new2 mono this]
      have "ht_world h1 = ht_world h2 \<or>
        (\<exists>r2. AuthService_Logout J as (amClock (clHandler cl)) tok (ht_world h2) = (r2, ht_world h1))"
        by (auto split: outcome.splits)
      then show ?thesis
      proof (elim disjE exE)
        fix r2
        assume "AuthService_Logout J as (amClock (clHandler cl)) tok (ht_world h2) = (r2, ht_world h1)"
        from logout [OF rdy2 mono this] show ?thesis
          by (auto simp: fin Handled(2) split: outcome.splits)
      qed (use rdy in \<open>simp add: fin Handled\<close>)
    next
      case IssueTokensOp
      with Handled(1) have run2: "Wrapper_IssueTokens E (Interface up) (clHandler cl) h2 = (r1, h1)"
        by (simp add: operation_handler_def)
      from issue_handler [OF run2 rdy2 new2] have "ht_world h1 = ht_world h2 \<or>
        (\<exists>guid md r2. AuthService_IssueTokens J as (clHandler cl) guid md (ht_world h2) = (r2, ht_world h1))"
        by blast
      then show ?thesis
      proof (elim disjE exE)
        fix guid md r2
        assume "AuthService_IssueTokens J as (clHandler cl) guid md (ht_world h2) = (r2, ht_world h1)"
        from issue_tokens [OF rdy2 this] show ?thesis
          by (auto simp: fin Handled(2) split: outcome.splits dest!: evolves_issued)
      qed (use rdy in \<open>simp add: fin Handled\<close>)
    next
      case RefreshTokensOp
      with Handled(1) have run2: "Wrapper_RefreshTokens E (Interface up) (clHandler cl) h2 = (r1, h1)"
        by (simp add: operation_handler_def)
      from run2 rdy2 new2 show ?thesis
      proof (cases rule: refresh_handler)
        case (Refused m)
        with rdy show ?thesis by (simp add: fin Handled)
      next
        case (Ran rt acc r2)
        from refresh [OF rdy2 Ran(5)] show ?thesis
          by (auto simp: fin Handled(2) split: outcome.splits dest!: evolves_rotated)
      qed
    next
      case GetUserGUIDOp
      with Handled(1) have run2: "Wrapper_GetUserGUID E (Interface up) (clHandler cl) h2 = (r1, h1)"
        by (simp add: operation_handler_def)
      from Handled(7) GetUserGUIDOp obtain uid where "Ctx_Get E (ht_ctx h2) MwUserIDKey = Some (CtxInt64 uid)"
        by auto
      from guid_handler [OF run2 rdy2 new2 this] rdy show ?thesis
        by (simp add: unchanged_def fin Handled)
    qed
  qed
qed

end

section \<open>The running server\<close>

text \<open>
  One request, from a fresh context: the limiter, the validator and the handler of its route, and
  the error handler. Between requests anything may happen to Redis, nothing to the database.
\<close>

inductive server_step ::
  "jwt_lib \<Rightarrow> (string \<Rightarrow> string option) \<Rightarrow> 'c EchoContext \<Rightarrow> ('d, 'r, 'c) validator \<Rightarrow>
   RateLimiterConfig \<Rightarrow> ('d, 'r) API \<Rightarrow> ('c \<Rightarrow> bool) \<Rightarrow> call option \<Rightarrow>
   ('d, 'r) world \<Rightarrow> ('d, 'r) world \<Rightarrow> bool"
  for J up E V rlc a new where
  Request: "API_answer J up E V rlc a cl op h = (r, h') \<Longrightarrow> new (ht_ctx h) \<Longrightarrow>
    routed E op (ht_ctx h) \<Longrightarrow> timely cl \<Longrightarrow>
    server_step J up E V rlc a new (Some cl) (ht_world h) (ht_world h')"
| Elsewhere: "w_db w' = w_db w \<Longrightarrow> server_step J up E V rlc a new None w w'"

inductive server_run ::
  "jwt_lib \<Rightarrow> (string \<Rightarrow> string option) \<Rightarrow> 'c EchoContext \<Rightarrow> ('d, 'r, 'c) validator \<Rightarrow>
   RateLimiterConfig \<Rightarrow> ('d, 'r) API \<Rightarrow> ('c \<Rightarrow> bool) \<Rightarrow> call list \<Rightarrow>
   ('d, 'r) world \<Rightarrow> ('d, 'r) world \<Rightarrow> bool"
  for J up E V rlc a new where
  Start: "server_run J up E V rlc a new [] w w"
| Step: "server_run J up E V rlc a new cls w w1 \<Longrightarrow> server_step J up E V rlc a new c w1 w2 \<Longrightarrow>
    server_run J up E V rlc a new (cls @ (case c of None \<Rightarrow> [] | Some cl \<Rightarrow> [cl])) w w2"

inductive_cases server_stepE: "server_step J up E V rlc a new c w w'"

text \<open>A session once it is used: it stays so, or is gone.\<close>

definition spent :: "string \<Rightarrow> session_store \<Rightarrow> bool" where
  "spent sel m \<longleftrightarrow> (\<forall>s st. m sel = Some (s, st) \<longrightarrow> st = ''used'')"

lemma spent_evolves: "evolves N m m' \<Longrightarrow> sel \<notin> N \<Longrightarrow> spent sel m \<Longrightarrow> spent sel m'"
proof -
  assume e: "evolves N m m'" and n: "sel \<notin> N" and p: "spent sel m"
  from e have "case m sel of None \<Rightarrow> m' sel = None \<or> sel \<in> N
      | Some (s, st) \<Rightarrow> m' sel \<in> {None, Some (s, st), Some (s, ''used'')}"
    by (simp add: evolves_def)
  with n p show ?thesis by (auto simp: spent_def split: option.splits)
qed

context gateway begin

abbreviation "new_request \<equiv> \<lambda>c. empty_answer (resp c)"

lemma step_keeps:
  assumes "server_step J up E V rlc (new_server as R sc fs) new_request c w w'" and "ready (w_db w)"
  shows "ready (w_db w') \<and> usr (w_db w) \<subseteq>\<^sub>m usr (w_db w') \<and>
    evolves (case c of None \<Rightarrow> {} | Some cl \<Rightarrow> drawn cl) (ses (w_db w)) (ses (w_db w'))"
  using assms(1)
proof (rule server_stepE)
  fix op h r h' cl
  assume "w = ht_world h" "w' = ht_world h'" "c = Some cl"
    "API_answer J up E V rlc (new_server as R sc fs) cl op h = (r, h')"
    "new_request (ht_ctx h)" "routed E op (ht_ctx h)" "timely cl"
  with request_step [where cl = cl and op = op and h = h and r = r and h' = h'] assms(2) show ?thesis by simp
qed (use assms(2) in simp)

lemma run_keeps:
  assumes "server_run J up E V rlc (new_server as R sc fs) new_request cls w w'" and "ready (w_db w)"
  shows "ready (w_db w') \<and> usr (w_db w) \<subseteq>\<^sub>m usr (w_db w') \<and>
    (\<forall>sel. spent sel (ses (w_db w)) \<longrightarrow> sel \<notin> \<Union> (drawn ` set cls) \<longrightarrow> spent sel (ses (w_db w')))"
  using assms
proof (induction rule: server_run.induct)
  case (Start w)
  then show ?case by simp
next
  case (Step cls w w1 c w2)
  then have ih: "ready (w_db w1)" "usr (w_db w) \<subseteq>\<^sub>m usr (w_db w1)"
    "\<forall>sel. spent sel (ses (w_db w)) \<longrightarrow> sel \<notin> \<Union> (drawn ` set cls) \<longrightarrow> spent sel (ses (w_db w1))"
    by simp_all
  from step_keeps [OF Step.hyps(2) ih(1)] ih show ?case
    by (auto intro: map_le_trans spent_evolves split: option.splits)
qed

text \<open>What the body of an answer to a refresh says about the session of its cookie.\<close>

lemma refresh_answered:
  assumes run: "API_answer J up E V rlc (new_server as R sc fs) cl RefreshTokensOp h = (r, h')"
    and rdy: "ready (w_db (ht_world h))" and new: "empty_answer (resp (ht_ctx h))"
    and path: "routed E RefreshTokensOp (ht_ctx h)" and time: "timely cl"
    and body: "rpBody (resp (ht_ctx h')) = Some (TokensBody b)"
  obtains rt sel ver s where "Ctx_Cookie E (ht_ctx h) ''refresh_token'' = Ok rt"
    and "strings_Split (CHR ''.'') rt = [sel, ver]" and "ses (w_db (ht_world h)) sel = Some (s, ''active'')"
    and "ses (w_db (ht_world h')) sel = Some (s, ''used'')"
proof -
  from refresh_request [OF run rdy new path time] body obtain rt acc sel s newRt
    where ck: "Ctx_Cookie E (ht_ctx h) ''refresh_token'' = Ok rt"
      and v: "valid_refresh decode acc rt (request_metadata E (ht_ctx h)) (ses (w_db (ht_world h))) sel s"
      and rot: "refresh_rotated nrm as (clHandler cl) sel s (request_metadata E (ht_ctx h)) newRt
        (pair (w_db (ht_world h))) (pair (w_db (ht_world h')))"
    by blast
  from v obtain ver where sel: "strings_Split (CHR ''.'') rt = [sel, ver]"
    "ses (w_db (ht_world h)) sel = Some (s, ''active'')" by (auto simp: valid_refresh_def)
  from rot sel(2) have "ses (w_db (ht_world h')) sel = Some (s, ''used'')"
    by (auto simp: refresh_rotated_def rotate_spec_def use_session_same)
  with ck sel show thesis by (rule that)
qed

lemma refresh_once:
  assumes first: "API_answer J up E V rlc (new_server as R sc fs) cl RefreshTokensOp h = (r, h1)"
    "ready (w_db (ht_world h))" "empty_answer (resp (ht_ctx h))" "routed E RefreshTokensOp (ht_ctx h)"
    "timely cl" "rpBody (resp (ht_ctx h1)) = Some (TokensBody b)"
    and run: "server_run J up E V rlc (new_server as R sc fs) new_request cls (ht_world h1) w"
    and rt: "Ctx_Cookie E (ht_ctx h) ''refresh_token'' = Ok rt"
      "\<forall>sel ver. strings_Split (CHR ''.'') rt = [sel, ver] \<longrightarrow> sel \<notin> \<Union> (drawn ` set cls)"
    and again: "API_answer J up E V rlc (new_server as R sc fs) cl2 RefreshTokensOp h2 = (r2, h3)"
      "ht_world h2 = w" "empty_answer (resp (ht_ctx h2))" "routed E RefreshTokensOp (ht_ctx h2)"
      "timely cl2" "Ctx_Cookie E (ht_ctx h2) ''refresh_token'' = Ok rt"
  shows "rpBody (resp (ht_ctx h3)) \<noteq> Some (TokensBody b2)"
proof
  assume body: "rpBody (resp (ht_ctx h3)) = Some (TokensBody b2)"
  obtain sel ver s where sel: "strings_Split (CHR ''.'') rt = [sel, ver]"
    "ses (w_db (ht_world h1)) sel = Some (s, ''used'')"
    by (rule refresh_answered [OF first]) (use rt(1) in simp)
  have rdy: "ready (w_db (ht_world h1))" using request_step [OF first(1-5)] by simp
  have "spent sel (ses (w_db (ht_world h1)))" "sel \<notin> \<Union> (drawn ` set cls)"
    using sel rt(2) by (auto simp: spent_def)
  with run_keeps [OF run rdy] have "ready (w_db w)" "spent sel (ses (w_db w))" by simp_all
  moreover from this(1) have "ready (w_db (ht_world h2))" by (simp add: again(2))
  then obtain s' where "ses (w_db w) sel = Some (s', ''active'')"
    by (rule refresh_answered [OF again(1) _ again(3-5) body]) (use again(2,6) sel(1) in auto)
  ultimately show False by (auto simp: spent_def)
qed

end

end
