(* ===== verification/System_Properties.thy ===== *)
theory System_Properties
  imports System Server_Properties
begin

text \<open>
  The properties of the running server: what holds in every state that requests of any clients
  reach, whatever calls of the database and of Redis fail on the way.
\<close>

text \<open>
  C34. The state of the database is in order after any sequence of requests: the tables decode to
  users and sessions with unique IDs, GUIDs and selectors and no transaction is open
  (\<open>pg_ready\<close>), every session is filed under its selector and belongs to a user that exists, no
  two users share a GUID, and no user is ever lost or renamed.
\<close>

theorem store_stays_in_order:
  assumes "jwt_laws J decode genuine" and "echo_context E req resp" and "openapi_validator V"
    and "server_run J up E V rlc (main_server srv cfg url sc fs) (\<lambda>c. empty_answer (resp c)) cls w w'"
    and "pg_ready (w_db w)"
  shows "pg_ready (w_db w') \<and> pg_users (w_db w) \<subseteq>\<^sub>m pg_users (w_db w') \<and>
    (\<forall>sel s st. pg_sessions (w_db w') sel = Some (s, st) \<longrightarrow>
       rsSelector s = sel \<and> pg_users (w_db w') (rsUserID s) \<noteq> None) \<and>
    (\<forall>i j g. pg_users (w_db w') i = Some g \<longrightarrow> pg_users (w_db w') j = Some g \<longrightarrow> i = j)"
proof -
  from gateway.run_keeps [OF main_gateway [OF assms(1-3)] assms(4,5)]
  have "pg_ready (w_db w')" "pg_users (w_db w) \<subseteq>\<^sub>m pg_users (w_db w')" by simp_all
  with pg_selector_key pg_owner_exists pg_guid_unique show ?thesis by blast
qed

text \<open>A run of the example: two requests and an expiry in Redis in between.\<close>

abbreviation ex_serves ::
  "call list \<Rightarrow> (pgconn, redisconn) world \<Rightarrow> (pgconn, redisconn) world \<Rightarrow> bool" where
  "ex_serves \<equiv> server_run plain_jwt Some echo_Context plain_validator ex_limits ex_api
     (\<lambda>c. empty_answer (cxResponse c))"

lemma ex_serve:
  assumes "ex_serves cls w (ht_world h)" and "ht_ctx h = new_context (ex_request op hdr)"
    and "API_answer plain_jwt Some echo_Context plain_validator ex_limits ex_api ex_call op h = (r, h')"
  shows "ex_serves (cls @ [ex_call]) w (ht_world h')"
  using server_run.Step [OF assms(1) server_step.Request [OF assms(3) _ _ ex_timely]]
  by (simp add: assms(2) ex_routed empty_answer_def)

theorem store_stays_in_order_witness:
  "\<exists>w'. ex_serves [ex_call, ex_call] (ht_world (ex_http ex_redis (ex_request LogoutOp ex_bearer))) w' \<and>
    pg_ready (w_db w') \<and> pg_users (w_db w') 1 = Some ''g1''"
proof -
  let ?h = "ex_http ex_redis (ex_request LogoutOp ex_bearer)"
  let ?ans = "API_answer plain_jwt Some echo_Context plain_validator ex_limits ex_api ex_call"
  obtain r1 h1 where a1: "?ans LogoutOp ?h = (r1, h1)" by fastforce
  have s1: "ex_serves [ex_call] (ht_world ?h) (ht_world h1)"
    using ex_serve [OF server_run.Start _ a1, where hdr = ex_bearer] by simp
  let ?h2 = "\<lparr>ht_world = (ht_world h1)\<lparr>w_redis := ex_redis\<rparr>,
    ht_ctx = new_context (ex_request GetUserGUIDOp ex_bearer)\<rparr>"
  have s2: "ex_serves [ex_call] (ht_world ?h) (ht_world ?h2)"
    using server_run.Step [OF s1 server_step.Elsewhere] by fastforce
  obtain r2 h2 where a2: "?ans GetUserGUIDOp ?h2 = (r2, h2)" by fastforce
  have s3: "ex_serves [ex_call, ex_call] (ht_world ?h) (ht_world h2)"
    using ex_serve [OF s2 _ a2, where hdr = ex_bearer] by simp
  have "pg_ready (w_db (ht_world ?h))" using ex_ready by simp
  from store_stays_in_order [OF jwt.jwt_laws_axioms echo.echo_context_axioms
      plain.openapi_validator_axioms s3 this]
  have "pg_ready (w_db (ht_world h2))" "pg_users (w_db (ht_world h2)) 1 = Some ''g1''"
    by (auto simp: map_le_def ex_users split: if_splits)
  with s3 show ?thesis by blast
qed

text \<open>
  C35. A refresh token is good for one answer in the life of the server: once a refresh has
  answered with tokens, no later request with the same cookie is answered with tokens, after any
  requests of any clients in between, with any access token and from any client, as long as no
  call draws the token's 128-bit selector again.
\<close>

theorem refresh_token_spent_forever:
  assumes "jwt_laws J decode genuine" and "echo_context E req resp" and "openapi_validator V"
    and "API_answer J up E V rlc (main_server srv cfg url sc fs) cl RefreshTokensOp h = (r, h1)"
    and "pg_ready (w_db (ht_world h))" and "empty_answer (resp (ht_ctx h))"
    and "routed E RefreshTokensOp (ht_ctx h)" and "timely cl"
    and "rpBody (resp (ht_ctx h1)) = Some (TokensBody b)"
    and "server_run J up E V rlc (main_server srv cfg url sc fs) (\<lambda>c. empty_answer (resp c)) cls
      (ht_world h1) w"
    and "Ctx_Cookie E (ht_ctx h) ''refresh_token'' = Ok rt"
    and "\<forall>sel ver. strings_Split (CHR ''.'') rt = [sel, ver] \<longrightarrow> sel \<notin> \<Union> (drawn ` set cls)"
    and "API_answer J up E V rlc (main_server srv cfg url sc fs) cl2 RefreshTokensOp h2 = (r2, h3)"
    and "ht_world h2 = w" and "empty_answer (resp (ht_ctx h2))"
    and "routed E RefreshTokensOp (ht_ctx h2)" and "timely cl2"
    and "Ctx_Cookie E (ht_ctx h2) ''refresh_token'' = Ok rt"
  shows "rpBody (resp (ht_ctx h3)) \<noteq> Some (TokensBody b2)"
  by (rule gateway.refresh_once [OF main_gateway [OF assms(1-3)] assms(4-18)])

theorem refresh_token_spent_forever_witness:
  "\<exists>h1 b. API_answer plain_jwt Some echo_Context plain_validator ex_limits ex_api ex_call
      RefreshTokensOp (ex_http ex_redis (ex_request RefreshTokensOp ex_bearer)) = (Ok (), h1) \<and>
    rpBody (cxResponse (ht_ctx h1)) = Some (TokensBody b) \<and>
    (\<forall>b2. rpBody (cxResponse (ht_ctx (snd (API_answer plain_jwt Some echo_Context plain_validator
      ex_limits ex_api ex_call RefreshTokensOp
      (h1\<lparr>ht_ctx := new_context (ex_request RefreshTokensOp ex_bearer)\<rparr>))))) \<noteq> Some (TokensBody b2))"
proof -
  let ?h = "ex_http ex_redis (ex_request RefreshTokensOp ex_bearer)"
  obtain h1 acc where run: "API_answer plain_jwt Some echo_Context plain_validator ex_limits ex_api ex_call
      RefreshTokensOp ?h = (Ok (), h1)"
    and body: "rpBody (cxResponse (ht_ctx h1)) = Some (TokensBody \<lparr>AccessToken = acc\<rparr>)"
    by (rule ex_refresh_answer)
  let ?h2 = "h1\<lparr>ht_ctx := new_context (ex_request RefreshTokensOp ex_bearer)\<rparr>"
  have pre: "pg_ready (w_db (ht_world ?h))" "empty_answer (cxResponse (ht_ctx ?h))"
    "routed echo_Context RefreshTokensOp (ht_ctx ?h)"
    using ex_ready ex_new ex_routed by simp_all
  have ck: "Ctx_Cookie echo_Context (ht_ctx ?h) ''refresh_token'' = Ok ex_refresh"
    "Ctx_Cookie echo_Context (ht_ctx ?h2) ''refresh_token'' = Ok ex_refresh"
    by (simp_all add: echo_Context_def ex_request_def new_context_def)
  have none: "\<forall>sel ver. strings_Split (CHR ''.'') ex_refresh = [sel, ver] \<longrightarrow> sel \<notin> \<Union> (drawn ` set [])"
    by simp
  have second: "ht_world ?h2 = ht_world h1" "empty_answer (cxResponse (ht_ctx ?h2))"
    "routed echo_Context RefreshTokensOp (ht_ctx ?h2)"
    using ex_new ex_routed by simp_all
  from refresh_token_spent_forever [OF jwt.jwt_laws_axioms echo.echo_context_axioms
      plain.openapi_validator_axioms run pre ex_timely body server_run.Start ck(1) none
      prod.collapse [symmetric] second ex_timely ck(2)] run body
  show ?thesis by blast
qed

end
