(* ===== verification/Swagger.thy ===== *)
theory Swagger
  imports Go_Encoding Go_Strings Go_Errors
begin

text \<open>
  \<open>internal/controller/controller.gen.go\<close>, the embedded OpenAPI document: \<open>decodeSpec\<close> joins the
  pieces, decodes base64 and unzips; \<open>GetSwagger\<close> hands the bytes to the loader of kin-openapi with
  a reader for external references. base64 and \<open>path.Clean\<close> are modelled; \<open>compress/gzip\<close> and the
  loader are parameters.
\<close>

section \<open>encoding/base64, StdEncoding\<close>

definition std_alphabet :: string where
  "std_alphabet = ''ABCDEFGHIJKLMNOPQRSTUVWXYZabcdefghijklmnopqrstuvwxyz0123456789+/''"

definition std_index :: "char \<Rightarrow> nat option" where
  "std_index c =
     (let i = length (takeWhile (\<lambda>d. d \<noteq> c) std_alphabet) in if i < 64 then Some i else None)"

definition std_indices :: "string \<Rightarrow> nat list option" where
  "std_indices cs = those (map std_index cs)"

text \<open>Groups of four; only the last may end in one or two \<open>=\<close>.\<close>

fun std_quanta :: "string \<Rightarrow> string option" where
  "std_quanta [] = Some []"
| "std_quanta (p # q # r # s # cs) =
     (if cs = [] \<and> s = CHR ''='' then
        (if r = CHR ''='' then
           (case std_indices [p, q] of
              Some [i, j] \<Rightarrow> Some [char_of (i * 4 + j div 16)]
            | _ \<Rightarrow> None)
         else
           (case std_indices [p, q, r] of
              Some [i, j, k] \<Rightarrow> Some [char_of (i * 4 + j div 16), char_of (j mod 16 * 16 + k div 4)]
            | _ \<Rightarrow> None))
      else
        (case std_indices [p, q, r, s] of
           Some [i, j, k, l] \<Rightarrow>
             map_option
               (\<lambda>bs. char_of (i * 4 + j div 16) # char_of (j mod 16 * 16 + k div 4) #
                     char_of (k mod 4 * 64 + l) # bs)
               (std_quanta cs)
         | _ \<Rightarrow> None))"
| "std_quanta _ = None"

text \<open>\<open>DecodeString\<close>: line breaks are skipped wherever they are. \<open>None\<close> is a \<open>CorruptInputError\<close>.\<close>

definition base64_DecodeString :: "string \<Rightarrow> string option" where
  "base64_DecodeString s =
     std_quanta (filter (\<lambda>c. c \<noteq> char_of (10::nat) \<and> c \<noteq> char_of (13::nat)) s)"

section \<open>path.Clean\<close>

fun clean_parts :: "bool \<Rightarrow> string list \<Rightarrow> string list \<Rightarrow> string list" where
  "clean_parts rooted out [] = rev out"
| "clean_parts rooted out (p # ps) =
     (if p = '''' \<or> p = ''.'' then clean_parts rooted out ps
      else if p = ''..'' then
        (case out of
           q # qs \<Rightarrow> if q = ''..'' then clean_parts rooted (p # out) ps else clean_parts rooted qs ps
         | [] \<Rightarrow> if rooted then clean_parts rooted [] ps else clean_parts rooted [p] ps)
      else clean_parts rooted (p # out) ps)"

definition path_Clean :: "string \<Rightarrow> string" where
  "path_Clean p =
     (if p = '''' then ''.''
      else
        let rooted = (hd p = CHR ''/'');
            out = strings_join (CHR ''/'') (clean_parts rooted [] (strings_Split (CHR ''/'') p));
            q = (if rooted then CHR ''/'' # out else out)
        in if q = '''' then ''.'' else q)"

section \<open>The embedded document\<close>

definition swaggerSpec :: "string list" where
  "swaggerSpec =
  [''H4sIAAAAAAAC/8xWzW7bxhN/lcX+/wcHoEW5SS+8uWgbqOnByAdawDUChlpbTCyS2V0aUA0B+ijqBA5i'',
   ''wOi1MdC+AK2GsCJH8ivMvFExS9KyTUmugdbwjdLO7uzM72N2l3thMwoDEWjFnV2uvIZouubzGylD+Vio'',
   ''KAyUoD8iGUZCal+YZSlcFQb0pVuR4A5XWvrBFm+3LS7F69iXos6d9SJuwyriwhcvhad52+JPw1ciUPNT'',
   ''uJ4nlHquKez6RJeiZ6V7poR8+Kz29fyEsRLyuV+nz81QNl3NHR7Hfp1b1+QuNpbTti2uhBdLX7eeUG+z'',
   ''RKuR/0i0VmPdoF9+wB3eEG5dSG7xwG3SAT8ur67Vlh+J1jS5a3ZRKV8JVwpZ7H9hfn1b3Pi7H55yK0OS'',
   ''dmWr01MaWke8TRfzg82Q9teF8qQfaZ/w5KtrNQYf4RQPGCTYxx6kMMYeDPEXGMIIEvwVhjBkcAYTOMV3'',
   ''cAITGEBiAk8hhU9sCQa4Dx8hwT1ILAYTOIaxiaL1MQwhpX+xBye4DwOGPZjAyCxNYGAVR/dxrwhnBNy9'',
   ''yk8B1eHrbSqEymdPhNzxPcFW12rc4jtCqqyKlUq1UqVWhZEI3MjnDr9fqVbuc4tHrm4YFGw31g17O9wK'',
   ''Y23IECpd7gf8SZVQPyDFHoMBdiFlUmxKoRrL9AO72F3QEjxgS3OLzWsiFrqUsFbnDv8+uxJxLKOque4X'',
   ''1QezboddOIMU39B5VPCD6gqFeWGgRWDqcaNo2/fM8fbLXLSZ0Onr/1Jscof/z546gZ3bgH3ZAwxprqT/'',
   ''HVJIYEBFYQeGReUwvkR97qzvXiLt+kZ7w+IqbjZd2aJzfiudY3hGJJzTVJMgg9BoXi2A8BAmcAID7ECC'',
   ''byHJgDT9xz6+pxQJdrDPMg+xc3CvQHWuinkoY5dhnxRCt4cxjHEfPhvmVhj8gR1I4Rj7JrkR2QhO8T3u'',
   ''zWJATalYZP5oGCvdptBCKtNI4xevYyFbU7vYymxqakpaxsK6APN1hrZRYlv1X6PRFaOfxaMjQgCSUstz'',
   ''I4ExJBm5q7dM7hER0mA3wp6B9BMz+J5hBybYvX3JfcA3MIRjItpih16CMaQwgBQ7+cUv0u5eWaEXx1JJ'',
   ''oYe5pffw3Uzt3EwsJfUWolug4g/TMZKb8Vy94n6FwZFxEpofn3PNn7v2eSAjr2E0E5fDYLvFvDB85QuL'',
   ''QZIfXoo14P9FVZmrEArUsVD6Pxu8Z8n5cZb3XNB3UWlXh3Ryd5l9w9ky5c0wY+9syl6gJL3nbGOpzi7f'',
   ''Ev90pJDVzx8PtFAmFfbZUnb7mU+Bh0IX79b/kjelt/EMeBZWd6deHhb/8lbnxCHBiD0zJWjsHxDakwtk'',
   ''Nq/ETm7FyQ3pe3T+GM7oa3AwfR9hH99CSm60yGhNNrlTPB9iuc0dbruRb++s8PZG++8AAAD//zvENQUF'',
   ''DgAA'']"

text \<open>
  What the document needs of libraries: \<open>gzip.NewReader\<close> on the bytes, \<open>ReadFrom\<close> on that reader,
  and the loader, which may ask for the bytes of other documents by the text of their URL.
\<close>

type_synonym read_uri = "string \<Rightarrow> string outcome"

record ('z, 's) spec_lib =
  gzip_NewReader :: "string \<Rightarrow> 'z outcome"
  buf_ReadFrom :: "'z \<Rightarrow> string outcome"
  LoadFromData :: "read_uri \<Rightarrow> string \<Rightarrow> 's outcome"

definition decodeSpec :: "('z, 's) spec_lib \<Rightarrow> string outcome" where
  "decodeSpec L =
     (case base64_DecodeString (concat swaggerSpec) of
        None \<Rightarrow> Err (Errorf ''error base64 decoding spec: '' (ExtError ''illegal base64 data''))
      | Some zipped \<Rightarrow>
          try_pure (gzip_NewReader L zipped) (\<lambda>err. Err (Errorf ''error decompressing spec: '' err))
            (\<lambda>zr. try_pure (buf_ReadFrom L zr) (\<lambda>err. Err (Errorf ''error decompressing spec: '' err))
              Ok))"

text \<open>The decoded bytes are kept in \<open>rawSpec\<close> at start: the same value at every call.\<close>

definition rawSpec :: "('z, 's) spec_lib \<Rightarrow> unit \<Rightarrow> string outcome" where
  "rawSpec L = (let data = decodeSpec L in (\<lambda>_. data))"

definition PathToRawSpec :: "('z, 's) spec_lib \<Rightarrow> string \<Rightarrow> string \<rightharpoonup> (unit \<Rightarrow> string outcome)" where
  "PathToRawSpec L pathToFile =
     (let res = Map.empty in if length pathToFile > 0 then res(pathToFile \<mapsto> rawSpec L) else res)"

definition GetSwagger :: "('z, 's) spec_lib \<Rightarrow> 's outcome" where
  "GetSwagger L =
     (let resolvePath = PathToRawSpec L '''';
          ReadFromURI = (\<lambda>url.
            let pathToFile = path_Clean url in
            case resolvePath pathToFile of
              None \<Rightarrow> Err (ErrorsNew (''path not found: '' @ pathToFile))
            | Some getSpec \<Rightarrow> getSpec ())
      in try_pure (rawSpec L ()) Err (\<lambda>specData. LoadFromData L ReadFromURI specData))"

text \<open>No external document is ever found: the loader sees the embedded bytes and nothing else.\<close>

lemma GetSwagger_eq:
  "GetSwagger L = try_pure (decodeSpec L) Err
     (LoadFromData L (\<lambda>url. Err (ErrorsNew (''path not found: '' @ path_Clean url))))"
  by (simp add: GetSwagger_def PathToRawSpec_def rawSpec_def)

text \<open>An error of the decoding is passed on as it is.\<close>

lemma GetSwagger_decode_error: "decodeSpec L = Err e \<Longrightarrow> GetSwagger L = Err e"
  by (simp add: GetSwagger_eq)

end
