(* ===== verification/Lifecycle.thy ===== *)
theory Lifecycle
  imports Server Swagger
begin

text \<open>
  The life of the process: \<open>cmd/main.go\<close>, the connections of \<open>internal/util/db.go\<close>, \<open>Run\<close> and
  \<open>ListenGracefulShutdown\<close> of \<open>internal/api/api.go\<close>. \<open>logger.Fatal\<close> ends the process (\<open>Panic\<close>).
  What the libraries do is a parameter: \<open>sql.Open\<close>, \<open>PingContext\<close> and \<open>Close\<close>, \<open>goose.Up\<close>,
  \<open>redis.NewClient\<close> and \<open>Close\<close>, the start and the shutdown of the echo server. Logging is left out.
\<close>

section \<open>Connections\<close>

record ('d, 'r) drivers =
  sql_Open :: "string \<Rightarrow> 'd SqlDB outcome"
  sql_PingContext :: "'d SqlDB \<Rightarrow> ('d, unit) go"
  sql_Close :: "'d SqlDB \<Rightarrow> ('d, unit) go"
  goose_Up :: "'d SqlDB \<Rightarrow> ('d, unit) go"
  redis_NewClient :: "string \<Rightarrow> 'r RedisClient"
  redis_Close :: "'r RedisClient \<Rightarrow> ('r, unit) go"

definition fatal :: "gerror \<Rightarrow> ('s, 'a) go" where
  "fatal e = go_panic (error_text e)"

text \<open>\<^verbatim>\<open>func() { if err := x.Close(); err != nil { log } else { log } }\<close>\<close>

definition closing :: "('s, unit) go \<Rightarrow> ('s, unit) go" where
  "closing close = go_try close (\<lambda>_. go_ret ()) (\<lambda>_. go_ret ())"

definition NewDBConnection ::
  "('d, 'r) drivers \<Rightarrow> environ \<Rightarrow> ('d, 'd SqlDB \<times> ('d, unit) go) go" where
  "NewDBConnection dr env =
     go_try (go_pure (NewDBConfig env)) go_fail
       (\<lambda>dbConfig. go_try (go_pure (sql_Open dr (DSN dbConfig))) (go_wrap ''sql open: '')
          (\<lambda>db. go_try (sql_PingContext dr db) (go_wrap ''db ping context: '')
             (\<lambda>_. let cleanup = closing (sql_Close dr db) in go_ret (db, cleanup))))"

definition NewRedisClient ::
  "('d, 'r) drivers \<Rightarrow> RedisConfig \<Rightarrow> ('r RedisClient \<times> ('r, unit) go) outcome" where
  "NewRedisClient dr cfg =
     (let redisClient = redis_NewClient dr (RedisAddr cfg);
          cleanup = closing (redis_Close dr redisClient)
      in Ok (redisClient, cleanup))"

definition RunMigrations :: "('d, 'r) drivers \<Rightarrow> 'd SqlDB \<Rightarrow> ('d, unit) go" where
  "RunMigrations dr db = go_try (goose_Up dr db) (go_wrap ''migrations: '') (\<lambda>_. go_ret ())"

section \<open>\<open>main\<close> up to \<open>Run\<close>\<close>

definition main_start ::
  "float_step \<Rightarrow> environ \<Rightarrow> ('d, 'r) drivers \<Rightarrow> clock \<Rightarrow> (('d, 'r) world, ('d, 'r) API) go" where
  "main_start fl env dr clk =
     go_try (lift_db (NewDBConnection dr env)) fatal (\<lambda>(db, dbCleanup).
       go_try (lift_db (RunMigrations dr db)) fatal (\<lambda>_.
         go_try (go_pure (NewRedisConfig env)) fatal (\<lambda>redisConfig.
           go_try (go_pure (NewRedisClient dr redisConfig)) fatal (\<lambda>(redisClient, redisCleanup).
             let apiKeyService = NewAPIKeyService redisClient in
             go_try (lift_redis (APIKeyService_SyncAPIKey apiKeyService env clk)) fatal (\<lambda>_.
               let storage = NewStorage db;
                   cleanupFuncs = [lift_db dbCleanup, lift_redis redisCleanup];
                   tokenStorage = NewTokenStorage redisClient in
               go_try (go_pure (NewTokenConfig fl env)) fatal (\<lambda>tokenConfig.
                 let tokenService = NewTokenService tokenConfig tokenStorage;
                     webhookService = NewWebhookService (GetWebhookURL env);
                     authService = NewAuthService tokenService storage webhookService;
                     controller = NewController authService
                 in go_ret (NewAPI controller authService apiKeyService redisClient
                      (NewServerConfig fl env) cleanupFuncs)))))))"

section \<open>Serving and shutting down\<close>

text \<open>The world of the services, and the instant of the main goroutine.\<close>

record ('d, 'r) process =
  prWorld :: "('d, 'r) world"
  prNow :: gotime

definition shutdownTimeout :: duration where "shutdownTimeout = 5 * time_Second"

text \<open>
  What the process meets: the error with which \<open>Start\<close> comes back before a signal, if it does; the
  signal; what the requests do until then; \<open>Shutdown\<close> with its deadline; the time each shutdown
  function takes; and which channel \<open>select\<close> takes when both are ready.
\<close>

record ('d, 'r) host =
  hoStart :: "string \<Rightarrow> gerror option"
  hoSignal :: gotime
  hoServe :: "('d, 'r) world \<Rightarrow> ('d, 'r) world"
  hoShutdown :: "gotime \<Rightarrow> (('d, 'r) process, unit) go"
  hoTook :: "nat \<Rightarrow> nat"
  hoPick :: bool

datatype shutdown_log = ShutdownCompleted | ShutdownError gerror | Finished

fun run_shutdownFuncs :: "(nat \<Rightarrow> nat) \<Rightarrow> ('d, 'r) cleanup list \<Rightarrow> (('d, 'r) process, unit) go" where
  "run_shutdownFuncs took [] p = (Ok (), p)"
| "run_shutdownFuncs took (f # fs) p =
     (case f (prWorld p) of
        (Panic m, w) \<Rightarrow> (Panic m, p\<lparr>prWorld := w\<rparr>)
      | (_, w) \<Rightarrow> run_shutdownFuncs (\<lambda>i. took (Suc i)) fs
          \<lparr>prWorld = w, prNow = prNow p + int (took 0)\<rparr>)"

text \<open>
  \<open>select\<close> between the deadline of \<open>shutdownCtx\<close> and the message that comes \<open>gracefulTimeout\<close> after
  now: the instant it goes on, and whether it is by the deadline.
\<close>

definition select_done :: "bool \<Rightarrow> gotime \<Rightarrow> duration \<Rightarrow> gotime \<Rightarrow> gotime \<times> bool" where
  "select_done pick deadline gracefulTimeout now =
     (let longShutdown = now + max 0 gracefulTimeout;
          t = max now (min deadline longShutdown)
      in (t, if deadline \<le> t \<and> longShutdown \<le> t then pick else deadline \<le> t))"

definition stop_server ::
  "('d, 'r) host \<Rightarrow> gerror \<Rightarrow> ('d, 'r) API \<Rightarrow> (('d, 'r) process, shutdown_log) go" where
  "stop_server h ctxErr a p =
     (let deadline = prNow p + shutdownTimeout in
      go_try (go_try (hoShutdown h deadline) (\<lambda>_. go_ret ()) go_ret) go_fail (\<lambda>_.
        go_try (run_shutdownFuncs (hoTook h) (apiShutdownFuncs a)) go_fail (\<lambda>_ q.
          case select_done (hoPick h) deadline (apiGracefulTimeout a) (prNow q) of
            (t, byDeadline) \<Rightarrow>
              (Ok (if byDeadline
                   then (if errors_Is ctxErr ContextCanceled then ShutdownCompleted
                         else ShutdownError ctxErr)
                   else Finished),
               q\<lparr>prNow := t\<rparr>))) p)"

text \<open>
  \<open>ctxErr\<close> is \<open>ctx.Err()\<close> once \<open>ctx.Done()\<close> is closed. An error of \<open>Start\<close> other than
  \<open>http.ErrServerClosed\<close> ends the process at once.
\<close>

definition ListenGracefulShutdown ::
  "('d, 'r) host \<Rightarrow> gerror \<Rightarrow> ('d, 'r) API \<Rightarrow> (('d, 'r) process, shutdown_log) go" where
  "ListenGracefulShutdown h ctxErr a p =
     (let signalled =
            p\<lparr>prWorld := hoServe h (prWorld p), prNow := max (prNow p) (hoSignal h)\<rparr> in
      case hoStart h (ServerAddr (apiServer a)) of
        Some err \<Rightarrow>
          if errors_Is err HttpErrServerClosed then stop_server h ctxErr a signalled
          else fatal (Errorf ''HTTP server ListenAndServe: '' err) p
      | None \<Rightarrow> stop_server h ctxErr a signalled)"

text \<open>
  \<open>Run\<close>: what it registers for the requests is \<open>API_Run\<close> of theory \<open>Server\<close>; here are its error
  on the document and the listening. A context of \<open>signal.NotifyContext\<close> ends as cancelled.
\<close>

definition API_Run_process ::
  "('z, 's) spec_lib \<Rightarrow> ('d, 'r) host \<Rightarrow> ('d, 'r) API \<Rightarrow> (('d, 'r) process, shutdown_log) go" where
  "API_Run_process L h a =
     go_try (go_pure (GetSwagger L))
       (\<lambda>err. fatal (Errorf ''Failed to load OpenAPI specification: '' err))
       (\<lambda>swagger. ListenGracefulShutdown h (Sentinel ContextCanceled) a)"

definition lift_process :: "(('d, 'r) world, 'a) go \<Rightarrow> (('d, 'r) process, 'a) go" where
  "lift_process m p = (case m (prWorld p) of (r, w) \<Rightarrow> (r, p\<lparr>prWorld := w\<rparr>))"

text \<open>The package \<open>util\<close> is initialised before \<open>main\<close> runs.\<close>

definition main_program ::
  "(string \<Rightarrow> environ \<Rightarrow> environ outcome) \<Rightarrow> float_step \<Rightarrow> environ \<Rightarrow> ('d, 'r) drivers \<Rightarrow> clock \<Rightarrow>
   ('z, 's) spec_lib \<Rightarrow> ('d, 'r) host \<Rightarrow> (('d, 'r) process, shutdown_log) go" where
  "main_program godotenv_Load fl env dr clk L h =
     go_try (lift_process (main_start fl (init_environ godotenv_Load env) dr clk)) go_fail
       (\<lambda>apiServer. API_Run_process L h apiServer)"

end
