(* ===== verification/Lifecycle_Properties.thy ===== *)
theory Lifecycle_Properties
  imports Lifecycle Server_Instance
begin

text \<open>
  The properties of the process: what \<open>main\<close> has built and checked when it starts to listen, and
  how it ends after a signal.
\<close>

section \<open>The start\<close>

lemma try_fatal_cases:
  assumes "go_try m fatal k s = (r, t)"
  obtains (Fatal) p where "r = Panic p" | (Ok) v s' where "m s = (Ok v, s')" and "k v s' = (r, t)"
  using assms by (cases rule: go_try_cases) (auto simp: fatal_def)

lemma DBConnection_Ok:
  "NewDBConnection dr env c = (Ok (db, cleanup), c') \<Longrightarrow>
   env ''DATABASE_URL'' \<noteq> '''' \<and> sql_Open dr (env ''DATABASE_URL'') = Ok db \<and>
   cleanup = closing (sql_Close dr db)"
  by (auto simp: NewDBConnection_def NewDBConfig_def Let_def split: if_splits elim!: go_try_cases)

text \<open>Everything \<open>main\<close> has done when it has the server.\<close>

lemma main_start_Ok:
  assumes "main_start fl env dr clk w = (r, w')"
  obtains (Fatal) m where "r = Panic m"
  | (Server) db redisClient cfg where
    "r = Ok (NewAPI
       (NewController (NewAuthService (NewTokenService cfg (NewTokenStorage redisClient)) (NewStorage db)
          (NewWebhookService (env ''WEBHOOK_URL''))))
       (NewAuthService (NewTokenService cfg (NewTokenStorage redisClient)) (NewStorage db)
          (NewWebhookService (env ''WEBHOOK_URL'')))
       (NewAPIKeyService redisClient) redisClient (NewServerConfig fl env)
       [lift_db (closing (sql_Close dr db)), lift_redis (closing (redis_Close dr redisClient))])"
    and "env ''DATABASE_URL'' \<noteq> ''''" and "sql_Open dr (env ''DATABASE_URL'') = Ok db"
    and "env ''REDIS_ADDR'' \<noteq> ''''" and "redisClient = redis_NewClient dr (env ''REDIS_ADDR'')"
    and "NewTokenConfig fl env = Ok cfg" and "\<exists>c c'. goose_Up dr db c = (Ok (), c')"
    and "APIKeyService_SyncAPIKey (NewAPIKeyService redisClient) env clk (w_redis w) = (Ok (), w_redis w')"
  using assms unfolding main_start_def
proof (cases rule: try_fatal_cases)
  case (Ok p w1)
  obtain db cl where p: "p = (db, cl)" by fastforce
  have db: "env ''DATABASE_URL'' \<noteq> ''''" "sql_Open dr (env ''DATABASE_URL'') = Ok db"
    "cl = closing (sql_Close dr db)" "w_redis w1 = w_redis w"
    using Ok(1) by (auto simp: p lift_db_run dest: DBConnection_Ok)
  from Ok(2) show ?thesis unfolding p prod.case
  proof (cases rule: try_fatal_cases)
    case mig: (Ok u w2)
    then have up: "\<exists>c c'. goose_Up dr db c = (Ok (), c')" and red2: "w_redis w2 = w_redis w"
      using mig(1) db(4) by (auto simp: lift_db_run RunMigrations_def elim!: go_try_cases)
    from mig(2) show ?thesis
    proof (cases rule: try_fatal_cases)
      case conf: (Ok rcfg w3)
      then have rc: "env ''REDIS_ADDR'' \<noteq> ''''" "rcfg = \<lparr>RedisAddr = env ''REDIS_ADDR''\<rparr>" "w3 = w2"
        by (auto simp: NewRedisConfig_def Let_def split: if_splits)
      let ?R = "redis_NewClient dr (env ''REDIS_ADDR'')"
      from conf(2) show ?thesis
        unfolding rc NewRedisClient_def Let_def go_try_pure_Ok prod.case RedisConfig.simps
      proof (cases rule: try_fatal_cases)
        case sync: (Ok u w4)
        then have key: "APIKeyService_SyncAPIKey (NewAPIKeyService ?R) env clk (w_redis w) =
            (Ok (), w_redis w4)"
          using sync(1) by (auto simp: lift_redis_run red2)
        from sync(2) show ?thesis
        proof (cases rule: try_fatal_cases)
          case tok: (Ok cfg w5)
          with key show ?thesis
            by (intro Server [OF _ db(1,2) rc(1) refl _ up]) (auto simp: db(3) GetWebhookURL_def)
        qed (rule Fatal)
      qed (rule Fatal)
    qed (rule Fatal)
  qed (rule Fatal)
qed (rule Fatal)

text \<open>
  C39. A process that starts to listen is configured: \<open>main\<close> gets to \<open>Run\<close> only with a database
  URL, a Redis address, an API key and a JWT secret in the environment and after the migrations,
  and then serves with that secret, notifies the configured URL, closes both connections at its
  end, and accepts the API key of the environment. In every other case it ends (it never returns an
  error).
\<close>

theorem main_serves:
  assumes "main_start fl env dr clk w = (r, w')"
    and "sql_Open dr (env ''DATABASE_URL'') = Ok (pg_DB srv initial_schema)"
    and "redis_NewClient dr (env ''REDIS_ADDR'') = redis_Client"
    and "mono clk" and "lasting (clk 0) (redis_view (w_redis w))"
  shows "(\<exists>m. r = Panic m) \<or>
    (\<exists>cfg. r = Ok (main_server srv cfg (env ''WEBHOOK_URL'') (NewServerConfig fl env)
         [lift_db (closing (sql_Close dr (pg_DB srv initial_schema))),
          lift_redis (closing (redis_Close dr redis_Client))]) \<and>
       cfgJwtSecretKey cfg = env ''JWT_SECRET'' \<and>
       (\<exists>c c'. goose_Up dr (pg_DB srv initial_schema) c = (Ok (), c')) \<and>
       (\<forall>v \<in> {''DATABASE_URL'', ''REDIS_ADDR'', ''JWT_SECRET'', ''AUTH_SERVICE_API_KEY''}. env v \<noteq> '''') \<and>
       (\<forall>clk2 rk s. mono clk2 \<longrightarrow> clk 2 \<le> clk2 0 \<longrightarrow>
          APIKeyService_IsValidAPIKey main_keys clk2 (env ''AUTH_SERVICE_API_KEY'') (w_redis w') = (rk, s) \<longrightarrow>
          rk = Ok True \<or> (\<exists>e. rk = Err e \<and> redis_error e)))"
  using assms(1)
proof (cases rule: main_start_Ok)
  case (Server db redisClient cfg)
  have db: "db = pg_DB srv initial_schema" "redisClient = redis_Client"
    using Server(3,5) assms(2,3) by simp_all
  have sync: "APIKeyService_SyncAPIKey main_keys env clk (w_redis w) = (Ok (), w_redis w')"
    using Server(8) by (simp add: db)
  have secret: "env ''JWT_SECRET'' \<noteq> ''''" "cfgJwtSecretKey cfg = env ''JWT_SECRET''"
    using Server(6) by (auto simp: NewTokenConfig_def Let_def split: if_splits)
  have key: "env ''AUTH_SERVICE_API_KEY'' \<noteq> ''''"
    using sync by (auto simp: APIKeyService_SyncAPIKey_def)
  have "\<forall>clk2 rk s. mono clk2 \<longrightarrow> clk 2 \<le> clk2 0 \<longrightarrow>
      APIKeyService_IsValidAPIKey main_keys clk2 (env ''AUTH_SERVICE_API_KEY'') (w_redis w') = (rk, s) \<longrightarrow>
      rk = Ok True \<or> (\<exists>e. rk = Err e \<and> redis_error e)"
    using redis.sync_new_valid [OF assms(4) sync assms(5)] by blast
  with Server(1,2,4,7) secret key show ?thesis by (auto simp: db)
qed blast

definition ex_main_env :: environ where
  "ex_main_env = ex_env(''DATABASE_URL'' := ''postgres://db'', ''REDIS_ADDR'' := ''redis:6379'',
     ''JWT_SECRET'' := ''secret'')"

definition ex_drivers :: "(pgconn, redisconn) drivers" where
  "ex_drivers = \<lparr>sql_Open = (\<lambda>_. Ok (pg_DB ex_server initial_schema)), sql_PingContext = (\<lambda>_. go_ret ()),
     sql_Close = (\<lambda>_. go_ret ()), goose_Up = (\<lambda>_. go_ret ()), redis_NewClient = (\<lambda>_. redis_Client),
     redis_Close = (\<lambda>_. go_ret ())\<rparr>"

lemma Sync_env:
  assumes "env ''AUTH_SERVICE_API_KEY'' = env' ''AUTH_SERVICE_API_KEY''"
  shows "APIKeyService_SyncAPIKey k env clk = APIKeyService_SyncAPIKey k env' clk"
proof -
  have init: "APIKeyService_setInitialAPIKey k env clk = APIKeyService_setInitialAPIKey k env' clk"
    by (simp add: APIKeyService_setInitialAPIKey_def assms)
  show ?thesis unfolding APIKeyService_SyncAPIKey_def assms init ..
qed

lemma ex_start:
  "\<exists>a w'. main_start fl ex_main_env ex_drivers ex_key_clock
     ((ex_world ''active'')\<lparr>w_redis := ex_keys\<rparr>) = (Ok a, w')"
proof -
  let ?w = "(ex_world ''active'')\<lparr>w_redis := ex_keys\<rparr>"
  have "APIKeyService_SyncAPIKey main_keys ex_main_env = APIKeyService_SyncAPIKey main_keys ex_env"
    by (rule ext) (rule Sync_env, simp add: ex_main_env_def)
  moreover have "rc_faults ex_keys = []" by (simp add: ex_keys_def)
  ultimately obtain s where "APIKeyService_SyncAPIKey main_keys ex_main_env ex_key_clock ex_keys = (Ok (), s)"
    using ex_sync by metis
  then have sync: "lift_redis (APIKeyService_SyncAPIKey main_keys ex_main_env ex_key_clock) ?w =
      (Ok (), ?w\<lparr>w_redis := s\<rparr>)"
    by (simp add: lift_redis_def)
  show ?thesis
    by (simp add: main_start_def NewDBConnection_def NewDBConfig_def NewRedisConfig_def NewRedisClient_def
        NewTokenConfig_def RunMigrations_def ex_drivers_def ex_main_env_def Let_def go_try_def lift_db_def)
      (use sync in \<open>simp add: ex_main_env_def\<close>)
qed

theorem main_serves_witness:
  "\<exists>cfg w'. main_start (\<lambda>_ _ _. 0) ex_main_env ex_drivers ex_key_clock
      ((ex_world ''active'')\<lparr>w_redis := ex_keys\<rparr>) =
    (Ok (main_server ex_server cfg '''' (NewServerConfig (\<lambda>_ _ _. 0) ex_main_env)
       [lift_db (closing (go_ret ())), lift_redis (closing (go_ret ()))]), w') \<and>
    cfgJwtSecretKey cfg = ''secret''"
proof -
  let ?w = "(ex_world ''active'')\<lparr>w_redis := ex_keys\<rparr>"
  obtain a w' where run: "main_start (\<lambda>_ _ _. 0) ex_main_env ex_drivers ex_key_clock ?w = (Ok a, w')"
    using ex_start by blast
  have lib: "sql_Open ex_drivers (ex_main_env ''DATABASE_URL'') = Ok (pg_DB ex_server initial_schema)"
    "redis_NewClient ex_drivers (ex_main_env ''REDIS_ADDR'') = redis_Client"
    by (simp_all add: ex_drivers_def)
  have last: "lasting (ex_key_clock 0) (redis_view (w_redis ?w))" by (simp add: ex_keys_lasting)
  have env: "ex_main_env ''WEBHOOK_URL'' = ''''" "ex_main_env ''JWT_SECRET'' = ''secret''"
    by (simp_all add: ex_main_env_def ex_env_def)
  from main_serves [OF run lib mono_ex_key_clock last] run show ?thesis
    by (auto simp: env) (auto simp: ex_drivers_def)
qed

section \<open>The shutdown\<close>

lemma select_done_bounds:
  assumes "select_done pick d g now = (t, b)"
  shows "now \<le> t" and "min d (now + max 0 g) \<le> t" and "t \<le> max now d"
  using assms by (auto simp: select_done_def Let_def)

text \<open>The worlds a list of shutdown functions goes through, when none of them panics.\<close>

definition run_all :: "('d, 'r) cleanup list \<Rightarrow> ('d, 'r) world \<Rightarrow> ('d, 'r) world" where
  "run_all fs w = fold (\<lambda>f w. snd (f w)) fs w"

definition no_panic :: "('s, 'a) go \<Rightarrow> bool" where
  "no_panic m \<longleftrightarrow> (\<forall>s p. fst (m s) \<noteq> Panic p)"

lemma closing_no_panic: "no_panic c \<Longrightarrow> no_panic (closing c)"
  by (auto simp: no_panic_def closing_def go_try_def split: prod.splits outcome.splits)
     (metis fst_conv)

lemma lift_no_panic:
  "no_panic m \<Longrightarrow> no_panic (lift_db m)" "no_panic m2 \<Longrightarrow> no_panic (lift_redis m2)"
  by (auto simp: no_panic_def lift_db_def lift_redis_def split: prod.splits) (metis fst_conv)+

lemma shutdownFuncs_run:
  assumes "\<forall>f \<in> set fs. no_panic f"
  shows "run_shutdownFuncs took fs p =
    (Ok (), \<lparr>prWorld = run_all fs (prWorld p), prNow = prNow p + int (\<Sum>i < length fs. took i)\<rparr>)"
  using assms
proof (induction fs arbitrary: took p)
  case Nil
  then show ?case by (simp add: run_all_def)
next
  case (Cons f fs)
  obtain r w where f: "f (prWorld p) = (r, w)" by fastforce
  have "\<forall>m. fst (f (prWorld p)) \<noteq> Panic m" using Cons.prems by (auto simp: no_panic_def)
  then have "run_shutdownFuncs took (f # fs) p = run_shutdownFuncs (\<lambda>i. took (Suc i)) fs
      \<lparr>prWorld = w, prNow = prNow p + int (took 0)\<rparr>"
    by (cases r) (auto simp: f)
  with Cons show ?case
    by (simp add: run_all_def f sum.lessThan_Suc_shift del: sum.lessThan_Suc)
qed

text \<open>
  What is documented of \<open>echo.Shutdown\<close>: it comes back, at the latest when its context expires; an
  expired context is an error, not a panic.
\<close>

definition in_time :: "(gotime \<Rightarrow> (('d, 'r) process, unit) go) \<Rightarrow> bool" where
  "in_time S \<longleftrightarrow> (\<forall>d p. (\<forall>m. fst (S d p) \<noteq> Panic m) \<and> prNow p \<le> prNow (snd (S d p)) \<and>
     prNow (snd (S d p)) \<le> max d (prNow p))"

lemma stop_server_run:
  assumes "in_time (hoShutdown h)" and "\<forall>f \<in> set (apiShutdownFuncs a). no_panic f"
    and q: "q = snd (hoShutdown h (prNow p + shutdownTimeout) p)"
  obtains e p' where "stop_server h (Sentinel ContextCanceled) a p = (Ok e, p')"
    and "e = ShutdownCompleted \<or> e = Finished"
    and "prWorld p' = run_all (apiShutdownFuncs a) (prWorld q)"
    and "prNow p + min shutdownTimeout (max 0 (apiGracefulTimeout a)) \<le> prNow p'"
    and "prNow p' \<le> prNow p + shutdownTimeout +
      int (\<Sum>i < length (apiShutdownFuncs a). hoTook h i)"
proof -
  let ?fs = "apiShutdownFuncs a" and ?d = "prNow p + shutdownTimeout" and ?g = "apiGracefulTimeout a"
  let ?n = "prNow q + int (\<Sum>i < length ?fs. hoTook h i)"
  have sd: "go_try (hoShutdown h ?d) (\<lambda>_. go_ret ()) go_ret p = (Ok (), q)"
    using assms(1) unfolding q in_time_def go_try_def by (auto split: prod.splits outcome.splits) (metis fst_conv)
  have now: "prNow p \<le> prNow q" "prNow q \<le> ?d"
    using assms(1) by (auto simp: q in_time_def shutdownTimeout_def time_units max_def dest!: spec [of _ ?d] spec [of _ p] split: if_splits)
  obtain t b where sel: "select_done (hoPick h) ?d ?g ?n = (t, b)" by fastforce
  have "stop_server h (Sentinel ContextCanceled) a p =
      (Ok (if b then ShutdownCompleted else Finished), \<lparr>prWorld = run_all ?fs (prWorld q), prNow = t\<rparr>)"
    by (simp add: stop_server_def Let_def sel
        go_try_Ok [where m = "go_try (hoShutdown h ?d) (\<lambda>_. go_ret ()) go_ret" and s = p, OF sd]
        go_try_Ok [where m = "run_shutdownFuncs (hoTook h) ?fs" and s = q, OF shutdownFuncs_run [OF assms(2)]]
        del: of_nat_sum)
  moreover have "prNow p + min shutdownTimeout (max 0 ?g) \<le> t"
    using select_done_bounds(2) [OF sel] now(1) by (auto simp: min_def max_def simp del: of_nat_sum split: if_splits)
  moreover have "t \<le> ?d + int (\<Sum>i < length ?fs. hoTook h i)"
    using select_done_bounds(3) [OF sel] now(2) by (auto simp: max_def simp del: of_nat_sum split: if_splits)
  ultimately show thesis
    by (intro that [of "if b then ShutdownCompleted else Finished"
          "\<lparr>prWorld = run_all ?fs (prWorld q), prNow = t\<rparr>"]) simp_all
qed

text \<open>
  C40. The process ends after a signal, in bounded time: while the server starts, \<open>Shutdown\<close> keeps
  to its deadline and closing does not panic, \<open>ListenGracefulShutdown\<close> returns, never by the branch
  that reports a context error; all shutdown functions have run, once, in their order and after the
  server has stopped; and it takes at most 5 seconds more than they take, but, with nothing left to
  wait for, still the smaller of 5 seconds and the configured timeout.
\<close>

theorem shutdown_completes:
  assumes "in_time (hoShutdown h)" and "\<forall>f \<in> set (apiShutdownFuncs a). no_panic f"
    and "\<forall>err. hoStart h (ServerAddr (apiServer a)) = Some err \<longrightarrow> errors_Is err HttpErrServerClosed"
    and "t0 = max (prNow p) (hoSignal h)"
    and "q = snd (hoShutdown h (t0 + 5 * time_Second) \<lparr>prWorld = hoServe h (prWorld p), prNow = t0\<rparr>)"
  shows "\<exists>e p'. ListenGracefulShutdown h (Sentinel ContextCanceled) a p = (Ok e, p') \<and>
    (e = ShutdownCompleted \<or> e = Finished) \<and>
    prWorld p' = run_all (apiShutdownFuncs a) (prWorld q) \<and>
    t0 + min (5 * time_Second) (max 0 (apiGracefulTimeout a)) \<le> prNow p' \<and>
    prNow p' \<le> t0 + 5 * time_Second + int (\<Sum>i < length (apiShutdownFuncs a). hoTook h i)"
proof -
  let ?p = "\<lparr>prWorld = hoServe h (prWorld p), prNow = t0\<rparr>"
  have "p\<lparr>prWorld := hoServe h (prWorld p), prNow := max (prNow p) (hoSignal h)\<rparr> = ?p"
    using assms(4) by simp
  with assms(3) have run: "ListenGracefulShutdown h (Sentinel ContextCanceled) a p =
      stop_server h (Sentinel ContextCanceled) a ?p"
    by (auto simp: ListenGracefulShutdown_def Let_def split: option.splits)
  have q: "q = snd (hoShutdown h (prNow ?p + shutdownTimeout) ?p)"
    by (simp add: assms(5) shutdownTimeout_def)
  show ?thesis
    unfolding run by (rule stop_server_run [OF assms(1,2) q]) (auto simp: shutdownTimeout_def)
qed

definition ex_host :: "(pgconn, redisconn) host" where
  "ex_host = \<lparr>hoStart = (\<lambda>_. None), hoSignal = 1000, hoServe = (\<lambda>w. w),
     hoShutdown = (\<lambda>d p. (Ok (), p)), hoTook = (\<lambda>i. 7), hoPick = False\<rparr>"

text \<open>The server of \<open>main\<close> on the libraries of the example, asked to stop.\<close>

theorem shutdown_completes_witness:
  "\<exists>e p'. ListenGracefulShutdown ex_host (Sentinel ContextCanceled)
      (main_server ex_server ex_config '''' ex_server_config
         [lift_db (closing (sql_Close ex_drivers (pg_DB ex_server initial_schema))),
          lift_redis (closing (redis_Close ex_drivers redis_Client))])
      \<lparr>prWorld = ex_world ''active'', prNow = 0\<rparr> = (Ok e, p') \<and>
    prWorld p' = ex_world ''active'' \<and> prNow p' \<le> 1000 + 5 * time_Second + 14"
proof -
  let ?fs = "[lift_db (closing (sql_Close ex_drivers (pg_DB ex_server initial_schema))),
    lift_redis (closing (redis_Close ex_drivers redis_Client))]"
  let ?a = "main_server ex_server ex_config '''' ex_server_config ?fs"
  have fs: "apiShutdownFuncs ?a = ?fs" by (simp add: NewAPI_def)
  have np: "\<forall>f \<in> set (apiShutdownFuncs ?a). no_panic f"
    unfolding fs by (auto simp: ex_drivers_def intro!: lift_no_panic closing_no_panic) (simp_all add: no_panic_def)
  have ok: "in_time (hoShutdown ex_host)" by (simp add: in_time_def ex_host_def)
  have start: "\<forall>err. hoStart ex_host (ServerAddr (apiServer ?a)) = Some err \<longrightarrow> errors_Is err HttpErrServerClosed"
    by (simp add: ex_host_def)
  have t0: "1000 = max (prNow \<lparr>prWorld = ex_world ''active'', prNow = 0\<rparr>) (hoSignal ex_host)"
    by (simp add: ex_host_def)
  have w: "run_all ?fs (ex_world ''active'') = ex_world ''active''"
    by (simp add: run_all_def lift_db_def lift_redis_def closing_def ex_drivers_def)
  from shutdown_completes [OF ok np start t0 refl] show ?thesis
    unfolding fs by (auto simp: ex_host_def w numeral_2_eq_2)
qed

end
