(* ===== verification/Storage_Properties.thy ===== *)
theory Storage_Properties
  imports Postgres_Contract Examples
begin

text \<open>
  The refinement of the PostgreSQL storage: its two transactions, made of several statements each,
  implement one abstract step on the stores of users and sessions.
\<close>

text \<open>The abstract store a database stands for, and one abstract step that may not happen at all.\<close>

definition pg_store :: "pgconn \<Rightarrow> user_store \<times> session_store" where
  "pg_store c = (pg_users c, pg_sessions c)"

definition all_or_nothing ::
  "('a \<Rightarrow> user_store \<times> session_store \<Rightarrow> bool) \<Rightarrow> pgconn \<Rightarrow> 'a outcome \<times> pgconn \<Rightarrow> bool" where
  "all_or_nothing step c res \<longleftrightarrow> pg_ready (snd res) \<and>
     (case fst res of
        Ok u \<Rightarrow> step u (pg_store (snd res))
      | Err _ \<Rightarrow> pg_store (snd res) = pg_store c \<or> (\<exists>u. step u (pg_store (snd res)))
      | Panic _ \<Rightarrow> False)"

text \<open>
  C36. Both transactions refine one atomic step: whatever statement, commit or connection fails,
  \<open>IssueTokensTx\<close> has registered the GUID (once) and stored the session as \<open>issue_spec\<close> says, or
  changed nothing, and \<open>RotateTokensTx\<close> has marked the old session and stored the new one as
  \<open>rotate_spec\<close> says, or changed nothing; success means the step was made, and no transaction
  stays open.
\<close>

theorem transactions_refine:
  assumes "pg_ready c"
  shows "all_or_nothing (issue_spec (stored_form srv) (pg_uuid_in srv) guid s (pg_store c)) c
      (Storage_IssueTokensTx (pg_DB srv initial_schema) guid s c) \<and>
    all_or_nothing (rotate_spec (stored_form srv) old s i (pg_store c)) c
      (Storage_RotateTokensTx (pg_DB srv initial_schema) old s i c)"
proof -
  have tx: "IssueTokensTx (pg_storage srv) = Storage_IssueTokensTx (pg_DB srv initial_schema)"
    "RotateTokensTx (pg_storage srv) = Storage_RotateTokensTx (pg_DB srv initial_schema)"
    by (simp_all add: NewStorage_def)
  note laws = pg.issue [OF assms prod.collapse [symmetric], of srv guid s]
    pg.rotate [OF assms prod.collapse [symmetric], of srv old s i]
  from laws show ?thesis
    unfolding tx all_or_nothing_def pg_store_def by (auto split: outcome.splits)
qed

theorem transactions_refine_witness:
  "all_or_nothing (rotate_spec (stored_form ex_server) (rsSelector ex_session) ex_session 1
     (pg_store (w_db (ex_world ''active'')))) (w_db (ex_world ''active''))
     (Storage_RotateTokensTx (pg_DB ex_server initial_schema) (rsSelector ex_session) ex_session 1
       (w_db (ex_world ''active'')))"
  using transactions_refine [OF ex_ready] by blast

end
