(* ===== verification/Webhook_Receiver.thy ===== *)
theory Webhook_Receiver
  imports Webhook
begin

text \<open>
  \<open>webhook_receiver.go\<close>, a program of its own that takes the notifications of
  \<open>internal/service/webhook.go\<close>: its handler, and what it makes of a notification's body. What arrives
  on the socket (\<open>io.ReadAll\<close>) is a parameter (\<open>None\<close> is an error); a failed write of the answer is
  only logged.
\<close>

section \<open>The server\<close>

definition defaultWebhookReadTimeout :: duration where
  "defaultWebhookReadTimeout = 5 * time_Second"
definition defaultWebhookWriteTimeout :: duration where
  "defaultWebhookWriteTimeout = 10 * time_Second"
definition defaultWebhookIdleTimeout :: duration where
  "defaultWebhookIdleTimeout = 120 * time_Second"

record receiver_server =
  rvAddr :: string
  rvReadTimeout :: duration
  rvWriteTimeout :: duration
  rvIdleTimeout :: duration

definition webhook_server :: receiver_server where
  "webhook_server =
     \<lparr>rvAddr = '':9090'', rvReadTimeout = defaultWebhookReadTimeout,
      rvWriteTimeout = defaultWebhookWriteTimeout, rvIdleTimeout = defaultWebhookIdleTimeout\<rparr>"

section \<open>Answers\<close>

text \<open>
  \<open>http.ResponseWriter\<close>, whether the request's body is closed, and the values that were logged with
  the names they have in the data; a name the data has not is logged as nil.
\<close>

record receipt =
  rwStatus :: "int option"
  rwHeaders :: "(string \<times> string) list"
  rwBody :: string
  rwClosed :: bool
  rwLogged :: "(string \<times> iface) list"

definition no_receipt :: "receipt" where
  "no_receipt = \<lparr>rwStatus = None, rwHeaders = [], rwBody = '''', rwClosed = False, rwLogged = []\<rparr>"

text \<open>Only the first status counts; writing without one sends 200.\<close>

definition WriteHeader :: "int \<Rightarrow> receipt \<Rightarrow> receipt" where
  "WriteHeader code w = (if rwStatus w = None then w\<lparr>rwStatus := Some code\<rparr> else w)"

definition Write :: "string \<Rightarrow> receipt \<Rightarrow> receipt" where
  "Write b w = (let w' = WriteHeader 200 w in w'\<lparr>rwBody := rwBody w' @ b\<rparr>)"

text \<open>\<open>http.Error\<close> of net/http: two headers, the status and a line of text.\<close>

definition http_Error :: "string \<Rightarrow> int \<Rightarrow> receipt \<Rightarrow> receipt" where
  "http_Error msg code w =
     Write (msg @ [char_of (10::nat)])
       (WriteHeader code
         (w\<lparr>rwHeaders := [(''Content-Type'', ''text/plain; charset=utf-8''),
            (''X-Content-Type-Options'', ''nosniff'')] @
            filter (\<lambda>h. fst h \<notin> {''Content-Type'', ''X-Content-Type-Options'', ''Content-Length''})
              (rwHeaders w)\<rparr>))"

section \<open>The handler\<close>

definition receive_webhook :: "string \<Rightarrow> string option \<Rightarrow> receipt \<Rightarrow> receipt" where
  "receive_webhook method body w =
     (if method \<noteq> ''POST'' then http_Error ''Only POST method is accepted'' 405 w
      else
        (case body of
           Some bytes \<Rightarrow>
             (case json_Unmarshal_map bytes of
                Some data \<Rightarrow>
                  Write ''Webhook received!''
                    (WriteHeader 200
                      (w\<lparr>rwLogged := rwLogged w @ map (\<lambda>k. (k, case data k of None \<Rightarrow> IfaceNil | Some v \<Rightarrow> v))
                         [''user_id'', ''old_ip'', ''new_ip'', ''user_agent'']\<rparr>))
              | None \<Rightarrow> http_Error ''Error parsing JSON'' 400 w)
             \<lparr>rwClosed := True\<rparr>
         | None \<Rightarrow> http_Error ''Error reading request body'' 500 w))"

text \<open>Every request is answered, with one of four statuses; data is logged exactly with a 200.\<close>

lemma receive_answers:
  assumes "receive_webhook method body no_receipt = w"
  shows "rwStatus w = Some (if method \<noteq> ''POST'' then 405
      else (case body of Some b \<Rightarrow> (case json_Unmarshal_map b of Some _ \<Rightarrow> 200 | None \<Rightarrow> 400) | None \<Rightarrow> 500))"
    and "rwStatus w = Some 200 \<longleftrightarrow> rwLogged w \<noteq> []"
    and "rwClosed w \<longleftrightarrow> method = ''POST'' \<and> body \<noteq> None"
  using assms
  by (cases "method = ''POST''"; auto simp: receive_webhook_def http_Error_def Write_def WriteHeader_def
      no_receipt_def Let_def split: option.splits)+

section \<open>A notification's body\<close>

lemma data_received:
  assumes "json_Unmarshal_map payload = Some m"
  shows "rwStatus (receive_webhook ''POST'' (Some payload) no_receipt) = Some 200"
    and "rwLogged (receive_webhook ''POST'' (Some payload) no_receipt) =
      map (\<lambda>k. (k, case m k of None \<Rightarrow> IfaceNil | Some v \<Rightarrow> v))
        [''user_id'', ''old_ip'', ''new_ip'', ''user_agent'']"
  using assms
  by (simp_all add: receive_webhook_def Write_def WriteHeader_def no_receipt_def Let_def)

text \<open>What a value of the data is in the JSON, and to the receiver.\<close>

definition written_value :: "webhook_value \<Rightarrow> json" where
  "written_value v = (case v of AnyInt i \<Rightarrow> JNumber (strconv_FormatInt i)
     | AnyString s \<Rightarrow> JString (utf8_repair s))"

definition received_value :: "webhook_value \<Rightarrow> iface" where
  "received_value v = (case json_iface (written_value v) of Some x \<Rightarrow> x | None \<Rightarrow> IfaceNil)"

lemma marshal_reads: "reads_as (marshal_value v) (written_value v)"
  by (cases v) (simp_all add: marshal_value_def written_value_def int_reads string_reads)

definition int_in_range :: "webhook_value \<Rightarrow> bool" where
  "int_in_range v \<longleftrightarrow> (\<forall>i. v = AnyInt i \<longrightarrow> int64_range i)"

lemma ParseFloat_int64:
  assumes "int64_range i"
  obtains f where "strconv_ParseFloat (strconv_FormatInt i) = Some f"
proof -
  from assms have "nat \<bar>i\<bar> < 2 ^ 64" by (auto simp: int64_range_def)
  then obtain f where "float_round (i < 0) (nat \<bar>i\<bar>) 1 = Some f" by (rule float_round_int64)
  then show thesis by (intro that) (simp only: ParseFloat_FormatInt)
qed

lemma received_iface: "int_in_range v \<Longrightarrow> json_iface (written_value v) = Some (received_value v)"
  by (cases v) (auto simp: int_in_range_def written_value_def received_value_def elim: ParseFloat_int64)

text \<open>Marshalled data reads as itself, for keys that are plain text.\<close>

lemma Unmarshal_Marshal:
  assumes keys: "distinct (map fst data)" "\<forall>k \<in> fst ` set data. utf8_repair k = k" and "data \<noteq> []"
    and ints: "\<forall>v \<in> snd ` set data. int_in_range v"
    and payload: "json_Marshal data = Ok payload"
  shows "json_Unmarshal_map payload = Some (map_option received_value \<circ> map_of data)"
proof -
  let ?s = "sort_key fst data" and ?t = "\<lambda>(k, v). (k, marshal_value v)"
  have s: "set ?s = set data" "distinct (map fst ?s)" "?s \<noteq> []"
    using keys(1) assms(3) by (auto simp: distinct_map distinct_sort dest: arg_cong [of _ _ set])
  have names: "map (\<lambda>kv. utf8_repair (fst kv)) (map ?t ?s) = map fst ?s"
    using keys(2) s(1) by (auto simp: case_prod_beta)
  have reads: "list_all2 (\<lambda>(k, t) v. reads_as t v) (map ?t ?s) (map (written_value \<circ> snd) ?s)"
    by (simp add: list_all2_map1 list_all2_map2 list_all2_same marshal_reads case_prod_beta)
  have vals: "list_all2 (\<lambda>v x. json_iface v = Some x) (map (written_value \<circ> snd) ?s) (map (received_value \<circ> snd) ?s)"
    using ints s(1) by (auto simp: list_all2_map1 list_all2_map2 list_all2_same received_iface)
  have "json_Unmarshal_map payload = Some (map_of (zip (map fst ?s) (map (received_value \<circ> snd) ?s)))"
  proof -
    have "payload = write_object (map ?t ?s)" using payload by (simp add: json_Marshal_def)
    moreover have "map ?t ?s \<noteq> []" using s(3) by simp
    moreover have "distinct (map (\<lambda>kv. utf8_repair (fst kv)) (map ?t ?s))" unfolding names by (rule s(2))
    ultimately show ?thesis using Unmarshal_written [OF reads _ vals] unfolding names by blast
  qed
  also have "zip (map fst ?s) (map (received_value \<circ> snd) ?s) = map (\<lambda>(k, v). (k, received_value v)) ?s"
    by (simp add: zip_map_map zip_same_conv_map case_prod_beta)
  also have "map_of (map (\<lambda>(k, v). (k, received_value v)) ?s) = map_option received_value \<circ> map_of ?s"
    by (rule ext) (simp add: map_of_map)
  also have "map_of ?s = map_of data"
    by (rule map_of_inject_set [THEN iffD2]) (use keys(1) s in simp_all)
  finally show ?thesis .
qed

end
