(* ===== verification/Webhook_Properties.thy ===== *)
theory Webhook_Properties
  imports Webhook_Receiver Auth_Service
begin

text \<open>
  The notification of an IP change from one program to the other: what the refresh hands to the
  notifier, what the notifier sends, and what the receiver makes of it. The HTTP stack between the
  two is a parameter.
\<close>

lemma ip_change_keys:
  "distinct (map fst (ip_change s md))" "ip_change s md \<noteq> []"
  "\<forall>k \<in> fst ` set (ip_change s md). utf8_repair k = k"
  by (simp_all add: ip_change_def Let_def)

lemma ip_change_received:
  assumes "int64_range (rsUserID s)" and "json_Marshal (ip_change s md) = Ok body"
  shows "json_Unmarshal_map body = Some (map_option received_value \<circ> map_of (ip_change s md))"
  using assms(1)
  by (intro Unmarshal_Marshal [OF ip_change_keys(1,3,2) _ assms(2)])
    (auto simp: ip_change_def int_in_range_def)

text \<open>The one request a notification makes.\<close>

definition notification_request :: "string \<Rightarrow> string \<Rightarrow> http_request" where
  "notification_request url body =
     \<lparr>hrMethod = ''POST'', hrURL = url, hrBody = body,
      hrHeaders = [(''Content-Type'', ''application/json'')]\<rparr>"

lemma send_request:
  assumes "url \<noteq> ''''"
    and "\<forall>b. http_NewRequest H ''POST'' url b = Ok \<lparr>hrMethod = ''POST'', hrURL = url, hrBody = b, hrHeaders = []\<rparr>"
    and "json_Marshal data = Ok body"
  shows "WebhookService_send H (NewWebhookService url) cancelled data h =
    (case http_Do H cancelled (notification_request url body) h of
       (Panic p, h') \<Rightarrow> (Panic p, h') | (_, h') \<Rightarrow> (Ok (), h'))"
  using assms
  by (simp add: WebhookService_send_def NewWebhookService_def notification_request_def Header_Set_def
      go_try_def split: outcome.splits prod.splits)

text \<open>
  C37. The round trip of a notification: with a URL configured that parses, the notifier hands the
  client exactly one request, a POST of a JSON body to that URL, and does nothing else, whatever the
  client answers; and a POST of that body makes the receiver answer 200 and log the address of the
  session, the new address and the user agent as they were, whatever characters they contain (every
  byte that is not UTF-8 as U+FFFD), and the user's ID as the \<open>float64\<close> nearest to it, which prints
  as the ID up to \<open>2 ^ 53\<close>.
\<close>

theorem notification_roundtrip:
  assumes "url \<noteq> ''''" and "int64_range (rsUserID s)"
    and "\<forall>b. http_NewRequest H ''POST'' url b = Ok \<lparr>hrMethod = ''POST'', hrURL = url, hrBody = b, hrHeaders = []\<rparr>"
  shows "\<exists>body f. let w = receive_webhook ''POST'' (Some body) no_receipt in
    WebhookService_send H (NewWebhookService url) cancelled (ip_change s md) h =
      (case http_Do H cancelled \<lparr>hrMethod = ''POST'', hrURL = url, hrBody = body,
          hrHeaders = [(''Content-Type'', ''application/json'')]\<rparr> h of
         (Panic p, h') \<Rightarrow> (Panic p, h') | (_, h') \<Rightarrow> (Ok (), h')) \<and>
    rwStatus w = Some 200 \<and>
    rwLogged w =
      [(''user_id'', IfaceFloat64 f),
       (''old_ip'', IfaceString (utf8_repair (rsIPAddress s))),
       (''new_ip'', IfaceString (utf8_repair (umIPAddress md))),
       (''user_agent'', IfaceString (utf8_repair (umUserAgent md)))] \<and>
    strconv_ParseFloat (strconv_FormatInt (rsUserID s)) = Some f \<and>
    (\<bar>rsUserID s\<bar> \<le> 2 ^ 53 \<longrightarrow> Sprintf_0f f = strconv_FormatInt (rsUserID s))"
proof -
  obtain body where body: "json_Marshal (ip_change s md) = Ok body" by (simp add: json_Marshal_def)
  obtain f where f: "strconv_ParseFloat (strconv_FormatInt (rsUserID s)) = Some f"
    by (rule ParseFloat_int64 [OF assms(2)])
  note data = ip_change_received [OF assms(2) body]
  show ?thesis
    using send_request [OF assms(1,3) body, of cancelled h] data_received [OF data] f Sprintf_FormatInt [OF _ f]
    by (intro exI [of _ body] exI [of _ f])
      (simp add: notification_request_def ip_change_def received_value_def written_value_def Let_def)
qed

definition ex_http_lib :: "http_request list http_lib" where
  "ex_http_lib =
     \<lparr>http_NewRequest = (\<lambda>m url b. Ok \<lparr>hrMethod = m, hrURL = url, hrBody = b, hrHeaders = []\<rparr>),
      http_Do = (\<lambda>cancelled req h.
        if cancelled then (Err (Sentinel ContextCanceled), h) else (Ok 200, h @ [req]))\<rparr>"

definition ex_moved :: RefreshSession where
  "ex_moved = \<lparr>rsID = 1, rsUserID = 7, rsSelector = ''s'', rsVerifierHash = ''h'', rsUserAgent = ''a<b'',
     rsIPAddress = ''10.0.0.1'', rsAccessTokenJTI = ''j'', rsCreatedAt = 0, rsExpiresAt = 0\<rparr>"

theorem notification_roundtrip_witness:
  "\<exists>req f. WebhookService_send ex_http_lib (NewWebhookService ''http://localhost:9090'') False
      (ip_change ex_moved \<lparr>umUserAgent = ''a<b'', umIPAddress = ''10.0.0.2''\<rparr>) [] = (Ok (), [req]) \<and>
    rwLogged (receive_webhook (hrMethod req) (Some (hrBody req)) no_receipt) =
      [(''user_id'', IfaceFloat64 f), (''old_ip'', IfaceString ''10.0.0.1''),
       (''new_ip'', IfaceString ''10.0.0.2''), (''user_agent'', IfaceString ''a<b'')] \<and>
    Sprintf_0f f = strconv_FormatInt 7"
proof -
  have pre: "''http://localhost:9090'' \<noteq> ''''" "int64_range (rsUserID ex_moved)"
    "\<forall>b. http_NewRequest ex_http_lib ''POST'' ''http://localhost:9090'' b =
      Ok \<lparr>hrMethod = ''POST'', hrURL = ''http://localhost:9090'', hrBody = b, hrHeaders = []\<rparr>"
    by (simp_all add: ex_moved_def int64_range_def ex_http_lib_def)
  have plain: "utf8_repair ''a<b'' = ''a<b''" "utf8_repair ''10.0.0.1'' = ''10.0.0.1''"
    "utf8_repair ''10.0.0.2'' = ''10.0.0.2''"
    by (rule utf8_repair_ascii; simp)+
  have post: "http_Do ex_http_lib False r [] = (Ok 200, [r])" for r by (simp add: ex_http_lib_def)
  have s: "rsUserID ex_moved = 7" "rsIPAddress ex_moved = ''10.0.0.1''" by (simp_all add: ex_moved_def)
  obtain body f where "WebhookService_send ex_http_lib (NewWebhookService ''http://localhost:9090'') False
      (ip_change ex_moved \<lparr>umUserAgent = ''a<b'', umIPAddress = ''10.0.0.2''\<rparr>) [] =
      (Ok (), [\<lparr>hrMethod = ''POST'', hrURL = ''http://localhost:9090'', hrBody = body,
        hrHeaders = [(''Content-Type'', ''application/json'')]\<rparr>])"
    "rwLogged (receive_webhook ''POST'' (Some body) no_receipt) =
      [(''user_id'', IfaceFloat64 f), (''old_ip'', IfaceString ''10.0.0.1''),
       (''new_ip'', IfaceString ''10.0.0.2''), (''user_agent'', IfaceString ''a<b'')]"
    "Sprintf_0f f = strconv_FormatInt 7"
    using notification_roundtrip [OF pre, of False "\<lparr>umUserAgent = ''a<b'', umIPAddress = ''10.0.0.2''\<rparr>" "[]"]
    by (auto simp: Let_def post plain s)
  then show ?thesis by fastforce
qed

text \<open>
  C38. Larger IDs are not read back: the receiver keeps the ID as a \<open>float64\<close>, so the notification
  of the user \<open>2 ^ 53 + 1\<close> is answered with 200 and logged as one of the user \<open>2 ^ 53\<close>.
\<close>

theorem large_id_misread:
  assumes "rsUserID s = 2 ^ 53 + 1" and "json_Marshal (ip_change s md) = Ok body"
  shows "rwStatus (receive_webhook ''POST'' (Some body) no_receipt) = Some 200 \<and>
    (\<exists>f. (''user_id'', IfaceFloat64 f) \<in> set (rwLogged (receive_webhook ''POST'' (Some body) no_receipt)) \<and>
       Sprintf_0f f = strconv_FormatInt (2 ^ 53))"
proof -
  have r: "int64_range (rsUserID s)" by (simp add: assms(1) int64_range_def)
  let ?f = "Float64 False (2 ^ 52) 1"
  have f: "strconv_ParseFloat (strconv_FormatInt (rsUserID s)) = Some ?f"
    using float_round_edge [of "2 ^ 53 + 1" False] by (simp add: ParseFloat_FormatInt assms(1))
  have "Sprintf_0f ?f = strconv_FormatInt (2 ^ 53)"
    by (simp add: Sprintf_0f_def strconv_FormatInt_def)
  with data_received [OF ip_change_received [OF r assms(2)]] f show ?thesis
    by (auto simp: ip_change_def received_value_def written_value_def)
qed

theorem large_id_misread_witness:
  "\<exists>body f. json_Marshal (ip_change (ex_moved\<lparr>rsUserID := 2 ^ 53 + 1\<rparr>)
      \<lparr>umUserAgent = ''a<b'', umIPAddress = ''10.0.0.2''\<rparr>) = Ok body \<and>
    (''user_id'', IfaceFloat64 f) \<in> set (rwLogged (receive_webhook ''POST'' (Some body) no_receipt)) \<and>
    Sprintf_0f f = strconv_FormatInt (2 ^ 53)"
proof -
  let ?s = "ex_moved\<lparr>rsUserID := 2 ^ 53 + 1\<rparr>" and ?md = "\<lparr>umUserAgent = ''a<b'', umIPAddress = ''10.0.0.2''\<rparr>"
  obtain body where body: "json_Marshal (ip_change ?s ?md) = Ok body" by (simp add: json_Marshal_def)
  have "rsUserID ?s = 2 ^ 53 + 1" by simp
  from large_id_misread [OF this body] body show ?thesis by blast
qed

end
