(* ===== verification/Logger.thy ===== *)
theory Logger
  imports Prelude
begin

text \<open>
  \<open>internal/util/logger.go\<close>: how the logger of the program is put together. zap is third-party: its
  constructors are a parameter (\<open>zap\<close>), what they document is the locale \<open>zap_laws\<close>: where a
  logger writes an entry of a level, and whether with the caller and a stack trace.
\<close>

datatype log_level =
  DebugLevel | InfoLevel | WarnLevel | ErrorLevel | DPanicLevel | PanicLevel | FatalLevel

text \<open>The levels are the numbers from -1 to 5.\<close>

fun severity :: "log_level \<Rightarrow> int" where
  "severity DebugLevel = -1"
| "severity InfoLevel = 0"
| "severity WarnLevel = 1"
| "severity ErrorLevel = 2"
| "severity DPanicLevel = 3"
| "severity PanicLevel = 4"
| "severity FatalLevel = 5"

lemma severity_inject: "severity k = severity l \<longleftrightarrow> k = l"
  by (cases k; cases l) simp_all

instantiation log_level :: linorder
begin

definition less_eq_log_level :: "log_level \<Rightarrow> log_level \<Rightarrow> bool" where
  "less_eq_log_level k l \<longleftrightarrow> severity k \<le> severity l"

definition less_log_level :: "log_level \<Rightarrow> log_level \<Rightarrow> bool" where
  "less_log_level k l \<longleftrightarrow> severity k < severity l"

instance
  by standard (auto simp: less_eq_log_level_def less_log_level_def severity_inject)

end

text \<open>An encoder configuration: the field the program sets, and the others.\<close>

record 'v EncoderConfig =
  EncodeLevel :: 'v

record ('f, 'v, 'm, 'y, 'e, 'c, 'o, 'l, 's) zap =
  zapcore_AddSync :: "'f \<Rightarrow> 'y"
  zap_NewDevelopmentEncoderConfig :: "('v, 'm) EncoderConfig_scheme"
  zapcore_CapitalColorLevelEncoder :: 'v
  zapcore_NewConsoleEncoder :: "('v, 'm) EncoderConfig_scheme \<Rightarrow> 'e"
  zapcore_NewCore :: "'e \<Rightarrow> 'y \<Rightarrow> log_level \<Rightarrow> 'c"
  zapcore_NewTee :: "'c list \<Rightarrow> 'c"
  zap_AddCaller :: 'o
  zap_AddStacktrace :: "log_level \<Rightarrow> 'o"
  zap_New :: "'c \<Rightarrow> 'o list \<Rightarrow> 'l"
  zap_Sugar :: "'l \<Rightarrow> 's"

text \<open>\<open>NewAtomicLevelAt\<close> starts at the level it gets, and nothing changes it.\<close>

definition NewZapLogger :: "('f, 'v, 'm, 'y, 'e, 'c, 'o, 'l, 's) zap \<Rightarrow> 'f \<Rightarrow> 's" where
  "NewZapLogger Z os_Stdout =
     (let stdout = zapcore_AddSync Z os_Stdout;
          level = DebugLevel;
          developmentCfg = zap_NewDevelopmentEncoderConfig Z;
          developmentCfg = developmentCfg\<lparr>EncodeLevel := zapcore_CapitalColorLevelEncoder Z\<rparr>;
          consoleEncoder = zapcore_NewConsoleEncoder Z developmentCfg;
          core = zapcore_NewTee Z [zapcore_NewCore Z consoleEncoder stdout level];
          logger = zap_New Z core [zap_AddCaller Z, zap_AddStacktrace Z ErrorLevel]
      in zap_Sugar Z logger)"

locale zap_laws =
  fixes Z :: "('f, 'v, 'm, 'y, 'e, 'c, 'o, 'l, 's) zap"
    and writes :: "'c \<Rightarrow> log_level \<Rightarrow> ('e \<times> 'y) list"
    and emits :: "'s \<Rightarrow> log_level \<Rightarrow> ('e \<times> 'y) list \<times> bool \<times> bool"
  assumes core: "writes (zapcore_NewCore Z e y l) k = (if l \<le> k then [(e, y)] else [])"
    and tee: "writes (zapcore_NewTee Z cs) k = concat (map (\<lambda>c. writes c k) cs)"
    and sugar: "emits (zap_Sugar Z (zap_New Z c [zap_AddCaller Z, zap_AddStacktrace Z l])) k =
      (writes c k, True, l \<le> k)"
begin

text \<open>
  No entry of the program is lost: on every level it goes to the standard output once, with its
  caller, and with a stack trace exactly from the error level on.
\<close>

lemma logs_everything:
  "emits (NewZapLogger Z out) k =
     ([(zapcore_NewConsoleEncoder Z
          ((zap_NewDevelopmentEncoderConfig Z)\<lparr>EncodeLevel := zapcore_CapitalColorLevelEncoder Z\<rparr>),
        zapcore_AddSync Z out)], True, ErrorLevel \<le> k)"
proof -
  have "DebugLevel \<le> k" by (cases k) (simp_all add: less_eq_log_level_def)
  then show ?thesis by (simp add: NewZapLogger_def Let_def core tee sugar)
qed

end

text \<open>An instance: the logger is what it was made of.\<close>

datatype plain_core = PlainCore string string log_level | PlainTee "plain_core list"
datatype plain_option = PlainCaller | PlainStacktrace log_level

fun plain_writes :: "plain_core \<Rightarrow> log_level \<Rightarrow> (string \<times> string) list" where
  "plain_writes (PlainCore e y l) k = (if l \<le> k then [(e, y)] else [])"
| "plain_writes (PlainTee cs) k = concat (map (\<lambda>c. plain_writes c k) cs)"

fun plain_emits ::
  "plain_core \<times> plain_option list \<Rightarrow> log_level \<Rightarrow> (string \<times> string) list \<times> bool \<times> bool" where
  "plain_emits (c, opts) k = (plain_writes c k, PlainCaller \<in> set opts,
     list_ex (\<lambda>x. case x of PlainStacktrace l \<Rightarrow> l \<le> k | PlainCaller \<Rightarrow> False) opts)"

definition plain_zap ::
  "(string, string, unit, string, string, plain_core, plain_option,
    plain_core \<times> plain_option list, plain_core \<times> plain_option list) zap" where
  "plain_zap =
     \<lparr>zapcore_AddSync = id, zap_NewDevelopmentEncoderConfig = \<lparr>EncodeLevel = ''capital''\<rparr>,
      zapcore_CapitalColorLevelEncoder = ''capitalColor'', zapcore_NewConsoleEncoder = EncodeLevel,
      zapcore_NewCore = PlainCore, zapcore_NewTee = PlainTee, zap_AddCaller = PlainCaller,
      zap_AddStacktrace = PlainStacktrace, zap_New = Pair, zap_Sugar = id\<rparr>"

interpretation plain_logger: zap_laws plain_zap plain_writes plain_emits
  by unfold_locales (simp_all add: plain_zap_def)

end
