(* ===== verification/Request_Logger.thy ===== *)
theory Request_Logger
  imports Echo Logger
begin

text \<open>
  \<open>LoggerMiddlewareConfig\<close> of \<open>internal/api/middleware.go\<close>: the configuration of echo's request
  logger, whose function gets the context and the values of a finished request. The log is a list of
  entries; the request's method is read by \<open>method\<close>. Nothing of a request depends on it.
\<close>

datatype log_value = LogString string | LogInt int

record log_entry =
  leLevel :: log_level
  leMessage :: string
  leFields :: "(string \<times> log_value) list"

record RequestLoggerValues =
  rlvURI :: string
  rlvStatus :: int
  rlvError :: "gerror option"

record 'c RequestLoggerConfig =
  LogMethod :: bool
  LogURI :: bool
  LogStatus :: bool
  LogError :: bool
  LogValuesFunc :: "'c \<Rightarrow> RequestLoggerValues \<Rightarrow> (log_entry list, unit) go"

definition LoggerMiddlewareConfig :: "('c \<Rightarrow> string) \<Rightarrow> 'c RequestLoggerConfig" where
  "LoggerMiddlewareConfig method =
     \<lparr>LogMethod = True, LogURI = True, LogStatus = True, LogError = True,
      LogValuesFunc = (\<lambda>c v log.
        let fields = [(''method'', LogString (method c)), (''uri'', LogString (rlvURI v)),
                      (''status'', LogInt (rlvStatus v))]
        in case rlvError v of
             Some err \<Rightarrow>
               let fields = fields @ [(''error'', LogString (error_text err))]
               in (Ok (), log @ [\<lparr>leLevel = ErrorLevel, leMessage = ''Request'', leFields = fields\<rparr>])
           | None \<Rightarrow> (Ok (), log @ [\<lparr>leLevel = InfoLevel, leMessage = ''Request'', leFields = fields\<rparr>]))\<rparr>"

text \<open>One entry per request, on the error level exactly for a request that failed; never an error.\<close>

lemma one_entry_per_request:
  "\<exists>e. LogValuesFunc (LoggerMiddlewareConfig method) c v log = (Ok (), log @ [e]) \<and>
    (leLevel e = ErrorLevel \<longleftrightarrow> rlvError v \<noteq> None) \<and> (''status'', LogInt (rlvStatus v)) \<in> set (leFields e)"
  by (auto simp: LoggerMiddlewareConfig_def Let_def split: option.splits)

end
