(* ===== verification/Jobs.thy ===== *)
theory Jobs
  imports Go_Errors
begin

text \<open>
  Calls that run at the same time, one job each. A \<open>job\<close> is a call cut into atomic steps: it is
  done, or its next step changes the shared state and leaves the rest of the job. The reasoning is
  rely-guarantee: what every step of a job keeps (\<open>guarantees\<close>), and what a job achieves when the
  others keep a relation (\<open>ensures\<close>). \<open>Job_Pool\<close> puts jobs together.
\<close>

section \<open>Jobs\<close>

datatype ('w, 'a) job = Done "'a outcome" | Act "'w \<Rightarrow> ('w, 'a) job \<times> 'w"

text \<open>One atomic call, the error branch as in \<open>go_try\<close>, and a job run without interruption.\<close>

definition job_act :: "('w, 'a) go \<Rightarrow> ('w, 'a) job" where
  "job_act m = Act (\<lambda>w. case m w of (r, w') \<Rightarrow> (Done r, w'))"

definition job_wrap :: "string \<Rightarrow> gerror \<Rightarrow> ('w, 'a) job" where
  "job_wrap p e = Done (Err (Errorf p e))"

primrec job_try ::
  "('w, 'a) job \<Rightarrow> (gerror \<Rightarrow> ('w, 'b) job) \<Rightarrow> ('a \<Rightarrow> ('w, 'b) job) \<Rightarrow> ('w, 'b) job" where
  "job_try (Done r) = (\<lambda>h k. case r of Ok v \<Rightarrow> k v | Err e \<Rightarrow> h e | Panic p \<Rightarrow> Done (Panic p))"
| "job_try (Act f) = (\<lambda>h k. Act (map_prod (\<lambda>g. g h k) id \<circ> (map_prod job_try id \<circ> f)))"

primrec run_job :: "('w, 'a) job \<Rightarrow> ('w, 'a) go" where
  "run_job (Done r) = Pair r"
| "run_job (Act f) = (\<lambda>w. case (map_prod run_job id \<circ> f) w of (g, w') \<Rightarrow> g w')"

lemma job_try_Done [simp]:
  "job_try (Done (Ok v)) h k = k v" "job_try (Done (Err e)) h k = h e"
  "job_try (Done (Panic p)) h k = Done (Panic p)"
  by simp_all

lemma job_try_Act: "job_try (Act f) h k = Act (\<lambda>w. case f w of (j, w') \<Rightarrow> (job_try j h k, w'))"
  by (auto simp: fun_eq_iff split: prod.splits)

lemma run_Act: "f w = (j, w') \<Longrightarrow> run_job (Act f) w = run_job j w'"
  by simp

declare job_try.simps [simp del] run_job.simps(2) [simp del]

lemma job_induct [case_names Done Act, induct type: job]:
  assumes "\<And>r. P (Done r)" and "\<And>f. (\<And>w j w'. f w = (j, w') \<Longrightarrow> P j) \<Longrightarrow> P (Act f)"
  shows "P j"
proof (induction j rule: job.induct)
  case (Act f)
  then show ?case by (intro assms(2)) (metis fsts.intros prod.sel(1) rangeI)
qed (rule assms(1))

lemma run_job_try [simp]:
  "run_job (job_try j h k) = go_try (run_job j) (\<lambda>e. run_job (h e)) (\<lambda>v. run_job (k v))"
proof (rule ext)
  fix w
  show "run_job (job_try j h k) w = go_try (run_job j) (\<lambda>e. run_job (h e)) (\<lambda>v. run_job (k v)) w"
  proof (induction j arbitrary: w)
    case (Done r)
    then show ?case by (cases r) (simp_all add: go_try_def)
  next
    case (Act f)
    obtain j w' where "f w = (j, w')" by fastforce
    with Act [OF this] show ?case by (simp add: job_try_Act run_Act go_try_def)
  qed
qed

lemma job_try_assoc:
  "job_try (job_try j h k) h' k' = job_try j (\<lambda>e. job_try (h e) h' k') (\<lambda>v. job_try (k v) h' k')"
proof (induction j)
  case (Done r)
  then show ?case by (cases r) simp_all
next
  case (Act f)
  then show ?case by (auto simp: job_try_Act fun_eq_iff split: prod.splits)
qed

lemma run_job_act [simp]: "run_job (job_act m) = m"
  by (rule ext) (auto simp: job_act_def run_job.simps(2) split: prod.splits)

lemma run_job_wrap [simp]: "run_job (job_wrap p e) = go_wrap p e"
  by (rule ext) (simp add: job_wrap_def)

lemma run_job_Done [simp]: "run_job (Done r) = go_pure r"
  by (rule ext) simp

declare run_job.simps(1) [simp del]

section \<open>Guarantee and rely\<close>

text \<open>Every step of the job keeps \<open>G\<close>.\<close>

inductive guarantees :: "('w \<Rightarrow> 'w \<Rightarrow> bool) \<Rightarrow> ('w, 'a) job \<Rightarrow> bool" for G where
  Done: "guarantees G (Done r)"
| Act: "(\<And>w j w'. f w = (j, w') \<Longrightarrow> G w w' \<and> guarantees G j) \<Longrightarrow> guarantees G (Act f)"

inductive_simps guarantees_Act [simp]: "guarantees G (Act f)"

declare guarantees.Done [simp, intro]

lemma guarantees_act: "(\<And>w r w'. m w = (r, w') \<Longrightarrow> G w w') \<Longrightarrow> guarantees G (job_act m)"
  by (auto simp: job_act_def split: prod.splits)

lemma guarantees_wrap [simp]: "guarantees G (job_wrap p e)"
  by (simp add: job_wrap_def)

lemma guarantees_try:
  assumes "guarantees G j" and "\<And>e. guarantees G (h e)" and "\<And>v. guarantees G (k v)"
  shows "guarantees G (job_try j h k)"
  using assms(1)
proof induction
  case (Done r)
  then show ?case using assms(2,3) by (cases r) simp_all
qed (auto simp: job_try_Act split: prod.splits)

text \<open>From the state \<open>w\<close>, with \<open>R\<close> between any two steps, the job ends in \<open>Q\<close>.\<close>

inductive ensures ::
  "('w \<Rightarrow> 'w \<Rightarrow> bool) \<Rightarrow> ('a outcome \<Rightarrow> 'w \<Rightarrow> bool) \<Rightarrow> ('w, 'a) job \<Rightarrow> 'w \<Rightarrow> bool" for R Q where
  Done: "(\<And>w1. R w w1 \<Longrightarrow> Q r w1) \<Longrightarrow> ensures R Q (Done r) w"
| Act: "(\<And>w1 j w2. R w w1 \<Longrightarrow> f w1 = (j, w2) \<Longrightarrow> ensures R Q j w2) \<Longrightarrow> ensures R Q (Act f) w"

inductive_simps ensures_Done: "ensures R Q (Done r) w"
inductive_simps ensures_Act: "ensures R Q (Act f) w"

lemma ensures_stable: "ensures R Q j w \<Longrightarrow> transp R \<Longrightarrow> R w w' \<Longrightarrow> ensures R Q j w'"
  by (induction rule: ensures.induct) (auto simp: ensures_Done ensures_Act dest: transpD)

lemma ensures_mono: "ensures R Q j w \<Longrightarrow> (\<And>r w. Q r w \<Longrightarrow> Q' r w) \<Longrightarrow> ensures R Q' j w"
  by (induction rule: ensures.induct) (auto simp: ensures_Done ensures_Act)

lemma ensures_act:
  assumes "\<And>w1 r w2 w3. R w w1 \<Longrightarrow> m w1 = (r, w2) \<Longrightarrow> R w2 w3 \<Longrightarrow> Q r w3"
  shows "ensures R Q (job_act m) w"
  using assms by (auto simp: job_act_def ensures_Act ensures_Done split: prod.splits)

lemma ensures_try:
  assumes "ensures R P j w" and "reflp R"
    and "\<And>v w'. P (Ok v) w' \<Longrightarrow> ensures R Q (k v) w'"
    and "\<And>e w'. P (Err e) w' \<Longrightarrow> ensures R Q (h e) w'"
    and "\<And>p w'. P (Panic p) w' \<Longrightarrow> ensures R Q (Done (Panic p)) w'"
  shows "ensures R Q (job_try j h k) w"
  using assms(1)
proof induction
  case (Done w r)
  from Done [OF reflpD [OF assms(2)]] show ?case using assms(3-5) by (cases r) auto
qed (auto simp: job_try_Act ensures_Act split: prod.splits)

end
