(* ===== verification/Job_Pool.thy ===== *)
theory Job_Pool
  imports Jobs
begin

text \<open>
  A pool holds the jobs that have arrived, each with the request it serves. At any time a request
  arrives, some job takes its next step, or the environment acts. The locale \<open>job_pool\<close> derives what
  a run of a pool keeps, and what its jobs achieve, from what the jobs guarantee and rely on.
\<close>

section \<open>Pools of jobs\<close>

type_synonym ('q, 'w, 'a) pool = "('q \<times> ('w, 'a) job) list"

inductive pool_step ::
  "('q \<Rightarrow> ('w, 'a) job) \<Rightarrow> ('w \<Rightarrow> 'w \<Rightarrow> bool) \<Rightarrow> ('q, 'w, 'a) pool \<times> 'w \<Rightarrow> ('q, 'w, 'a) pool \<times> 'w \<Rightarrow> bool"
  for start E where
  Arrive: "pool_step start E (ps, w) (ps @ [(q, start q)], w)"
| Work: "i < length ps \<Longrightarrow> ps ! i = (q, Act f) \<Longrightarrow> f w = (j, w') \<Longrightarrow>
    pool_step start E (ps, w) (ps[i := (q, j)], w')"
| Elsewhere: "E w w' \<Longrightarrow> pool_step start E (ps, w) (ps, w')"

inductive_cases pool_stepE: "pool_step start E (ps, w) (ps', w')"

abbreviation pool_run ::
  "('q \<Rightarrow> ('w, 'a) job) \<Rightarrow> ('w \<Rightarrow> 'w \<Rightarrow> bool) \<Rightarrow> ('q, 'w, 'a) pool \<times> 'w \<Rightarrow> ('q, 'w, 'a) pool \<times> 'w \<Rightarrow> bool"
  where "pool_run start E \<equiv> (pool_step start E)\<^sup>*\<^sup>*"

lemma pool_run_induct [consumes 1, case_names Start Arrive Work Elsewhere]:
  assumes "pool_run start E (ps, w) (ps', w')" and "P ps w"
    and "\<And>ps1 w1 q. pool_run start E (ps, w) (ps1, w1) \<Longrightarrow> P ps1 w1 \<Longrightarrow> P (ps1 @ [(q, start q)]) w1"
    and "\<And>ps1 w1 i q f j w2. pool_run start E (ps, w) (ps1, w1) \<Longrightarrow> P ps1 w1 \<Longrightarrow> i < length ps1 \<Longrightarrow>
      ps1 ! i = (q, Act f) \<Longrightarrow> f w1 = (j, w2) \<Longrightarrow> P (ps1[i := (q, j)]) w2"
    and "\<And>ps1 w1 w2. pool_run start E (ps, w) (ps1, w1) \<Longrightarrow> P ps1 w1 \<Longrightarrow> E w1 w2 \<Longrightarrow> P ps1 w2"
  shows "P ps' w'"
  using assms(1)
proof (induction rule: rtranclp_induct2)
  case (step ps1 w1 ps2 w2)
  from step.hyps(2) show ?case
    by (rule pool_stepE) (use assms(3-5) step.hyps(1) step.IH in auto)
qed (rule assms(2))

text \<open>The jobs that are done in a pool, and the requests whose jobs may have worked since.\<close>

definition finished :: "('q, 'w, 'a) pool \<Rightarrow> nat \<Rightarrow> bool" where
  "finished ps i \<longleftrightarrow> i < length ps \<and> (case snd (ps ! i) of Done _ \<Rightarrow> True | Act _ \<Rightarrow> False)"

definition at_work :: "('q, 'w, 'a) pool \<Rightarrow> ('q, 'w, 'a) pool \<Rightarrow> 'q set" where
  "at_work ps ps' = {fst (ps' ! i) | i. i < length ps' \<and> \<not> finished ps i}"

lemma pool_shape:
  assumes "pool_run start E (ps, w) (ps', w')"
  shows "length ps \<le> length ps'" and "i < length ps \<Longrightarrow> fst (ps' ! i) = fst (ps ! i)"
    and "finished ps i \<Longrightarrow> ps' ! i = ps ! i"
proof -
  from assms have "length ps \<le> length ps' \<and> (\<forall>i<length ps. fst (ps' ! i) = fst (ps ! i)) \<and>
    (\<forall>i. finished ps i \<longrightarrow> ps' ! i = ps ! i)"
  proof (induction rule: pool_run_induct)
    case (Work ps1 w1 i q f j w2)
    then show ?case by (auto simp: nth_list_update finished_def)
  qed (auto simp: nth_append finished_def)
  then show "length ps \<le> length ps'" "i < length ps \<Longrightarrow> fst (ps' ! i) = fst (ps ! i)"
    "finished ps i \<Longrightarrow> ps' ! i = ps ! i" by simp_all
qed

lemma at_work_mono: "pool_run start E (ps1, w1) (ps2, w2) \<Longrightarrow> at_work ps ps1 \<subseteq> at_work ps ps2"
proof
  fix q
  assume run: "pool_run start E (ps1, w1) (ps2, w2)" and "q \<in> at_work ps ps1"
  then obtain i where i: "i < length ps1" "\<not> finished ps i" "q = fst (ps1 ! i)"
    by (auto simp: at_work_def)
  with pool_shape(1,2) [OF run] have "i < length ps2" "q = fst (ps2 ! i)" by simp_all
  with i(2) show "q \<in> at_work ps ps2" by (auto simp: at_work_def)
qed

text \<open>A job that runs up to some point, a job that nobody interrupts, and a request served alone.\<close>

lemma pool_partly:
  assumes "run_job j w = (r, w')"
  shows "pool_run start E (ps @ (q, job_try j h k) # qs, w) (ps @ (q, job_try (Done r) h k) # qs, w')"
  using assms
proof (induction j arbitrary: w)
  case (Act f)
  obtain j w1 where f: "f w = (j, w1)" by fastforce
  let ?ps = "ps @ (q, job_try (Act f) h k) # qs"
  have "pool_step start E (?ps, w) (?ps[length ps := (q, job_try j h k)], w1)"
    by (rule pool_step.Work [where f = "\<lambda>w. case f w of (j, w') \<Rightarrow> (job_try j h k, w')"])
      (simp_all add: f job_try_Act)
  also have "pool_run start E (?ps[length ps := (q, job_try j h k)], w1)
    (ps @ (q, job_try (Done r) h k) # qs, w')"
    using Act.IH [OF f, of w1] Act.prems by (simp add: run_Act f)
  finally show ?case .
qed simp

lemma pool_alone:
  assumes "run_job j w = (r, w')"
  shows "pool_run start E (ps @ (q, j) # qs, w) (ps @ (q, Done r) # qs, w')"
  using assms
proof (induction j arbitrary: w)
  case (Act f)
  obtain j w1 where f: "f w = (j, w1)" by fastforce
  have "pool_step start E (ps @ (q, Act f) # qs, w) ((ps @ (q, Act f) # qs)[length ps := (q, j)], w1)"
    by (rule pool_step.Work [where f = f]) (simp_all add: f)
  also have "pool_run start E ((ps @ (q, Act f) # qs)[length ps := (q, j)], w1)
    (ps @ (q, Done r) # qs, w')"
    using Act.IH [OF f, of w1] Act.prems by (simp add: run_Act f)
  finally show ?case .
qed simp

lemma pool_served:
  assumes "run_job (start q) w = (r, w')"
  shows "pool_run start E (ps, w) (ps @ [(q, Done r)], w')"
proof -
  have "pool_step start E (ps, w) (ps @ [(q, start q)], w)" by (rule pool_step.Arrive)
  also have "pool_run start E (ps @ [(q, start q)], w) (ps @ [(q, Done r)], w')"
    by (rule pool_alone [OF assms])
  finally show ?thesis .
qed

text \<open>
  Pools whose requests are served by jobs with a guarantee each: the relation the guarantees of the
  requests at work share is kept by the run, and it is what every job may rely on.
\<close>

locale job_pool =
  fixes start :: "'q \<Rightarrow> ('w, 'a) job" and E :: "'w \<Rightarrow> 'w \<Rightarrow> bool" and G :: "'q \<Rightarrow> 'w \<Rightarrow> 'w \<Rightarrow> bool"
  assumes start_guarantees: "guarantees (G q) (start q)"
begin

definition in_order :: "('q, 'w, 'a) pool \<Rightarrow> bool" where
  "in_order ps \<longleftrightarrow> (\<forall>i<length ps. guarantees (G (fst (ps ! i))) (snd (ps ! i)))"

lemma in_order_Nil [simp]: "in_order []"
  by (simp add: in_order_def)

lemma run_in_order: "pool_run start E (ps, w) (ps', w') \<Longrightarrow> in_order ps \<Longrightarrow> in_order ps'"
proof (induction rule: pool_run_induct)
  case (Arrive ps1 w1 q)
  then show ?case using start_guarantees by (auto simp: in_order_def nth_append less_Suc_eq)
next
  case (Work ps1 w1 i q f j w2)
  then have "guarantees (G q) (Act f)" by (auto simp: in_order_def)
  with Work show ?case by (auto simp: in_order_def nth_list_update)
qed

definition permits :: "('w \<Rightarrow> 'w \<Rightarrow> bool) \<Rightarrow> 'q set \<Rightarrow> bool" where
  "permits R A \<longleftrightarrow> reflp R \<and> transp R \<and> E \<le> R \<and> (\<forall>q\<in>A. G q \<le> R)"

lemma step_permitted:
  assumes "in_order ps1" and "permits R (at_work ps ps1)" and "pool_run start E (ps, w) (ps1, w1)"
    and "i < length ps1" and "ps1 ! i = (q, Act f)" and "f w1 = (j, w2)"
  shows "R w1 w2"
proof -
  from assms(1,4-6) have "G q w1 w2" by (auto simp: in_order_def dest: spec)
  moreover have "\<not> finished ps i" using pool_shape(3) [OF assms(3)] assms(5) by (auto simp: finished_def split: job.splits)
  ultimately show ?thesis using assms(2,4,5) by (force simp: permits_def at_work_def)
qed

lemma permits_mono: "permits R B \<Longrightarrow> A \<subseteq> B \<Longrightarrow> permits R A"
  by (auto simp: permits_def)

lemma run_permitted:
  assumes "pool_run start E (ps, w) (ps', w')" and "in_order ps"
  shows "permits R (at_work ps ps') \<longrightarrow> R w w'"
  using assms(1)
proof (induction rule: pool_run_induct)
  case Start
  then show ?case by (simp add: permits_def reflpD)
next
  case (Arrive ps1 w1 q)
  from pool_step.Arrive have "at_work ps ps1 \<subseteq> at_work ps (ps1 @ [(q, start q)])"
    by (rule at_work_mono [OF r_into_rtranclp])
  with Arrive(2) show ?case by (blast intro: permits_mono)
next
  case (Work ps1 w1 i q f j w2)
  from pool_step.Work [OF Work(2-4)] have "at_work ps ps1 \<subseteq> at_work ps (ps1[i := (q, j)])"
    by (rule at_work_mono [OF r_into_rtranclp])
  with Work(5) step_permitted [OF run_in_order [OF Work(1) assms(2)] _ Work(1-4), of R] show ?case
    by (meson permits_def permits_mono transpD)
next
  case (Elsewhere ps1 w1 w2)
  then show ?case by (auto simp: permits_def dest: transpD)
qed

text \<open>What a job may rely on holds for it at the end; so do the jobs of the requests that arrive.\<close>

lemma run_ensures:
  assumes "pool_run start E (ps, w) (ps', w')" and "in_order ps"
    and "\<And>q w1. q \<in> B \<Longrightarrow> R w w1 \<Longrightarrow> ensures R (Q q w1) (start q) w1"
  shows "permits R (at_work ps ps') \<longrightarrow> (\<forall>k. length ps \<le> k \<and> k < length ps' \<and> fst (ps' ! k) \<in> B \<longrightarrow>
    (\<exists>w1. R w w1 \<and> ensures R (Q (fst (ps' ! k)) w1) (snd (ps' ! k)) w'))"
  using assms(1)
proof (induction rule: pool_run_induct)
  case Start
  then show ?case by auto
next
  case (Arrive ps1 w1 q)
  from pool_step.Arrive have sub: "at_work ps ps1 \<subseteq> at_work ps (ps1 @ [(q, start q)])"
    by (rule at_work_mono [OF r_into_rtranclp])
  then have "R w w1" if "permits R (at_work ps (ps1 @ [(q, start q)]))"
    using run_permitted [OF Arrive(1) assms(2), of R] that by (blast intro: permits_mono)
  moreover from sub have "permits R (at_work ps ps1)" if "permits R (at_work ps (ps1 @ [(q, start q)]))"
    using that by (rule permits_mono [rotated])
  ultimately show ?case using Arrive(2) assms(3) by (auto simp: nth_append less_Suc_eq)
next
  case (Work ps1 w1 i q f j w2)
  from pool_step.Work [OF Work(2-4)] have sub: "at_work ps ps1 \<subseteq> at_work ps (ps1[i := (q, j)])"
    by (rule at_work_mono [OF r_into_rtranclp])
  show ?case
  proof (intro impI allI)
    fix k
    assume p: "permits R (at_work ps (ps1[i := (q, j)]))" and k: "length ps \<le> k \<and> k < length (ps1[i := (q, j)]) \<and>
      fst (ps1[i := (q, j)] ! k) \<in> B"
    from p sub have p1: "permits R (at_work ps ps1)" by (rule permits_mono)
    from step_permitted [OF run_in_order [OF Work(1) assms(2)] p1 Work(1-4)] have step: "R w1 w2" .
    from p have refl: "R w1 w1" and tr: "transp R" by (simp_all add: permits_def reflpD)
    from k Work(3) have "fst (ps1[i := (q, j)] ! k) = fst (ps1 ! k)" by (cases "k = i") simp_all
    with k Work(5) p1 obtain w0 where w0: "R w w0" "ensures R (Q (fst (ps1 ! k)) w0) (snd (ps1 ! k)) w1"
      by auto
    show "\<exists>w0. R w w0 \<and> ensures R (Q (fst (ps1[i := (q, j)] ! k)) w0) (snd (ps1[i := (q, j)] ! k)) w2"
    proof (cases "k = i")
      case True
      with w0 Work(2-4) refl show ?thesis by (auto simp: ensures_Act)
    next
      case False
      with w0 ensures_stable [OF w0(2) tr step] show ?thesis by auto
    qed
  qed
next
  case (Elsewhere ps1 w1 w2)
  show ?case
  proof (intro impI allI)
    fix k
    assume p: "permits R (at_work ps ps1)" and k: "length ps \<le> k \<and> k < length ps1 \<and> fst (ps1 ! k) \<in> B"
    from p have tr: "transp R" and "R w1 w2" using Elsewhere(2) by (auto simp: permits_def)
    with Elsewhere(3) p k show "\<exists>w0. R w w0 \<and> ensures R (Q (fst (ps1 ! k)) w0) (snd (ps1 ! k)) w2"
      by (blast intro: ensures_stable)
  qed
qed

lemma arrival_ends:
  assumes "pool_run start E (ps, w) (ps', w')" and "in_order ps" and "permits R (at_work ps ps')"
    and "length ps \<le> k" and "k < length ps'" and "ps' ! k = (q, Done r)"
    and "\<And>w1. R w w1 \<Longrightarrow> ensures R (Q w1) (start q) w1"
  shows "\<exists>w1. R w w1 \<and> Q w1 r w'"
proof -
  from run_ensures [OF assms(1,2), where B = "{q}" and R = R and Q = "\<lambda>_. Q"] assms(3-7)
  obtain w1 where "R w w1" "ensures R (Q w1) (Done r) w'" by fastforce
  moreover have "R w' w'" using assms(3) by (simp add: permits_def reflpD)
  ultimately show ?thesis by (auto simp: ensures_Done)
qed

end

end
