(* ===== verification/Auth_Jobs.thy ===== *)
theory Auth_Jobs
  imports Job_Pool Auth_Contract
begin

text \<open>
  The operations of \<open>internal/service/auth.go\<close> as jobs: the same text as in \<open>Auth_Service\<close>, where
  every call of the storage, of the denylist and of the notifier is an atomic step and other requests
  may act between two of them. A call of a repository is one SQL statement, which the database runs
  in one piece; that a \<open>...Tx\<close>, one transaction of several statements, is one step too is an
  assumption of this model on the isolation of the database. The server (\<open>net/http\<close>) starts a
  goroutine for every request, which is what a pool of these jobs is.
\<close>

section \<open>The operations\<close>

definition IssueTokens_job ::
  "jwt_lib \<Rightarrow> ('d, 'r) AuthService \<Rightarrow> ambient \<Rightarrow> string \<Rightarrow> UserMetadata \<Rightarrow>
   (('d, 'r) world, string \<times> string) job" where
  "IssueTokens_job J as am guid userMetadata =
     (let now = amClock am 0; jti = amUUID am in
      job_try (Done (TokenService_CreateRefreshToken (amRand am)))
        (job_wrap ''failed to create refresh token: '')
        (\<lambda>(refreshToken, selector, verifierHash).
           let session = new_session as selector verifierHash userMetadata jti now in
           job_try (job_act (lift_db (IssueTokensTx (asStorage as) guid session)))
             (job_wrap ''failed to execute issue tokens transaction: '')
             (\<lambda>user.
                job_try (Done (TokenService_CreateAccessTokenWithJTI J (asTokenService as)
                          (uID user) now jti))
                  (job_wrap ''failed to create access token with correct user ID: '')
                  (\<lambda>accessToken. Done (Ok (accessToken, refreshToken))))))"

definition detectTheftAndRevoke_job ::
  "('d, 'r) AuthService \<Rightarrow> string \<Rightarrow> (('d, 'r) world, unit) job" where
  "detectTheftAndRevoke_job as selector =
     job_try (job_act (lift_db (FindSessionBySelector (Sessions (asStorage as)) selector)))
       (\<lambda>_. Done (Err (Sentinel ErrSessionNotFound)))
       (\<lambda>usedSession.
          job_try (job_act (lift_db (DeleteAllUserSessions (Sessions (asStorage as)) (rsUserID usedSession))))
            (job_wrap ''failed to revoke sessions after theft detection: '')
            (\<lambda>_. Done (Err (ErrorsNew ''token reuse detected, all sessions revoked''))))"

definition RefreshTokens_session_job ::
  "('d, 'r) AuthService \<Rightarrow> jwtClaims \<Rightarrow> string \<Rightarrow> UserMetadata \<Rightarrow> RefreshSession \<Rightarrow>
   (('d, 'r) world, unit) job" where
  "RefreshTokens_session_job as claims refreshToken userMetadata activeSession =
     (if rsAccessTokenJTI activeSession \<noteq> jcID claims
      then Done (Err (ErrorsNew ''access and refresh tokens do not match''))
      else if rsUserAgent activeSession \<noteq> umUserAgent userMetadata
      then job_try
        (job_act (lift_db (DeleteAllUserSessions (Sessions (asStorage as)) (rsUserID activeSession))))
        (job_wrap ''failed to revoke sessions after user-agent mismatch: '')
        (\<lambda>_. Done (Err (ErrorsNew ''user-agent has changed, all sessions revoked'')))
      else
        job_try
          (if rsIPAddress activeSession \<noteq> umIPAddress userMetadata
           then job_act (WebhookService_NotifyIPChange (ip_change activeSession userMetadata))
           else Done (Ok ()))
          (\<lambda>e. Done (Err e))
          (\<lambda>_. Done (TokenService_ValidateRefreshToken refreshToken (rsVerifierHash activeSession))))"

definition RefreshTokens_checks_job ::
  "jwt_lib \<Rightarrow> ('d, 'r) AuthService \<Rightarrow> string \<Rightarrow> string \<Rightarrow> UserMetadata \<Rightarrow>
   (('d, 'r) world, (string \<times> string) + (string \<times> RefreshSession)) job" where
  "RefreshTokens_checks_job J as accessToken refreshToken userMetadata =
     job_try (Done (TokenService_getClaimsFromToken J accessToken))
       (job_wrap ''invalid access token: '')
       (\<lambda>claims.
          let parts = strings_Split (CHR ''.'') refreshToken in
          if length parts \<noteq> TokenPartsExpected
          then Done (Err (ErrorsNew ''invalid refresh token format''))
          else
            let selector = parts ! 0 in
            job_try (job_act (lift_db (GetActiveSessionBySelector (Sessions (asStorage as)) selector)))
              (\<lambda>err.
                 if errors_Is err ErrSessionNotFound
                 then job_try (detectTheftAndRevoke_job as selector) (\<lambda>e. Done (Err e))
                        (\<lambda>_. Done (Ok (Inl ('''', ''''))))
                 else job_wrap ''failed to get active session: '' err)
              (\<lambda>activeSession.
                 job_try (RefreshTokens_session_job as claims refreshToken userMetadata activeSession)
                   (\<lambda>e. Done (Err e)) (\<lambda>_. Done (Ok (Inr (selector, activeSession))))))"

definition RefreshTokens_rotation_job ::
  "jwt_lib \<Rightarrow> ('d, 'r) AuthService \<Rightarrow> ambient \<Rightarrow> string \<Rightarrow> RefreshSession \<Rightarrow> UserMetadata \<Rightarrow>
   (('d, 'r) world, string \<times> string) job" where
  "RefreshTokens_rotation_job J as am selector activeSession userMetadata =
     (let now = amClock am 0 in
      job_try (Done (TokenService_CreateAccessToken J (asTokenService as) (amUUID am)
                (rsUserID activeSession) now))
        (job_wrap ''failed to create new access token: '')
        (\<lambda>(newAccessToken, newJTI).
           job_try (Done (TokenService_CreateRefreshToken (amRand am)))
             (job_wrap ''failed to create new refresh token: '')
             (\<lambda>(newRefreshToken, newSelector, newVerifierHash).
                let newSession = new_session as newSelector newVerifierHash userMetadata newJTI now in
                job_try (job_act (lift_db (RotateTokensTx (asStorage as) selector newSession
                          (rsUserID activeSession))))
                  (job_wrap ''failed to execute rotate tokens transaction: '')
                  (\<lambda>_. Done (Ok (newAccessToken, newRefreshToken))))))"

definition RefreshTokens_job ::
  "jwt_lib \<Rightarrow> ('d, 'r) AuthService \<Rightarrow> ambient \<Rightarrow> string \<Rightarrow> string \<Rightarrow> UserMetadata \<Rightarrow>
   (('d, 'r) world, string \<times> string) job" where
  "RefreshTokens_job J as am accessToken refreshToken userMetadata =
     job_try (RefreshTokens_checks_job J as accessToken refreshToken userMetadata) (\<lambda>e. Done (Err e))
       (\<lambda>x. case x of
          Inl r \<Rightarrow> Done (Ok r)
        | Inr (selector, activeSession) \<Rightarrow>
            RefreshTokens_rotation_job J as am selector activeSession userMetadata)"

definition Logout_job ::
  "jwt_lib \<Rightarrow> ('d, 'r) AuthService \<Rightarrow> clock \<Rightarrow> string \<Rightarrow> (('d, 'r) world, unit) job" where
  "Logout_job J as clk accessToken =
     job_try (job_act (lift_redis (TokenService_ValidateAccessTokenAndGetUserID J (asTokenService as)
               clk accessToken)))
       (job_wrap ''access token validation failed: '')
       (\<lambda>userID.
          job_try (job_act (lift_redis (TokenService_InvalidateAccessToken J (asTokenService as)
                    (\<lambda>n. clk (n + 2)) accessToken)))
            (job_wrap ''failed to invalidate access token: '')
            (\<lambda>_. job_try (job_act (lift_db (DeleteAllUserSessions (Sessions (asStorage as)) userID)))
               (job_wrap ''failed to delete all user sessions: '') (\<lambda>_. Done (Ok ()))))"

section \<open>Requests\<close>

text \<open>What a goroutine is asked to do, with what its calls draw, and what it answers.\<close>

datatype auth_request =
    IssueRequest ambient string UserMetadata
  | RefreshRequest ambient string string UserMetadata
  | LogoutRequest clock string
  | AuthenticateRequest clock string
  | GuidRequest int

datatype auth_reply = TokensReply "string \<times> string" | DoneReply | UserReply int | GuidReply string

definition job_map :: "('a \<Rightarrow> 'b) \<Rightarrow> ('w, 'a) job \<Rightarrow> ('w, 'b) job" where
  "job_map f j = job_try j (\<lambda>e. Done (Err e)) (\<lambda>v. Done (Ok (f v)))"

definition go_map :: "('a \<Rightarrow> 'b) \<Rightarrow> ('s, 'a) go \<Rightarrow> ('s, 'b) go" where
  "go_map f m = go_try m go_fail (\<lambda>v. go_ret (f v))"

fun service_call ::
  "jwt_lib \<Rightarrow> ('d, 'r) AuthService \<Rightarrow> auth_request \<Rightarrow> (('d, 'r) world, auth_reply) go" where
  "service_call J as (IssueRequest am guid md) = go_map TokensReply (AuthService_IssueTokens J as am guid md)"
| "service_call J as (RefreshRequest am acc rt md) =
     go_map TokensReply (AuthService_RefreshTokens J as am acc rt md)"
| "service_call J as (LogoutRequest clk tok) = go_map (\<lambda>_. DoneReply) (AuthService_Logout J as clk tok)"
| "service_call J as (AuthenticateRequest clk tok) =
     go_map UserReply (AuthService_AuthenticateAccessToken J as clk tok)"
| "service_call J as (GuidRequest i) = go_map GuidReply (AuthService_GetPublicGUID as i)"

fun service_job ::
  "jwt_lib \<Rightarrow> ('d, 'r) AuthService \<Rightarrow> auth_request \<Rightarrow> (('d, 'r) world, auth_reply) job" where
  "service_job J as (IssueRequest am guid md) = job_map TokensReply (IssueTokens_job J as am guid md)"
| "service_job J as (RefreshRequest am acc rt md) =
     job_map TokensReply (RefreshTokens_job J as am acc rt md)"
| "service_job J as (LogoutRequest clk tok) = job_map (\<lambda>_. DoneReply) (Logout_job J as clk tok)"
| "service_job J as (AuthenticateRequest clk tok) =
     job_map UserReply (job_act (AuthService_AuthenticateAccessToken J as clk tok))"
| "service_job J as (GuidRequest i) = job_map GuidReply (job_act (AuthService_GetPublicGUID as i))"

section \<open>A request alone\<close>

lemma run_job_map [simp]: "run_job (job_map f j) = go_map f (run_job j)"
  by (rule ext) (simp add: job_map_def go_map_def go_try_def split: prod.splits outcome.splits)

lemma go_pure_Err [simp]: "go_pure (Err e) = go_fail e" and go_pure_Ok [simp]: "go_pure (Ok v) = go_ret v"
  by (rule ext, simp)+

lemma run_if: "run_job (if b then j else j') = (if b then run_job j else run_job j')"
  by simp

lemma issue_alone: "run_job (IssueTokens_job J as am guid md) = AuthService_IssueTokens J as am guid md"
  by (simp add: IssueTokens_job_def AuthService_IssueTokens_def Let_def case_prod_unfold)

lemma detect_alone: "run_job (detectTheftAndRevoke_job as sel) = AuthService_detectTheftAndRevoke as sel"
  by (simp add: detectTheftAndRevoke_job_def AuthService_detectTheftAndRevoke_def)

lemma session_alone:
  "run_job (RefreshTokens_session_job as c rt md s) = AuthService_RefreshTokens_session as c rt md s"
  by (simp add: RefreshTokens_session_job_def AuthService_RefreshTokens_session_def run_if)

lemma checks_alone:
  "run_job (RefreshTokens_checks_job J as acc rt md) = AuthService_RefreshTokens_checks J as acc rt md"
  by (simp add: RefreshTokens_checks_job_def AuthService_RefreshTokens_checks_def Let_def run_if
      detect_alone session_alone cong: if_cong)

lemma rotation_alone:
  "run_job (RefreshTokens_rotation_job J as am sel s md) = AuthService_RefreshTokens_rotation J as am sel s md"
  by (simp add: RefreshTokens_rotation_job_def AuthService_RefreshTokens_rotation_def Let_def case_prod_unfold)

lemma refresh_alone:
  "run_job (RefreshTokens_job J as am acc rt md) = AuthService_RefreshTokens J as am acc rt md"
proof -
  have "run_job (case x of Inl r \<Rightarrow> Done (Ok r)
      | Inr (sel, s) \<Rightarrow> RefreshTokens_rotation_job J as am sel s md) =
    (case x of Inl r \<Rightarrow> go_ret r | Inr (sel, s) \<Rightarrow> AuthService_RefreshTokens_rotation J as am sel s md)" for x
    by (simp add: rotation_alone split: sum.split prod.split)
  then show ?thesis by (simp add: RefreshTokens_job_def AuthService_RefreshTokens_def checks_alone)
qed

lemma logout_alone: "run_job (Logout_job J as clk tok) = AuthService_Logout J as clk tok"
  by (simp add: Logout_job_def AuthService_Logout_def)

lemma request_alone: "run_job (service_job J as q) = service_call J as q"
  by (cases q) (simp_all add: issue_alone refresh_alone logout_alone)

end
