(* ===== verification/Interleaving.thy ===== *)
theory Interleaving
  imports Auth_Jobs
begin

text \<open>
  What the jobs of the authentication service keep, and what each achieves while others run, on any
  storage that keeps \<open>storage_contract\<close>. The relation the requests share says how a slot of the
  session store moves: a session may go or become used, an empty slot stays empty unless a request
  draws its selector.
\<close>

section \<open>The relation the requests share\<close>

fun settled :: "(RefreshSession \<times> string) option \<Rightarrow> (RefreshSession \<times> string) option \<Rightarrow> bool" where
  "settled None x \<longleftrightarrow> x = None"
| "settled (Some (s, st)) x \<longleftrightarrow> x = None \<or> x = Some (s, st) \<or> x = Some (s, ''used'')"

definition settles :: "string set \<Rightarrow> session_store \<Rightarrow> session_store \<Rightarrow> bool" where
  "settles N m m' \<longleftrightarrow> (\<forall>sel. sel \<notin> N \<longrightarrow> settled (m sel) (m' sel))"

definition keeps ::
  "('d \<Rightarrow> bool) \<Rightarrow> ('d \<Rightarrow> user_store) \<Rightarrow> ('d \<Rightarrow> session_store) \<Rightarrow> string set \<Rightarrow>
   ('d, 'r) world \<Rightarrow> ('d, 'r) world \<Rightarrow> bool" where
  "keeps ready usr ses N w w' \<longleftrightarrow> (ready (w_db w) \<longrightarrow>
     ready (w_db w') \<and> usr (w_db w) \<subseteq>\<^sub>m usr (w_db w') \<and> settles N (ses (w_db w)) (ses (w_db w')))"

text \<open>A selector that no refresh can use: its session is used, or there is none.\<close>

definition ended :: "string \<Rightarrow> session_store \<Rightarrow> bool" where
  "ended sel m \<longleftrightarrow> (\<forall>s st. m sel = Some (s, st) \<longrightarrow> st = ''used'')"

definition drawn_by :: "ambient \<Rightarrow> string set" where
  "drawn_by am = {sel. \<exists>rt vh. TokenService_CreateRefreshToken (amRand am) = Ok (rt, sel, vh)}"

fun draws :: "auth_request \<Rightarrow> string set" where
  "draws (IssueRequest am _ _) = drawn_by am"
| "draws (RefreshRequest am _ _ _) = drawn_by am"
| "draws _ = {}"

lemma settled_refl [simp]: "settled x x"
  by (cases x) auto

lemma settled_None [simp]: "settled x None"
  by (cases x) auto

lemma settled_trans: "settled x y \<Longrightarrow> settled y z \<Longrightarrow> settled x z"
  by (cases x; cases y) auto

lemma settled_Some: "settled x (Some (s, st)) \<Longrightarrow> x = Some (s, st) \<or> st = ''used'' \<and> (\<exists>st0. x = Some (s, st0))"
  by (cases x) auto

lemma settles_refl [simp, intro]: "settles N m m"
  by (simp add: settles_def)

lemma settles_trans: "settles N m m' \<Longrightarrow> settles N m' m'' \<Longrightarrow> settles N m m''"
  by (auto simp: settles_def intro: settled_trans)

lemma settles_mono: "settles N m m' \<Longrightarrow> N \<subseteq> M \<Longrightarrow> settles M m m'"
  by (auto simp: settles_def)

lemma settles_revoke [simp, intro]: "settles N m (revoke_user i m)"
  by (auto simp: settles_def revoke_user_def split: option.splits if_splits)

lemma settles_use [simp, intro]: "settles N m (use_session sel m)"
  by (auto simp: settles_def use_session_def split: option.splits)

lemma settles_new: "sel \<in> N \<Longrightarrow> settles N m m' \<Longrightarrow> settles N m (m'(sel \<mapsto> x))"
  by (auto simp: settles_def)

lemma keeps_refl [simp]: "keeps ready usr ses N w w"
  by (simp add: keeps_def)

lemma keeps_trans: "keeps ready usr ses N w w1 \<Longrightarrow> keeps ready usr ses N w1 w2 \<Longrightarrow> keeps ready usr ses N w w2"
  by (auto simp: keeps_def intro: map_le_trans settles_trans)

lemma reflp_keeps [simp]: "reflp (keeps ready usr ses N)" and transp_keeps [simp]: "transp (keeps ready usr ses N)"
  by (auto intro!: reflpI transpI keeps_refl dest: keeps_trans)

lemma keeps_mono: "N \<subseteq> M \<Longrightarrow> keeps ready usr ses N \<le> keeps ready usr ses M"
  by (auto simp: keeps_def intro: settles_mono)

lemma keeps_ready: "keeps ready usr ses N w w' \<Longrightarrow> ready (w_db w) \<Longrightarrow> ready (w_db w')"
  by (simp add: keeps_def)

lemma keeps_ended:
  "keeps ready usr ses N w w' \<Longrightarrow> ready (w_db w) \<Longrightarrow> sel \<notin> N \<Longrightarrow> ended sel (ses (w_db w)) \<Longrightarrow>
   ended sel (ses (w_db w'))"
  by (auto simp: keeps_def settles_def ended_def dest!: spec [where x = sel] settled_Some)

lemma keeps_same_db: "w_db w' = w_db w \<Longrightarrow> keeps ready usr ses N w w'"
  by (simp add: keeps_def)

text \<open>A session that is there, or used, was there from the start, with the same data.\<close>

lemma keeps_session:
  assumes "keeps ready usr ses N w w'" and "ready (w_db w)" and "sel \<notin> N"
    and "ses (w_db w') sel = Some (s, st)"
  obtains st0 where "ses (w_db w) sel = Some (s, st0)" and "st = ''used'' \<or> st0 = st"
proof -
  from assms(1-3) have "settled (ses (w_db w) sel) (ses (w_db w') sel)"
    by (simp add: keeps_def settles_def)
  from settled_Some [OF this [unfolded assms(4)]] that show thesis by auto
qed

lemma revoke_user_ended:
  assumes "keeps ready usr ses N w w'" and "ready (w_db w)" and "sel \<notin> N"
    and "\<And>s st. ses (w_db w) sel = Some (s, st) \<Longrightarrow> rsUserID s = i"
  shows "ended sel (revoke_user i (ses (w_db w')))"
  unfolding ended_def
proof (intro allI impI)
  fix s st
  assume "revoke_user i (ses (w_db w')) sel = Some (s, st)"
  then have s: "ses (w_db w') sel = Some (s, st)" "rsUserID s \<noteq> i" by simp_all
  with assms(4) show "st = ''used''" by (meson keeps_session [OF assms(1-3) s(1)])
qed

lemma drawn_selector:
  "TokenService_CreateRefreshToken (amRand am) = Ok (rt, sel, vh) \<Longrightarrow> sel \<in> drawn_by am"
  by (auto simp: drawn_by_def)

lemma new_session_rsSelector [simp]: "rsSelector (new_session as sel vh md jti now) = sel"
  by (simp add: new_session_def)

section \<open>What every step keeps\<close>

context auth_service begin

abbreviation kept :: "string set \<Rightarrow> ('d, 'r) world \<Rightarrow> ('d, 'r) world \<Rightarrow> bool" where
  "kept \<equiv> keeps ready usr ses"

lemma kept_find: "lift_db (FindSessionBySelector (Sessions (asStorage as)) sel) w = (r, w') \<Longrightarrow> kept N w w'"
  using db_find [of w sel r w'] by (auto simp: keeps_def unchanged_def)

lemma kept_active: "lift_db (GetActiveSessionBySelector (Sessions (asStorage as)) sel) w = (r, w') \<Longrightarrow> kept N w w'"
  using db_get_active [of w sel r w'] by (auto simp: keeps_def unchanged_def)

lemma kept_delete: "lift_db (DeleteAllUserSessions (Sessions (asStorage as)) i) w = (r, w') \<Longrightarrow> kept N w w'"
  using db_delete_all [of w i r w'] by (auto simp: keeps_def unchanged_def revoked_def split: outcome.splits)

lemma kept_user: "lift_db (GetUserByID (Users (asStorage as)) i) w = (r, w') \<Longrightarrow> kept N w w'"
  by (auto simp: keeps_def lift_db_run dest: get_user)

lemma kept_redis: "lift_redis m w = (r, w') \<Longrightarrow> kept N w w'"
  by (auto simp: keeps_def lift_redis_run)

lemma kept_notify: "WebhookService_NotifyIPChange x w = (r, w') \<Longrightarrow> kept N w w'"
  by (auto simp: keeps_def WebhookService_NotifyIPChange_def)

lemma issue_spec_keeps:
  "issue_spec nrm gin guid s st u st' \<Longrightarrow> rsSelector s \<in> N \<Longrightarrow>
   fst st \<subseteq>\<^sub>m fst st' \<and> settles N (snd st) (snd st')"
  by (auto simp: issue_spec_def map_le_def intro!: settles_new)

lemma rotate_spec_keeps:
  "rotate_spec nrm old s i st u st' \<Longrightarrow> rsSelector s \<in> N \<Longrightarrow>
   fst st \<subseteq>\<^sub>m fst st' \<and> settles N (snd st) (snd st')"
  by (auto simp: rotate_spec_def intro!: settles_new)

lemma kept_issue:
  assumes "lift_db (IssueTokensTx (asStorage as) guid s) w = (r, w')" and "rsSelector s \<in> N"
  shows "kept N w w'"
proof -
  from assms(1) have run: "IssueTokensTx (asStorage as) guid s (w_db w) = (r, w_db w')"
    by (auto simp: lift_db_run)
  show ?thesis
    unfolding keeps_def
    using issue [OF _ run] issue_spec_keeps [OF _ assms(2)] by (cases r) fastforce+
qed

lemma kept_rotate:
  assumes "lift_db (RotateTokensTx (asStorage as) old s i) w = (r, w')" and "rsSelector s \<in> N"
  shows "kept N w w'"
proof -
  from assms(1) have run: "RotateTokensTx (asStorage as) old s i (w_db w) = (r, w_db w')"
    by (auto simp: lift_db_run)
  show ?thesis
    unfolding keeps_def
    using rotate [OF _ run] rotate_spec_keeps [OF _ assms(2)] by (cases r) fastforce+
qed

lemmas kept_steps = kept_find kept_active kept_delete kept_user kept_redis kept_notify

lemma guarantees_map: "guarantees G j \<Longrightarrow> guarantees G (job_map f j)"
  by (simp add: job_map_def guarantees_try)

lemma issue_guarantees: "guarantees (kept (drawn_by am)) (IssueTokens_job J as am guid md)"
  unfolding IssueTokens_job_def Let_def
  by (cases "TokenService_CreateRefreshToken (amRand am)")
    (auto intro!: guarantees_try guarantees_act dest!: drawn_selector
      dest: kept_issue [where N = "drawn_by am"])

lemma detect_guarantees: "guarantees (kept N) (detectTheftAndRevoke_job as sel)"
  unfolding detectTheftAndRevoke_job_def
  by (auto intro!: guarantees_try guarantees_act dest: kept_steps)

lemma session_guarantees: "guarantees (kept N) (RefreshTokens_session_job as c rt md s)"
  unfolding RefreshTokens_session_job_def
  by (auto intro!: guarantees_try guarantees_act dest: kept_steps)

lemma checks_guarantees: "guarantees (kept N) (RefreshTokens_checks_job J as acc rt md)"
  unfolding RefreshTokens_checks_job_def Let_def
  by (auto intro!: guarantees_try guarantees_act detect_guarantees session_guarantees) (erule kept_active)

lemma rotation_guarantees: "guarantees (kept (drawn_by am)) (RefreshTokens_rotation_job J as am sel s md)"
  unfolding RefreshTokens_rotation_job_def Let_def
  by (cases "TokenService_CreateRefreshToken (amRand am)")
    (auto intro!: guarantees_try guarantees_act dest!: drawn_selector
      dest: kept_rotate [where N = "drawn_by am"])

lemma refresh_guarantees: "guarantees (kept (drawn_by am)) (RefreshTokens_job J as am acc rt md)"
  unfolding RefreshTokens_job_def
  by (auto intro!: guarantees_try checks_guarantees rotation_guarantees split: sum.split)

lemma logout_guarantees: "guarantees (kept N) (Logout_job J as clk tok)"
  unfolding Logout_job_def by (auto intro!: guarantees_try guarantees_act dest: kept_steps)

lemma request_guarantees: "guarantees (kept (draws q)) (service_job J as q)"
proof (cases q)
  case (AuthenticateRequest clk tok)
  then show ?thesis
    by (auto intro!: guarantees_map guarantees_act dest: kept_redis
        simp: AuthService_AuthenticateAccessToken_def elim!: go_try_cases)
next
  case (GuidRequest i)
  then show ?thesis
    by (auto intro!: guarantees_map guarantees_act dest: kept_user
        simp: AuthService_GetPublicGUID_def elim!: go_try_cases)
qed (simp_all add: guarantees_map issue_guarantees refresh_guarantees logout_guarantees)

end

end
