(* ===== verification/Interleaving_Flows.thy ===== *)
theory Interleaving_Flows
  imports Interleaving
begin

text \<open>
  What a refresh and a logout achieve between the steps of other requests. Everything is said about
  the state \<open>w0\<close> in which the request arrives: later states follow it by \<open>keeps\<close>.
\<close>

section \<open>The sessions of a user are ended\<close>

definition user_ended ::
  "('d \<Rightarrow> session_store) \<Rightarrow> string set \<Rightarrow> int \<Rightarrow> ('d, 'r) world \<Rightarrow> ('d, 'r) world \<Rightarrow> bool" where
  "user_ended ses N i w w' \<longleftrightarrow> (\<forall>sel s st. sel \<notin> N \<longrightarrow> ses (w_db w) sel = Some (s, st) \<longrightarrow>
     rsUserID s = i \<longrightarrow> ended sel (ses (w_db w')))"

lemma user_ended_keeps:
  "user_ended ses N i w0 w \<Longrightarrow> keeps ready usr ses N w w' \<Longrightarrow> ready (w_db w) \<Longrightarrow> user_ended ses N i w0 w'"
  unfolding user_ended_def by (blast intro: keeps_ended)

context auth_service begin

text \<open>The state after a step still follows the arrival, and what the step has achieved stays.\<close>

definition follows :: "string set \<Rightarrow> ('d, 'r) world \<Rightarrow> ('d, 'r) world \<Rightarrow> bool" where
  "follows N w0 w \<longleftrightarrow> ready (w_db w0) \<and> kept N w0 w"

lemma follows_ready: "follows N w0 w \<Longrightarrow> ready (w_db w)"
  by (auto simp: follows_def dest: keeps_ready)

lemma follows_trans: "follows N w0 w \<Longrightarrow> kept N w w' \<Longrightarrow> follows N w0 w'"
  by (auto simp: follows_def dest: keeps_trans)

lemma follows_session:
  assumes "follows N w0 w" and "sel \<notin> N" and "ses (w_db w) sel = Some (s, st)"
  obtains st0 where "ses (w_db w0) sel = Some (s, st0)" and "st = ''used'' \<or> st0 = st"
  using assms keeps_session unfolding follows_def by metis

lemma follows_Done: "follows N w0 w \<Longrightarrow> (\<And>w1. follows N w0 w1 \<Longrightarrow> kept N w w1 \<Longrightarrow> Q r w1) \<Longrightarrow>
    ensures (kept N) (\<lambda>r w1. follows N w0 w1 \<and> Q r w1) (Done r) w"
  by (auto simp: ensures_Done intro: follows_trans)

lemma follows_wrap: "follows N w0 w \<Longrightarrow> (\<And>w1. follows N w0 w1 \<Longrightarrow> Q (Err (Errorf p e)) w1) \<Longrightarrow>
    ensures (kept N) (\<lambda>r w1. follows N w0 w1 \<and> Q r w1) (job_wrap p e) w"
  unfolding job_wrap_def by (rule follows_Done)

lemma follows_try:
  assumes "ensures (kept N) (\<lambda>r w. follows N w0 w \<and> P r w) j w"
    and "\<And>v w. follows N w0 w \<Longrightarrow> P (Ok v) w \<Longrightarrow> ensures (kept N) Q (k v) w"
    and "\<And>e w. follows N w0 w \<Longrightarrow> P (Err e) w \<Longrightarrow> ensures (kept N) Q (h e) w"
    and "\<And>p w. follows N w0 w \<Longrightarrow> P (Panic p) w \<Longrightarrow> ensures (kept N) Q (Done (Panic p)) w"
  shows "ensures (kept N) Q (job_try j h k) w"
  by (rule ensures_try [OF assms(1)]) (use assms(2-4) in simp_all)

lemma user_ended_follows:
  "follows N w0 w \<Longrightarrow> user_ended ses N i w0 w \<Longrightarrow> kept N w w1 \<Longrightarrow> user_ended ses N i w0 w1"
  by (drule follows_ready) (blast intro: user_ended_keeps)

lemma follows_act:
  assumes "follows N w0 w"
    and "\<And>w1 r w2. m w1 = (r, w2) \<Longrightarrow> kept N w1 w2"
    and "\<And>w1 r w2 w3. follows N w0 w1 \<Longrightarrow> m w1 = (r, w2) \<Longrightarrow> follows N w0 w2 \<Longrightarrow> kept N w2 w3 \<Longrightarrow> Q r w3"
  shows "ensures (kept N) (\<lambda>r w. follows N w0 w \<and> Q r w) (job_act m) w"
proof (rule ensures_act)
  fix w1 r w2 w3
  assume "kept N w w1" "m w1 = (r, w2)" "kept N w2 w3"
  with assms follows_trans show "follows N w0 w3 \<and> Q r w3" by metis
qed

lemma act_find:
  assumes "follows N w0 w" and "sel \<notin> N"
  shows "ensures (kept N) (\<lambda>r w. follows N w0 w \<and> (\<forall>s. r = Ok s \<longrightarrow> (\<exists>st. ses (w_db w0) sel = Some (s, st))))
    (job_act (lift_db (FindSessionBySelector (Sessions (asStorage as)) sel))) w"
proof (rule follows_act [OF assms(1) kept_find], assumption, intro allI impI)
  fix w1 r w2 w3 s
  assume f: "follows N w0 w1" and "lift_db (FindSessionBySelector (Sessions (asStorage as)) sel) w1 = (r, w2)"
    and "r = Ok s"
  with db_find [OF follows_ready [OF f]] obtain st where "ses (w_db w1) sel = Some (s, st)" by fastforce
  with f assms(2) show "\<exists>st. ses (w_db w0) sel = Some (s, st)" by (rule follows_session) blast
qed

lemma act_active:
  assumes "follows N w0 w" and "sel \<notin> N"
  shows "ensures (kept N) (\<lambda>r w. follows N w0 w \<and> (\<forall>s. r = Ok s \<longrightarrow> ses (w_db w0) sel = Some (s, ''active'')))
    (job_act (lift_db (GetActiveSessionBySelector (Sessions (asStorage as)) sel))) w"
proof (rule follows_act [OF assms(1) kept_active], assumption, intro allI impI)
  fix w1 r w2 w3 s
  assume f: "follows N w0 w1" and "lift_db (GetActiveSessionBySelector (Sessions (asStorage as)) sel) w1 = (r, w2)"
    and "r = Ok s"
  with db_get_active [OF follows_ready [OF f]] have "ses (w_db w1) sel = Some (s, ''active'')" by fastforce
  with f assms(2) show "ses (w_db w0) sel = Some (s, ''active'')" by (rule follows_session) simp
qed

lemma act_delete:
  assumes "follows N w0 w"
  shows "ensures (kept N) (\<lambda>r w. follows N w0 w \<and> (r = Ok () \<longrightarrow> user_ended ses N i w0 w))
    (job_act (lift_db (DeleteAllUserSessions (Sessions (asStorage as)) i))) w"
proof (rule follows_act [OF assms kept_delete], assumption, intro impI)
  fix w1 r w2 w3
  assume f: "follows N w0 w1" and run: "lift_db (DeleteAllUserSessions (Sessions (asStorage as)) i) w1 = (r, w2)"
    and "follows N w0 w2" "kept N w2 w3" "r = Ok ()"
  with db_delete_all [OF follows_ready [OF f] run] have "ses (w_db w2) = revoke_user i (ses (w_db w1))"
    by (simp add: revoked_def)
  moreover from f have "ready (w_db w0)" "kept N w0 w1" by (simp_all add: follows_def)
  ultimately have "user_ended ses N i w0 w2"
    unfolding user_ended_def by (auto intro!: revoke_user_ended)
  with \<open>kept N w2 w3\<close> follows_ready [OF \<open>follows N w0 w2\<close>] show "user_ended ses N i w0 w3"
    by (blast intro: user_ended_keeps)
qed

lemma act_rotate:
  assumes "follows N w0 w" and "sel \<notin> N" and "rsSelector new \<in> N"
  shows "ensures (kept N) (\<lambda>r w. follows N w0 w \<and> (\<forall>u. r = Ok u \<longrightarrow> ended sel (ses (w_db w))))
    (job_act (lift_db (RotateTokensTx (asStorage as) sel new i))) w"
proof (rule follows_act [OF assms(1) kept_rotate [OF _ assms(3)]], assumption, intro allI impI)
  fix w1 r w2 w3 u
  assume f: "follows N w0 w1" and "lift_db (RotateTokensTx (asStorage as) sel new i) w1 = (r, w2)"
    and f2: "follows N w0 w2" "kept N w2 w3" and "r = Ok u"
  then have "RotateTokensTx (asStorage as) sel new i (w_db w1) = (Ok u, w_db w2)" by (auto simp: lift_db_run)
  from rotate [OF follows_ready [OF f] this] have "ended sel (ses (w_db w2))"
    using assms(2,3) by (auto simp: rotate_spec_def ended_def use_session_def split: option.splits if_splits)
  with f2 follows_ready [OF f2(1)] assms(2) show "ended sel (ses (w_db w3))" by (blast intro: keeps_ended)
qed

section \<open>A refresh\<close>

text \<open>The two errors that say that the sessions of the user were revoked.\<close>

definition revoking :: "'a outcome \<Rightarrow> bool" where
  "revoking r \<longleftrightarrow> r = Err reuse_error \<or> r = Err agent_error"

lemma revoking_simps [simp]:
  "revoking (Ok v) = False" "revoking (Panic p) = False" "revoking (Err (Errorf t e)) = False"
  "revoking (Err (Sentinel x)) = False"
  by (simp_all add: revoking_def)

lemma validate_not_revoking [simp]: "\<not> revoking (TokenService_ValidateRefreshToken rt vh)"
  by (simp add: revoking_def TokenService_ValidateRefreshToken_def Let_def split: option.split)

lemma detect_ensures:
  assumes "follows N w0 w" and "sel \<notin> N"
  shows "ensures (kept N) (\<lambda>r w. follows N w0 w \<and> (\<forall>v. r \<noteq> Ok v) \<and>
      (revoking r \<longrightarrow> (\<exists>s st. ses (w_db w0) sel = Some (s, st) \<and> user_ended ses N (rsUserID s) w0 w)))
    (detectTheftAndRevoke_job as sel) w" (is "ensures _ (\<lambda>r w. follows N w0 w \<and> ?Q r w) _ _")
  unfolding detectTheftAndRevoke_job_def
proof (rule follows_try [OF act_find [OF assms]])
  fix s w1
  assume f: "follows N w0 w1" and "\<forall>s'. Ok s = Ok s' \<longrightarrow> (\<exists>st. ses (w_db w0) sel = Some (s', st))"
  then obtain st where s: "ses (w_db w0) sel = Some (s, st)" by auto
  show "ensures (kept N) (\<lambda>r w. follows N w0 w \<and> ?Q r w)
    (job_try (job_act (lift_db (DeleteAllUserSessions (Sessions (asStorage as)) (rsUserID s))))
       (job_wrap ''failed to revoke sessions after theft detection: '')
       (\<lambda>_. Done (Err (ErrorsNew ''token reuse detected, all sessions revoked'')))) w1"
  proof (rule follows_try [OF act_delete [OF f]])
    fix v :: unit and w2
    assume f2: "follows N w0 w2" and "Ok v = Ok () \<longrightarrow> user_ended ses N (rsUserID s) w0 w2"
    then have "user_ended ses N (rsUserID s) w0 w2" by simp
    note ended = user_ended_follows [OF f2 this]
    show "ensures (kept N) (\<lambda>r w. follows N w0 w \<and> ?Q r w)
        (Done (Err (ErrorsNew ''token reuse detected, all sessions revoked''))) w2"
      by (rule follows_Done [OF f2]) (use s ended in simp)
  qed (rule follows_wrap follows_Done, assumption, simp)+
qed (rule follows_Done, assumption, simp)+

lemma session_ensures:
  assumes f: "follows N w0 w"
  shows "ensures (kept N) (\<lambda>r w. follows N w0 w \<and> (revoking r \<longrightarrow> user_ended ses N (rsUserID s) w0 w))
    (RefreshTokens_session_job as c rt md s) w" (is "ensures _ (\<lambda>r w. follows N w0 w \<and> ?Q r w) _ _")
proof -
  have ended: "ensures (kept N) (\<lambda>r w. follows N w0 w \<and> ?Q r w)
      (Done (Err (ErrorsNew ''user-agent has changed, all sessions revoked''))) w1"
    if f1: "follows N w0 w1" and u: "user_ended ses N (rsUserID s) w0 w1" for w1
    by (rule follows_Done [OF f1]) (use user_ended_follows [OF f1 u] in simp)
  have agent: "ensures (kept N) (\<lambda>r w. follows N w0 w \<and> ?Q r w)
      (job_try (job_act (lift_db (DeleteAllUserSessions (Sessions (asStorage as)) (rsUserID s))))
        (job_wrap ''failed to revoke sessions after user-agent mismatch: '')
        (\<lambda>_. Done (Err (ErrorsNew ''user-agent has changed, all sessions revoked'')))) w"
    by (rule follows_try [OF act_delete [OF f]])
      ((rule ended, assumption, simp) | (rule follows_wrap follows_Done, assumption, simp))+
  have "ensures (kept N) (\<lambda>r w. follows N w0 w \<and> \<not> revoking r)
      (job_act (WebhookService_NotifyIPChange (ip_change s md))) w"
    by (rule follows_act [OF f kept_notify]) (auto simp: WebhookService_NotifyIPChange_def)
  then have hook: "ensures (kept N) (\<lambda>r w. follows N w0 w \<and> \<not> revoking r)
      (if rsIPAddress s \<noteq> umIPAddress md then job_act (WebhookService_NotifyIPChange (ip_change s md))
       else Done (Ok ())) w"
    by (simp add: follows_Done [OF f])
  have pass: "ensures (kept N) (\<lambda>r w. follows N w0 w \<and> ?Q r w)
      (job_try (if rsIPAddress s \<noteq> umIPAddress md then job_act (WebhookService_NotifyIPChange (ip_change s md))
         else Done (Ok ())) (\<lambda>e. Done (Err e))
         (\<lambda>_. Done (TokenService_ValidateRefreshToken rt (rsVerifierHash s)))) w"
    by (rule follows_try [OF hook]) (rule follows_Done, assumption, simp)+
  have mismatch: "ensures (kept N) (\<lambda>r w. follows N w0 w \<and> ?Q r w)
      (Done (Err (ErrorsNew ''access and refresh tokens do not match''))) w"
    by (rule follows_Done [OF f]) (simp add: revoking_def)
  show ?thesis
    unfolding RefreshTokens_session_job_def by (simp only: mismatch agent pass split: if_split) simp
qed

text \<open>
  The read phase goes on only with the session that was active when the request arrived, and a
  revocation it reports has ended every session its user had then.
\<close>

definition caught :: "string set \<Rightarrow> string \<Rightarrow> ('d, 'r) world \<Rightarrow> ('d, 'r) world \<Rightarrow> bool" where
  "caught N sel w0 w \<longleftrightarrow>
     (\<exists>s st. ses (w_db w0) sel = Some (s, st) \<and> user_ended ses N (rsUserID s) w0 w)"

lemma caught_follows: "follows N w0 w \<Longrightarrow> caught N sel w0 w \<Longrightarrow> kept N w w1 \<Longrightarrow> caught N sel w0 w1"
  unfolding caught_def using user_ended_follows by blast

definition read_post where
  "read_post N sel w0 r w \<longleftrightarrow> (revoking r \<longrightarrow> caught N sel w0 w) \<and>
     (\<forall>x. r = Ok x \<longrightarrow> (\<exists>s. x = Inr (sel, s) \<and> ses (w_db w0) sel = Some (s, ''active'')))"

lemma checks_ensures:
  assumes f: "follows N w0 w" and split: "strings_Split (CHR ''.'') rt = [sel, ver]" and sel: "sel \<notin> N"
  shows "ensures (kept N) (\<lambda>r w. follows N w0 w \<and> read_post N sel w0 r w)
    (RefreshTokens_checks_job J as acc rt md) w"
proof -
  have detected: "ensures (kept N) (\<lambda>r w. follows N w0 w \<and> read_post N sel w0 r w)
      (if errors_Is err ErrSessionNotFound
       then job_try (detectTheftAndRevoke_job as sel) (\<lambda>e. Done (Err e)) (\<lambda>_. Done (Ok (Inl ([], []))))
       else job_wrap ''failed to get active session: '' err) w1" if f1: "follows N w0 w1" for err w1
  proof (cases "errors_Is err ErrSessionNotFound")
    case True
    show ?thesis
      unfolding if_P [OF True]
    proof (rule follows_try [OF detect_ensures [OF f1 sel]])
      fix e w2
      assume f2: "follows N w0 w2" and "(\<forall>v. Err e \<noteq> Ok (v::unit)) \<and> (revoking (Err e :: unit outcome) \<longrightarrow>
        (\<exists>s st. ses (w_db w0) sel = Some (s, st) \<and> user_ended ses N (rsUserID s) w0 w2))"
      then have "revoking (Err e :: unit outcome) \<longrightarrow> caught N sel w0 w2" by (simp add: caught_def)
      with f2 show "ensures (kept N) (\<lambda>r w. follows N w0 w \<and> read_post N sel w0 r w) (Done (Err e)) w2"
        by (intro follows_Done) (auto simp: read_post_def revoking_def intro: caught_follows)
    qed (simp, rule follows_Done, assumption, simp add: read_post_def)
  next
    case False
    show ?thesis
      unfolding if_not_P [OF False] by (rule follows_wrap [OF f1]) (simp add: read_post_def)
  qed
  have found: "ensures (kept N) (\<lambda>r w. follows N w0 w \<and> read_post N sel w0 r w)
      (job_try (RefreshTokens_session_job as c rt md s) (\<lambda>e. Done (Err e)) (\<lambda>_. Done (Ok (Inr (sel, s))))) w1"
    if f1: "follows N w0 w1" and s: "ses (w_db w0) sel = Some (s, ''active'')" for c s w1
  proof (rule follows_try [OF session_ensures [OF f1]])
    fix e w2
    assume f2: "follows N w0 w2" and "revoking (Err e :: unit outcome) \<longrightarrow> user_ended ses N (rsUserID s) w0 w2"
    then have "revoking (Err e :: unit outcome) \<longrightarrow> caught N sel w0 w2" using s by (auto simp: caught_def)
    with f2 show "ensures (kept N) (\<lambda>r w. follows N w0 w \<and> read_post N sel w0 r w) (Done (Err e)) w2"
      by (intro follows_Done) (auto simp: read_post_def revoking_def intro: caught_follows)
  qed (rule follows_Done, assumption, simp add: read_post_def s)+
  have claims: "ensures (kept N) (\<lambda>r w. follows N w0 w \<and> True)
      (Done (TokenService_getClaimsFromToken J acc)) w" by (rule follows_Done [OF f]) simp
  have two: "(length [sel, ver] \<noteq> TokenPartsExpected) = False" by (simp add: TokenPartsExpected_def)
  show ?thesis
    unfolding RefreshTokens_checks_job_def Let_def split two if_False nth_Cons_0
    by (rule follows_try [OF claims], rule follows_try [OF act_active [OF _ sel]], assumption)
      ((rule found, assumption, simp) | (rule detected, assumption) |
       (rule follows_wrap follows_Done, assumption, simp add: read_post_def))+
qed

definition refresh_post where
  "refresh_post N sel w0 r w \<longleftrightarrow> (revoking r \<longrightarrow> caught N sel w0 w) \<and>
     (\<forall>x. r = Ok x \<longrightarrow> \<not> ended sel (ses (w_db w0)) \<and> ended sel (ses (w_db w)))"

lemma rotation_ensures:
  assumes f: "follows N w0 w" and sel: "sel \<notin> N" and own: "drawn_by am \<subseteq> N"
    and s: "ses (w_db w0) sel = Some (s, ''active'')"
  shows "ensures (kept N) (\<lambda>r w. follows N w0 w \<and> refresh_post N sel w0 r w)
    (RefreshTokens_rotation_job J as am sel s md) w"
proof -
  have live: "\<not> ended sel (ses (w_db w0))" using s by (simp add: ended_def)
  have trivial: "refresh_post N sel w0 (Err (Errorf t e)) w1" "refresh_post N sel w0 (Panic p) w1" for t e p w1
    by (simp_all add: refresh_post_def)
  have pure: "ensures (kept N) (\<lambda>r w1. follows N w0 w1 \<and> x = r) (Done x) w1" if "follows N w0 w1" for x w1
    by (rule follows_Done [OF that]) simp
  have marked: "ensures (kept N) (\<lambda>r w. follows N w0 w \<and> refresh_post N sel w0 r w) (Done (Ok p)) w1"
    if f1: "follows N w0 w1" and e: "ended sel (ses (w_db w1))" for p w1
  proof (rule follows_Done [OF f1])
    fix w2 assume "follows N w0 w2" "kept N w1 w2"
    with keeps_ended [OF this(2) follows_ready [OF f1] sel e] live
    show "refresh_post N sel w0 (Ok p) w2" by (simp add: refresh_post_def)
  qed
  have tx: "ensures (kept N) (\<lambda>r w. follows N w0 w \<and> refresh_post N sel w0 r w)
      (job_try (job_act (lift_db (RotateTokensTx (asStorage as) sel
           (new_session as nsel nvh md jti now) (rsUserID s))))
         (job_wrap ''failed to execute rotate tokens transaction: '')
         (\<lambda>_. Done (Ok (acc, nrt)))) w1"
    if f1: "follows N w0 w1" and new: "TokenService_CreateRefreshToken (amRand am) = Ok (nrt, nsel, nvh)"
    for w1 nsel nvh nrt jti now acc
  proof (rule follows_try [OF act_rotate [OF f1 sel]])
    show "rsSelector (new_session as nsel nvh md jti now) \<in> N" using drawn_selector [OF new] own by auto
  qed ((rule marked, assumption, simp) |
      (rule follows_wrap follows_Done, assumption, simp add: refresh_post_def))+
  show ?thesis
    unfolding RefreshTokens_rotation_job_def Let_def
    by (rule follows_try [OF pure [OF f]])
      (auto simp: trivial intro!: follows_try [OF pure] follows_wrap follows_Done tx)
qed

lemma refresh_ensures:
  assumes f: "follows N w0 w" and split: "strings_Split (CHR ''.'') rt = [sel, ver]" and sel: "sel \<notin> N"
    and own: "drawn_by am \<subseteq> N"
  shows "ensures (kept N) (\<lambda>r w. follows N w0 w \<and> refresh_post N sel w0 r w)
    (RefreshTokens_job J as am acc rt md) w"
  unfolding RefreshTokens_job_def
proof (rule follows_try [OF checks_ensures [OF f split sel]])
  fix x :: "(string \<times> string) + (string \<times> RefreshSession)" and w1
  assume f1: "follows N w0 w1" and "read_post N sel w0 (Ok x) w1"
  then obtain s where "x = Inr (sel, s)" "ses (w_db w0) sel = Some (s, ''active'')"
    by (auto simp: read_post_def)
  with rotation_ensures [OF f1 sel own this(2)] show "ensures (kept N)
      (\<lambda>r w. follows N w0 w \<and> refresh_post N sel w0 r w) (case x of Inl r \<Rightarrow> Done (Ok r)
        | Inr (sel, s) \<Rightarrow> RefreshTokens_rotation_job J as am sel s md) w1" by simp
next
  fix e w1
  assume f1: "follows N w0 w1"
    and "read_post N sel w0 (Err e :: ((string \<times> string) + (string \<times> RefreshSession)) outcome) w1"
  then have c: "e = reuse_error \<or> e = agent_error \<longrightarrow> caught N sel w0 w1"
    by (simp add: read_post_def revoking_def)
  show "ensures (kept N) (\<lambda>r w. follows N w0 w \<and> refresh_post N sel w0 r w) (Done (Err e)) w1"
    by (rule follows_Done [OF f1]) (use c caught_follows [OF f1] in \<open>auto simp: refresh_post_def revoking_def\<close>)
qed (rule follows_Done, assumption, simp add: refresh_post_def)

section \<open>A logout\<close>

lemma act_validate:
  assumes f: "follows N w0 w"
  shows "ensures (kept N) (\<lambda>r w. follows N w0 w \<and> (\<forall>i. r = Ok i \<longrightarrow>
      (\<exists>alg c. decode tok = Some (alg, c) \<and> strconv_ParseInt (jcUserID c) = Some i)))
    (job_act (lift_redis (TokenService_ValidateAccessTokenAndGetUserID J (asTokenService as) clk tok))) w"
proof (rule follows_act [OF f kept_redis], assumption, intro allI impI)
  fix w1 r w2 w3 i
  assume "lift_redis (TokenService_ValidateAccessTokenAndGetUserID J (asTokenService as) clk tok) w1 = (r, w2)"
    and "r = Ok i"
  then obtain s where "TokenService_ValidateAccessTokenAndGetUserID J (asTokenService as) clk tok (w_redis w1) = (Ok i, s)"
    by (auto simp: lift_redis_run)
  from validate [OF this] show "\<exists>alg c. decode tok = Some (alg, c) \<and> strconv_ParseInt (jcUserID c) = Some i"
    by (auto simp: accepted_claims_def)
qed

lemma logout_ensures:
  assumes f: "follows N w0 w"
  shows "ensures (kept N) (\<lambda>r w. follows N w0 w \<and> (\<forall>u alg c i. r = Ok u \<longrightarrow> decode tok = Some (alg, c) \<longrightarrow>
      strconv_ParseInt (jcUserID c) = Some i \<longrightarrow> user_ended ses N i w0 w)) (Logout_job J as clk tok) w"
    (is "ensures _ (\<lambda>r w. follows N w0 w \<and> ?Q r w) _ _")
proof -
  have denied: "ensures (kept N) (\<lambda>r w. follows N w0 w \<and> True) (job_act (lift_redis m)) w1"
    if "follows N w0 w1" for m :: "('r, unit) go" and w1
    by (rule follows_act [OF that kept_redis]) auto
  have gone: "ensures (kept N) (\<lambda>r w. follows N w0 w \<and> ?Q r w) (Done (Ok ())) w1"
    if f1: "follows N w0 w1" and u: "user_ended ses N i w0 w1" and d: "decode tok = Some (alg, c)"
      "strconv_ParseInt (jcUserID c) = Some i" for w1 i alg c
    by (rule follows_Done [OF f1]) (use user_ended_follows [OF f1 u] d in simp)
  show ?thesis
    unfolding Logout_job_def
  proof (rule follows_try [OF act_validate [OF f]])
    fix i w1
    assume f1: "follows N w0 w1" and "\<forall>j. Ok i = Ok j \<longrightarrow>
        (\<exists>alg c. decode tok = Some (alg, c) \<and> strconv_ParseInt (jcUserID c) = Some j)"
    then obtain alg c where d: "decode tok = Some (alg, c)" "strconv_ParseInt (jcUserID c) = Some i" by auto
    show "ensures (kept N) (\<lambda>r w. follows N w0 w \<and> ?Q r w)
      (job_try (job_act (lift_redis (TokenService_InvalidateAccessToken J (asTokenService as)
           (\<lambda>n. clk (n + 2)) tok)))
         (job_wrap ''failed to invalidate access token: '')
         (\<lambda>_. job_try (job_act (lift_db (DeleteAllUserSessions (Sessions (asStorage as)) i)))
            (job_wrap ''failed to delete all user sessions: '') (\<lambda>_. Done (Ok ())))) w1"
      by (rule follows_try [OF denied [OF f1]], rule follows_try [OF act_delete], assumption)
        ((rule gone [OF _ _ d], assumption, simp) | (rule follows_wrap follows_Done, assumption, simp))+
  qed (rule follows_wrap follows_Done, assumption, simp)+
qed

end

end
