(* ===== verification/Interleaving_Pool.thy ===== *)
theory Interleaving_Pool
  imports Interleaving_Flows
begin

text \<open>
  Pools of requests of the authentication service: the jobs of a run follow one another by
  \<open>keeps\<close>, up to the selectors that the requests at work draw.
\<close>

text \<open>Between the steps of the jobs anything may happen outside the database.\<close>

definition same_db :: "('d, 'r) world \<Rightarrow> ('d, 'r) world \<Rightarrow> bool" where
  "same_db w w' \<longleftrightarrow> w_db w' = w_db w"

definition drawn_since :: "(auth_request, 'w, 'a) pool \<Rightarrow> (auth_request, 'w, 'a) pool \<Rightarrow> string set" where
  "drawn_since ps ps' = \<Union> (draws ` at_work ps ps')"

lemma drawn_since_mono: "pool_run start E (ps1, w1) (ps2, w2) \<Longrightarrow> drawn_since ps ps1 \<subseteq> drawn_since ps ps2"
  unfolding drawn_since_def using at_work_mono by fastforce

lemma at_work_later:
  assumes "pool_run start E (ps, w) (ps1, w1)" and "pool_run start E (ps1, w1) (ps2, w2)"
  shows "at_work ps1 ps2 \<subseteq> at_work ps ps2"
proof
  fix q
  assume "q \<in> at_work ps1 ps2"
  then obtain i where i: "i < length ps2" "\<not> finished ps1 i" "q = fst (ps2 ! i)"
    by (auto simp: at_work_def)
  have "\<not> finished ps i"
    using i(2) pool_shape(1,3) [OF assms(1)] by (auto simp: finished_def)
  with i show "q \<in> at_work ps ps2" by (auto simp: at_work_def)
qed

lemma drawn_since_later:
  "pool_run start E (ps, w) (ps1, w1) \<Longrightarrow> pool_run start E (ps1, w1) (ps2, w2) \<Longrightarrow>
   drawn_since ps1 ps2 \<subseteq> drawn_since ps ps2"
  unfolding drawn_since_def using at_work_later by fastforce

sublocale auth_service \<subseteq> jobs: job_pool "service_job J as" same_db "\<lambda>q. kept (draws q)"
  by unfold_locales (rule request_guarantees)

context auth_service begin

lemma pool_permits: "jobs.permits (kept (drawn_since ps ps')) (at_work ps ps')"
proof -
  have "same_db \<le> kept (drawn_since ps ps')"
    by (rule predicate2I) (simp add: same_db_def keeps_same_db)
  moreover have "kept (draws q) \<le> kept (drawn_since ps ps')" if "q \<in> at_work ps ps'" for q
    using that by (intro keeps_mono) (auto simp: drawn_since_def)
  ultimately show ?thesis by (simp add: jobs.permits_def)
qed

lemma pool_follows:
  assumes "pool_run (service_job J as) same_db (ps, w) (ps', w')" and "jobs.in_order ps" and "ready (w_db w)"
  shows "follows (drawn_since ps ps') w w'"
  using mp [OF jobs.run_permitted [OF assms(1,2)] pool_permits] assms(3) by (simp add: follows_def)

lemma user_ended_from:
  assumes "follows N w w1" and "follows N w1 w'" and "user_ended ses N i w1 w'"
  shows "user_ended ses N i w w'"
  unfolding user_ended_def
proof (intro allI impI)
  fix sel s st
  assume s: "sel \<notin> N" "ses (w_db w) sel = Some (s, st)" "rsUserID s = i"
  from assms(1) s(1,2) have "settled (Some (s, st)) (ses (w_db w1) sel)"
    by (auto simp: follows_def keeps_def settles_def)
  then consider "ses (w_db w1) sel = None" | st1 where "ses (w_db w1) sel = Some (s, st1)" by auto
  then show "ended sel (ses (w_db w'))"
  proof cases
    case 1
    then have "ended sel (ses (w_db w1))" by (simp add: ended_def)
    with assms(2) s(1) show ?thesis by (auto simp: follows_def dest: keeps_ended)
  next
    case 2
    with assms(3) s(1,3) show ?thesis by (auto simp: user_ended_def)
  qed
qed

lemma refresh_post_stable:
  assumes "follows N w0 w1" and "refresh_post N sel w0 r w1" and "kept N w1 w2" and "sel \<notin> N"
  shows "refresh_post N sel w0 r w2"
  using assms(2) caught_follows [OF assms(1) _ assms(3)]
    keeps_ended [OF assms(3) follows_ready [OF assms(1)] assms(4)]
  by (auto simp: refresh_post_def)

lemma request_refresh:
  assumes f: "follows N w0 w" and split: "strings_Split (CHR ''.'') rt = [sel, ver]" and sel: "sel \<notin> N"
    and own: "drawn_by am \<subseteq> N"
  shows "ensures (kept N) (\<lambda>r w. follows N w0 w \<and> refresh_post N sel w0 r w)
    (service_job J as (RefreshRequest am acc rt md)) w"
  unfolding service_job.simps job_map_def
proof (rule follows_try [OF refresh_ensures [OF f split sel own]])
  fix e w1
  assume f1: "follows N w0 w1" and "refresh_post N sel w0 (Err e :: (string \<times> string) outcome) w1"
  then have "refresh_post N sel w0 (Err e :: auth_reply outcome) w1" by (simp add: refresh_post_def revoking_def)
  note stable = refresh_post_stable [OF f1 this _ sel]
  show "ensures (kept N) (\<lambda>r w. follows N w0 w \<and> refresh_post N sel w0 r w)
      (Done (Err e) :: (('d, 'r) world, auth_reply) job) w1"
    by (rule follows_Done [OF f1], rule stable)
next
  fix v :: "string \<times> string" and w1
  assume f1: "follows N w0 w1" and "refresh_post N sel w0 (Ok v) w1"
  then have "refresh_post N sel w0 (Ok (TokensReply v)) w1" by (simp add: refresh_post_def)
  note stable = refresh_post_stable [OF f1 this _ sel]
  show "ensures (kept N) (\<lambda>r w. follows N w0 w \<and> refresh_post N sel w0 r w) (Done (Ok (TokensReply v))) w1"
    by (rule follows_Done [OF f1], rule stable)
qed (rule follows_Done, assumption, simp add: refresh_post_def)

definition logout_post where
  "logout_post N i w0 r w \<longleftrightarrow> (\<forall>u. r = Ok u \<longrightarrow> user_ended ses N i w0 w)"

lemma request_logout:
  assumes f: "follows N w0 w" and d: "decode tok = Some (alg, c)" "strconv_ParseInt (jcUserID c) = Some i"
  shows "ensures (kept N) (\<lambda>r w. follows N w0 w \<and> logout_post N i w0 r w)
    (service_job J as (LogoutRequest clk tok)) w"
  unfolding service_job.simps job_map_def
proof (rule follows_try [OF logout_ensures [OF f, where tok = tok]])
  fix v :: unit and w1
  assume f1: "follows N w0 w1" and "\<forall>u alg c i. Ok v = Ok u \<longrightarrow> decode tok = Some (alg, c) \<longrightarrow>
    strconv_ParseInt (jcUserID c) = Some i \<longrightarrow> user_ended ses N i w0 w1"
  with d have "user_ended ses N i w0 w1" by simp
  then show "ensures (kept N) (\<lambda>r w. follows N w0 w \<and> logout_post N i w0 r w) (Done (Ok DoneReply)) w1"
    by (intro follows_Done [OF f1]) (auto simp: logout_post_def intro: user_ended_follows [OF f1])
qed (rule follows_Done, assumption, simp add: logout_post_def)+

text \<open>What the answer of a request that arrived after \<open>ps\<close> says about the sessions there were then.\<close>

lemma pool_refresh:
  assumes run: "pool_run (service_job J as) same_db (ps, w) (ps', w')" and order: "jobs.in_order ps"
    and rdy: "ready (w_db w)" and k: "length ps \<le> k" "k < length ps'"
      "ps' ! k = (RefreshRequest am acc rt md, Done r)"
    and split: "strings_Split (CHR ''.'') rt = [sel, ver]" and sel: "sel \<notin> drawn_since ps ps'"
  shows "refresh_post (drawn_since ps ps') sel w r w'"
proof -
  let ?N = "drawn_since ps ps'"
  from k have "RefreshRequest am acc rt md \<in> at_work ps ps'" by (force simp: at_work_def finished_def)
  then have own: "drawn_by am \<subseteq> ?N" unfolding drawn_since_def by force
  have start: "follows ?N w1 w1" if "kept ?N w w1" for w1
    using that rdy by (auto simp: follows_def dest: keeps_ready)
  from jobs.arrival_ends [OF run order pool_permits k request_refresh [OF start split sel own]]
  obtain w1 where w1: "kept ?N w w1" "follows ?N w1 w'" "refresh_post ?N sel w1 r w'" by blast
  have f: "follows ?N w w1" using w1(1) rdy by (simp add: follows_def)
  have "\<not> ended sel (ses (w_db w1)) \<Longrightarrow> \<not> ended sel (ses (w_db w))"
    using keeps_ended [OF w1(1) rdy sel] by blast
  moreover have "caught ?N sel w1 w' \<Longrightarrow> caught ?N sel w w'"
    unfolding caught_def using user_ended_from [OF f w1(2)] by (metis follows_session [OF f sel])
  ultimately show ?thesis using w1(3) by (auto simp: refresh_post_def)
qed

lemma pool_logout:
  assumes run: "pool_run (service_job J as) same_db (ps, w) (ps', w')" and order: "jobs.in_order ps"
    and rdy: "ready (w_db w)" and k: "length ps \<le> k" "k < length ps'"
      "ps' ! k = (LogoutRequest clk tok, Done (Ok u))"
    and d: "decode tok = Some (alg, c)" "strconv_ParseInt (jcUserID c) = Some i"
  shows "user_ended ses (drawn_since ps ps') i w w'"
proof -
  let ?N = "drawn_since ps ps'"
  have start: "follows ?N w1 w1" if "kept ?N w w1" for w1
    using that rdy by (auto simp: follows_def dest: keeps_ready)
  from jobs.arrival_ends [OF run order pool_permits k request_logout [OF start d]]
  obtain w1 where w1: "kept ?N w w1" "follows ?N w1 w'" "logout_post ?N i w1 (Ok u) w'" by blast
  have "follows ?N w w1" using w1(1) rdy by (simp add: follows_def)
  from user_ended_from [OF this w1(2)] w1(3) show ?thesis by (simp add: logout_post_def)
qed

text \<open>An ended selector is refused from then on.\<close>

lemma ended_refused:
  assumes "pool_run (service_job J as) same_db (ps1, w1) (ps2, w2)" and "jobs.in_order ps1"
    and "ready (w_db w1)" and "length ps1 \<le> k" "k < length ps2"
    and "ps2 ! k = (RefreshRequest am acc rt md, Done r)"
    and "strings_Split (CHR ''.'') rt = [sel, ver]" and "sel \<notin> drawn_since ps1 ps2"
    and "ended sel (ses (w_db w1))"
  shows "r \<noteq> Ok x"
  using pool_refresh [OF assms(1-8)] assms(9) by (auto simp: refresh_post_def)

section \<open>Runs of a server that starts idle\<close>

text \<open>
  A run in three parts: up to some moment, from there until a request that arrived after it is
  done, and from there on.
\<close>

lemma started_in_order:
  "pool_run (service_job J as) same_db ([], w0) (ps, w) \<Longrightarrow> jobs.in_order ps"
  by (rule jobs.run_in_order [OF _ jobs.in_order_Nil])

lemma started_keeps:
  assumes "pool_run (service_job J as) same_db ([], w0) (ps, w)" and "ready (w_db w0)"
  shows "ready (w_db w)" and "usr (w_db w0) \<subseteq>\<^sub>m usr (w_db w)"
  using pool_follows [OF assms(1) jobs.in_order_Nil assms(2)] assms(2)
  by (simp_all add: follows_def keeps_def)

lemma done_then_refused:
  assumes start: "pool_run (service_job J as) same_db ([], w0) (ps, w)" "ready (w_db w0)"
    and mid: "pool_run (service_job J as) same_db (ps, w) (ps1, w1)"
    and last: "pool_run (service_job J as) same_db (ps1, w1) (ps2, w2)" "length ps1 \<le> k" "k < length ps2"
      "ps2 ! k = (RefreshRequest am acc rt md, Done r)"
    and split: "strings_Split (CHR ''.'') rt = [sel, ver]" and sel: "sel \<notin> drawn_since ps ps2"
    and ended: "sel \<notin> drawn_since ps ps1 \<Longrightarrow> ended sel (ses (w_db w1))"
  shows "r \<noteq> Ok x"
proof -
  have order: "jobs.in_order ps" "jobs.in_order ps1"
    by (rule started_in_order, rule start(1)) (rule jobs.run_in_order [OF mid], rule started_in_order, rule start(1))
  have rdy: "ready (w_db w1)"
    by (rule follows_ready [OF pool_follows [OF mid order(1) started_keeps(1) [OF start]]])
  have "sel \<notin> drawn_since ps1 ps2" "sel \<notin> drawn_since ps ps1"
    using sel drawn_since_later [OF mid last(1)] drawn_since_mono [OF last(1)] by auto
  with ended_refused [OF last(1) order(2) rdy last(2-4) split _ ended] show ?thesis by blast
qed

lemma refresh_then_refused:
  assumes start: "pool_run (service_job J as) same_db ([], w0) (ps, w)" "ready (w_db w0)"
    and mid: "pool_run (service_job J as) same_db (ps, w) (ps1, w1)" "length ps \<le> i" "i < length ps1"
      "ps1 ! i = (RefreshRequest am1 acc1 rt md1, Done (Ok p))"
    and last: "pool_run (service_job J as) same_db (ps1, w1) (ps2, w2)" "length ps1 \<le> k" "k < length ps2"
      "ps2 ! k = (RefreshRequest am acc rt md, Done r)"
    and split: "strings_Split (CHR ''.'') rt = [sel, ver]" and sel: "sel \<notin> drawn_since ps ps2"
  shows "r \<noteq> Ok x"
  using pool_refresh [OF mid(1) started_in_order [OF start(1)] started_keeps(1) [OF start] mid(2-4) split]
  by (intro done_then_refused [OF start mid(1) last split sel]) (simp add: refresh_post_def)

lemma logout_then_refused:
  assumes start: "pool_run (service_job J as) same_db ([], w0) (ps, w)" "ready (w_db w0)"
    and mid: "pool_run (service_job J as) same_db (ps, w) (ps1, w1)" "length ps \<le> i" "i < length ps1"
      "ps1 ! i = (LogoutRequest clk tok, Done (Ok u))"
    and user: "decode tok = Some (alg, c)" "strconv_ParseInt (jcUserID c) = Some (rsUserID s)"
    and last: "pool_run (service_job J as) same_db (ps1, w1) (ps2, w2)" "length ps1 \<le> k" "k < length ps2"
      "ps2 ! k = (RefreshRequest am acc rt md, Done r)"
    and split: "strings_Split (CHR ''.'') rt = [sel, ver]" and sel: "sel \<notin> drawn_since ps ps2"
    and s: "ses (w_db w) sel = Some (s, st)"
  shows "r \<noteq> Ok x"
  using pool_logout [OF mid(1) started_in_order [OF start(1)] started_keeps(1) [OF start] mid(2-4) user] s
  by (intro done_then_refused [OF start mid(1) last split sel]) (simp add: user_ended_def)

lemma theft_then_refused:
  assumes start: "pool_run (service_job J as) same_db ([], w0) (ps, w)" "ready (w_db w0)"
    and mid: "pool_run (service_job J as) same_db (ps, w) (ps1, w1)" "length ps \<le> i" "i < length ps1"
      "ps1 ! i = (RefreshRequest am1 acc1 rt1 md1, Done (Err e))" "e = reuse_error \<or> e = agent_error"
    and split1: "strings_Split (CHR ''.'') rt1 = [sel1, ver1]" "sel1 \<notin> drawn_since ps ps1"
    and last: "pool_run (service_job J as) same_db (ps1, w1) (ps2, w2)" "length ps1 \<le> k" "k < length ps2"
      "ps2 ! k = (RefreshRequest am acc rt md, Done r)"
    and split: "strings_Split (CHR ''.'') rt = [sel, ver]" and sel: "sel \<notin> drawn_since ps ps2"
    and s: "ses (w_db w) sel1 = Some (s1, st1)" "ses (w_db w) sel = Some (s, st)" "rsUserID s = rsUserID s1"
  shows "r \<noteq> Ok x"
proof (rule done_then_refused [OF start mid(1) last split sel])
  have "refresh_post (drawn_since ps ps1) sel1 w (Err e :: auth_reply outcome) w1"
    by (rule pool_refresh [OF mid(1) started_in_order [OF start(1)] started_keeps(1) [OF start] mid(2-4) split1])
  with mid(5) have "user_ended ses (drawn_since ps ps1) (rsUserID s1) w w1"
    using s(1) by (auto simp: refresh_post_def revoking_def caught_def)
  then show "sel \<notin> drawn_since ps ps1 \<Longrightarrow> ended sel (ses (w_db w1))"
    using s(2,3) by (auto simp: user_ended_def)
qed

end

end
