(* ===== verification/Overlap.thy ===== *)
theory Overlap
  imports Interleaving_Pool Concurrency
begin

text \<open>
  The races of \<open>Concurrency\<close> are runs of a pool: the jobs of the requests take their steps in that
  order.
\<close>

text \<open>What is left of a refresh when its checks have passed.\<close>

definition rotating ::
  "jwt_lib \<Rightarrow> ('d, 'r) AuthService \<Rightarrow> ambient \<Rightarrow> string \<Rightarrow> RefreshSession \<Rightarrow> UserMetadata \<Rightarrow>
   (('d, 'r) world, auth_reply) job" where
  "rotating J as am sel s md = job_map TokensReply (RefreshTokens_rotation_job J as am sel s md)"

lemma checks_pass_run:
  assumes "AuthService_RefreshTokens_checks J as acc rt md w = (Ok (Inr (sel, s)), w')"
  shows "pool_run start E (ps @ (q, service_job J as (RefreshRequest am acc rt md)) # qs, w)
    (ps @ (q, rotating J as am sel s md) # qs, w')"
proof -
  let ?k = "\<lambda>x. job_map TokensReply (case x of Inl r \<Rightarrow> Done (Ok r)
      | Inr (sel, s) \<Rightarrow> RefreshTokens_rotation_job J as am sel s md)"
  have start: "service_job J as (RefreshRequest am acc rt md) =
      job_try (RefreshTokens_checks_job J as acc rt md) (\<lambda>e. Done (Err e)) ?k"
    by (simp add: RefreshTokens_job_def job_map_def job_try_assoc)
  have rest: "rotating J as am sel s md = job_try (Done (Ok (Inr (sel, s)))) (\<lambda>e. Done (Err e)) ?k"
    by (simp add: rotating_def)
  show ?thesis
    unfolding start rest by (rule pool_partly) (simp add: checks_alone assms)
qed

lemma rotation_run:
  assumes "AuthService_RefreshTokens_rotation J as am sel s md w = (Ok p, w')"
  shows "pool_run start E (ps @ (q, rotating J as am sel s md) # qs, w)
    (ps @ (q, Done (Ok (TokensReply p))) # qs, w')"
  by (rule pool_alone) (simp add: rotating_def rotation_alone go_map_def go_try_def assms)

lemma arrive: "pool_run start E (ps, w) (ps @ [(q, start q)], w)"
  by (rule r_into_rtranclp) (rule pool_step.Arrive)

lemma racing_refreshes_run:
  assumes "racing_refreshes J as am1 am2 acc rt md w = Some (Ok p1, Ok p2, w')"
  shows "pool_run (service_job J as) E ([], w)
    ([(RefreshRequest am1 acc rt md, Done (Ok (TokensReply p1))),
      (RefreshRequest am2 acc rt md, Done (Ok (TokensReply p2)))], w')"
proof -
  let ?q1 = "RefreshRequest am1 acc rt md" and ?q2 = "RefreshRequest am2 acc rt md"
  let ?run = "pool_run (service_job J as) E"
  from assms obtain sel1 s1 w1 sel2 s2 w2 w3
    where c: "AuthService_RefreshTokens_checks J as acc rt md w = (Ok (Inr (sel1, s1)), w1)"
      "AuthService_RefreshTokens_checks J as acc rt md w1 = (Ok (Inr (sel2, s2)), w2)"
    and r: "AuthService_RefreshTokens_rotation J as am1 sel1 s1 md w2 = (Ok p1, w3)"
      "AuthService_RefreshTokens_rotation J as am2 sel2 s2 md w3 = (Ok p2, w')"
    by (auto simp: racing_refreshes_def split: prod.splits outcome.splits sum.splits)
  have "?run ([], w) ([(?q1, service_job J as ?q1)], w)"
    using arrive [of "service_job J as" E "[]" w ?q1] by simp
  also have "?run \<dots> ([(?q1, service_job J as ?q1), (?q2, service_job J as ?q2)], w)"
    using arrive [of "service_job J as" E "[(?q1, service_job J as ?q1)]" w ?q2] by simp
  also have "?run \<dots> ([(?q1, rotating J as am1 sel1 s1 md), (?q2, service_job J as ?q2)], w1)"
    using checks_pass_run [OF c(1), where ps = "[]"] by simp
  also have "?run \<dots> ([(?q1, rotating J as am1 sel1 s1 md), (?q2, rotating J as am2 sel2 s2 md)], w2)"
    using checks_pass_run [OF c(2), where ps = "[(?q1, rotating J as am1 sel1 s1 md)]"] by simp
  also have "?run \<dots> ([(?q1, Done (Ok (TokensReply p1))), (?q2, rotating J as am2 sel2 s2 md)], w3)"
    using rotation_run [OF r(1), where ps = "[]"] by simp
  also have "?run \<dots> ([(?q1, Done (Ok (TokensReply p1))), (?q2, Done (Ok (TokensReply p2)))], w')"
    using rotation_run [OF r(2), where ps = "[(?q1, Done (Ok (TokensReply p1)))]"] by simp
  finally show ?thesis .
qed

lemma racing_logout_run:
  assumes "racing_logout J as am clk acc rt tok md w = Some (Ok (), Ok p, w')"
  shows "pool_run (service_job J as) E ([], w)
    ([(RefreshRequest am acc rt md, Done (Ok (TokensReply p))),
      (LogoutRequest clk tok, Done (Ok DoneReply))], w')"
proof -
  let ?q1 = "RefreshRequest am acc rt md" and ?q2 = "LogoutRequest clk tok"
  let ?run = "pool_run (service_job J as) E"
  from assms obtain sel s w1 w2
    where c: "AuthService_RefreshTokens_checks J as acc rt md w = (Ok (Inr (sel, s)), w1)"
      "AuthService_Logout J as clk tok w1 = (Ok (), w2)"
      "AuthService_RefreshTokens_rotation J as am sel s md w2 = (Ok p, w')"
    by (auto simp: racing_logout_def split: prod.splits outcome.splits sum.splits)
  have "?run ([], w) ([(?q1, service_job J as ?q1)], w)"
    using arrive [of "service_job J as" E "[]" w ?q1] by simp
  also have "?run \<dots> ([(?q1, rotating J as am sel s md)], w1)"
    using checks_pass_run [OF c(1), where ps = "[]"] by simp
  also have "?run \<dots> ([(?q1, rotating J as am sel s md), (?q2, Done (Ok DoneReply))], w2)"
    using pool_served [of "service_job J as" ?q2 w1 "Ok DoneReply" w2 E "[(?q1, rotating J as am sel s md)]"]
      c(2) by (simp add: logout_alone go_map_def go_try_def)
  also have "?run \<dots> ([(?q1, Done (Ok (TokensReply p))), (?q2, Done (Ok DoneReply))], w')"
    using rotation_run [OF c(3), where ps = "[]"] by simp
  finally show ?thesis .
qed

end
