(* ===== verification/Interleaving_Properties.thy ===== *)
theory Interleaving_Properties
  imports Overlap
begin

text \<open>
  Properties that hold however the requests of all clients are interleaved: any number of
  requests, any order of their steps, any failures of the database and of Redis.
\<close>

abbreviation auth_run ::
  "jwt_lib \<Rightarrow> ('d, 'r) AuthService \<Rightarrow> (auth_request, ('d, 'r) world, auth_reply) pool \<times> ('d, 'r) world \<Rightarrow>
   (auth_request, ('d, 'r) world, auth_reply) pool \<times> ('d, 'r) world \<Rightarrow> bool" where
  "auth_run J as \<equiv> pool_run (service_job J as) same_db"

interpretation main_jobs: job_pool "service_job plain_jwt (main_auth srv cfg url)" same_db
  "\<lambda>q. keeps pg_ready pg_users pg_sessions (draws q)" for srv cfg url
  by unfold_locales
    (rule auth_service.request_guarantees [OF main_auth_service [OF jwt.jwt_laws_axioms]])

text \<open>
  C12. The database stays in order under every interleaving of any requests: it is ready between any
  two steps, no user is lost or renamed, every session is filed under its selector and belongs to a
  user that exists, and no two users share a GUID.
\<close>

theorem interleaving_keeps_order:
  assumes "jwt_laws J decode genuine" and "pg_ready (w_db w0)"
    and "auth_run J (main_auth srv cfg url) ([], w0) (ps, w)"
  shows "pg_ready (w_db w) \<and> pg_users (w_db w0) \<subseteq>\<^sub>m pg_users (w_db w) \<and>
    (\<forall>sel s st. pg_sessions (w_db w) sel = Some (s, st) \<longrightarrow>
       rsSelector s = sel \<and> pg_users (w_db w) (rsUserID s) \<noteq> None) \<and>
    (\<forall>i j g. pg_users (w_db w) i = Some g \<longrightarrow> pg_users (w_db w) j = Some g \<longrightarrow> i = j)"
proof -
  note svc = main_auth_service [OF assms(1), where srv = srv and cfg = cfg and url = url]
  from auth_service.started_keeps [OF svc assms(3,2)] pg_selector_key pg_owner_exists pg_guid_unique
  show ?thesis by blast
qed

text \<open>
  An example: the request for the GUID has arrived and has not done a step when the others come,
  one after the other.
\<close>

abbreviation ex_waiting :: "(auth_request, (pgconn, redisconn) world, auth_reply) pool" where
  "ex_waiting \<equiv> [(GuidRequest 1, service_job plain_jwt ex_auth (GuidRequest 1))]"

abbreviation ex_refreshing :: auth_request where
  "ex_refreshing \<equiv> RefreshRequest ex_ambient ex_access ex_refresh ex_metadata"

lemma ex_arrived: "auth_run plain_jwt ex_auth ([], w) (ex_waiting, w)"
  using pool_step.Arrive [of "service_job plain_jwt ex_auth" same_db "[]" w "GuidRequest 1"]
  by (intro r_into_rtranclp) simp

lemma ex_served:
  assumes "service_call J as q w = (r, w')"
  shows "auth_run J as (ps, w) (ps @ [(q, Done r)], w')"
  by (rule pool_served) (simp add: request_alone assms)

lemma drawn_since_all: "drawn_since ps ps' \<subseteq> \<Union> (draws ` fst ` set ps')"
  by (force simp: drawn_since_def at_work_def)

lemma ex_not_drawn:
  assumes "fst ` set ps' \<subseteq> {GuidRequest 1, ex_refreshing, LogoutRequest ex_clock ex_access}"
  shows "random_selector ex_bytes \<notin> drawn_since ps ps'"
proof -
  have "drawn_by ex_ambient = {random_selector ex_bytes2}"
    by (auto simp: drawn_by_def CreateRefreshToken_Ok ex_random)
  moreover have "drawn_since ps ps' \<subseteq> drawn_by ex_ambient"
    using drawn_since_all [of ps ps'] assms by fastforce
  ultimately show ?thesis using ex_selectors_differ [symmetric] by blast
qed

theorem interleaving_keeps_order_witness:
  "\<exists>r w. auth_run plain_jwt ex_auth ([], ex_world ''active'') (ex_waiting @ [(ex_refreshing, Done r)], w) \<and>
    pg_ready (w_db w) \<and> pg_users (w_db w) 1 = Some ''g1''"
proof -
  obtain r w where "service_call plain_jwt ex_auth ex_refreshing (ex_world ''active'') = (r, w)" by fastforce
  from rtranclp_trans [OF ex_arrived ex_served [OF this]]
  have run: "auth_run plain_jwt ex_auth ([], ex_world ''active'') (ex_waiting @ [(ex_refreshing, Done r)], w)" .
  from interleaving_keeps_order [OF jwt.jwt_laws_axioms ex_ready run]
  have "pg_ready (w_db w)" "pg_users (w_db w) 1 = Some ''g1''"
    by (auto simp: map_le_def ex_users split: if_splits)
  with run show ?thesis by blast
qed

text \<open>
  C9. A finished refresh has spent its token: however the requests of all clients are interleaved,
  a refresh with the same token that arrives after one has succeeded is refused, with any access
  token and from any client, as long as no request that was at work since draws the selector again.
  (Only refreshes that overlap can share a token: see the next section.)
\<close>

theorem finished_refresh_spends_token:
  assumes "jwt_laws J decode genuine" and "pg_ready (w_db w0)"
    and "auth_run J (main_auth srv cfg url) ([], w0) (ps, w)"
    and "auth_run J (main_auth srv cfg url) (ps, w) (ps1, w1)"
    and "length ps \<le> i" and "i < length ps1" and "ps1 ! i = (RefreshRequest am1 acc1 rt md1, Done (Ok p))"
    and "auth_run J (main_auth srv cfg url) (ps1, w1) (ps2, w2)"
    and "length ps1 \<le> k" and "k < length ps2" and "ps2 ! k = (RefreshRequest am acc rt md, Done r)"
    and "strings_Split (CHR ''.'') rt = [sel, ver]" and "sel \<notin> drawn_since ps ps2"
  shows "r \<noteq> Ok x"
  by (rule auth_service.refresh_then_refused [OF main_auth_service [OF assms(1)] assms(3,2,4-13)])

theorem finished_refresh_spends_token_witness:
  "\<exists>p w1 r w2. auth_run plain_jwt ex_auth ([], ex_world ''active'')
      (ex_waiting @ [(ex_refreshing, Done (Ok p))], w1) \<and>
    auth_run plain_jwt ex_auth (ex_waiting @ [(ex_refreshing, Done (Ok p))], w1)
      (ex_waiting @ [(ex_refreshing, Done (Ok p)), (ex_refreshing, Done r)], w2) \<and> (\<forall>x. r \<noteq> Ok x)"
proof -
  obtain newAccess w1 where "AuthService_RefreshTokens plain_jwt ex_auth ex_ambient ex_access ex_refresh
      ex_metadata (ex_world ''active'') =
      (Ok (newAccess, random_selector ex_bytes2 @ ''.'' @ random_verifier ex_bytes2), w1)"
    by (rule ex_refresh_succeeds)
  then obtain p where "service_call plain_jwt ex_auth ex_refreshing (ex_world ''active'') = (Ok p, w1)"
    by (simp add: go_map_def go_try_def)
  note first = ex_served [OF this, where ps = ex_waiting]
  obtain r w2 where "service_call plain_jwt ex_auth ex_refreshing w1 = (r, w2)" by fastforce
  from ex_served [OF this, where ps = "ex_waiting @ [(ex_refreshing, Done (Ok p))]"]
  have second: "auth_run plain_jwt ex_auth (ex_waiting @ [(ex_refreshing, Done (Ok p))], w1)
      (ex_waiting @ [(ex_refreshing, Done (Ok p)), (ex_refreshing, Done r)], w2)" by simp
  have "r \<noteq> Ok x" for x
    by (rule finished_refresh_spends_token [where i = 1 and k = 2, OF jwt.jwt_laws_axioms ex_ready ex_arrived
        first _ _ _ second _ _ _ ex_split ex_not_drawn]) simp_all
  with rtranclp_trans [OF ex_arrived first] second show ?thesis by blast
qed

text \<open>
  C10. A finished logout ends the sessions for good: however the requests are interleaved, once a
  logout that arrived when the user had a session is done, every refresh with that session's token
  that arrives later is refused. (A refresh that was under way is not: see the next section.)
\<close>

theorem finished_logout_ends_refresh:
  assumes "jwt_laws J decode genuine" and "pg_ready (w_db w0)"
    and "auth_run J (main_auth srv cfg url) ([], w0) (ps, w)"
    and "auth_run J (main_auth srv cfg url) (ps, w) (ps1, w1)"
    and "length ps \<le> i" and "i < length ps1" and "ps1 ! i = (LogoutRequest clk tok, Done (Ok u))"
    and "decode tok = Some (alg, c)" and "strconv_ParseInt (jcUserID c) = Some (rsUserID s)"
    and "auth_run J (main_auth srv cfg url) (ps1, w1) (ps2, w2)"
    and "length ps1 \<le> k" and "k < length ps2" and "ps2 ! k = (RefreshRequest am acc rt md, Done r)"
    and "strings_Split (CHR ''.'') rt = [sel, ver]" and "sel \<notin> drawn_since ps ps2"
    and "pg_sessions (w_db w) sel = Some (s, st)"
  shows "r \<noteq> Ok x"
  by (rule auth_service.logout_then_refused [OF main_auth_service [OF assms(1)] assms(3,2,4-16)])

theorem finished_logout_ends_refresh_witness:
  "\<exists>w1 r w2. auth_run plain_jwt ex_auth ([], ex_world ''active'')
      (ex_waiting @ [(LogoutRequest ex_clock ex_access, Done (Ok DoneReply))], w1) \<and>
    auth_run plain_jwt ex_auth (ex_waiting @ [(LogoutRequest ex_clock ex_access, Done (Ok DoneReply))], w1)
      (ex_waiting @ [(LogoutRequest ex_clock ex_access, Done (Ok DoneReply)), (ex_refreshing, Done r)], w2) \<and>
    (\<forall>x. r \<noteq> Ok x)"
proof -
  let ?out = "LogoutRequest ex_clock ex_access"
  obtain w1 where "AuthService_Logout plain_jwt ex_auth ex_clock ex_access (ex_world ''active'') = (Ok (), w1)"
    by (rule ex_logout_succeeds)
  then have "service_call plain_jwt ex_auth ?out (ex_world ''active'') = (Ok DoneReply, w1)"
    by (simp add: go_map_def go_try_def)
  note first = ex_served [OF this, where ps = ex_waiting]
  obtain r w2 where "service_call plain_jwt ex_auth ex_refreshing w1 = (r, w2)" by fastforce
  from ex_served [OF this, where ps = "ex_waiting @ [(?out, Done (Ok DoneReply))]"]
  have second: "auth_run plain_jwt ex_auth (ex_waiting @ [(?out, Done (Ok DoneReply))], w1)
      (ex_waiting @ [(?out, Done (Ok DoneReply)), (ex_refreshing, Done r)], w2)" by simp
  have s: "pg_sessions (w_db (ex_world ''active'')) (random_selector ex_bytes) = Some (ex_session, ''active'')"
    by (simp add: ex_sessions)
  have id: "strconv_ParseInt (jcUserID ex_claims) = Some (rsUserID ex_session)"
    by (simp add: ParseInt_FormatInt int64_range_def)
  have "r \<noteq> Ok x" for x
    by (rule finished_logout_ends_refresh [where i = 1 and k = 2, OF jwt.jwt_laws_axioms ex_ready ex_arrived
        first _ _ _ ex_decode id second _ _ _ ex_split ex_not_drawn s]) simp_all
  with rtranclp_trans [OF ex_arrived first] second show ?thesis by blast
qed

text \<open>
  C11. A finished detection ends the sessions for good: when a refresh has answered that it found a
  used token, or a changed user agent, and revoked all sessions, then every session that the user
  of its token had when it arrived is over: every later refresh of such a session is refused,
  however the requests are interleaved.
\<close>

theorem finished_detection_ends_sessions:
  assumes "jwt_laws J decode genuine" and "pg_ready (w_db w0)"
    and "auth_run J (main_auth srv cfg url) ([], w0) (ps, w)"
    and "auth_run J (main_auth srv cfg url) (ps, w) (ps1, w1)"
    and "length ps \<le> i" and "i < length ps1"
    and "ps1 ! i = (RefreshRequest am1 acc1 rt1 md1, Done (Err e))" and "e = reuse_error \<or> e = agent_error"
    and "strings_Split (CHR ''.'') rt1 = [sel1, ver1]" and "sel1 \<notin> drawn_since ps ps1"
    and "auth_run J (main_auth srv cfg url) (ps1, w1) (ps2, w2)"
    and "length ps1 \<le> k" and "k < length ps2" and "ps2 ! k = (RefreshRequest am acc rt md, Done r)"
    and "strings_Split (CHR ''.'') rt = [sel, ver]" and "sel \<notin> drawn_since ps ps2"
    and "pg_sessions (w_db w) sel1 = Some (s1, st1)" and "pg_sessions (w_db w) sel = Some (s, st)"
    and "rsUserID s = rsUserID s1"
  shows "r \<noteq> Ok x"
  by (rule auth_service.theft_then_refused [OF main_auth_service [OF assms(1)] assms(3,2,4-19)])

theorem finished_detection_ends_sessions_witness:
  "\<exists>w1 r w2. auth_run plain_jwt ex_auth ([], ex_world ''used'')
      (ex_waiting @ [(ex_refreshing, Done (Err reuse_error))], w1) \<and>
    auth_run plain_jwt ex_auth (ex_waiting @ [(ex_refreshing, Done (Err reuse_error))], w1)
      (ex_waiting @ [(ex_refreshing, Done (Err reuse_error)), (ex_refreshing, Done r)], w2) \<and>
    (\<forall>x. r \<noteq> Ok x)"
proof -
  have s: "pg_sessions (w_db (ex_world ''used'')) (random_selector ex_bytes) = Some (ex_session, ''used'')"
    by (simp add: ex_sessions)
  obtain w1 where "AuthService_RefreshTokens plain_jwt ex_auth ex_ambient ex_access ex_refresh ex_metadata
      (ex_world ''used'') = (Err reuse_error, w1)"
    by (rule main_live.replay_revokes [where w = "ex_world ''used''" and cfg = ex_config and url = "''''",
        OF ex_healthy ex_decode ex_split _ s]) simp_all
  then have "service_call plain_jwt ex_auth ex_refreshing (ex_world ''used'') = (Err reuse_error, w1)"
    by (simp add: go_map_def go_try_def)
  note first = ex_served [OF this, where ps = ex_waiting]
  obtain r w2 where "service_call plain_jwt ex_auth ex_refreshing w1 = (r, w2)" by fastforce
  from ex_served [OF this, where ps = "ex_waiting @ [(ex_refreshing, Done (Err reuse_error))]"]
  have second: "auth_run plain_jwt ex_auth (ex_waiting @ [(ex_refreshing, Done (Err reuse_error))], w1)
      (ex_waiting @ [(ex_refreshing, Done (Err reuse_error)), (ex_refreshing, Done r)], w2)" by simp
  have "r \<noteq> Ok x" for x
    by (rule finished_detection_ends_sessions [where i = 1 and k = 2 and e = reuse_error, OF jwt.jwt_laws_axioms ex_ready
        ex_arrived first _ _ _ _ ex_split ex_not_drawn second _ _ _ ex_split ex_not_drawn s s]) simp_all
  with rtranclp_trans [OF ex_arrived first] second show ?thesis by blast
qed

section \<open>Requests that overlap\<close>

text \<open>
  C32. Rotation is not serialised: while the database answers, there is a run in which two requests
  with the same valid pair overlap and both succeed, and leave two active sessions with two
  different refresh tokens, although the token was good for one: the checks of both come before
  both rotations. (The second rotation marks a session that is used already, and no reuse is
  detected.)
\<close>

theorem overlapping_refreshes_share_token:
  assumes "jwt_laws J decode genuine" and "pg_healthy srv (w_db w)" and "pg_space 1 (w_db w)"
    and "pg_text_ok srv sel" and "valid_refresh decode acc rt md (pg_sessions (w_db w)) sel s"
    and "token_inputs (asTokenService (main_auth srv cfg url)) (rsUserID s) (amClock am1 0) (amUUID am1)"
    and "token_inputs (asTokenService (main_auth srv cfg url)) (rsUserID s) (amClock am2 0) (amUUID am2)"
    and "amRand am1 = Ok f1" and "amRand am2 = Ok f2" and "random_selector f1 \<noteq> random_selector f2"
    and "pg_sessions (w_db w) (random_selector f1) = None" and "pg_sessions (w_db w) (random_selector f2) = None"
    and "session_texts (pg_text_ok srv) (new_session (main_auth srv cfg url) (random_selector f1)
      (hex_EncodeToString (sha256_Sum256 (random_verifier f1))) md (amUUID am1) (amClock am1 0))"
    and "session_texts (pg_text_ok srv) (new_session (main_auth srv cfg url) (random_selector f2)
      (hex_EncodeToString (sha256_Sum256 (random_verifier f2))) md (amUUID am2) (amClock am2 0))"
  shows "\<exists>acc1 acc2 w' s1 s2. auth_run J (main_auth srv cfg url) ([], w)
      ([(RefreshRequest am1 acc rt md,
           Done (Ok (TokensReply (acc1, random_selector f1 @ ''.'' @ random_verifier f1)))),
        (RefreshRequest am2 acc rt md,
           Done (Ok (TokensReply (acc2, random_selector f2 @ ''.'' @ random_verifier f2))))], w') \<and>
    pg_sessions (w_db w') (random_selector f1) = Some (s1, ''active'') \<and>
    pg_sessions (w_db w') (random_selector f2) = Some (s2, ''active'') \<and>
    rsUserID s1 = rsUserID s \<and> rsUserID s2 = rsUserID s"
  using concurrent_refreshes_both_succeed [OF assms] racing_refreshes_run by blast

definition ex_bytes3 :: "nat \<Rightarrow> char" where "ex_bytes3 n = CHR ''c''"

lemma ex_bytes3_differs [simp]:
  "random_selector ex_bytes2 \<noteq> random_selector ex_bytes3"
  "random_selector ex_bytes3 \<noteq> random_selector ex_bytes"
  by (auto simp: random_selector_inject ex_bytes_def ex_bytes2_def ex_bytes3_def intro!: exI [of _ 0])

theorem overlapping_refreshes_share_token_witness:
  "\<exists>acc1 acc2 w'. auth_run plain_jwt ex_auth ([], ex_world ''active'')
      ([(ex_refreshing,
           Done (Ok (TokensReply (acc1, random_selector ex_bytes2 @ ''.'' @ random_verifier ex_bytes2)))),
        (RefreshRequest (ex_ambient\<lparr>amRand := Ok ex_bytes3\<rparr>) ex_access ex_refresh ex_metadata,
           Done (Ok (TokensReply (acc2, random_selector ex_bytes3 @ ''.'' @ random_verifier ex_bytes3))))], w')"
proof -
  let ?am2 = "ex_ambient\<lparr>amRand := Ok ex_bytes3\<rparr>"
  have space: "pg_space 1 (w_db (ex_world ''active''))"
    by (simp add: pg_space_def ex_room) (simp add: ex_world_def conn_of_def ex_tables_def int64_range_def)
  have sel: "pg_text_ok ex_server (random_selector ex_bytes)" by simp
  have inp: "token_inputs (asTokenService ex_auth) (rsUserID ex_session) (amClock ex_ambient 0) (amUUID ex_ambient)"
    "token_inputs (asTokenService ex_auth) (rsUserID ex_session) (amClock ?am2 0) (amUUID ?am2)"
    using ex_inputs(2) by simp_all
  have rnd: "amRand ?am2 = Ok ex_bytes3" "random_selector ex_bytes2 \<noteq> random_selector ex_bytes3" by simp_all
  have fresh: "pg_sessions (w_db (ex_world ''active'')) (random_selector ex_bytes2) = None"
    "pg_sessions (w_db (ex_world ''active'')) (random_selector ex_bytes3) = None"
    by (simp_all add: ex_sessions)
  from overlapping_refreshes_share_token [OF jwt.jwt_laws_axioms ex_healthy space sel ex_valid inp
      ex_random(1) rnd fresh _ _]
  show ?thesis by (simp del: ex_session_simps) blast
qed

text \<open>
  C33. A logout does not reach a refresh that is under way: when a successful logout comes between
  the checks of a valid refresh and its rotation, which is a run of the two requests, the refresh
  still succeeds while the database answers, and leaves an active session of the user, with a
  refresh token the client gets, after the logout has deleted all of them.
\<close>

theorem overlapping_refresh_survives_logout:
  assumes "jwt_laws J decode genuine" and "pg_healthy srv (w_db w)" and "pg_room (w_db w)"
    and "pg_text_ok srv sel" and "valid_refresh decode acc rt md (pg_sessions (w_db w)) sel s"
    and "token_inputs (asTokenService (main_auth srv cfg url)) (rsUserID s) (amClock am 0) (amUUID am)"
    and "amRand am = Ok f" and "pg_sessions (w_db w) (random_selector f) = None"
    and "session_texts (pg_text_ok srv) (new_session (main_auth srv cfg url) (random_selector f)
      (hex_EncodeToString (sha256_Sum256 (random_verifier f))) md (amUUID am) (amClock am 0))"
    and "mono clk"
    and "racing_logout J (main_auth srv cfg url) am clk acc rt tok md w = Some (Ok (), r, w')"
  shows "\<exists>newAccess new. auth_run J (main_auth srv cfg url) ([], w)
      ([(RefreshRequest am acc rt md,
           Done (Ok (TokensReply (newAccess, random_selector f @ ''.'' @ random_verifier f)))),
        (LogoutRequest clk tok, Done (Ok DoneReply))], w') \<and>
    pg_sessions (w_db w') (random_selector f) = Some (new, ''active'') \<and> rsUserID new = rsUserID s"
  using logout_misses_running_refresh [OF assms] racing_logout_run assms(11) by blast

theorem overlapping_refresh_survives_logout_witness:
  "\<exists>newAccess w'. auth_run plain_jwt ex_auth ([], ex_world ''active'')
      ([(ex_refreshing,
           Done (Ok (TokensReply (newAccess, random_selector ex_bytes2 @ ''.'' @ random_verifier ex_bytes2)))),
        (LogoutRequest ex_clock ex_access, Done (Ok DoneReply))], w') \<and>
    (\<exists>new. pg_sessions (w_db w') (random_selector ex_bytes2) = Some (new, ''active''))"
proof -
  have sel: "pg_text_ok ex_server (random_selector ex_bytes)" by simp
  have inp: "token_inputs (asTokenService ex_auth) (rsUserID ex_session) (amClock ex_ambient 0) (amUUID ex_ambient)"
    using ex_inputs(2) by simp
  obtain d1 where c: "AuthService_RefreshTokens_checks plain_jwt ex_auth ex_access ex_refresh ex_metadata
      (ex_world ''active'') = (Ok (Inr (random_selector ex_bytes, ex_session)),
        (ex_world ''active'')\<lparr>w_db := d1, w_hooks := w_hooks (ex_world ''active'') @ notified ex_session ex_metadata\<rparr>)"
      (is "_ = (_, ?w1)") and d1: "pg_healthy ex_server d1"
    by (rule main_live.checks_pass [OF ex_healthy sel ex_valid])
  obtain w2 where out: "AuthService_Logout plain_jwt ex_auth ex_clock ex_access ?w1 = (Ok (), w2)"
    by (rule ex_logout_healthy [of ex_redis ?w1]) (simp_all add: ex_redis_empty d1 ex_world_def)
  obtain r w3 where rot: "AuthService_RefreshTokens_rotation plain_jwt ex_auth ex_ambient
      (random_selector ex_bytes) ex_session ex_metadata w2 = (r, w3)" by fastforce
  have race: "racing_logout plain_jwt ex_auth ex_ambient ex_clock ex_access ex_refresh ex_access ex_metadata
      (ex_world ''active'') = Some (Ok (), r, w3)"
    by (simp add: racing_logout_def c out rot)
  have fresh: "pg_sessions (w_db (ex_world ''active'')) (random_selector ex_bytes2) = None"
    by (simp add: ex_sessions)
  from overlapping_refresh_survives_logout [OF jwt.jwt_laws_axioms ex_healthy ex_room sel ex_valid inp
      ex_random(1) fresh _ mono_ex_clock race] race
  show ?thesis by auto
qed

end
