(* ===== verification/Spec2Isabelle.thy ===== *)
theory Spec2Isabelle
  imports Refresh_Properties Session_Properties Api_Key_Properties Server_Properties
    Limiter_Properties Concurrency System_Properties Lifecycle_Properties Storage_Properties
    Webhook_Properties Request_Logger Interleaving_Properties
begin

text \<open>
  An authentication service in Go (module \<open>github.com/rryowa/medods_dvortsov\<close>), with the theorems
  that make it correct.

  \<^bold>\<open>The program.\<close> A client that knows the API key gets a pair of tokens for a GUID
  (\<open>POST /auth/tokens\<close>): an access token, a JWT under HS512, and a refresh token
  \<open>selector.verifier\<close>, whose verifier is stored as a SHA-256 hash in a session. A refresh
  (\<open>POST /auth/tokens/refresh\<close>) exchanges the pair for a new one: it marks the session as used and
  stores a new session, in one transaction. A selector whose session is not active any more, or a
  user agent that changed, ends all sessions of the user; an IP address that changed is notified to
  a webhook. A logout deletes the sessions of the user and puts the access token on a denylist in
  Redis. In front of the handlers stand a rate limiter (a Lua script in Redis) and the OpenAPI
  validator with the authenticator. \<open>cmd/main.go\<close> wires it all, \<open>internal/api/api.go\<close> serves and
  shuts down; \<open>webhook_receiver.go\<close> is a second program that takes the notifications.

  \<^bold>\<open>How Go becomes HOL.\<close> A function that can fail is a state transformer to an outcome \<open>Ok\<close>, \<open>Err\<close>
  or \<open>Panic\<close> with the new state (\<open>Go_Errors\<close>: type \<open>go\<close>, \<open>go_try\<close> for \<open>if err != nil\<close>, \<open>go_defer\<close>);
  an error is the chain \<open>errors.Is\<close> and \<open>errors.As\<close> walk. Structs are records, interfaces are
  records of methods, byte strings are \<open>string\<close>, SQL tables are lists of rows. An \<open>int64\<close> is an
  integer with its range stated (\<open>int64_range\<close>) where it matters, SHA-256 computes on 32-bit words.
  What a call draws from its surroundings (clock readings, random bytes, a UUID) is an argument
  (\<open>clock\<close>, \<open>ambient\<close>); every call of the database or of Redis takes its fate, an answer, a failure
  before or a failure after the effect, from a list (\<open>fault\<close>), so that the theorems hold under
  any failures. Logging is left out.

  \<^bold>\<open>Theories and code.\<close>
  \<^item> Standard library: \<open>Go_Errors\<close>, \<open>Go_Strings\<close> (strings, strconv), \<open>Go_Encoding\<close> (hex, base64,
    subtle), \<open>Go_Float\<close> (\<open>float64\<close>: \<open>ParseFloat\<close>, \<open>%.0f\<close>), \<open>Go_Sha256\<close>, \<open>Go_Time\<close>, \<open>Go_Calendar\<close> (RFC 3339), \<open>Go_Duration\<close> (\<open>ParseDuration\<close>),
    \<open>Go_Json\<close> and \<open>Go_Json_Value\<close> (encoding/json), each with its round trips.
  \<^item> \<open>Models\<close>: \<open>internal/models/common.go\<close> and the interfaces of \<open>internal/storage/storage.go\<close>.
    \<open>Config\<close>: \<open>internal/util/config.go\<close> and the configuration of \<open>db.go\<close>.
  \<^item> \<open>Sql\<close>, \<open>Postgres_Engine\<close>: the SQL the program uses on tables with constraints, connections
    and transactions. \<open>Postgres\<close>: \<open>internal/storage/postgres/\<close> (\<open>user.go\<close>, \<open>session.go\<close>,
    \<open>storage.go\<close>) and the schema of \<open>internal/migrations\<close>. \<open>Postgres_Tables\<close>, \<open>Postgres_Repos\<close>,
    \<open>Postgres_Tx\<close>: the invariant of the tables and the effect of every statement and transaction.
  \<^item> \<open>Redis_Client\<close>, \<open>Redis_Engine\<close>: the client's laws and an engine that keeps them.
    \<open>Token_Storage\<close>: \<open>internal/storage/redis/token.go\<close>.
  \<^item> \<open>Jwt_Lib\<close>: the JWT library, a parameter with its documented laws. \<open>Token_Service\<close>:
    \<open>internal/service/token.go\<close>. \<open>Auth_Service\<close>: \<open>auth.go\<close>. \<open>Webhook\<close>: \<open>webhook.go\<close>.
    \<open>Api_Key\<close>: \<open>apikey.go\<close>.
  \<^item> \<open>Echo\<close>, \<open>Controller\<close>, \<open>Middleware\<close>, \<open>Rate_Limiter\<close>, \<open>Request_Logger\<close>, \<open>Server\<close>:
    \<open>internal/controller/\<close> (with the generated wrappers and routes), \<open>internal/api/middleware.go\<close>,
    \<open>error_handler.go\<close> and the request path of \<open>api.go\<close>. \<open>Swagger\<close>: the embedded OpenAPI document.
    \<open>Logger\<close>: \<open>internal/util/logger.go\<close>. \<open>Lifecycle\<close>: \<open>cmd/main.go\<close>, the connections of \<open>db.go\<close>,
    \<open>Run\<close> and \<open>ListenGracefulShutdown\<close>.
  \<^item> \<open>Webhook_Receiver\<close>: \<open>webhook_receiver.go\<close>.
  \<^item> \<open>Jobs\<close>, \<open>Job_Pool\<close>: calls cut into atomic steps, and pools of them under any schedule.
    \<open>Auth_Jobs\<close>: the operations of \<open>auth.go\<close> again, as jobs; \<open>request_alone\<close> shows that a job that
    nobody interrupts is the sequential operation. \<open>Interleaving\<close>, \<open>Interleaving_Flows\<close>,
    \<open>Interleaving_Pool\<close>: what each step keeps and what each request achieves meanwhile.
\<close>

text \<open>
  \<^bold>\<open>Interfaces.\<close> Each client is proved against a locale and each provider interprets it:
  \<open>storage_contract\<close> and \<open>storage_live\<close> (\<open>storage.Storage\<close>, by \<open>postgres.NewStorage\<close> on the engine),
  \<open>dbtx\<close> and \<open>dbtx_live\<close> (\<open>*sql.DB\<close> and \<open>*sql.Tx\<close>), \<open>redis_client\<close> and \<open>token_storage\<close> (the denylist),
  \<open>token_service\<close>, \<open>jwt_laws\<close>, \<open>echo_context\<close>, \<open>openapi_validator\<close>, \<open>auth_service\<close> and \<open>auth_live\<close>
  (what the authentication service promises, always and while the database answers), \<open>gateway\<close>
  (the whole request path), \<open>job_pool\<close> (jobs with a guarantee each, by the requests of the
  authentication service), \<open>zap_laws\<close> (the library of the logger). The abstract store behind them is
  a map of users and a map of sessions with their status (\<open>issue_spec\<close>, \<open>rotate_spec\<close>,
  \<open>revoke_user\<close>). The properties are stated over the program's own definitions, as \<open>main\<close> wires them (\<open>main_auth\<close>, \<open>main_keys\<close>, \<open>main_server\<close>).

  \<^bold>\<open>What the theorems show.\<close>
  \<^item> \<open>Refresh_Properties\<close>: what a refresh does on success and on every error, that a refresh token
    is good once, that a replay, a stolen token and a changed user agent end the user's sessions and
    nobody else's, and that a valid refresh succeeds, however old its session is.
  \<^item> \<open>Session_Properties\<close>: issuing, the validity of the pairs handed out, authentication, logout and
    what it ends; and the seconds in which a logged-out token works again.
  \<^item> \<open>Api_Key_Properties\<close>: exactly which keys are accepted, before, during and after a rotation.
  \<^item> \<open>Storage_Properties\<close>: the two transactions refine one atomic step each.
  \<^item> \<open>Server_Properties\<close>: what a client must present at each endpoint to get an answer or to have an
    effect, and the answer to every error. \<open>Limiter_Properties\<close>: the bound of the limiter, its
    decision for one request, and the configuration in which it never refuses.
  \<^item> \<open>Interleaving_Properties\<close>: under every interleaving of any number of requests the database stays
    in order, and a finished refresh, logout or detection of theft is final for every refresh that
    arrives later. Requests that overlap are not safe: two
    refreshes of one token both succeed, and a logout misses a refresh that is under way
    (\<open>Concurrency\<close>, \<open>Overlap\<close>). A step is one call of the storage (a
    statement or a whole transaction), of the denylist or of the notifier.
  \<^item> \<open>System_Properties\<close>: over any sequence of requests of any clients, with any failures, the database
    stays in order and a spent refresh token is never answered with tokens again.
  \<^item> \<open>Lifecycle_Properties\<close>: what \<open>main\<close> has checked when it serves, and that the process ends after a
    signal in bounded time. \<open>Webhook_Properties\<close>: what a notification sends is what the receiver
    reads, up to the IDs a \<open>float64\<close> cannot hold.
  The theorems with a witness are applied to the concrete data of \<open>Examples\<close> and \<open>Server_Instance\<close>.

  \<^bold>\<open>Bounds and fuel.\<close> \<open>ParseDuration\<close> and the JSON reader recurse on fuel: the length of the text, and
  twice that length and one; \<open>duration_items_fuel\<close> and \<open>json_value_fuel\<close> show that more fuel gives the
  same value. The nesting of JSON is limited to 10000, as in the library, and the exponents of
  \<open>float64\<close> are those of the format (\<open>float_round_near\<close>: half a unit of the last place). Everything else recurses on
  its data. Theorems of progress ask for room in the sequences of the tables (\<open>pg_room\<close>, \<open>pg_space\<close>).

  \<^bold>\<open>Not modelled.\<close> Third-party code is a parameter: the JWT library, echo's context and router, the
  OpenAPI validator and loader, the drivers of the database and Redis (with an engine as their
  instance), goose, godotenv, zap, the HTTP stack between the two programs. Of the standard library
  \<open>compress/gzip\<close> is a parameter too. The goroutines of
  \<open>ListenGracefulShutdown\<close> appear as what the main one sees of them. The properties of the endpoints
  serve requests one after another; interleaved requests are those of the authentication service,
  and the statements inside a transaction are not interleaved with others.
  Of the generated code \<open>ErrorResponse\<close>, which nothing uses, and the interface of the router are left
  out; the routes are a list of method, path and handler.
\<close>

end
